(* ===== verification/Prelude.thy ===== *)
theory Prelude
  imports Main "HOL-Library.Char_ord" "HOL-Library.List_Lexorder" "HOL-Library.Multiset"
begin

text \<open>
  Shared vocabulary of the development: the parts of the C++ standard library that the
  sources use, on byte strings.

  A \<open>std::string\<close> is a HOL \<open>string\<close>: a list of 8-bit characters, so \<open>length\<close> is
  \<open>size()\<close> and a UTF-8 sequence is several characters.  \<open>std::string::npos\<close> is \<open>None\<close>.
  The order on strings is the lexicographic order on unsigned bytes, which is the order of
  \<open>std::char_traits<char>\<close> and therefore the iteration order of \<open>std::map\<close> and
  \<open>std::set\<close>.  The character classes are those of the C locale: the program never calls
  \<open>setlocale\<close>.  A \<open>size_t\<close> that counts elements of a container in memory is a \<open>nat\<close>.
\<close>

named_theorems cpp_string \<open>facts on lines, words and numerals of C++ strings\<close>

section \<open>Characters\<close>

abbreviation byte :: "char \<Rightarrow> nat" where
  "byte c \<equiv> of_char c"

abbreviation newline_char :: char where
  "newline_char \<equiv> CHR 0x0A"

abbreviation tab_char :: char where
  "tab_char \<equiv> CHR 0x09"

abbreviation blank_char :: char where
  "blank_char \<equiv> CHR 0x20"

abbreviation colon_char :: char where
  "colon_char \<equiv> CHR 0x3A"

definition is_space :: "char \<Rightarrow> bool" where
  "is_space c \<longleftrightarrow> byte c = 32 \<or> 9 \<le> byte c \<and> byte c \<le> 13"

definition is_digit :: "char \<Rightarrow> bool" where
  "is_digit c \<longleftrightarrow> 48 \<le> byte c \<and> byte c \<le> 57"

definition is_upper :: "char \<Rightarrow> bool" where
  "is_upper c \<longleftrightarrow> 65 \<le> byte c \<and> byte c \<le> 90"

definition is_lower :: "char \<Rightarrow> bool" where
  "is_lower c \<longleftrightarrow> 97 \<le> byte c \<and> byte c \<le> 122"

definition is_alnum :: "char \<Rightarrow> bool" where
  "is_alnum c \<longleftrightarrow> is_digit c \<or> is_upper c \<or> is_lower c"

definition to_lower :: "char \<Rightarrow> char" where
  "to_lower c = (if is_upper c then char_of (byte c + 32) else c)"

text \<open>The two blanks of \<open>find_first_not_of(" \t")\<close>.\<close>

definition is_blank :: "char \<Rightarrow> bool" where
  "is_blank c \<longleftrightarrow> c = blank_char \<or> c = tab_char"

section \<open>Searching\<close>

fun find_index :: "('a \<Rightarrow> bool) \<Rightarrow> 'a list \<Rightarrow> nat option" where
  "find_index p [] = None"
| "find_index p (x # xs) = (if p x then Some 0 else map_option Suc (find_index p xs))"

definition rfind_index :: "('a \<Rightarrow> bool) \<Rightarrow> 'a list \<Rightarrow> nat option" where
  "rfind_index p xs = map_option (\<lambda>i. length xs - Suc i) (find_index p (rev xs))"

abbreviation find_char :: "char \<Rightarrow> string \<Rightarrow> nat option" where
  "find_char c s \<equiv> find_index (\<lambda>d. d = c) s"

abbreviation rfind_char :: "char \<Rightarrow> string \<Rightarrow> nat option" where
  "rfind_char c s \<equiv> rfind_index (\<lambda>d. d = c) s"

definition starts_with :: "string \<Rightarrow> string \<Rightarrow> bool" where
  "starts_with s p \<longleftrightarrow> take (length p) s = p"

fun find_str :: "string \<Rightarrow> string \<Rightarrow> nat option" where
  "find_str n [] = (if n = [] then Some 0 else None)"
| "find_str n (c # cs) =
     (if starts_with (c # cs) n then Some 0 else map_option Suc (find_str n cs))"

definition contains_str :: "string \<Rightarrow> string \<Rightarrow> bool" where
  "contains_str n s \<longleftrightarrow> find_str n s \<noteq> None"

lemma find_index_Some_iff:
  "find_index p xs = Some i \<longleftrightarrow> i < length xs \<and> p (xs ! i) \<and> (\<forall>j<i. \<not> p (xs ! j))"
proof (induction xs arbitrary: i)
  case Nil
  then show ?case by simp
next
  case (Cons x xs)
  show ?case
  proof (cases i)
    case 0
    then show ?thesis by auto
  next
    case (Suc k)
    then show ?thesis by (auto simp: Cons.IH less_Suc_eq_0_disj)
  qed
qed

lemma find_index_None_iff: "find_index p xs = None \<longleftrightarrow> (\<forall>x\<in>set xs. \<not> p x)"
  by (induction xs) auto

lemma find_index_take: "find_index p xs = Some i \<Longrightarrow> \<forall>x\<in>set (take i xs). \<not> p x"
  by (auto simp: find_index_Some_iff in_set_conv_nth)

lemma find_index_append:
  "\<forall>x\<in>set xs. \<not> p x \<Longrightarrow> p y \<Longrightarrow> find_index p (xs @ y # ys) = Some (length xs)"
  by (induction xs) auto

lemma starts_with_append [simp]: "starts_with (p @ s) p"
  by (simp add: starts_with_def)

lemma starts_with_iff: "starts_with s p \<longleftrightarrow> (\<exists>r. s = p @ r)"
  by (metis append_eq_conv_conj starts_with_def append_take_drop_id)

section \<open>Streams: getline and operator\<open>>>\<close>\<close>

text \<open>
  \<open>while (std::getline(stream, line))\<close> visits the lines of the text: the last one is
  visited without a final newline too, and an empty rest is no line.
\<close>

fun getlines :: "string \<Rightarrow> string list" where
  "getlines [] = []"
| "getlines (c # cs) =
     (if c = newline_char then [] # getlines cs
      else case getlines cs of [] \<Rightarrow> [[c]] | l # ls \<Rightarrow> (c # l) # ls)"

text \<open>One \<open>std::getline(fields, token, delimiter)\<close>: \<open>None\<close> when nothing is left.\<close>

definition getline_delim :: "char \<Rightarrow> string \<Rightarrow> (string \<times> string) option" where
  "getline_delim d s =
     (if s = [] then None
      else Some (takeWhile (\<lambda>c. c \<noteq> d) s, drop 1 (dropWhile (\<lambda>c. c \<noteq> d) s)))"

fun split_on :: "('a \<Rightarrow> bool) \<Rightarrow> 'a list \<Rightarrow> 'a list list" where
  "split_on p [] = [[]]"
| "split_on p (c # cs) =
     (if p c then [] # split_on p cs
      else case split_on p cs of [] \<Rightarrow> [[c]] | l # ls \<Rightarrow> (c # l) # ls)"

text \<open>\<open>while (stream >> word)\<close>: the maximal runs of non-space characters.\<close>

definition words :: "string \<Rightarrow> string list" where
  "words s = filter (\<lambda>w. w \<noteq> []) (split_on is_space s)"

lemma split_on_not_Nil [simp]: "split_on p xs \<noteq> []"
  by (induction xs) (auto split: list.splits)

lemma split_on_elem: "w \<in> set (split_on p xs) \<Longrightarrow> c \<in> set w \<Longrightarrow> \<not> p c \<and> c \<in> set xs"
proof (induction xs arbitrary: w)
  case Nil
  then show ?case by simp
next
  case (Cons x xs)
  then show ?case by (fastforce split: if_splits list.splits)
qed

lemma split_on_no_sep: "\<forall>c\<in>set xs. \<not> p c \<Longrightarrow> split_on p xs = [xs]"
  by (induction xs) auto

lemma words_Nil [simp]: "words [] = []"
  by (simp add: words_def)

lemma words_elem: "w \<in> set (words s) \<Longrightarrow> w \<noteq> [] \<and> (\<forall>c\<in>set w. \<not> is_space c)"
  by (auto simp: words_def dest: split_on_elem)

lemma words_single: "w \<noteq> [] \<Longrightarrow> \<forall>c\<in>set w. \<not> is_space c \<Longrightarrow> words w = [w]"
  by (simp add: words_def split_on_no_sep)

lemma getlines_Nil_iff [simp]: "getlines s = [] \<longleftrightarrow> s = []"
  by (induction s) (auto split: list.splits)

lemma getlines_no_newline: "l \<in> set (getlines s) \<Longrightarrow> newline_char \<notin> set l"
proof (induction s arbitrary: l)
  case Nil
  then show ?case by simp
next
  case (Cons c s)
  then show ?case by (fastforce split: if_splits list.splits)
qed

lemma getlines_line [cpp_string]:
  "newline_char \<notin> set l \<Longrightarrow> getlines (l @ newline_char # s) = l # getlines s"
  by (induction l) auto

lemma getlines_last [cpp_string]:
  "newline_char \<notin> set l \<Longrightarrow> l \<noteq> [] \<Longrightarrow> getlines l = [l]"
proof (induction l)
  case Nil
  then show ?case by simp
next
  case (Cons c l)
  then show ?case by (cases l) auto
qed

text \<open>Writing each line with its newline and reading the text back gives the lines.\<close>

definition unlines :: "string list \<Rightarrow> string" where
  "unlines ls = concat (map (\<lambda>l. l @ [newline_char]) ls)"

lemma unlines_simps [simp]:
  "unlines [] = []"
  "unlines (l # ls) = l @ newline_char # unlines ls"
  "unlines (xs @ ys) = unlines xs @ unlines ys"
  by (simp_all add: unlines_def)

lemma getlines_unlines [cpp_string]:
  "\<forall>l\<in>set ls. newline_char \<notin> set l \<Longrightarrow> getlines (unlines ls) = ls"
  by (induction ls) (auto simp: cpp_string)

lemma getlines_append [cpp_string]:
  "\<forall>l\<in>set ls. newline_char \<notin> set l \<Longrightarrow> getlines (unlines ls @ s) = ls @ getlines s"
  by (induction ls) (auto simp: cpp_string)

section \<open>Decimal numerals\<close>

text \<open>\<open>std::to_string\<close> of an unsigned integer.\<close>

fun show_nat :: "nat \<Rightarrow> string" where
  "show_nat n = (if n < 10 then [char_of (48 + n)] else show_nat (n div 10) @ [char_of (48 + n mod 10)])"

declare show_nat.simps [simp del]

definition dec_value :: "string \<Rightarrow> nat" where
  "dec_value ds = foldl (\<lambda>a c. 10 * a + (byte c - 48)) 0 ds"

text \<open>
  \<open>std::from_chars\<close> into an \<open>unsigned int\<close>: the value and the number of characters read,
  \<open>None\<close> for \<open>errc::invalid_argument\<close> (no digit) and \<open>errc::result_out_of_range\<close>.
\<close>

definition from_chars_u32 :: "string \<Rightarrow> (nat \<times> nat) option" where
  "from_chars_u32 s =
     (let ds = takeWhile is_digit s
      in if ds = [] \<or> 2 ^ 32 \<le> dec_value ds then None else Some (dec_value ds, length ds))"

text \<open>A field that must be a numeral and nothing else.\<close>

definition parse_whole_u32 :: "string \<Rightarrow> nat option" where
  "parse_whole_u32 s =
     (case from_chars_u32 s of None \<Rightarrow> None
      | Some (v, used) \<Rightarrow> if used = length s then Some v else None)"

lemma byte_digit: "d < (10::nat) \<Longrightarrow> byte (char_of (48 + d) :: char) = 48 + d"
  by (simp add: of_char_of)

lemma is_digit_char_of: "d < (10::nat) \<Longrightarrow> is_digit (char_of (48 + d))"
  by (simp add: is_digit_def byte_digit)

lemma show_nat_digits: "\<forall>c\<in>set (show_nat n). is_digit c"
proof (induction n rule: show_nat.induct)
  case (1 n)
  then show ?case
    by (subst show_nat.simps) (auto simp: is_digit_char_of)
qed

lemma show_nat_not_Nil [simp]: "show_nat n \<noteq> []"
  by (subst show_nat.simps) simp

lemma dec_value_snoc: "dec_value (ds @ [c]) = 10 * dec_value ds + (byte c - 48)"
  by (simp add: dec_value_def)

lemma dec_value_show_nat [cpp_string]: "dec_value (show_nat n) = n"
proof (induction n rule: show_nat.induct)
  case (1 n)
  show ?case
  proof (cases "n < 10")
    case True
    then show ?thesis by (subst show_nat.simps) (simp add: dec_value_def byte_digit)
  next
    case False
    with 1 show ?thesis
      by (subst show_nat.simps) (simp add: dec_value_snoc byte_digit)
  qed
qed

lemma from_chars_show_nat [cpp_string]:
  "n < 2 ^ 32 \<Longrightarrow> from_chars_u32 (show_nat n) = Some (n, length (show_nat n))"
  using show_nat_digits[of n]
  by (simp add: from_chars_u32_def dec_value_show_nat takeWhile_eq_all_conv[THEN iffD2] Let_def)

lemma parse_whole_show_nat [cpp_string]: "n < 2 ^ 32 \<Longrightarrow> parse_whole_u32 (show_nat n) = Some n"
  by (simp add: parse_whole_u32_def from_chars_show_nat)

lemma parse_whole_u32_bound: "parse_whole_u32 s = Some v \<Longrightarrow> v < 2 ^ 32"
  by (auto simp: parse_whole_u32_def from_chars_u32_def Let_def split: option.splits if_splits)

section \<open>Lists\<close>

text \<open>\<open>joined\<close>: the items with \<open>", "\<close> between them, as the accumulating loops write them.\<close>

definition join_step :: "string \<Rightarrow> string \<Rightarrow> string \<Rightarrow> string" where
  "join_step sep acc x = acc @ (if acc = [] then [] else sep) @ x"

definition join_with :: "string \<Rightarrow> string list \<Rightarrow> string" where
  "join_with sep xs = foldl (join_step sep) [] xs"

end
