(* ===== verification/NetworkPath.thy ===== *)
theory NetworkPath
  imports Complex_Main Prelude "HOL-Library.Word"
begin

text \<open>
  \<open>src/network/network_address.cpp\<close> and \<open>src/network/network_path_parser.cpp\<close>: the scope of
  an address and the hops in the output of \<open>traceroute\<close> and \<open>mtr\<close>.

  \<open>inet_pton\<close> and \<open>inet_ntop\<close> for IPv4 are written out: four decimal octets up to 255, without
  leading zeros, and nothing else.  \<open>inet_pton\<close> for IPv6 is the parameter \<open>pton6\<close>: the sixteen
  bytes of the address, if the text is one.  A \<open>double\<close> is the rational number it stands for; the
  rounding of \<open>strtod\<close> is the parameter \<open>rnd\<close>.
\<close>

unbundle bit_operations_syntax

section \<open>Internet addresses\<close>

text \<open>A \<open>std::string\<close> handed over as \<open>c_str()\<close> ends at its first null byte.\<close>

definition c_str :: "string \<Rightarrow> string" where
  "c_str s = takeWhile (\<lambda>c. c \<noteq> CHR 0x00) s"

definition parse_octet :: "string \<Rightarrow> nat option" where
  "parse_octet s =
     (if s \<noteq> [] \<and> list_all is_digit s \<and> (hd s \<noteq> CHR ''0'' \<or> length s = 1) \<and> dec_value s \<le> 255
      then Some (dec_value s) else None)"

abbreviation dot_char :: char where
  "dot_char \<equiv> CHR ''.''"

definition inet_pton4 :: "string \<Rightarrow> 32 word option" where
  "inet_pton4 s =
     (case split_on (\<lambda>c. c = dot_char) (c_str s) of
        [s1, s2, s3, s4] \<Rightarrow>
          (case (parse_octet s1, parse_octet s2, parse_octet s3, parse_octet s4) of
             (Some a, Some b, Some c, Some d) \<Rightarrow>
               Some (word_of_nat (((a * 256 + b) * 256 + c) * 256 + d))
           | _ \<Rightarrow> None)
      | _ \<Rightarrow> None)"

definition octet :: "nat \<Rightarrow> 32 word \<Rightarrow> 32 word" where
  "octet shift v = drop_bit shift v AND 0xFF"

definition inet_ntop4 :: "32 word \<Rightarrow> string" where
  "inet_ntop4 v =
     show_nat (unat (octet 24 v)) @ [dot_char] @ show_nat (unat (octet 16 v)) @ [dot_char] @
     show_nat (unat (octet 8 v)) @ [dot_char] @ show_nat (unat (octet 0 v))"

type_synonym in6_addr = "8 word list"

type_synonym ipv6_parser = "string \<Rightarrow> in6_addr option"

definition v4_mapped :: "in6_addr \<Rightarrow> bool" where
  "v4_mapped a \<longleftrightarrow> take 10 a = replicate 10 0 \<and> a ! 10 = 0xFF \<and> a ! 11 = 0xFF"

definition mapped_address :: "in6_addr \<Rightarrow> 32 word" where
  "mapped_address a =
     word_of_nat (((unat (a ! 12) * 256 + unat (a ! 13)) * 256 + unat (a ! 14)) * 256 + unat (a ! 15))"

definition in6_loopback :: "in6_addr \<Rightarrow> bool" where
  "in6_loopback a \<longleftrightarrow> take 15 a = replicate 15 0 \<and> a ! 15 = 1"

definition in6_unspecified :: "in6_addr \<Rightarrow> bool" where
  "in6_unspecified a \<longleftrightarrow> take 16 a = replicate 16 0"

definition is_valid_ip_address :: "ipv6_parser \<Rightarrow> string \<Rightarrow> bool" where
  "is_valid_ip_address pton6 candidate \<longleftrightarrow>
     inet_pton4 candidate \<noteq> None \<or> pton6 (c_str candidate) \<noteq> None"

section \<open>Numerals and dotted text\<close>

lemma unat_octet: "unat (octet s v) = unat v div 2 ^ s mod 256"
proof -
  have "octet s v = take_bit 8 (drop_bit s v)"
    by (simp add: octet_def take_bit_eq_mask mask_eq_exp_minus_1)
  then have "unat (octet s v) = take_bit 8 (drop_bit s (unat v))"
    by (simp only: unsigned_take_bit_eq unat_drop_bit_eq)
  then show ?thesis by (simp add: take_bit_eq_mod drop_bit_eq_div)
qed

lemma octet_less: "unat (octet s v) < 256"
  by (simp add: unat_octet)

lemma show_nat_leading_zero: "0 < n \<Longrightarrow> hd (show_nat n) \<noteq> CHR ''0''"
proof (induction n rule: show_nat.induct)
  case (1 n)
  show ?case
  proof (cases "n < 10")
    case True
    have "byte (char_of (48 + n) :: char) \<noteq> byte (CHR ''0'')"
      using True 1(2) byte_digit[OF True] by simp
    then show ?thesis using True by (subst show_nat.simps) (auto simp del: of_char_of)
  next
    case False
    then have "0 < n div 10" by simp
    then have "hd (show_nat (n div 10)) \<noteq> CHR ''0''" using 1(1) False by simp
    then show ?thesis using False by (subst show_nat.simps) simp
  qed
qed

lemma parse_octet_show: "n < 256 \<Longrightarrow> parse_octet (show_nat n) = Some n"
proof (cases "n = 0")
  case True
  then show ?thesis by (subst show_nat.simps) (simp add: parse_octet_def is_digit_def dec_value_def)
next
  case False
  moreover assume "n < 256"
  ultimately show ?thesis
    using show_nat_leading_zero[of n] show_nat_digits[of n]
    by (simp add: parse_octet_def dec_value_show_nat list_all_iff)
qed

lemma show_nat_plain: "c \<in> set (show_nat n) \<Longrightarrow> c \<noteq> dot_char \<and> c \<noteq> CHR 0x00 \<and> \<not> is_space c"
  using show_nat_digits[of n] by (auto simp: is_digit_def is_space_def)

lemma split_on_sep:
  "\<forall>c\<in>set xs. \<not> p c \<Longrightarrow> p y \<Longrightarrow> split_on p (xs @ y # ys) = xs # split_on p ys"
  by (induction xs) auto

lemma c_str_plain: "CHR 0x00 \<notin> set s \<Longrightarrow> c_str s = s"
  unfolding c_str_def by (simp add: takeWhile_eq_all_conv) blast

lemma four_octets:
  "unat (v :: 32 word) =
     ((unat v div 2 ^ 24 mod 256 * 256 + unat v div 2 ^ 16 mod 256) * 256 + unat v div 2 ^ 8 mod 256) * 256
       + unat v div 2 ^ 0 mod 256"
proof -
  have b: "unat v < 256 * 256 * 256 * 256" using unsigned_less[of v] by simp
  define a where "a = unat v div 256"
  define b' where "b' = a div 256"
  have 1: "unat v = a * 256 + unat v mod 256" by (simp add: a_def)
  have 2: "a = b' * 256 + a mod 256" by (simp add: b'_def)
  have 3: "b' = b' div 256 * 256 + b' mod 256" by simp
  have 4: "b' div 256 mod 256 = b' div 256" using b by (simp add: a_def b'_def div_mult2_eq[symmetric])
  have s: "unat v div 2 ^ 24 = b' div 256" "unat v div 2 ^ 16 = b'" "unat v div 2 ^ 8 = a"
    by (simp_all add: a_def b'_def div_mult2_eq[symmetric])
  show ?thesis unfolding s 4 using 1 2 3 by simp
qed

lemma pton4_ntop4: "inet_pton4 (inet_ntop4 v) = Some v"
proof -
  have plain: "CHR 0x00 \<notin> set (inet_ntop4 v)"
    using show_nat_plain by (fastforce simp: inet_ntop4_def)
  have nodot: "\<forall>c\<in>set (show_nat n). \<not> c = dot_char" for n using show_nat_plain by blast
  have "split_on (\<lambda>c. c = dot_char) (inet_ntop4 v) =
      [show_nat (unat (octet 24 v)), show_nat (unat (octet 16 v)), show_nat (unat (octet 8 v)),
       show_nat (unat (octet 0 v))]"
    unfolding inet_ntop4_def using nodot by (simp add: split_on_sep split_on_no_sep)
  moreover have "word_of_nat (((unat (octet 24 v) * 256 + unat (octet 16 v)) * 256
      + unat (octet 8 v)) * 256 + unat (octet 0 v)) = v"
    unfolding unat_octet four_octets[of v, symmetric] by simp
  ultimately show ?thesis
    by (simp add: inet_pton4_def c_str_plain[OF plain] parse_octet_show octet_less)
qed

section \<open>The scope of an address\<close>

datatype network_address_scope =
  Private | CarrierGradeNat | LinkLocal | Loopback | Multicast | SpecialUse | Public | Unknown

definition classify_ipv4 :: "32 word \<Rightarrow> network_address_scope" where
  "classify_ipv4 value =
     (let first = octet 24 value; second = octet 16 value; third = octet 8 value in
      if first = 10 \<or> (first = 172 \<and> 16 \<le> second \<and> second \<le> 31) \<or> (first = 192 \<and> second = 168)
      then Private
      else if first = 100 \<and> 64 \<le> second \<and> second \<le> 127 then CarrierGradeNat
      else if first = 127 then Loopback
      else if first = 169 \<and> second = 254 then LinkLocal
      else if 224 \<le> first \<and> first \<le> 239 then Multicast
      else if first = 0 \<or> 240 \<le> first \<or> (first = 192 \<and> second = 0 \<and> (third = 0 \<or> third = 2)) \<or>
              (first = 198 \<and> (second = 18 \<or> second = 19 \<or> (second = 51 \<and> third = 100))) \<or>
              (first = 203 \<and> second = 0 \<and> third = 113)
      then SpecialUse
      else Public)"

definition classify_ipv6 :: "in6_addr \<Rightarrow> network_address_scope" where
  "classify_ipv6 a =
     (let first = a ! 0; second = a ! 1 in
      if first AND 0xFE = 0xFC then Private
      else if first = 0xFE \<and> second AND 0xC0 = 0x80 then LinkLocal
      else if first = 0xFF then Multicast
      else if in6_loopback a then Loopback
      else if in6_unspecified a \<or> (first = 0x20 \<and> second = 0x01 \<and> a ! 2 = 0x0D \<and> a ! 3 = 0xB8)
      then SpecialUse
      else Public)"

text \<open>A mapped address is classified by the text of the IPv4 address in it.\<close>

function classify_network_address :: "ipv6_parser \<Rightarrow> string \<Rightarrow> network_address_scope" where
  "classify_network_address pton6 address =
     (case inet_pton4 address of
        Some value \<Rightarrow> classify_ipv4 value
      | None \<Rightarrow>
          (case pton6 (c_str address) of
             Some a \<Rightarrow>
               if v4_mapped a then classify_network_address pton6 (inet_ntop4 (mapped_address a))
               else classify_ipv6 a
           | None \<Rightarrow> Unknown))"
  by auto
termination
  by (relation "measure (\<lambda>(p, s). if inet_pton4 s = None then 1 else 0)") (auto simp: pton4_ntop4)

declare classify_network_address.simps [simp del]

fun network_address_scope_label :: "network_address_scope \<Rightarrow> string" where
  "network_address_scope_label Private = ''private/local address''"
| "network_address_scope_label CarrierGradeNat = ''carrier-grade NAT/provider address''"
| "network_address_scope_label LinkLocal = ''link-local address''"
| "network_address_scope_label Loopback = ''loopback address''"
| "network_address_scope_label Multicast = ''multicast address''"
| "network_address_scope_label SpecialUse = ''special-use address''"
| "network_address_scope_label Public = ''publicly routable address''"
| "network_address_scope_label Unknown = ''unclassified address''"

lemma classify_ntop4: "classify_network_address pton6 (inet_ntop4 v) = classify_ipv4 v"
  by (subst classify_network_address.simps) (simp add: pton4_ntop4)

lemma classify_Unknown_iff:
  "classify_network_address pton6 s = Unknown \<longleftrightarrow> \<not> is_valid_ip_address pton6 s"
  by (subst classify_network_address.simps)
    (auto simp: is_valid_ip_address_def classify_ntop4 classify_ipv4_def classify_ipv6_def Let_def
      split: option.splits)

section \<open>Address blocks\<close>

text \<open>The reference: the registered blocks in CIDR notation, every other address being public.\<close>

definition in_block :: "string \<times> nat \<Rightarrow> 32 word \<Rightarrow> bool" where
  "in_block blk v =
     (case inet_pton4 (fst blk) of None \<Rightarrow> False
      | Some base \<Rightarrow> drop_bit (32 - snd blk) v = drop_bit (32 - snd blk) base)"

definition registered_blocks :: "((string \<times> nat) \<times> network_address_scope) list" where
  "registered_blocks =
     [((''10.0.0.0'', 8), Private), ((''172.16.0.0'', 12), Private), ((''192.168.0.0'', 16), Private),
      ((''100.64.0.0'', 10), CarrierGradeNat), ((''127.0.0.0'', 8), Loopback),
      ((''169.254.0.0'', 16), LinkLocal), ((''224.0.0.0'', 4), Multicast), ((''240.0.0.0'', 4), SpecialUse),
      ((''0.0.0.0'', 8), SpecialUse), ((''192.0.0.0'', 24), SpecialUse), ((''192.0.2.0'', 24), SpecialUse),
      ((''198.18.0.0'', 15), SpecialUse), ((''198.51.100.0'', 24), SpecialUse),
      ((''203.0.113.0'', 24), SpecialUse)]"

definition block_scope :: "32 word \<Rightarrow> network_address_scope" where
  "block_scope v =
     (case find (\<lambda>(blk, scope). in_block blk v) registered_blocks of
        Some (blk, scope) \<Rightarrow> scope | None \<Rightarrow> Public)"

lemma in_block_iff:
  assumes "inet_pton4 s = Some base"
  shows "in_block (s, n) v \<longleftrightarrow> unat v div 2 ^ (32 - n) = unat base div 2 ^ (32 - n)"
proof -
  have "in_block (s, n) v \<longleftrightarrow> unat (drop_bit (32 - n) v) = unat (drop_bit (32 - n) base)"
    using assms by (simp add: in_block_def word_unat_eq_iff[symmetric])
  also have "\<dots> \<longleftrightarrow> drop_bit (32 - n) (unat v) = drop_bit (32 - n) (unat base)"
    by (simp only: unat_drop_bit_eq)
  finally show ?thesis by (simp only: drop_bit_eq_div)
qed

lemma pton4_blocks:
  "inet_pton4 ''10.0.0.0'' = Some 167772160" "inet_pton4 ''172.16.0.0'' = Some 2886729728"
  "inet_pton4 ''192.168.0.0'' = Some 3232235520" "inet_pton4 ''100.64.0.0'' = Some 1681915904"
  "inet_pton4 ''127.0.0.0'' = Some 2130706432" "inet_pton4 ''169.254.0.0'' = Some 2851995648"
  "inet_pton4 ''224.0.0.0'' = Some 3758096384" "inet_pton4 ''240.0.0.0'' = Some 4026531840"
  "inet_pton4 ''0.0.0.0'' = Some 0" "inet_pton4 ''192.0.0.0'' = Some 3221225472"
  "inet_pton4 ''192.0.2.0'' = Some 3221225984" "inet_pton4 ''198.18.0.0'' = Some 3323068416"
  "inet_pton4 ''198.51.100.0'' = Some 3325256704" "inet_pton4 ''203.0.113.0'' = Some 3405803776"
  by (simp_all add: inet_pton4_def c_str_def parse_octet_def is_digit_def dec_value_def)

lemma octet_eq_iff:
  "octet s v = w \<longleftrightarrow> unat v div 2 ^ s mod 256 = unat w"
  "w \<le> octet s v \<longleftrightarrow> unat w \<le> unat v div 2 ^ s mod 256"
  "octet s v \<le> w \<longleftrightarrow> unat v div 2 ^ s mod 256 \<le> unat w"
  by (simp_all add: word_unat_eq_iff word_le_nat_alt unat_octet)

lemma prefix_octets:
  fixes v :: "32 word"
  defines "a \<equiv> unat v div 2 ^ 24 mod 256" and "b \<equiv> unat v div 2 ^ 16 mod 256"
    and "c \<equiv> unat v div 2 ^ 8 mod 256"
  shows "unat v div 2 ^ 28 = a div 16" "unat v div 2 ^ 24 = a"
    "unat v div 2 ^ 22 = (a * 256 + b) div 64" "unat v div 2 ^ 20 = (a * 256 + b) div 16"
    "unat v div 2 ^ 17 = (a * 256 + b) div 2" "unat v div 2 ^ 16 = a * 256 + b"
    "unat v div 2 ^ 8 = (a * 256 + b) * 256 + c" "a < 256" "b < 256" "c < 256"
proof -
  define t where "t = unat v div 256"
  define m where "m = t div 256"
  have t: "unat v div 2 ^ 8 = t" and m: "unat v div 2 ^ 16 = m"
    by (simp_all add: t_def m_def div_mult2_eq[symmetric])
  have a24: "unat v div 2 ^ 24 = m div 256" by (simp add: t_def m_def div_mult2_eq[symmetric])
  have "m div 256 < 256" using unsigned_less[where 'a = nat, of v] by (simp add: t_def m_def div_mult2_eq[symmetric])
  then have a: "a = m div 256" unfolding a_def a24 by simp
  have "b = m mod 256" unfolding b_def m ..
  then have mb: "m = a * 256 + b" unfolding a by simp
  have tc: "t = (a * 256 + b) * 256 + c" unfolding mb[symmetric] c_def t m_def by simp
  show "unat v div 2 ^ 24 = a" using a a24 by simp
  show "unat v div 2 ^ 16 = a * 256 + b" using m mb by simp
  show "unat v div 2 ^ 8 = (a * 256 + b) * 256 + c" using t tc by simp
  have s: "unat v div 2 ^ 28 = m div 256 div 16" "unat v div 2 ^ 22 = m div 64"
    "unat v div 2 ^ 20 = m div 16" "unat v div 2 ^ 17 = m div 2"
    by (simp_all add: t_def m_def div_mult2_eq[symmetric])
  show "unat v div 2 ^ 28 = a div 16" "unat v div 2 ^ 22 = (a * 256 + b) div 64"
    "unat v div 2 ^ 20 = (a * 256 + b) div 16" "unat v div 2 ^ 17 = (a * 256 + b) div 2"
    unfolding s mb[symmetric] by (simp_all add: a)
  show "a < 256" "b < 256" "c < 256" by (simp_all add: a_def b_def c_def)
qed

lemma pair_base:
  fixes a b a' b' n :: nat
  assumes "b < n" "b' < n"
  shows "a * n + b = a' * n + b' \<longleftrightarrow> a = a' \<and> b = b'"
proof
  assume e: "a * n + b = a' * n + b'"
  have "(a * n + b) div n = (a' * n + b') div n" "(a * n + b) mod n = (a' * n + b') mod n"
    by (simp_all only: e)
  then show "a = a' \<and> b = b'" using assms by simp
qed simp

lemma div_eq_range: "0 < n \<Longrightarrow> (b :: nat) div n = k \<longleftrightarrow> k * n \<le> b \<and> b < Suc k * n"
  using less_eq_div_iff_mult_less_eq[of n k b] div_less_iff_less_mult[of n b "Suc k"] by linarith

lemma block_members:
  fixes a b :: nat
  assumes "b < 256"
  shows "a div 16 = 14 \<longleftrightarrow> 224 \<le> a \<and> a \<le> 239"
    and "(a * 256 + b) div 64 = 401 \<longleftrightarrow> a = 100 \<and> 64 \<le> b \<and> b \<le> 127"
    and "(a * 256 + b) div 16 = 2753 \<longleftrightarrow> a = 172 \<and> 16 \<le> b \<and> b \<le> 31"
    and "(a * 256 + b) div 2 = 25353 \<longleftrightarrow> a = 198 \<and> (b = 18 \<or> b = 19)"
proof -
  show "a div 16 = 14 \<longleftrightarrow> 224 \<le> a \<and> a \<le> 239" by (simp add: div_eq_range) linarith
  have split: "(a * 256 + b) div 64 = a * 4 + b div 64" "(a * 256 + b) div 16 = a * 16 + b div 16"
    "(a * 256 + b) div 2 = a * 128 + b div 2"
    using div_mult_self3[of 64 b "a * 4"] div_mult_self3[of 16 b "a * 16"]
      div_mult_self3[of 2 b "a * 128"] by (simp_all add: mult.assoc)
  have q: "b div 64 < 4" "b div 16 < 16" "b div 2 < 128" using assms by simp_all
  have "b div 64 = 1 \<longleftrightarrow> 64 \<le> b \<and> b \<le> 127" "b div 16 = 1 \<longleftrightarrow> 16 \<le> b \<and> b \<le> 31"
    "b div 2 = 9 \<longleftrightarrow> b = 18 \<or> b = 19" by (simp_all add: div_eq_range) linarith+
  moreover note pair_base[OF q(1), of 1 a 100] pair_base[OF q(2), of 1 a 172] pair_base[OF q(3), of 9 a 198]
  ultimately show "(a * 256 + b) div 64 = 401 \<longleftrightarrow> a = 100 \<and> 64 \<le> b \<and> b \<le> 127"
    "(a * 256 + b) div 16 = 2753 \<longleftrightarrow> a = 172 \<and> 16 \<le> b \<and> b \<le> 31"
    "(a * 256 + b) div 2 = 25353 \<longleftrightarrow> a = 198 \<and> (b = 18 \<or> b = 19)"
    unfolding split using q by simp_all
qed

lemma high_block: "a < 256 \<Longrightarrow> a div 16 = 15 \<longleftrightarrow> 240 \<le> (a :: nat)"
  by (simp add: div_eq_range)

lemma block_scope_classify: "block_scope v = classify_ipv4 v"
proof -
  define a where "a = unat v div 2 ^ 24 mod 256"
  define b where "b = unat v div 2 ^ 16 mod 256"
  define c where "c = unat v div 2 ^ 8 mod 256"
  note o = prefix_octets[of v, folded a_def b_def c_def]
  note pair = pair_base[OF o(9)] pair_base[OF o(10)]
  have blocks:
    "in_block (''10.0.0.0'', 8) v \<longleftrightarrow> a = 10"
    "in_block (''172.16.0.0'', 12) v \<longleftrightarrow> a = 172 \<and> 16 \<le> b \<and> b \<le> 31"
    "in_block (''192.168.0.0'', 16) v \<longleftrightarrow> a = 192 \<and> b = 168"
    "in_block (''100.64.0.0'', 10) v \<longleftrightarrow> a = 100 \<and> 64 \<le> b \<and> b \<le> 127"
    "in_block (''127.0.0.0'', 8) v \<longleftrightarrow> a = 127"
    "in_block (''169.254.0.0'', 16) v \<longleftrightarrow> a = 169 \<and> b = 254"
    "in_block (''224.0.0.0'', 4) v \<longleftrightarrow> 224 \<le> a \<and> a \<le> 239"
    "in_block (''240.0.0.0'', 4) v \<longleftrightarrow> 240 \<le> a"
    "in_block (''0.0.0.0'', 8) v \<longleftrightarrow> a = 0"
    "in_block (''192.0.0.0'', 24) v \<longleftrightarrow> a = 192 \<and> b = 0 \<and> c = 0"
    "in_block (''192.0.2.0'', 24) v \<longleftrightarrow> a = 192 \<and> b = 0 \<and> c = 2"
    "in_block (''198.18.0.0'', 15) v \<longleftrightarrow> a = 198 \<and> (b = 18 \<or> b = 19)"
    "in_block (''198.51.100.0'', 24) v \<longleftrightarrow> a = 198 \<and> b = 51 \<and> c = 100"
    "in_block (''203.0.113.0'', 24) v \<longleftrightarrow> a = 203 \<and> b = 0 \<and> c = 113"
    using pair(1)[of 168 a 192] pair(1)[of 254 a 169] high_block[OF o(8)] block_members[OF o(9), of a]
      pair(2)[of 0 "a * 256 + b" "192 * 256"] pair(2)[of 2 "a * 256 + b" "192 * 256"]
      pair(2)[of 100 "a * 256 + b" "198 * 256 + 51"] pair(2)[of 113 "a * 256 + b" "203 * 256"]
      pair(1)[of 0 a 192] pair(1)[of 0 a 203] pair(1)[of 51 a 198]
    by (simp_all add: in_block_iff[OF pton4_blocks(1)] in_block_iff[OF pton4_blocks(2)]
        in_block_iff[OF pton4_blocks(3)] in_block_iff[OF pton4_blocks(4)]
        in_block_iff[OF pton4_blocks(5)] in_block_iff[OF pton4_blocks(6)]
        in_block_iff[OF pton4_blocks(7)] in_block_iff[OF pton4_blocks(8)]
        in_block_iff[OF pton4_blocks(9)] in_block_iff[OF pton4_blocks(10)]
        in_block_iff[OF pton4_blocks(11)] in_block_iff[OF pton4_blocks(12)]
        in_block_iff[OF pton4_blocks(13)] in_block_iff[OF pton4_blocks(14)] o(1-7)[simplified])
  show ?thesis
    by (simp add: block_scope_def registered_blocks_def blocks classify_ipv4_def Let_def octet_eq_iff
        a_def[symmetric, simplified] b_def[symmetric, simplified] c_def[symmetric, simplified])
qed

section \<open>Hops\<close>

record traceroute_hop =
  th_number :: "32 word"
  th_address :: string
  th_scope :: network_address_scope

record path_stability_hop =
  ph_number :: "32 word"
  ph_address :: string
  ph_scope :: network_address_scope
  response_loss_percent :: "rat option"

definition parse_traceroute_line :: "ipv6_parser \<Rightarrow> string \<Rightarrow> traceroute_hop option" where
  "parse_traceroute_line pton6 line =
     (case words line of
        hop_number # address # _ \<Rightarrow>
          if address = ''*'' then None
          else (case parse_whole_u32 hop_number of None \<Rightarrow> None
             | Some number \<Rightarrow>
                 let scope = classify_network_address pton6 address
                 in if number = 0 \<or> scope = Unknown then None
                    else Some \<lparr>th_number = word_of_nat number, th_address = address, th_scope = scope\<rparr>)
      | _ \<Rightarrow> None)"

definition parse_traceroute_hops :: "ipv6_parser \<Rightarrow> string \<Rightarrow> traceroute_hop list" where
  "parse_traceroute_hops pton6 s = List.map_filter (parse_traceroute_line pton6) (getlines s)"

text \<open>Digits with at most one decimal point, up to an optional percent sign.\<close>

fun decimal_chars :: "bool \<Rightarrow> string \<Rightarrow> bool" where
  "decimal_chars point_seen [] = True"
| "decimal_chars point_seen (c # cs) =
     (if is_digit c then decimal_chars point_seen cs
      else c = dot_char \<and> \<not> point_seen \<and> decimal_chars True cs)"

definition strip_percent :: "string \<Rightarrow> string" where
  "strip_percent loss = (if loss \<noteq> [] \<and> List.last loss = CHR 0x25 then butlast loss else loss)"

definition is_decimal_loss_field :: "string \<Rightarrow> bool" where
  "is_decimal_loss_field loss \<longleftrightarrow>
     strip_percent loss \<noteq> [] \<and> decimal_chars False (strip_percent loss)"

text \<open>
  The number that \<open>strtod\<close> reads from a decimal field, \<open>None\<close> when there is no digit in it (the
  conversion stops at once).  The exact value is rounded to a \<open>double\<close> by \<open>rnd\<close>; a value that
  overflows to an infinity is above one hundred as well.
\<close>

definition decimal_value :: "string \<Rightarrow> rat" where
  "decimal_value s =
     (let whole = takeWhile is_digit s; fraction = filter is_digit (drop (length whole) s)
      in of_nat (dec_value (whole @ fraction)) / 10 ^ length fraction)"

definition strtod_field :: "(rat \<Rightarrow> rat) \<Rightarrow> string \<Rightarrow> rat option" where
  "strtod_field rnd loss =
     (if list_ex is_digit (strip_percent loss) then Some (rnd (decimal_value (strip_percent loss)))
      else None)"

definition parse_mtr_line :: "ipv6_parser \<Rightarrow> (rat \<Rightarrow> rat) \<Rightarrow> string \<Rightarrow> path_stability_hop option" where
  "parse_mtr_line pton6 rnd line =
     (case words line of
        ordinal # address # loss # _ \<Rightarrow>
          (case find_char dot_char ordinal of None \<Rightarrow> None
           | Some dot \<Rightarrow>
          (case parse_whole_u32 (take dot ordinal) of None \<Rightarrow> None
           | Some number \<Rightarrow>
               if number = 0 \<or> \<not> is_decimal_loss_field loss then None
               else
          (case strtod_field rnd loss of None \<Rightarrow> None
           | Some loss_percent \<Rightarrow>
               let scope = classify_network_address pton6 address in
               if loss_percent < 0 \<or> 100 < loss_percent then None
               else if (address = ''???'' \<and> loss_percent \<noteq> 100) \<or> (address \<noteq> ''???'' \<and> scope = Unknown)
               then None
               else Some \<lparr>ph_number = word_of_nat number, ph_address = address, ph_scope = scope,
                          response_loss_percent = Some loss_percent\<rparr>)))
      | _ \<Rightarrow> None)"

definition parse_mtr_hops :: "ipv6_parser \<Rightarrow> (rat \<Rightarrow> rat) \<Rightarrow> string \<Rightarrow> path_stability_hop list" where
  "parse_mtr_hops pton6 rnd s = List.map_filter (parse_mtr_line pton6 rnd) (getlines s)"

text \<open>What every parsed hop satisfies.\<close>

definition traceroute_hop_ok :: "ipv6_parser \<Rightarrow> traceroute_hop \<Rightarrow> bool" where
  "traceroute_hop_ok pton6 h \<longleftrightarrow>
     th_number h \<noteq> 0 \<and> is_valid_ip_address pton6 (th_address h) \<and>
     th_scope h = classify_network_address pton6 (th_address h)"

definition stability_hop_ok :: "ipv6_parser \<Rightarrow> path_stability_hop \<Rightarrow> bool" where
  "stability_hop_ok pton6 h \<longleftrightarrow>
     ph_number h \<noteq> 0 \<and> ph_scope h = classify_network_address pton6 (ph_address h) \<and>
     (case response_loss_percent h of None \<Rightarrow> False
      | Some l \<Rightarrow> 0 \<le> l \<and> l \<le> 100 \<and>
          (if ph_address h = ''???'' then l = 100 else is_valid_ip_address pton6 (ph_address h)))"

lemma valid_ip_iff: "is_valid_ip_address pton6 s \<longleftrightarrow> classify_network_address pton6 s \<noteq> Unknown"
  by (simp add: classify_Unknown_iff)

lemma word_of_parsed: "parse_whole_u32 s = Some n \<Longrightarrow> (word_of_nat n :: 32 word) = 0 \<longleftrightarrow> n = 0"
  using parse_whole_u32_bound[of s n] by (simp add: word_of_nat_eq_0_iff dvd_def) auto

lemma parse_traceroute_line_ok: "parse_traceroute_line pton6 l = Some h \<Longrightarrow> traceroute_hop_ok pton6 h"
  by (auto simp: parse_traceroute_line_def traceroute_hop_ok_def Let_def word_of_parsed
      valid_ip_iff split: list.splits if_splits option.splits)

lemma parse_mtr_line_ok: "parse_mtr_line pton6 rnd l = Some h \<Longrightarrow> stability_hop_ok pton6 h"
  by (auto simp: parse_mtr_line_def stability_hop_ok_def Let_def word_of_parsed
      valid_ip_iff split: list.splits if_splits option.splits)

lemma map_filter_all: "(\<And>x y. f x = Some y \<Longrightarrow> P y) \<Longrightarrow> list_all P (List.map_filter f xs)"
  by (induction xs) (auto simp: List.map_filter_def)

text \<open>The text of a traceroute: one line for each hop, an asterisk for a hop that did not answer.\<close>

definition hop_line :: "nat \<Rightarrow> 32 word option \<Rightarrow> string" where
  "hop_line n v =
     show_nat n @ '' '' @ (case v of None \<Rightarrow> ''* * *'' | Some a \<Rightarrow> inet_ntop4 a @ ''  1.5 ms'')"

definition hop_of :: "nat \<times> 32 word option \<Rightarrow> traceroute_hop option" where
  "hop_of r = map_option (\<lambda>a. \<lparr>th_number = word_of_nat (fst r), th_address = inet_ntop4 a,
      th_scope = block_scope a\<rparr>) (snd r)"

lemma split_on_word: "\<forall>c\<in>set w. \<not> is_space c \<Longrightarrow> split_on is_space (w @ blank_char # s) = w # split_on is_space s"
  by (simp add: split_on_sep is_space_def)

lemma words_word:
  "w \<noteq> [] \<Longrightarrow> \<forall>c\<in>set w. \<not> is_space c \<Longrightarrow> words (w @ blank_char # s) = w # words s"
  by (simp add: words_def split_on_word)

lemma ntop4_word: "inet_ntop4 v \<noteq> []" "\<forall>c\<in>set (inet_ntop4 v). \<not> is_space c" "inet_ntop4 v \<noteq> ''*''"
proof -
  show "inet_ntop4 v \<noteq> []" by (simp add: inet_ntop4_def)
  show "\<forall>c\<in>set (inet_ntop4 v). \<not> is_space c"
    using show_nat_plain by (auto simp: inet_ntop4_def is_space_def)
  have "dot_char \<in> set (inet_ntop4 v)" by (simp add: inet_ntop4_def)
  then show "inet_ntop4 v \<noteq> ''*''" by auto
qed

lemma hop_line_words:
  "\<exists>rest. words (hop_line n v) = show_nat n # (case v of None \<Rightarrow> ''*'' | Some a \<Rightarrow> inet_ntop4 a) # rest"
proof (cases v)
  case None
  have "words (''* * *'') = [''*'', ''*'', ''*'']" by (simp add: words_def is_space_def)
  with None show ?thesis
    using words_word[of "show_nat n" "''* * *''"] show_nat_plain by (auto simp: hop_line_def)
next
  case (Some a)
  have "words (inet_ntop4 a @ ''  1.5 ms'') = inet_ntop4 a # words '' 1.5 ms''"
    using words_word[OF ntop4_word(1,2), of a "'' 1.5 ms''"] by simp
  with Some show ?thesis
    using words_word[of "show_nat n" "inet_ntop4 a @ ''  1.5 ms''"] show_nat_plain
    by (auto simp: hop_line_def)
qed

lemma parse_hop_line:
  assumes "0 < n" "n < 2 ^ 32"
  shows "parse_traceroute_line pton6 (hop_line n v) = hop_of (n, v)"
proof -
  obtain rest where w: "words (hop_line n v) =
      show_nat n # (case v of None \<Rightarrow> ''*'' | Some a \<Rightarrow> inet_ntop4 a) # rest"
    using hop_line_words by blast
  have "block_scope a \<noteq> Unknown" for a
    by (simp add: block_scope_classify classify_ipv4_def Let_def)
  then show ?thesis
    using assms parse_whole_show_nat[OF assms(2)] ntop4_word(3)
    using w by (cases v) (simp_all add: parse_traceroute_line_def hop_of_def classify_ntop4
        block_scope_classify)
qed

lemma hop_line_no_newline: "newline_char \<notin> set (hop_line n v)"
proof -
  have "newline_char \<notin> set (show_nat n)" for n
    using show_nat_plain[of newline_char n] by (auto simp: is_space_def)
  moreover have "newline_char \<notin> set (inet_ntop4 a)" for a
    using ntop4_word(2)[of a] by (auto simp: is_space_def)
  ultimately show ?thesis by (auto simp: hop_line_def split: option.splits)
qed

section \<open>Properties\<close>

text \<open>C39: The scope of an IPv4 address is the one of the registered address block it lies in:
  the tests on octets in the code agree with the CIDR blocks for all \<open>2 ^ 32\<close> addresses, and an
  address in none of them is public.\<close>

theorem address_scope_is_block_scope:
  "classify_network_address pton6 (inet_ntop4 v) = block_scope v"
  by (simp add: classify_ntop4 block_scope_classify)


text \<open>The hops of a route are read back from the listing that \<open>traceroute\<close> prints, in order, and
  the hops that did not answer are left out.\<close>

theorem traceroute_round_trip:
  "list_all (\<lambda>(n, v). 0 < n \<and> n < 2 ^ 32) rs \<Longrightarrow>
     parse_traceroute_hops pton6 (unlines (map (\<lambda>(n, v). hop_line n v) rs)) = List.map_filter hop_of rs"
proof (induction rs)
  case Nil
  then show ?case by (simp add: parse_traceroute_hops_def List.map_filter_def)
next
  case (Cons r rs)
  then show ?case
    by (cases r) (simp add: parse_traceroute_hops_def List.map_filter_def cpp_string
        hop_line_no_newline parse_hop_line)
qed

lemma traceroute_round_trip_witness:
  "parse_traceroute_hops (\<lambda>s. None)
     (unlines (map (\<lambda>(n, v). hop_line n v) [(1, Some 3232235777), (2, None), (3, Some 16843009)])) =
   [\<lparr>th_number = 1, th_address = ''192.168.1.1'', th_scope = Private\<rparr>,
    \<lparr>th_number = 3, th_address = ''1.1.1.1'', th_scope = Public\<rparr>]"
proof -
  have "inet_ntop4 3232235777 = ''192.168.1.1''" "inet_ntop4 16843009 = ''1.1.1.1''"
    by (simp_all add: inet_ntop4_def octet_def show_nat.simps char_of_def bit_0)
  moreover have "block_scope 3232235777 = Private" "block_scope 16843009 = Public"
    by (simp_all add: block_scope_classify classify_ipv4_def octet_def word_le_nat_alt)
  ultimately show ?thesis
    using traceroute_round_trip[of "[(1, Some 3232235777), (2, None), (3, Some 16843009)]" "\<lambda>s. None"]
    by (simp add: hop_of_def List.map_filter_def)
qed

end
