(* ===== verification/CommandRunner.thy ===== *)
theory CommandRunner
  imports Prelude "HOL-Library.State_Monad"
begin

text \<open>
  \<open>include/ffc/command_runner.hpp\<close>: the result of a command and the interface through
  which every inspector starts external programs.  The outside world is an opaque state
  \<open>'w\<close>; running a command reads and changes it, so an inspector is a computation in the
  state monad of the library, in the order in which the code starts its commands.

  The locale \<open>command_host\<close> is the contract between the inspectors and a runner: the
  runner keeps an invariant of the world for every command it admits.  Each
  inspector's theory proves, inside an extension of the locale, that its commands are among
  those it needs.
\<close>

section \<open>Command results and runners\<close>

record command_result =
  exit_code :: int
  stdout_text :: string
  stderr_text :: string

definition success :: "command_result \<Rightarrow> bool" where
  "success r \<longleftrightarrow> exit_code r = 0"

record 'w runner =
  run :: "string list \<Rightarrow> ('w, command_result) state"
  run_with_input :: "string list \<Rightarrow> string \<Rightarrow> ('w, command_result) state"

text \<open>The idiom \<open>result.stderr_text.empty() ? fallback : result.stderr_text\<close>.\<close>

definition stderr_or :: "string \<Rightarrow> command_result \<Rightarrow> string" where
  "stderr_or fallback r = (if stderr_text r = [] then fallback else stderr_text r)"

section \<open>Computations that keep an invariant of the world\<close>

definition keeps :: "('w \<Rightarrow> bool) \<Rightarrow> ('w, 'a) state \<Rightarrow> bool" where
  "keeps I m \<longleftrightarrow> (\<forall>w. I w \<longrightarrow> I (snd (run_state m w)))"

named_theorems keeps_intro \<open>rules for computations that keep an invariant\<close>

lemma keeps_return [keeps_intro]: "keeps I (State_Monad.return x)"
  by (simp add: keeps_def)

lemma keeps_bind [keeps_intro]:
  "keeps I m \<Longrightarrow> (\<And>x. keeps I (f x)) \<Longrightarrow> keeps I (State_Monad.bind m f)"
  by (simp add: keeps_def split_def)

lemma keeps_if [keeps_intro]:
  "(b \<Longrightarrow> keeps I m) \<Longrightarrow> (\<not> b \<Longrightarrow> keeps I n) \<Longrightarrow> keeps I (if b then m else n)"
  by simp

lemma keeps_let [keeps_intro]: "(\<And>x. x = t \<Longrightarrow> keeps I (f x)) \<Longrightarrow> keeps I (let x = t in f x)"
  by simp

lemma keeps_option:
  "(x = None \<Longrightarrow> keeps I m) \<Longrightarrow> (\<And>y. x = Some y \<Longrightarrow> keeps I (n y)) \<Longrightarrow>
     keeps I (case x of None \<Rightarrow> m | Some y \<Rightarrow> n y)"
  by (cases x) simp_all

lemma keeps_sum:
  "(\<And>a. x = Inl a \<Longrightarrow> keeps I (f a)) \<Longrightarrow> (\<And>b. x = Inr b \<Longrightarrow> keeps I (g b)) \<Longrightarrow>
     keeps I (case x of Inl a \<Rightarrow> f a | Inr b \<Rightarrow> g b)"
  by (cases x) simp_all

lemma keeps_pair: "(\<And>a b. x = (a, b) \<Longrightarrow> keeps I (f a b)) \<Longrightarrow> keeps I (case x of (a, b) \<Rightarrow> f a b)"
  by (cases x) simp

lemma keepsD: "keeps I m \<Longrightarrow> I w \<Longrightarrow> I (snd (run_state m w))"
  by (simp add: keeps_def)

section \<open>Read-only commands\<close>

text \<open>
  The specification of the commands that ffc may start.  The landing queries read firewalld,
  systemd, NetworkManager, the kernel tables, the journal and the package database of this
  host; a complete collection adds the permanent configuration, the policies and the quality
  of the clock and the journal.  The probes, the route and Wi-Fi queries of the network metadata and
  the advisory query are reserved for explicit requests.
\<close>

definition firewalld_query :: "string list \<Rightarrow> string list" where
  "firewalld_query options = ''firewall-cmd'' # options"

definition landing_queries :: "string list list" where
  "landing_queries =
     map firewalld_query
       [[''--version''], [''--state''], [''--query-panic''], [''--check-config''],
        [''--get-log-denied''], [''--get-default-zone''], [''--get-active-zones''],
        [''--list-all-zones'']] @
     [[''systemctl'', ''is-enabled'', ''firewalld.service''],
      [''nmcli'', ''--terse'', ''--fields'', ''DEVICE,TYPE,STATE'', ''device'', ''status''],
      [''rpm'', ''-q'', ''nordvpn''],
      [''ip'', ''-o'', ''link'', ''show''],
      [''ss'', ''-H'', ''-lntup''],
      [''journalctl'', ''-k'', ''--no-pager'', ''--since=-24h'', ''--grep=DROP|REJECT'', ''-n'', ''200''],
      [''journalctl'', ''-u'', ''firewalld.service'', ''--no-pager'', ''--since=-24h'', ''-n'', ''200'']]"

definition complete_queries :: "string list list" where
  "complete_queries =
     [firewalld_query [''--permanent'', ''--list-all-zones''],
      firewalld_query [''--get-active-policies''],
      [''systemctl'', ''is-active'', ''systemd-journald.service''],
      [''timedatectl'', ''show'', ''--property=NTPSynchronized'', ''--value'']]"

definition landing_query :: "string list \<Rightarrow> bool" where
  "landing_query args \<longleftrightarrow> args \<in> set landing_queries"

definition complete_query :: "string list \<Rightarrow> bool" where
  "complete_query args \<longleftrightarrow> args \<in> set complete_queries"

definition local_query :: "string list \<Rightarrow> bool" where
  "local_query args \<longleftrightarrow> landing_query args \<or> complete_query args"

definition route_targets :: "string list" where
  "route_targets = [''1.1.1.1'', ''8.8.8.8'', ''9.9.9.9'', ''208.67.222.222'']"

definition ping_command :: "string \<Rightarrow> string list" where
  "ping_command destination = [''ping'', ''-n'', ''-c'', ''2'', ''-W'', ''2'', destination]"

definition traceroute_command :: "string \<Rightarrow> string list" where
  "traceroute_command destination =
     [''traceroute'', ''-n'', ''-m'', ''8'', ''-q'', ''1'', ''-w'', ''2'', destination]"

definition mtr_command :: "string \<Rightarrow> string list" where
  "mtr_command destination = [''mtr'', ''-n'', ''-r'', ''-c'', ''5'', ''-w'', destination]"

definition dig_command :: "string \<Rightarrow> string list" where
  "dig_command resolver =
     [''dig'', CHR 0x40 # resolver, ''example.com'', ''A'', ''+time=2'', ''+tries=1'', ''+stats'',
      ''+noall'', ''+answer'', ''+comments'']"

definition metadata_queries :: "string list list" where
  "metadata_queries =
     [[''ip'', ''route'', ''show'', ''default''],
      [''nmcli'', ''--terse'', ''--escape'', ''yes'', ''--fields'', ''DEVICE,TYPE,STATE,CONNECTION'',
       ''device'', ''status''],
      [''nmcli'', ''--terse'', ''--escape'', ''yes'', ''--fields'', ''IN-USE,SSID,BSSID,SECURITY'',
       ''device'', ''wifi'', ''list'', ''--rescan'', ''no'']]"

definition public_ip_command :: "string list" where
  "public_ip_command =
     [''curl'', ''--fail'', ''--silent'', ''--show-error'', ''--max-time'', ''5'',
      ''https://api64.ipify.org'']"

definition enrichment_command :: "string list" where
  "enrichment_command =
     [''curl'', ''--fail'', ''--silent'', ''--show-error'', ''--max-time'', ''8'', ''--config'', ''-'']"

definition advisory_command :: "string list" where
  "advisory_command =
     [''dnf5'', ''advisory'', ''list'', ''--security'', ''--with-cve'',
      ''--contains-pkgs=firewalld,NetworkManager,nftables,kernel,kernel-core,openssl,curl,dbus,polkit'',
      ''--json'']"

definition probe_commands :: "string list list" where
  "probe_commands =
     map ping_command [''1.1.1.1'', ''8.8.8.8''] @ map traceroute_command route_targets @
     [mtr_command ''1.1.1.1''] @ map dig_command [''1.1.1.1'', ''8.8.8.8'', ''9.9.9.9''] @
     metadata_queries @ [public_ip_command, enrichment_command, advisory_command]"

definition probe_command :: "string list \<Rightarrow> bool" where
  "probe_command args \<longleftrightarrow> args \<in> set probe_commands"

lemmas query_defs = landing_query_def landing_queries_def complete_query_def
  complete_queries_def firewalld_query_def

section \<open>The contract of a command runner\<close>

locale command_host =
  fixes R :: "'w runner"
    and I :: "'w \<Rightarrow> bool"
    and allowed :: "string list \<Rightarrow> bool"
  assumes run_keeps: "allowed args \<Longrightarrow> keeps I (run R args)"
    and run_with_input_keeps: "allowed args \<Longrightarrow> keeps I (run_with_input R args input)"

text \<open>
  A host that admits the landing queries, one that admits every local query, and one that
  admits the network probes too.
\<close>

locale landing_host = command_host +
  assumes allowed_landing: "landing_query args \<Longrightarrow> allowed args"
begin

lemmas landing_keeps = run_keeps[OF allowed_landing]

end

locale local_host = landing_host +
  assumes allowed_complete: "complete_query args \<Longrightarrow> allowed args"
begin

lemmas complete_keeps = run_keeps[OF allowed_complete]

end

locale probing_host = local_host +
  assumes allowed_probe: "probe_command args \<Longrightarrow> allowed args"
begin

lemmas probe_keeps = run_keeps[OF allowed_probe]

end

end
