(* ===== verification/NetworkDiagnostics.thy ===== *)
theory NetworkDiagnostics
  imports NetworkPath CommandRunner
begin

text \<open>
  \<open>src/network/network_diagnostics.cpp\<close>: the bounded connectivity checks, which run only when they
  are requested.  Exit status 127 is the child's answer when the program is not installed.
\<close>

section \<open>Reports\<close>

record reachability_probe =
  rp_destination :: string
  reachable :: bool
  rp_command_available :: bool
  rp_output :: string

record traceroute_result =
  tr_destination :: string
  tr_command_available :: bool
  completed :: bool
  tr_output :: string
  tr_hops :: "traceroute_hop list"

record path_stability_report =
  ps_command_available :: bool
  destination_observed :: bool
  ps_destination :: string
  ps_output :: string
  ps_hops :: "path_stability_hop list"

record resolver_probe =
  resolver :: string
  rv_command_available :: bool
  answered :: bool
  rv_output :: string

record network_diagnostics =
  probes :: "reachability_probe list"
  traceroutes :: "traceroute_result list"
  path_stability :: "path_stability_report option"
  resolver_probes :: "resolver_probe list"

definition has_unavailable_tools :: "network_diagnostics \<Rightarrow> bool" where
  "has_unavailable_tools d \<longleftrightarrow>
     list_ex (\<lambda>p. \<not> rp_command_available p) (probes d) \<or>
     list_ex (\<lambda>t. \<not> tr_command_available t) (traceroutes d) \<or>
     (case path_stability d of None \<Rightarrow> False | Some p \<Rightarrow> \<not> ps_command_available p) \<or>
     list_ex (\<lambda>p. \<not> rv_command_available p) (resolver_probes d)"

section \<open>Checks\<close>

definition output_or_error :: "command_result \<Rightarrow> string" where
  "output_or_error r =
     (if stdout_text r \<noteq> [] \<and> stderr_text r \<noteq> [] then stdout_text r @ newline_char # stderr_text r
      else if stdout_text r = [] then stderr_text r else stdout_text r)"

definition installed_tool :: "command_result \<Rightarrow> bool" where
  "installed_tool r \<longleftrightarrow> exit_code r \<noteq> 127"

definition ping_probe :: "'w runner \<Rightarrow> string \<Rightarrow> ('w, reachability_probe) state" where
  "ping_probe R destination = do {
     result \<leftarrow> run R (ping_command destination);
     State_Monad.return \<lparr>rp_destination = destination, reachable = success result,
       rp_command_available = installed_tool result, rp_output = output_or_error result\<rparr>
   }"

definition trace_route :: "ipv6_parser \<Rightarrow> 'w runner \<Rightarrow> string \<Rightarrow> ('w, traceroute_result) state" where
  "trace_route pton6 R destination = do {
     route \<leftarrow> run R (traceroute_command destination);
     let output = output_or_error route;
     let hops = parse_traceroute_hops pton6 output;
     State_Monad.return \<lparr>tr_destination = destination, tr_command_available = installed_tool route,
       completed = list_ex (\<lambda>h. th_address h = destination) hops, tr_output = output, tr_hops = hops\<rparr>
   }"

definition path_target :: string where
  "path_target = ''1.1.1.1''"

definition mtr_report ::
  "ipv6_parser \<Rightarrow> (rat \<Rightarrow> rat) \<Rightarrow> 'w runner \<Rightarrow> ('w, path_stability_report) state" where
  "mtr_report pton6 rnd R = do {
     mtr \<leftarrow> run R (mtr_command path_target);
     let output = output_or_error mtr;
     let hops = parse_mtr_hops pton6 rnd output;
     State_Monad.return \<lparr>ps_command_available = installed_tool mtr,
       destination_observed = list_ex (\<lambda>h. ph_address h = path_target) hops,
       ps_destination = path_target, ps_output = output, ps_hops = hops\<rparr>
   }"

definition dns_probe :: "'w runner \<Rightarrow> string \<Rightarrow> ('w, resolver_probe) state" where
  "dns_probe R server = do {
     dns \<leftarrow> run R (dig_command server);
     let output = output_or_error dns;
     State_Monad.return \<lparr>resolver = server, rv_command_available = installed_tool dns,
       answered = (success dns \<and> contains_str ''status: NOERROR'' output), rv_output = output\<rparr>
   }"

definition probe_destinations :: "string list" where
  "probe_destinations = [''1.1.1.1'', ''8.8.8.8'']"

definition selected_routes :: "bool \<Rightarrow> bool \<Rightarrow> string list" where
  "selected_routes extended advanced =
     ''1.1.1.1'' # (if extended \<or> advanced then [''8.8.8.8'', ''9.9.9.9'', ''208.67.222.222''] else [])"

definition resolvers :: "string list" where
  "resolvers = [''1.1.1.1'', ''8.8.8.8'', ''9.9.9.9'']"

definition diagnostics_inspect ::
  "ipv6_parser \<Rightarrow> (rat \<Rightarrow> rat) \<Rightarrow> 'w runner \<Rightarrow> bool \<Rightarrow> bool \<Rightarrow> ('w, network_diagnostics) state" where
  "diagnostics_inspect pton6 rnd R extended advanced = do {
     pings \<leftarrow> traverse_list (ping_probe R) probe_destinations;
     routes \<leftarrow> traverse_list (trace_route pton6 R) (selected_routes extended advanced);
     if advanced then do {
       report \<leftarrow> mtr_report pton6 rnd R;
       servers \<leftarrow> traverse_list (dns_probe R) resolvers;
       State_Monad.return \<lparr>probes = pings, traceroutes = routes, path_stability = Some report,
         resolver_probes = servers\<rparr>
     } else State_Monad.return \<lparr>probes = pings, traceroutes = routes, path_stability = None,
         resolver_probes = []\<rparr>
   }"

section \<open>What a report holds\<close>

lemma run_state_traverse:
  "map g (fst (run_state (traverse_list f xs) w)) = map h xs"
  if "\<And>x w. g (fst (run_state (f x) w)) = h x"
proof (induction xs arbitrary: w)
  case Nil
  then show ?case by simp
next
  case (Cons x xs)
  then show ?case using that by (simp add: split_def)
qed

lemma probe_names:
  "rp_destination (fst (run_state (ping_probe R x) w)) = x"
  "tr_destination (fst (run_state (trace_route pton6 R x) w)) = x"
  "resolver (fst (run_state (dns_probe R x) w)) = x"
  by (simp_all add: ping_probe_def trace_route_def dns_probe_def split_def Let_def)

lemmas probe_names_all = run_state_traverse[where h = "\<lambda>x. x" and g = rp_destination, OF probe_names(1)]
  run_state_traverse[where h = "\<lambda>x. x" and g = tr_destination, OF probe_names(2)]
  run_state_traverse[where h = "\<lambda>x. x" and g = resolver, OF probe_names(3)]

lemma keeps_traverse [keeps_intro]:
  "(\<And>x. x \<in> set xs \<Longrightarrow> keeps I (f x)) \<Longrightarrow> keeps I (traverse_list f xs)"
proof (induction xs)
  case Nil
  then show ?case by (simp add: keeps_def)
next
  case (Cons x xs)
  then show ?case by (simp add: keeps_intro)
qed

text \<open>The commands of the checks are among the probes that a host admits on request.\<close>

lemma diagnostic_commands:
  "x \<in> set probe_destinations \<Longrightarrow> probe_command (ping_command x)"
  "x \<in> set (selected_routes e a) \<Longrightarrow> probe_command (traceroute_command x)"
  "probe_command (mtr_command path_target)"
  "x \<in> set resolvers \<Longrightarrow> probe_command (dig_command x)"
  by (auto simp: probe_command_def probe_commands_def probe_destinations_def selected_routes_def
      route_targets_def path_target_def resolvers_def split: if_splits)

context probing_host
begin

lemma diagnostics_inspect_keeps: "keeps I (diagnostics_inspect pton6 rnd R extended advanced)"
  unfolding diagnostics_inspect_def ping_probe_def trace_route_def mtr_report_def dns_probe_def
  by (intro keeps_intro probe_keeps diagnostic_commands)

end

definition diagnostics_wf :: "ipv6_parser \<Rightarrow> bool \<Rightarrow> bool \<Rightarrow> network_diagnostics \<Rightarrow> bool" where
  "diagnostics_wf pton6 extended advanced d \<longleftrightarrow>
     map rp_destination (probes d) = probe_destinations \<and>
     map tr_destination (traceroutes d) = selected_routes extended advanced \<and>
     (path_stability d \<noteq> None \<longleftrightarrow> advanced) \<and>
     map resolver (resolver_probes d) = (if advanced then resolvers else [])"

lemma diagnostics_inspect_wf:
  "diagnostics_wf pton6 e a (fst (run_state (diagnostics_inspect pton6 rnd R e a) w))"
  by (auto simp: diagnostics_wf_def diagnostics_inspect_def split_def probe_names_all)

end
