(* ===== verification/TextUtils.thy ===== *)
theory TextUtils
  imports Prelude
begin

text \<open>\<open>src/core/text_utils.cpp\<close>: trimming and case folding of commands and tool output.\<close>

definition trim_copy :: "string \<Rightarrow> string" where
  "trim_copy s = rev (dropWhile is_space (rev (dropWhile is_space s)))"

definition lowercase_copy :: "string \<Rightarrow> string" where
  "lowercase_copy s = map to_lower s"

definition normalize_command :: "string \<Rightarrow> string" where
  "normalize_command s = lowercase_copy (trim_copy s)"

lemma to_lower_idem [simp]: "to_lower (to_lower c) = to_lower c"
  by (auto simp: to_lower_def is_upper_def of_char_of)

lemma byte_to_lower: "byte (to_lower c) = (if is_upper c then byte c + 32 else byte c)"
  by (simp add: to_lower_def is_upper_def of_char_of)

lemma is_space_to_lower [simp]: "is_space (to_lower c) = is_space c"
  by (auto simp: is_space_def byte_to_lower is_upper_def)

text \<open>Text that neither starts nor ends with white space is a fixed point of trimming.\<close>

definition trimmed :: "string \<Rightarrow> bool" where
  "trimmed s \<longleftrightarrow> s = [] \<or> \<not> is_space (hd s) \<and> \<not> is_space (last s)"

lemma trimmed_fixpoint: "trimmed s \<Longrightarrow> trim_copy s = s"
proof (cases s)
  case Nil
  then show ?thesis by (simp add: trim_copy_def)
next
  case (Cons c cs)
  assume "trimmed s"
  with Cons have "\<not> is_space c" "\<not> is_space (last (c # cs))" by (auto simp: trimmed_def)
  moreover have "rev (c # cs) = last (c # cs) # tl (rev (c # cs))"
    by (metis hd_rev list.collapse list.discI rev_is_Nil_conv)
  ultimately show ?thesis
    using Cons by (metis dropWhile.simps(2) rev_rev_ident trim_copy_def)
qed

lemma last_dropWhile_suffix: "dropWhile p xs \<noteq> [] \<Longrightarrow> last (dropWhile p xs) = last xs"
  by (metis last_appendR takeWhile_dropWhile_id)

lemma trimmed_trim: "trimmed (trim_copy s)"
proof -
  define u where "u = dropWhile is_space s"
  define r where "r = dropWhile is_space (rev u)"
  have t: "trim_copy s = rev r" by (simp add: trim_copy_def r_def u_def)
  show ?thesis
  proof (cases "r = []")
    case True
    with t show ?thesis by (simp add: trimmed_def)
  next
    case False
    have end_ok: "\<not> is_space (hd r)" using False unfolding r_def by (rule hd_dropWhile)
    have "u \<noteq> []" using False by (auto simp: r_def)
    then have "\<not> is_space (hd u)" unfolding u_def by (rule hd_dropWhile)
    moreover have "last r = hd u"
      using False by (simp add: r_def last_dropWhile_suffix last_rev)
    ultimately show ?thesis
      using end_ok False t by (simp add: trimmed_def hd_rev last_rev)
  qed
qed

lemma trim_copy_idem [simp]: "trim_copy (trim_copy s) = trim_copy s"
  by (rule trimmed_fixpoint[OF trimmed_trim])

lemma dropWhile_to_lower: "dropWhile is_space (map to_lower s) = map to_lower (dropWhile is_space s)"
  by (induction s) auto

lemma trim_map_to_lower: "trim_copy (map to_lower s) = map to_lower (trim_copy s)"
  by (simp only: trim_copy_def dropWhile_to_lower rev_map)

text \<open>Normalising a command twice is normalising it once.\<close>

lemma normalize_command_idem: "normalize_command (normalize_command s) = normalize_command s"
  by (simp add: normalize_command_def lowercase_copy_def trim_map_to_lower)

lemma trim_copy_Nil_iff: "trim_copy s = [] \<longleftrightarrow> (\<forall>c\<in>set s. is_space c)"
proof
  assume "trim_copy s = []"
  then have "\<forall>c\<in>set (dropWhile is_space s). is_space c"
    by (simp only: trim_copy_def rev_is_Nil_conv dropWhile_eq_Nil_conv set_rev)
  then have "dropWhile is_space s = []" by (metis hd_dropWhile hd_in_set)
  then show "\<forall>c\<in>set s. is_space c" by (simp add: dropWhile_eq_Nil_conv)
next
  assume "\<forall>c\<in>set s. is_space c"
  then have "dropWhile is_space s = []" by (simp add: dropWhile_eq_Nil_conv)
  then show "trim_copy s = []" by (simp only: trim_copy_def rev.simps dropWhile.simps)
qed

end
