(* ===== verification/OperatingMode.thy ===== *)
theory OperatingMode
  imports CommandRunner TextUtils
begin

text \<open>
  \<open>src/security/operating_mode.cpp\<close>: the assessment mode, its two text forms and its
  storage.  The storage calls of \<open>secure_storage.cpp\<close> that the store makes are the fields of
  \<open>mode_storage\<close>, computations that read and change the outside world.
\<close>

datatype operating_mode = NormalMode | HostileNetwork

datatype mode_load_status = Defaulted | LoadAvailable | LoadInvalid

record mode_load_result =
  loaded_mode :: operating_mode
  load_status :: mode_load_status
  load_diagnostic :: string

definition mode_to_string :: "operating_mode \<Rightarrow> string" where
  "mode_to_string m =
     (if m = HostileNetwork then ''DEF CON / POSSIBLE HOSTILE'' else ''NORMAL'')"

definition parse_operating_mode :: "string \<Rightarrow> operating_mode option" where
  "parse_operating_mode s =
     (if s = ''normal'' then Some NormalMode
      else if s = ''hostile'' then Some HostileNetwork else None)"

section \<open>The store\<close>

text \<open>
  \<open>secure_path create\<close> is \<open>secure_local_path(Config, "mode", create, error)\<close>: the path and
  the error text, an empty path for a failure.  \<open>path_exists\<close> is \<open>std::filesystem::exists\<close>:
  \<open>Inl\<close> the message of the error code.  \<open>read_private\<close> and \<open>write_private\<close> answer
  \<open>Inl\<close> the error text for \<open>false\<close>.
\<close>

record 'w mode_storage =
  secure_path :: "bool \<Rightarrow> ('w, string \<times> string) state"
  path_exists :: "string \<Rightarrow> ('w, string + bool) state"
  read_private :: "string \<Rightarrow> ('w, string + string) state"
  write_private :: "string \<Rightarrow> string \<Rightarrow> ('w, string + unit) state"

definition invalid_load :: "string \<Rightarrow> mode_load_result" where
  "invalid_load diagnostic =
     \<lparr>loaded_mode = HostileNetwork, load_status = LoadInvalid, load_diagnostic = diagnostic\<rparr>"

definition default_load :: mode_load_result where
  "default_load = \<lparr>loaded_mode = NormalMode, load_status = Defaulted, load_diagnostic = []\<rparr>"

definition interpret_mode_file :: "string \<Rightarrow> mode_load_result" where
  "interpret_mode_file contents =
     (case parse_operating_mode (takeWhile (\<lambda>c. c \<noteq> newline_char) contents) of
        Some m \<Rightarrow> \<lparr>loaded_mode = m, load_status = LoadAvailable, load_diagnostic = []\<rparr>
      | None \<Rightarrow> invalid_load ''assessment-mode storage contains an unrecognized value'')"

definition mode_load :: "'w mode_storage \<Rightarrow> ('w, mode_load_result) state" where
  "mode_load S = do {
     (path, error) \<leftarrow> secure_path S False;
     if path = []
     then State_Monad.return (invalid_load (''could not resolve assessment-mode storage: '' @ error))
     else do {
       found \<leftarrow> path_exists S path;
       case found of
         Inl message \<Rightarrow>
           State_Monad.return
             (invalid_load (''could not inspect assessment-mode storage: '' @ message))
       | Inr False \<Rightarrow> State_Monad.return default_load
       | Inr True \<Rightarrow> do {
           contents \<leftarrow> read_private S path;
           State_Monad.return
             (case contents of
                Inl e \<Rightarrow> invalid_load (''could not read assessment-mode storage: '' @ e)
              | Inr s \<Rightarrow> interpret_mode_file s)
         }
     }
   }"

definition mode_file_value :: "operating_mode \<Rightarrow> string" where
  "mode_file_value m = (if m = HostileNetwork then ''hostile'' else ''normal'')"

text \<open>The result is the flag of \<open>save\<close> and the text it leaves in \<open>result\<close>.\<close>

definition mode_save :: "'w mode_storage \<Rightarrow> operating_mode \<Rightarrow> ('w, bool \<times> string) state" where
  "mode_save S m = do {
     (path, error) \<leftarrow> secure_path S True;
     if path = [] then State_Monad.return (False, error)
     else do {
       written \<leftarrow> write_private S path (mode_file_value m);
       State_Monad.return
         (case written of Inl e \<Rightarrow> (False, e) | Inr _ \<Rightarrow> (True, path))
     }
   }"

section \<open>Reading back, and failing closed\<close>

lemma parse_mode_file_value [simp]: "parse_operating_mode (mode_file_value m) = Some m"
  by (cases m) (simp_all add: parse_operating_mode_def mode_file_value_def)

lemma interpret_mode_file_value:
  "interpret_mode_file (mode_file_value m) =
     \<lparr>loaded_mode = m, load_status = LoadAvailable, load_diagnostic = []\<rparr>"
  "interpret_mode_file (mode_file_value m @ newline_char # rest) =
     \<lparr>loaded_mode = m, load_status = LoadAvailable, load_diagnostic = []\<rparr>"
  by (cases m; simp add: interpret_mode_file_def parse_operating_mode_def mode_file_value_def)+

text \<open>A mode that could not be read is the stricter one, with a diagnostic.\<close>

definition load_wf :: "mode_load_result \<Rightarrow> bool" where
  "load_wf r \<longleftrightarrow>
     (load_status r = LoadInvalid \<longrightarrow> loaded_mode r = HostileNetwork \<and> load_diagnostic r \<noteq> []) \<and>
     (load_status r = Defaulted \<longrightarrow> loaded_mode r = NormalMode) \<and>
     (load_status r \<noteq> LoadInvalid \<longrightarrow> load_diagnostic r = [])"

lemma load_wf_simps [simp]:
  "m \<noteq> [] \<Longrightarrow> load_wf (invalid_load m)" "load_wf default_load" "load_wf (interpret_mode_file s)"
  by (auto simp: load_wf_def invalid_load_def default_load_def interpret_mode_file_def
      split: option.splits)

lemma mode_load_wf: "load_wf (fst (run_state (mode_load S) w))"
  by (auto simp: mode_load_def split_def split: sum.splits bool.splits)

text \<open>A normal-mode assessment is only ever the default or an explicit stored choice.\<close>

lemma interpret_normal:
  "loaded_mode (interpret_mode_file s) = NormalMode \<longleftrightarrow>
     takeWhile (\<lambda>c. c \<noteq> newline_char) s = ''normal''"
  by (auto simp: interpret_mode_file_def parse_operating_mode_def invalid_load_def)

section \<open>Properties\<close>

text \<open>The stored mode fails closed: a load that could not read or recognise the mode is
  hostile-network mode with a diagnostic, a missing file is normal mode, and a stored mode is
  read back as it was saved.\<close>

theorem mode_load_fails_closed:
  "load_wf (fst (run_state (mode_load S) w)) \<and>
   interpret_mode_file (mode_file_value m) =
     \<lparr>loaded_mode = m, load_status = LoadAvailable, load_diagnostic = []\<rparr> \<and>
   (loaded_mode (interpret_mode_file s) = NormalMode \<longleftrightarrow>
      takeWhile (\<lambda>c. c \<noteq> newline_char) s = ''normal'')"
  by (intro conjI mode_load_wf interpret_mode_file_value(1) interpret_normal)

end
