(* ===== verification/SecureStorage.thy ===== *)
theory SecureStorage
  imports OperatingMode
begin

text \<open>
  \<open>src/core/secure_storage.cpp\<close>: owner-only files with link rejection, bounded reads and
  atomic replacement.

  A \<open>disk\<close> maps path names to nodes.  Every system call takes the next of the kernel's
  \<open>answers\<close>, so that a run meets every combination of failures, interruptions and short
  transfers; when the list is used up every further call is granted.  \<open>history\<close> records each
  state of the directory tree that was on the disk, the states in which a crash can leave it.
  The process is the only writer of its storage.  A descriptor is the path it was opened at.
\<close>

section \<open>The disk and its system calls\<close>

datatype node_kind = RegularFile | DirectoryNode | SymbolicLink | OtherNode

record node =
  node_kind :: node_kind
  node_owned :: bool
  node_links :: nat
  node_mode :: nat
  node_contents :: string

type_synonym tree = "string \<Rightarrow> node option"

datatype answer = Granted | Refused string | Interrupted | Short nat

record disk =
  nodes :: tree
  answers :: "answer list"
  history :: "tree list"

definition fresh_disk :: "tree \<Rightarrow> answer list \<Rightarrow> disk" where
  "fresh_disk n as = \<lparr>nodes = n, answers = as, history = [n]\<rparr>"

definition change :: "tree \<Rightarrow> disk \<Rightarrow> disk" where
  "change n d = d\<lparr>nodes := n, history := history d @ [n]\<rparr>"

text \<open>A call that reports \<open>strerror(errno)\<close>, or changes the tree.\<close>

definition system_call :: "(tree \<Rightarrow> string + tree) \<Rightarrow> (disk, string option) state" where
  "system_call f = State (\<lambda>d.
     let d1 = d\<lparr>answers := tl (answers d)\<rparr>
     in case answers d of
          Refused e # _ \<Rightarrow> (Some e, d1)
        | _ \<Rightarrow> (case f (nodes d) of Inl e \<Rightarrow> (Some e, d1) | Inr n \<Rightarrow> (None, change n d1)))"

definition no_such_file :: string where
  "no_such_file = ''No such file or directory''"

definition file_exists_error :: string where
  "file_exists_error = ''File exists''"

definition owner_read_write :: nat where "owner_read_write = 384"
definition owner_all :: nat where "owner_all = 448"

definition new_file :: node where
  "new_file = \<lparr>node_kind = RegularFile, node_owned = True, node_links = 1,
     node_mode = owner_read_write, node_contents = []\<rparr>"

text \<open>What \<open>mkdir\<close> leaves, with the permissions before the mask of the process.\<close>

definition new_directory :: node where
  "new_directory = \<lparr>node_kind = DirectoryNode, node_owned = True, node_links = 2,
     node_mode = 511, node_contents = []\<rparr>"

text \<open>\<open>open\<close> with \<open>O_NOFOLLOW\<close>: for writing with \<open>O_CREAT\<close>, for reading, and with \<open>O_EXCL\<close>.\<close>

definition open_for_writing :: "string \<Rightarrow> tree \<Rightarrow> string + tree" where
  "open_for_writing path n =
     (case n path of
        None \<Rightarrow> Inr (n(path \<mapsto> new_file))
      | Some x \<Rightarrow> if node_kind x = SymbolicLink then Inl ''Too many levels of symbolic links''
                  else if node_kind x = DirectoryNode then Inl ''Is a directory'' else Inr n)"

definition open_for_reading :: "string \<Rightarrow> tree \<Rightarrow> string + tree" where
  "open_for_reading path n =
     (case n path of
        None \<Rightarrow> Inl no_such_file
      | Some x \<Rightarrow> if node_kind x = SymbolicLink then Inl ''Too many levels of symbolic links'' else Inr n)"

definition create_exclusive :: "string \<Rightarrow> tree \<Rightarrow> string + tree" where
  "create_exclusive path n =
     (case n path of None \<Rightarrow> Inr (n(path \<mapsto> new_file)) | Some x \<Rightarrow> Inl file_exists_error)"

definition update_node :: "string \<Rightarrow> (node \<Rightarrow> node) \<Rightarrow> tree \<Rightarrow> tree" where
  "update_node path f n = n(path := map_option f (n path))"

definition change_mode :: "string \<Rightarrow> nat \<Rightarrow> tree \<Rightarrow> string + tree" where
  "change_mode path m n = Inr (update_node path (\<lambda>x. x\<lparr>node_mode := m\<rparr>) n)"

definition truncate_file :: "string \<Rightarrow> tree \<Rightarrow> string + tree" where
  "truncate_file path n = Inr (update_node path (\<lambda>x. x\<lparr>node_contents := []\<rparr>) n)"

definition rename_over :: "string \<Rightarrow> string \<Rightarrow> tree \<Rightarrow> string + tree" where
  "rename_over source target n =
     (case n source of None \<Rightarrow> Inl no_such_file | Some x \<Rightarrow> Inr (n(source := None, target \<mapsto> x)))"

definition unlink :: "string \<Rightarrow> tree \<Rightarrow> string + tree" where
  "unlink path n = Inr (n(path := None))"

section \<open>Checks\<close>

definition find_any :: "string \<Rightarrow> string \<Rightarrow> bool" where
  "find_any s cs \<longleftrightarrow> (\<exists>c\<in>set s. c \<in> set cs)"

definition safe_filename :: "string \<Rightarrow> bool" where
  "safe_filename filename \<longleftrightarrow>
     filename \<noteq> [] \<and> filename \<noteq> ''.'' \<and> filename \<noteq> ''..'' \<and>
     \<not> find_any filename [CHR ''/'', CHR 0x5C] \<and> CHR 0x00 \<notin> set filename"

definition directory_check :: "string \<Rightarrow> tree \<Rightarrow> string + tree" where
  "directory_check path n =
     (case n path of
        None \<Rightarrow> Inl no_such_file
      | Some x \<Rightarrow>
          if node_kind x \<noteq> DirectoryNode then Inl ''storage path is not a directory''
          else if \<not> node_owned x then Inl ''storage directory is not owned by the current user''
          else Inr n)"

fun chain :: "(disk, string option) state list \<Rightarrow> (disk, string option) state" where
  "chain [] = State_Monad.return None"
| "chain (m # ms) = do {
     r \<leftarrow> m;
     case r of Some e \<Rightarrow> State_Monad.return (Some e) | None \<Rightarrow> chain ms
   }"

definition private_directory :: "string \<Rightarrow> (disk, string option) state" where
  "private_directory path =
     chain [system_call (directory_check path), system_call (change_mode path owner_all)]"

definition file_check :: "string \<Rightarrow> tree \<Rightarrow> string + tree" where
  "file_check path n =
     (case n path of
        None \<Rightarrow> Inl no_such_file
      | Some x \<Rightarrow>
          if node_kind x \<noteq> RegularFile then Inl ''storage path is not a regular file''
          else if \<not> node_owned x then Inl ''storage file is not owned by the current user''
          else if node_links x \<noteq> 1 then Inl ''storage file must not have hard links''
          else Inr n)"

definition private_regular_file :: "string \<Rightarrow> (disk, string option) state" where
  "private_regular_file path = system_call (file_check path)"

section \<open>Writing and reading\<close>

definition append_contents :: "string \<Rightarrow> string \<Rightarrow> disk \<Rightarrow> disk" where
  "append_contents path s d =
     change (update_node path (\<lambda>x. x\<lparr>node_contents := node_contents x @ s\<rparr>) (nodes d)) d"

function write_loop :: "string \<Rightarrow> string \<Rightarrow> disk \<Rightarrow> string option \<times> disk" where
  "write_loop path content d =
     (if content = [] then (None, d)
      else let d1 = d\<lparr>answers := tl (answers d)\<rparr> in
        case answers d of
          Interrupted # _ \<Rightarrow> write_loop path content d1
        | Refused e # _ \<Rightarrow> (Some e, d1)
        | Short n # _ \<Rightarrow>
            if n = 0 then (Some ''storage write made no progress'', d1)
            else write_loop path (drop n content) (append_contents path (take n content) d1)
        | _ \<Rightarrow> (None, append_contents path content d1))"
  by auto

termination
  by (relation "measure (\<lambda>(path, content, d). length (answers d))")
    (auto simp: append_contents_def change_def)

declare write_loop.simps [simp del]

definition write_all :: "string \<Rightarrow> string \<Rightarrow> (disk, string option) state" where
  "write_all path content = State (write_loop path content)"

definition flush_call :: "(disk, string option) state" where
  "flush_call = system_call Inr"

definition write_private_file :: "string \<Rightarrow> string \<Rightarrow> bool \<Rightarrow> (disk, string option) state" where
  "write_private_file path content append_mode =
     chain ([system_call (open_for_writing path), private_regular_file path,
             system_call (change_mode path owner_read_write)] @
            (if append_mode then [] else [system_call (truncate_file path), flush_call]) @
            [write_all path content, flush_call, flush_call])"

text \<open>A read returns no byte only at the end of the file.\<close>

function read_loop :: "nat \<Rightarrow> string \<Rightarrow> string \<Rightarrow> disk \<Rightarrow> (string + string) \<times> disk" where
  "read_loop maximum rest content d =
     (let d1 = d\<lparr>answers := tl (answers d)\<rparr>;
          count = (case answers d of Short n # _ \<Rightarrow> max 1 (min n 4096) | _ \<Rightarrow> 4096)
      in if answers d \<noteq> [] \<and> hd (answers d) = Interrupted then read_loop maximum rest content d1
         else case answers d of
           Refused e # _ \<Rightarrow> (Inl e, d1)
         | _ \<Rightarrow>
             if rest = [] then (Inr content, d1)
             else if maximum < length content + length (take count rest)
             then (Inl ''storage file exceeds safe size limit'', d1)
             else read_loop maximum (drop count rest) (content @ take count rest) d1)"
  by auto

termination
  by (relation "measure (\<lambda>(maximum, rest, content, d). length rest + length (answers d))")
    (auto split: list.splits answer.splits)

declare read_loop.simps [simp del]

definition read_open_file :: "nat \<Rightarrow> string \<Rightarrow> (disk, string + string) state" where
  "read_open_file maximum path = State (\<lambda>d.
     read_loop maximum (case nodes d path of None \<Rightarrow> [] | Some x \<Rightarrow> node_contents x) [] d)"

definition read_private_file :: "nat \<Rightarrow> string \<Rightarrow> (disk, string + string) state" where
  "read_private_file maximum path = do {
     opened \<leftarrow> chain [system_call (open_for_reading path), private_regular_file path];
     case opened of
       Some e \<Rightarrow> State_Monad.return (Inl e)
     | None \<Rightarrow> do {
         content \<leftarrow> read_open_file maximum path;
         case content of
           Inl e \<Rightarrow> State_Monad.return (Inl e)
         | Inr s \<Rightarrow> do {
             closed \<leftarrow> flush_call;
             State_Monad.return (case closed of Some e \<Rightarrow> Inl e | None \<Rightarrow> Inr s)
           }
       }
   }"

definition default_read_limit :: nat where
  "default_read_limit = 1024 * 1024"

section \<open>Atomic replacement\<close>

definition private_file :: "node \<Rightarrow> bool" where
  "private_file x \<longleftrightarrow> node_kind x = RegularFile \<and> node_owned x \<and> node_links x = 1"

text \<open>\<open>fstatat\<close> on the target: \<open>ENOENT\<close>, the answer for an absent target, is accepted, and any
  other failure is not.\<close>

definition target_check :: "string \<Rightarrow> tree \<Rightarrow> string + tree" where
  "target_check path n =
     (case n path of
        None \<Rightarrow> Inr n
      | Some x \<Rightarrow> if private_file x then Inr n else Inl ''storage file is not a private regular file'')"

definition check_target :: "string \<Rightarrow> (disk, string option) state" where
  "check_target path = system_call (target_check path)"

definition temporary_name :: "string \<Rightarrow> nat \<Rightarrow> nat \<Rightarrow> string" where
  "temporary_name filename pid attempt =
     ''.'' @ filename @ ''.tmp.'' @ show_nat pid @ ''.'' @ show_nat attempt"

fun allocate :: "string \<Rightarrow> string \<Rightarrow> nat \<Rightarrow> nat list \<Rightarrow> (disk, string + string) state" where
  "allocate directory filename pid [] =
     State_Monad.return (Inl ''could not allocate private replacement file'')"
| "allocate directory filename pid (attempt # rest) =
     (let temporary = directory @ ''/'' @ temporary_name filename pid attempt in do {
        r \<leftarrow> system_call (create_exclusive temporary);
        case r of
          None \<Rightarrow> State_Monad.return (Inr temporary)
        | Some e \<Rightarrow> if e = file_exists_error then allocate directory filename pid rest
                    else State_Monad.return (Inl e)
      })"

definition maximum_attempts :: nat where
  "maximum_attempts = 128"

text \<open>The steps on the temporary file before and after its descriptor is closed.\<close>

definition fill_temporary :: "string \<Rightarrow> string \<Rightarrow> (disk, string option) state" where
  "fill_temporary temporary content =
     chain [private_regular_file temporary, system_call (change_mode temporary owner_read_write),
            write_all temporary content, flush_call]"

definition install_temporary :: "string \<Rightarrow> string \<Rightarrow> (disk, string option) state" where
  "install_temporary temporary path =
     chain [flush_call, system_call (rename_over temporary path), flush_call]"

definition discard_temporary :: "string \<Rightarrow> string \<Rightarrow> (disk, string option) state" where
  "discard_temporary temporary error = do {
     _ \<leftarrow> system_call (unlink temporary);
     State_Monad.return (Some error)
   }"

definition replace_with :: "string \<Rightarrow> string \<Rightarrow> string \<Rightarrow> (disk, string option) state" where
  "replace_with temporary path content = do {
     filled \<leftarrow> fill_temporary temporary content;
     case filled of
       Some e \<Rightarrow> do {
         closed \<leftarrow> flush_call;
         discard_temporary temporary (case closed of None \<Rightarrow> e | Some e' \<Rightarrow> e')
       }
     | None \<Rightarrow> do {
         installed \<leftarrow> install_temporary temporary path;
         case installed of
           None \<Rightarrow> State_Monad.return None
         | Some e \<Rightarrow> discard_temporary temporary e
       }
   }"

definition split_path :: "string \<Rightarrow> (string \<times> string) option" where
  "split_path path =
     (case rfind_char (CHR ''/'') path of
        None \<Rightarrow> None
      | Some i \<Rightarrow> if Suc i = length path then None
                  else Some (if i = 0 then ''/'' else take i path, drop (Suc i) path))"

definition replace_private_file_atomically ::
  "nat \<Rightarrow> string \<Rightarrow> string \<Rightarrow> (disk, string option) state" where
  "replace_private_file_atomically pid path content =
     (case split_path path of
        None \<Rightarrow> State_Monad.return (Some ''storage replacement path is invalid'')
      | Some (directory, filename) \<Rightarrow>
          if directory = ''/'' \<or> \<not> safe_filename filename
          then State_Monad.return (Some ''storage replacement directory is unsafe'')
          else do {
            checked \<leftarrow> chain [private_directory directory, flush_call, check_target path];
            case checked of
              Some e \<Rightarrow> State_Monad.return (Some e)
            | None \<Rightarrow> do {
                allocated \<leftarrow> allocate directory filename pid [0..<maximum_attempts];
                case allocated of
                  Inl e \<Rightarrow> State_Monad.return (Some e)
                | Inr temporary \<Rightarrow> replace_with temporary path content
              }
          })"

section \<open>Paths\<close>

datatype local_storage_area = ConfigArea | StateArea

record environment =
  xdg_config_home :: "string option"
  xdg_state_home :: "string option"
  home_variable :: "string option"

definition path_append :: "string \<Rightarrow> string \<Rightarrow> string" where
  "path_append a b = (if a = [] \<or> List.last a = CHR ''/'' then a @ b else a @ ''/'' @ b)"

definition storage_directory :: "environment \<Rightarrow> local_storage_area \<Rightarrow> string option" where
  "storage_directory env area =
     (let xdg = (if area = ConfigArea then xdg_config_home env else xdg_state_home env);
          default_part = (if area = ConfigArea then ''.config'' else ''.local/state'')
      in map_option (\<lambda>d. path_append d ''fedora-firewall-control'')
           (if xdg \<noteq> None \<and> xdg \<noteq> Some [] then xdg
            else if home_variable env \<noteq> None \<and> home_variable env \<noteq> Some []
            then Some (path_append (the (home_variable env)) default_part) else None))"

text \<open>\<open>std::filesystem::create_directories\<close>: the directory after the missing ones above it.\<close>

definition path_steps :: "string \<Rightarrow> string list" where
  "path_steps path =
     map (\<lambda>i. take i path) (filter (\<lambda>i. path ! i = CHR ''/'') [1..<length path]) @ [path]"

definition make_directory :: "string \<Rightarrow> tree \<Rightarrow> string + tree" where
  "make_directory path n =
     (case n path of
        None \<Rightarrow> Inr (n(path \<mapsto> new_directory))
      | Some x \<Rightarrow> if node_kind x = DirectoryNode \<or> node_kind x = SymbolicLink then Inr n
                  else Inl ''Not a directory'')"

fun make_directories :: "string list \<Rightarrow> tree \<Rightarrow> string + tree" where
  "make_directories [] n = Inr n"
| "make_directories (p # ps) n =
     (case make_directory p n of Inl e \<Rightarrow> Inl e | Inr n' \<Rightarrow> make_directories ps n')"

definition create_directories :: "string \<Rightarrow> tree \<Rightarrow> string + tree" where
  "create_directories path n = make_directories (path_steps path) n"

definition check_existing :: "string \<Rightarrow> (disk, string option) state" where
  "check_existing directory = do {
     n \<leftarrow> State (\<lambda>d. (nodes d directory, d));
     if n = None then State_Monad.return None else private_directory directory
   }"

definition secure_local_path ::
  "environment \<Rightarrow> local_storage_area \<Rightarrow> string \<Rightarrow> bool \<Rightarrow> (disk, string + string) state" where
  "secure_local_path env area filename create_directory =
     (if \<not> safe_filename filename then State_Monad.return (Inl ''storage filename is unsafe'')
      else case storage_directory env area of
        None \<Rightarrow> State_Monad.return (Inl ''HOME and XDG storage variables are unavailable'')
      | Some directory \<Rightarrow> do {
          r \<leftarrow> chain ((if create_directory then [system_call (create_directories directory)] else []) @
                      [check_existing directory]);
          State_Monad.return (case r of Some e \<Rightarrow> Inl e | None \<Rightarrow> Inr (path_append directory filename))
        })"

text \<open>The storage of the operating mode on this disk.\<close>

definition disk_mode_storage :: "environment \<Rightarrow> disk mode_storage" where
  "disk_mode_storage env =
     \<lparr>secure_path = (\<lambda>create. do {
        r \<leftarrow> secure_local_path env ConfigArea ''mode'' create;
        State_Monad.return (case r of Inl e \<Rightarrow> ([], e) | Inr p \<Rightarrow> (p, [])) }),
      path_exists = (\<lambda>p. State (\<lambda>d.
        (case answers d of Refused e # _ \<Rightarrow> Inl e | _ \<Rightarrow> Inr (nodes d p \<noteq> None),
         d\<lparr>answers := tl (answers d)\<rparr>))),
      read_private = read_private_file default_read_limit,
      write_private = (\<lambda>p v. do {
        r \<leftarrow> write_private_file p v False;
        State_Monad.return (case r of Some e \<Rightarrow> Inl e | None \<Rightarrow> Inr ()) })\<rparr>"

section \<open>Reasoning about the calls\<close>

text \<open>Partial correctness: what holds after success and after a failure.\<close>

definition spec :: "(disk \<Rightarrow> bool) \<Rightarrow> (disk, string option) state \<Rightarrow> (disk \<Rightarrow> bool) \<Rightarrow> (disk \<Rightarrow> bool) \<Rightarrow> bool" where
  "spec P m Q E \<longleftrightarrow>
     (\<forall>d. P d \<longrightarrow> (case run_state m d of (None, d') \<Rightarrow> Q d' | (Some e, d') \<Rightarrow> E d'))"

lemma specD:
  "spec P m Q E \<Longrightarrow> P d \<Longrightarrow> (case run_state m d of (None, d') \<Rightarrow> Q d' | (Some e, d') \<Rightarrow> E d')"
  by (simp add: spec_def)

lemma spec_weaken:
  "spec P m Q E \<Longrightarrow> (\<And>d. P' d \<Longrightarrow> P d) \<Longrightarrow> (\<And>d. Q d \<Longrightarrow> Q' d) \<Longrightarrow> (\<And>d. E d \<Longrightarrow> E' d) \<Longrightarrow>
     spec P' m Q' E'"
  unfolding spec_def by (fastforce split: prod.splits option.splits)

lemma spec_return [intro]: "spec P (State_Monad.return None) P E" "spec P (State_Monad.return (Some e)) Q P"
  by (simp_all add: spec_def)

lemma spec_bind:
  assumes "spec P m Q E" "spec Q (f None) R F" "\<And>e. spec E (f (Some e)) R F"
  shows "spec P (State_Monad.bind m f) R F"
  unfolding spec_def
proof (intro allI impI)
  fix d assume "P d"
  obtain r d' where m: "run_state m d = (r, d')" by (cases "run_state m d")
  show "case run_state (m \<bind> f) d of (None, d') \<Rightarrow> R d' | (Some e, d') \<Rightarrow> F d'"
    using specD[OF assms(1) \<open>P d\<close>] specD[OF assms(2), of d'] specD[OF assms(3), of d']
    by (cases r) (simp_all add: m)
qed

lemma spec_chain:
  "spec P m Q E \<Longrightarrow> spec Q (chain ms) R E \<Longrightarrow> spec P (chain (m # ms)) R E"
  unfolding chain.simps by (rule spec_bind) auto

lemma spec_chain_Nil [intro]: "spec P (chain []) P E"
  by (simp add: spec_def)

lemma spec_system_call:
  assumes "\<And>d as n. P d \<Longrightarrow> f (nodes d) = Inr n \<Longrightarrow> Q (change n (d\<lparr>answers := as\<rparr>))"
    and "\<And>d as. P d \<Longrightarrow> E (d\<lparr>answers := as\<rparr>)"
  shows "spec P (system_call f) Q E"
  unfolding spec_def system_call_def Let_def
  using assms by (auto split: list.splits answer.splits sum.splits)

lemma change_simps [simp]:
  "nodes (change n d) = n" "answers (change n d) = answers d" "history (change n d) = history d @ [n]"
  by (simp_all add: change_def)

lemma spec_nothing: "spec P (system_call f) (\<lambda>d. True) (\<lambda>d. True)"
  by (rule spec_system_call) simp_all

lemma spec_done: "(\<And>d. P d \<Longrightarrow> E d) \<Longrightarrow> spec P (chain []) P E"
  by (simp add: spec_def)

lemma spec_impossible: "spec (\<lambda>d. False) m Q E"
  by (simp add: spec_def)

text \<open>A condition on the tree that held in every state of the disk.\<close>

definition steady :: "(tree \<Rightarrow> bool) \<Rightarrow> disk \<Rightarrow> bool" where
  "steady ok d \<longleftrightarrow> (\<forall>n\<in>set (history d). ok n) \<and> ok (nodes d)"

lemma steady_change [simp]: "steady ok (change n d) \<longleftrightarrow> (\<forall>n\<in>set (history d). ok n) \<and> ok n"
  by (auto simp: steady_def)

lemma steady_answers [simp]: "steady ok (d\<lparr>answers := as\<rparr>) = steady ok d"
  by (simp add: steady_def)

lemma file_check_private:
  "file_check path n = Inr n' \<longleftrightarrow> (\<exists>x. n path = Some x \<and> private_file x) \<and> n' = n"
  by (auto simp: file_check_def private_file_def split: option.splits)

lemma rfind_index_Some:
  "rfind_index p xs = Some i \<Longrightarrow> i < length xs \<and> p (xs ! i)"
  by (auto simp: rfind_index_def find_index_Some_iff rev_nth)

lemma split_path_Some:
  assumes "split_path path = Some (directory, filename)" "directory \<noteq> ''/''"
  shows "path = directory @ ''/'' @ filename"
proof -
  obtain i where i: "rfind_char (CHR ''/'') path = Some i" "directory = take i path"
    "filename = drop (Suc i) path"
    using assms by (auto simp: split_path_def split: option.splits if_splits)
  then show ?thesis
    using rfind_index_Some[OF i(1)] id_take_nth_drop[of i path] by simp
qed

section \<open>The loops\<close>

text \<open>The rule for the loop: an invariant of the text written so far that the use of an answer and an
  append keep.\<close>

lemma write_loop_rule:
  assumes used: "\<And>s d. I s d \<Longrightarrow> I s (d\<lparr>answers := tl (answers d)\<rparr>)"
    and app: "\<And>s u d. I s d \<Longrightarrow> I (s @ u) (append_contents path u d)"
  shows "I s d \<Longrightarrow> write_loop path t d = (r, d') \<Longrightarrow> (r = None \<longrightarrow> I (s @ t) d') \<and> (\<exists>u. I u d')"
proof (induction "length (answers d)" arbitrary: s t d rule: less_induct)
  case less
  let ?d = "d\<lparr>answers := tl (answers d)\<rparr>"
  note i = used[OF less.prems(1)]
  have later: "(r = None \<longrightarrow> I (s' @ t') d') \<and> (\<exists>u. I u d')"
    if "answers d \<noteq> []" "answers e = tl (answers d)" "I s' e" "write_loop path t' e = (r, d')" for s' t' e
    by (rule less.hyps[OF _ that(3,4)]) (use that(1,2) in simp)
  note unfold = less.prems(2)[unfolded write_loop.simps[of path t d] Let_def]
  show ?case
  proof (cases "t = [] \<or> answers d = []")
    case True
    then show ?thesis using unfold less.prems(1) app[OF i, of t] by (cases "t = []") auto
  next
    case False
    then obtain a as where a: "answers d = a # as" by (cases "answers d") auto
    show ?thesis
    proof (cases a)
      case Granted
      then show ?thesis using unfold a False app[OF i, of t] by auto
    next
      case (Refused e)
      then show ?thesis using unfold a False i by auto
    next
      case Interrupted
      then show ?thesis using unfold a False later[OF _ _ i] by simp
    next
      case (Short k)
      then show ?thesis
        using unfold a False i later[OF _ _ app[OF i, of "take k t"], of "drop k t"]
        by (cases "k = 0") (auto simp: append_contents_def change_def)
    qed
  qed
qed

lemma write_loop_other:
  "write_loop path t d = (r, d') \<Longrightarrow> q \<noteq> path \<Longrightarrow> nodes d' q = nodes d q"
  using write_loop_rule[of "\<lambda>s e. nodes e q = nodes d q" path "[]" d t r d']
  by (simp add: append_contents_def update_node_def)

definition read_count :: "disk \<Rightarrow> nat" where
  "read_count d = (case answers d of Short n # _ \<Rightarrow> max 1 (min n 4096) | _ \<Rightarrow> 4096)"

lemma read_count_pos: "0 < read_count d"
  by (auto simp: read_count_def max_def split: list.split answer.split)

lemma read_loop_cases:
  obtains (interrupted) "answers d \<noteq> []"
      "read_loop maximum rest acc d = read_loop maximum rest acc (d\<lparr>answers := tl (answers d)\<rparr>)"
  | (refused) e where "Refused e \<in> set (answers d)" "read_loop maximum rest acc d = (Inl e, d\<lparr>answers := tl (answers d)\<rparr>)"
  | (granted) "read_loop maximum rest acc d =
      (if rest = [] then (Inr acc, d\<lparr>answers := tl (answers d)\<rparr>)
       else if maximum < length acc + length (take (read_count d) rest)
       then (Inl ''storage file exceeds safe size limit'', d\<lparr>answers := tl (answers d)\<rparr>)
       else read_loop maximum (drop (read_count d) rest) (acc @ take (read_count d) rest)
              (d\<lparr>answers := tl (answers d)\<rparr>))"
proof (cases "answers d")
  case Nil
  then show ?thesis
    by (intro granted) (subst read_loop.simps, simp add: read_count_def Let_def)
next
  case (Cons a as)
  show ?thesis
  proof (cases a)
    case Interrupted
    then show ?thesis using Cons by (intro interrupted) (simp, subst read_loop.simps, simp add: Let_def)
  next
    case (Refused e)
    then show ?thesis using Cons by (intro refused[of e]) (simp, subst read_loop.simps, simp add: Let_def)
  next
    case Granted
    then show ?thesis
      using Cons by (intro granted) (subst read_loop.simps, simp add: read_count_def Let_def)
  next
    case (Short n)
    then show ?thesis
      using Cons by (intro granted) (subst read_loop.simps, simp add: read_count_def Let_def)
  qed
qed

text \<open>The induction of every lemma on the loop: a call that is interrupted, refused, the last one, or one
  that leaves something to read.\<close>

lemma read_loop_induct [case_names interrupted refused final more]:
  fixes P :: "string \<Rightarrow> string \<Rightarrow> disk \<Rightarrow> bool"
  assumes I: "\<And>rest acc d. \<lbrakk> answers d \<noteq> [];
      read_loop maximum rest acc d = read_loop maximum rest acc (d\<lparr>answers := tl (answers d)\<rparr>);
      P rest acc (d\<lparr>answers := tl (answers d)\<rparr>) \<rbrakk> \<Longrightarrow> P rest acc d"
    and R: "\<And>rest acc d e. \<lbrakk> Refused e \<in> set (answers d);
      read_loop maximum rest acc d = (Inl e, d\<lparr>answers := tl (answers d)\<rparr>) \<rbrakk> \<Longrightarrow> P rest acc d"
    and F: "\<And>rest acc d k. \<lbrakk> rest = [] \<or> maximum < length acc + length (take k rest);
      read_loop maximum rest acc d =
        ((if rest = [] then Inr acc else Inl ''storage file exceeds safe size limit''),
         d\<lparr>answers := tl (answers d)\<rparr>) \<rbrakk> \<Longrightarrow> P rest acc d"
    and M: "\<And>rest acc d k. \<lbrakk> rest \<noteq> []; length acc + length (take k rest) \<le> maximum;
      read_loop maximum rest acc d =
        read_loop maximum (drop k rest) (acc @ take k rest) (d\<lparr>answers := tl (answers d)\<rparr>);
      P (drop k rest) (acc @ take k rest) (d\<lparr>answers := tl (answers d)\<rparr>) \<rbrakk> \<Longrightarrow> P rest acc d"
  shows "P rest acc d"
proof (induction "length rest + length (answers d)" arbitrary: rest acc d rule: less_induct)
  case less
  show ?case
  proof (cases rule: read_loop_cases[of d maximum rest acc])
    case interrupted
    then have "length rest + length (answers (d\<lparr>answers := tl (answers d)\<rparr>)) < length rest + length (answers d)"
      by simp
    then show ?thesis by (rule I[OF interrupted less.hyps])
  next
    case (refused e)
    then show ?thesis by (rule R)
  next
    case granted
    show ?thesis
    proof (cases "rest = [] \<or> maximum < length acc + length (take (read_count d) rest)")
      case True
      then show ?thesis by (rule F) (use True in \<open>auto simp: granted\<close>)
    next
      case False
      then have "length (drop (read_count d) rest) + length (answers (d\<lparr>answers := tl (answers d)\<rparr>))
          < length rest + length (answers d)"
        by (intro add_less_le_mono) (use read_count_pos[of d] in simp_all)
      then show ?thesis
        by (intro M[of rest acc "read_count d" d] less.hyps) (use False in \<open>auto simp: granted\<close>)
    qed
  qed
qed

lemma read_loop_exact:
  "(\<forall>s. fst (read_loop maximum rest acc d) = Inr s \<longrightarrow> s = acc @ rest \<and> (rest \<noteq> [] \<longrightarrow> length s \<le> maximum)) \<and>
   (answers d = [] \<and> length (acc @ rest) \<le> maximum \<longrightarrow>
      fst (read_loop maximum rest acc d) = Inr (acc @ rest)) \<and>
   (answers d = [] \<longrightarrow> answers (snd (read_loop maximum rest acc d)) = [])"
proof (induction rest acc d rule: read_loop_induct[where maximum = maximum])
  case (interrupted rest acc d)
  then show ?case by simp
next
  case (refused rest acc d e)
  then show ?case by (cases "answers d") auto
next
  case (final rest acc d k)
  then show ?case by auto
next
  case (more rest acc d k)
  note ih = more(4)[unfolded append_assoc append_take_drop_id]
  have short: "drop k rest = [] \<Longrightarrow> length (acc @ rest) \<le> maximum" using more(2) by simp
  have used: "answers (d\<lparr>answers := tl (answers d)\<rparr>) = []" if "answers d = []" using that by simp
  show ?case
    unfolding more(3)
  proof (intro conjI allI impI)
    fix s assume "fst (read_loop maximum (drop k rest) (acc @ take k rest) (d\<lparr>answers := tl (answers d)\<rparr>)) = Inr s"
    then show "s = acc @ rest" "length s \<le> maximum" using ih short by metis+
  qed (use ih used in blast)+
qed

end
