(* ===== verification/StorageContents.thy ===== *)
theory StorageContents
  imports SecureStorage
begin

text \<open>
  \<open>write_private_file\<close> and \<open>read_private_file\<close> (\<open>src/core/secure_storage.cpp\<close>): what was written is what
  is read, and a path that is not a private file is refused by every operation.
\<close>

section \<open>Writing and reading back\<close>

definition holds_file :: "string \<Rightarrow> string \<Rightarrow> disk \<Rightarrow> bool" where
  "holds_file path s d \<longleftrightarrow>
     (\<exists>x. nodes d path = Some x \<and> private_file x \<and> node_contents x = s)"

lemma write_loop_holds:
  "holds_file path s d \<Longrightarrow> write_loop path t d = (None, d') \<Longrightarrow> holds_file path (s @ t) d'"
  by (rule write_loop_rule[of "holds_file path" path s d t None d', THEN conjunct1, THEN mp])
    (auto simp: holds_file_def append_contents_def update_node_def private_file_def)

lemma holds_file_call:
  assumes "\<And>n n' x. f n = Inr n' \<Longrightarrow> n path = Some x \<Longrightarrow> n' path = n path"
  shows "spec (holds_file path s) (system_call f) (holds_file path s) (\<lambda>d. True)"
  by (rule spec_system_call) (use assms in \<open>auto simp: holds_file_def\<close>)

lemma check_holds:
  "spec (\<lambda>d. True) (private_regular_file path) (\<lambda>d. \<exists>s. holds_file path s d) (\<lambda>d. True)"
  unfolding private_regular_file_def
  by (rule spec_system_call) (auto simp: file_check_private holds_file_def)

lemma mode_holds:
  "spec (\<lambda>d. \<exists>s. holds_file path s d) (system_call (change_mode path m))
     (\<lambda>d. \<exists>s. holds_file path s d) (\<lambda>d. True)"
  by (rule spec_system_call)
    (auto simp: change_mode_def update_node_def holds_file_def private_file_def)

lemma truncate_holds:
  "spec (\<lambda>d. \<exists>s. holds_file path s d) (system_call (truncate_file path)) (holds_file path []) (\<lambda>d. True)"
  by (rule spec_system_call)
    (auto simp: truncate_file_def update_node_def holds_file_def private_file_def)

lemma flush_holds: "spec (holds_file path s) flush_call (holds_file path s) (\<lambda>d. True)"
  unfolding flush_call_def by (rule holds_file_call) simp

lemma write_all_holds:
  "spec (holds_file path s) (write_all path t) (holds_file path (s @ t)) (\<lambda>d. True)"
  unfolding spec_def write_all_def
  by (auto intro: write_loop_holds split: prod.splits option.splits)

lemma spec_write_private:
  "spec (\<lambda>d. True) (write_private_file path content False) (holds_file path content) (\<lambda>d. True)"
proof -
  have w: "spec (holds_file path []) (write_all path content) (holds_file path content) (\<lambda>d. True)"
    using write_all_holds[of path "[]" content] by simp
  have "spec (\<lambda>d. True) (chain [system_call (open_for_writing path), private_regular_file path,
      system_call (change_mode path owner_read_write), system_call (truncate_file path), flush_call,
      write_all path content, flush_call, flush_call]) (holds_file path content) (\<lambda>d. True)"
    by (rule spec_chain[OF spec_nothing spec_chain[OF check_holds spec_chain[OF mode_holds
          spec_chain[OF truncate_holds spec_chain[OF flush_holds spec_chain[OF w
          spec_chain[OF flush_holds spec_chain[OF flush_holds spec_done]]]]]]]]) simp
  then show ?thesis by (simp add: write_private_file_def del: chain.simps)
qed

text \<open>Reads: what a successful one returns, and when a read succeeds.\<close>

lemma system_call_granted:
  "answers d = [] \<Longrightarrow> f (nodes d) = Inr (nodes d) \<Longrightarrow>
     run_state (system_call f) d = (None, change (nodes d) d)"
  by (simp add: system_call_def)

lemma read_opened:
  "spec (\<lambda>d. nodes d = n) (chain [system_call (open_for_reading path), private_regular_file path])
     (\<lambda>d. nodes d = n \<and> (\<exists>x. n path = Some x \<and> private_file x)) (\<lambda>d. nodes d = n)"
proof -
  have 1: "spec (\<lambda>d. nodes d = n) (system_call (open_for_reading path)) (\<lambda>d. nodes d = n) (\<lambda>d. nodes d = n)"
    by (rule spec_system_call) (auto simp: open_for_reading_def split: option.splits if_splits)
  have 2: "spec (\<lambda>d. nodes d = n) (private_regular_file path)
      (\<lambda>d. nodes d = n \<and> (\<exists>x. n path = Some x \<and> private_file x)) (\<lambda>d. nodes d = n)"
    unfolding private_regular_file_def by (rule spec_system_call) (auto simp: file_check_private)
  show ?thesis by (rule spec_chain[OF 1 spec_chain[OF 2 spec_done]]) simp
qed

lemma read_private_exact:
  assumes "fst (run_state (read_private_file maximum path) d) = Inr s"
  shows "holds_file path s d \<and> (s \<noteq> [] \<longrightarrow> length s \<le> maximum)"
proof -
  obtain r d1 where r: "run_state (chain [system_call (open_for_reading path), private_regular_file path]) d
      = (r, d1)" by (metis surj_pair)
  have rn: "r = None" using assms by (cases r) (simp_all add: read_private_file_def r del: chain.simps)
  then obtain x where x: "nodes d1 = nodes d" "nodes d path = Some x" "private_file x"
    using specD[OF read_opened[of "nodes d" path], of d] by (auto simp: r simp del: chain.simps)
  have "fst (read_loop maximum (node_contents x) [] d1) = Inr s"
    using assms x(1,2)
    by (auto simp: read_private_file_def read_open_file_def r rn split_def simp del: chain.simps
        split: sum.splits option.splits)
  then show ?thesis
    using read_loop_exact[of maximum "node_contents x" "[]" d1] x
    by (auto simp: holds_file_def)
qed

lemma read_private_succeeds:
  assumes "holds_file path s d" "answers d = []" "length s \<le> maximum"
  shows "fst (run_state (read_private_file maximum path) d) = Inr s"
proof -
  obtain x where x: "nodes d path = Some x" "private_file x" "node_contents x = s"
    using assms(1) by (auto simp: holds_file_def)
  have o: "open_for_reading path (nodes d) = Inr (nodes d)" "file_check path (nodes d) = Inr (nodes d)"
    using x by (simp_all add: open_for_reading_def file_check_private private_file_def)
  let ?d = "change (nodes d) (change (nodes d) d)"
  have "run_state (chain [system_call (open_for_reading path), private_regular_file path]) d = (None, ?d)"
    using o assms(2) by (simp add: system_call_granted private_regular_file_def)
  moreover have "fst (read_loop maximum s [] ?d) = Inr s"
    using read_loop_exact[of maximum s "[]" ?d] assms by simp
  moreover obtain e where e: "read_loop maximum s [] ?d = (Inr s, e)"
    using calculation(2) by (metis fst_conv surj_pair)
  moreover have "answers e = []"
    using read_loop_exact[of maximum s "[]" ?d] assms(2) e by simp
  ultimately show ?thesis
    using x by (simp add: read_private_file_def read_open_file_def flush_call_def system_call_def
        del: chain.simps)
qed

section \<open>Files that are not ours\<close>

definition pinned :: "string \<Rightarrow> node option \<Rightarrow> disk \<Rightarrow> bool" where
  "pinned q x = steady (\<lambda>n. n q = x)"

lemma pinned_call:
  "(\<And>n n'. f n = Inr n' \<Longrightarrow> n q = x \<Longrightarrow> n' q = x) \<Longrightarrow>
     spec (pinned q x) (system_call f) (pinned q x) (pinned q x)"
  by (rule spec_system_call) (simp_all add: pinned_def steady_def)

lemma pinned_flush: "spec (pinned q x) flush_call (pinned q x) (pinned q x)"
  unfolding flush_call_def by (rule pinned_call) simp

lemma pinned_fresh: "pinned q (n q) (fresh_disk n as)"
  by (simp add: pinned_def steady_def fresh_disk_def)

lemma foreign_check:
  "\<not> private_file x \<Longrightarrow>
     spec (pinned path (Some x)) (private_regular_file path) (\<lambda>d. False) (pinned path (Some x))"
  unfolding private_regular_file_def
  by (rule spec_system_call) (auto simp: file_check_private pinned_def steady_def)

lemma foreign_open:
  "spec (pinned path (Some x)) (system_call (open_for_writing path)) (pinned path (Some x)) (pinned path (Some x))"
  "spec (pinned path (Some x)) (system_call (open_for_reading path)) (pinned path (Some x)) (pinned path (Some x))"
  by (rule pinned_call;
      auto simp: open_for_writing_def open_for_reading_def split: option.splits if_splits)+

lemma foreign_write:
  assumes "\<not> private_file x"
  shows "spec (pinned path (Some x)) (write_private_file path content b) (\<lambda>d. False) (pinned path (Some x))"
  unfolding write_private_file_def append.simps
  by (rule spec_chain[OF foreign_open(1) spec_chain[OF foreign_check[OF assms] spec_impossible]])

lemma foreign_read:
  assumes "\<not> private_file x" "pinned path (Some x) d"
  shows "\<exists>e. fst (run_state (read_private_file maximum path) d) = Inl e"
proof -
  have "spec (pinned path (Some x)) (chain [system_call (open_for_reading path), private_regular_file path])
      (\<lambda>d. False) (pinned path (Some x))"
    by (rule spec_chain[OF foreign_open(2) spec_chain[OF foreign_check[OF assms(1)] spec_impossible]])
  from specD[OF this assms(2)] show ?thesis
    by (auto simp: read_private_file_def simp del: chain.simps split: prod.splits option.splits)
qed

lemma foreign_replace:
  assumes x: "\<not> private_file x"
  shows "spec (pinned path (Some x)) (replace_private_file_atomically pid path content) (\<lambda>d. False)
    (pinned path (Some x))"
proof (cases "split_path path")
  case None
  then show ?thesis by (simp add: replace_private_file_atomically_def spec_def)
next
  case (Some df)
  obtain directory filename where df: "df = (directory, filename)" by (cases df)
  let ?P = "pinned path (Some x)"
  show ?thesis
  proof (cases "directory = ''/'' \<or> \<not> safe_filename filename")
    case True
    then show ?thesis by (simp add: replace_private_file_atomically_def Some df spec_def)
  next
    case False
    then have "directory \<noteq> path" using split_path_Some[of path directory filename] Some df by simp
    then have m: "spec ?P (system_call (change_mode directory owner_all)) ?P ?P"
      by (intro pinned_call) (auto simp: change_mode_def update_node_def)
    have c: "spec ?P (system_call (directory_check directory)) ?P ?P"
      by (rule pinned_call) (auto simp: directory_check_def split: option.splits if_splits)
    have "spec ?P (private_directory directory) ?P ?P"
      unfolding private_directory_def by (rule spec_chain[OF c spec_chain[OF m spec_chain_Nil]])
    moreover have "spec ?P (check_target path) (\<lambda>d. False) ?P"
      using x unfolding check_target_def
      by (intro spec_system_call) (auto simp: target_check_def pinned_def steady_def)
    ultimately have ch: "spec ?P (chain [private_directory directory, flush_call, check_target path]) (\<lambda>d. False) ?P"
      by (blast intro: spec_chain pinned_flush spec_impossible)
    have b: "(directory = ''/'' \<or> \<not> safe_filename filename) = False" using False by simp
    show ?thesis
      unfolding replace_private_file_atomically_def Some df option.case prod.case b if_False
      by (rule spec_bind[OF ch]) (auto simp: spec_impossible)
  qed
qed

section \<open>Properties\<close>

text \<open>A private file reads back as it was written: after a successful write, a read that
  succeeds returns exactly the contents and never more than its limit, and it does succeed
  when the kernel grants its calls and the contents fit.\<close>

theorem private_file_round_trip:
  "fst (run_state (write_private_file path content False) d) = None \<Longrightarrow>
   (let d' = (snd (run_state (write_private_file path content False) d))\<lparr>answers := as\<rparr>;
        r = fst (run_state (read_private_file maximum path) d')
    in (\<forall>s. r = Inr s \<longrightarrow> s = content \<and> (s \<noteq> [] \<longrightarrow> length s \<le> maximum)) \<and>
       (as = [] \<and> length content \<le> maximum \<longrightarrow> r = Inr content))"
proof -
  assume w: "fst (run_state (write_private_file path content False) d) = None"
  let ?d = "(snd (run_state (write_private_file path content False) d))\<lparr>answers := as\<rparr>"
  have h: "holds_file path content ?d"
    using specD[OF spec_write_private[of path content], of d] w
    by (cases "run_state (write_private_file path content False) d") (simp add: holds_file_def)
  show ?thesis
    unfolding Let_def
    using read_private_exact[of maximum path ?d] read_private_succeeds[OF h] h
    by (auto simp: holds_file_def)
qed

lemma private_file_witness:
  "fst (run_state (read_private_file 3 ''/f'')
     ((snd (run_state (write_private_file ''/f'' ''abc'' False) (fresh_disk (\<lambda>p. None) [Granted, Interrupted])))
        \<lparr>answers := []\<rparr>)) = Inr ''abc''"
proof -
  have "fst (run_state (write_private_file ''/f'' ''abc'' False) (fresh_disk (\<lambda>p. None) [Granted, Interrupted])) = None"
    by code_simp
  from private_file_round_trip[OF this, of "[]" 3] show ?thesis by (simp add: Let_def)
qed

text \<open>C35: Storage never reads or changes what is not a private file: when the path is a symbolic
  link, a device, a hard-linked file or a file of another user, writing and replacing fail
  and leave it as it is at every moment, and reading fails.\<close>

theorem foreign_file_untouched:
  "\<lbrakk> n path = Some x; \<not> private_file x \<rbrakk> \<Longrightarrow>
   (let w = run_state (write_private_file path content b) (fresh_disk n as);
        r = run_state (replace_private_file_atomically pid path content) (fresh_disk n as)
    in fst w \<noteq> None \<and> fst r \<noteq> None \<and> pinned path (Some x) (snd w) \<and> pinned path (Some x) (snd r)) \<and>
   (\<exists>e. fst (run_state (read_private_file maximum path) (fresh_disk n as)) = Inl e)"
  using specD[OF foreign_write[of x path content b], of "fresh_disk n as"]
    specD[OF foreign_replace[of x path pid content], of "fresh_disk n as"]
    foreign_read[of x path "fresh_disk n as" maximum] pinned_fresh[of path n as]
  by (simp add: Let_def split: prod.splits option.splits)

definition link_node :: node where
  "link_node = \<lparr>node_kind = SymbolicLink, node_owned = True, node_links = 1, node_mode = 511,
     node_contents = ''/etc/passwd''\<rparr>"

lemma foreign_file_witness:
  "fst (run_state (write_private_file ''/f'' ''x'' True) (fresh_disk (\<lambda>p. Some link_node) [])) \<noteq> None"
proof -
  have "\<not> private_file link_node" by (simp add: private_file_def link_node_def)
  from foreign_file_untouched[of "\<lambda>p. Some link_node" "''/f''", OF refl this, of "''x''" True "[]" 0 0]
  show ?thesis by (simp add: Let_def)
qed

end
