(* ===== verification/StoredMode.thy ===== *)
theory StoredMode
  imports StorageContents
begin

text \<open>
  The operating mode on the disk: \<open>OperatingModeStore\<close> (\<open>src/security/operating_mode.cpp\<close>) over the
  secure storage, and the directories that the storage makes for its files.
\<close>

section \<open>The stored mode\<close>

definition owned_directory :: "string \<Rightarrow> disk \<Rightarrow> bool" where
  "owned_directory p d \<longleftrightarrow>
     (\<exists>y. nodes d p = Some y \<and> node_kind y = DirectoryNode \<and> node_owned y)"

lemma owned_directory_call:
  "(\<And>n n'. f n = Inr n' \<Longrightarrow> n' p = n p) \<Longrightarrow>
     spec (owned_directory p) (system_call f) (owned_directory p) (\<lambda>d. True)"
proof (rule spec_system_call)
  fix d as n
  assume f: "\<And>n n'. f n = Inr n' \<Longrightarrow> n' p = n p" and d: "owned_directory p d" "f (nodes d) = Inr n"
  show "owned_directory p (change n (d\<lparr>answers := as\<rparr>))"
    using d(1) f[OF d(2)] by (simp add: owned_directory_def)
qed simp

lemma owned_directory_write:
  assumes "p \<noteq> path"
  shows "spec (owned_directory p) (write_private_file path content False) (owned_directory p) (\<lambda>d. True)"
proof -
  have o: "spec (owned_directory p) (system_call f) (owned_directory p) (\<lambda>d. True)"
    if "f = open_for_writing path \<or> f = file_check path \<or> f = change_mode path m \<or>
        f = truncate_file path \<or> f = Inr" for f m
    using that assms
    by (intro owned_directory_call)
      (auto simp: open_for_writing_def file_check_private change_mode_def truncate_file_def
        update_node_def split: option.splits if_splits)
  have w: "spec (owned_directory p) (write_all path content) (owned_directory p) (\<lambda>d. True)"
    using assms unfolding spec_def write_all_def
    by (auto simp: owned_directory_def write_loop_other split: prod.splits option.splits)
  note calls = o[of "open_for_writing path"] o[of "file_check path"]
    o[of "change_mode path owner_read_write" owner_read_write] o[of "truncate_file path"] o[of Inr]
  show ?thesis
    unfolding write_private_file_def private_regular_file_def flush_call_def append.simps if_False
    by (rule spec_chain[OF calls(1) spec_chain[OF calls(2) spec_chain[OF calls(3)
          spec_chain[OF calls(4) spec_chain[OF calls(5) spec_chain[OF w
          spec_chain[OF calls(5) spec_chain[OF calls(5) spec_done]]]]]]]]; simp)
qed

lemma private_directory_owned:
  "spec (\<lambda>d. True) (private_directory p) (owned_directory p) (\<lambda>d. True)"
proof -
  have "spec (\<lambda>d. True) (system_call (directory_check p)) (owned_directory p) (\<lambda>d. True)"
    by (rule spec_system_call)
      (auto simp: directory_check_def owned_directory_def split: option.splits if_splits)
  moreover have "spec (owned_directory p) (system_call (change_mode p owner_all)) (owned_directory p) (\<lambda>d. True)"
    by (rule spec_system_call) (auto simp: change_mode_def update_node_def owned_directory_def)
  ultimately show ?thesis
    unfolding private_directory_def by (blast intro: spec_chain spec_done)
qed

text \<open>Directories that are made: nothing that existed changes.\<close>

lemma make_directory_facts:
  "make_directory p n = Inr n' \<Longrightarrow>
     n' p \<noteq> None \<and> (\<forall>q. n' q = n q \<or> (q = p \<and> n q = None \<and> n' q = Some new_directory))"
  by (auto simp: make_directory_def split: option.splits if_splits)

lemma make_directories_facts:
  "make_directories ps n = Inr n' \<Longrightarrow>
     (\<forall>p\<in>set ps. n' p \<noteq> None) \<and>
     (\<forall>q. n' q = n q \<or> (q \<in> set ps \<and> n q = None \<and> n' q = Some new_directory))"
proof (induction ps arbitrary: n)
  case (Cons p ps)
  then obtain m where m: "make_directory p n = Inr m" "make_directories ps m = Inr n'"
    by (auto split: sum.splits)
  note f = make_directory_facts[OF m(1)] Cons.IH[OF m(2)]
  have "n' p \<noteq> None" using f by (metis option.distinct(1))
  moreover have "n' q = n q \<or> (q \<in> set (p # ps) \<and> n q = None \<and> n' q = Some new_directory)" for q
    using f by (metis list.set_intros option.distinct(1))
  ultimately show ?case using f(2) by auto
qed simp

lemma created_directories:
  assumes "create_directories path n = Inr n'"
  shows "n' path \<noteq> None"
    "n' q = n q \<or> (q \<in> set (path_steps path) \<and> n q = None \<and> n' q = Some new_directory)"
  using make_directories_facts[OF assms[unfolded create_directories_def]]
  by (auto simp: path_steps_def)

lemma path_steps_length: "q \<in> set (path_steps path) \<Longrightarrow> length q \<le> length path"
  by (auto simp: path_steps_def)

lemma created_directory_owned:
  "spec (\<lambda>d. True) (chain [system_call (create_directories p), check_existing p])
     (owned_directory p) (\<lambda>d. True)"
proof -
  have 1: "spec (\<lambda>d. True) (system_call (create_directories p)) (\<lambda>d. nodes d p \<noteq> None) (\<lambda>d. True)"
    by (rule spec_system_call) (auto dest: created_directories(1))
  have 2: "spec (\<lambda>d. nodes d p \<noteq> None) (check_existing p) (owned_directory p) (\<lambda>d. True)"
    using private_directory_owned[of p] by (auto simp: spec_def check_existing_def)
  show ?thesis by (rule spec_chain[OF 1 spec_chain[OF 2 spec_done]]) simp
qed

lemma check_existing_owned:
  assumes "owned_directory p d" "answers d = []"
  shows "\<exists>d'. run_state (check_existing p) d = (None, d') \<and> answers d' = [] \<and>
    (\<forall>q. q \<noteq> p \<longrightarrow> nodes d' q = nodes d q)"
proof -
  obtain y where y: "nodes d p = Some y" "node_kind y = DirectoryNode" "node_owned y"
    using assms(1) by (auto simp: owned_directory_def)
  then have "directory_check p (nodes d) = Inr (nodes d)" by (simp add: directory_check_def)
  then show ?thesis
    using y assms(2)
    by (simp add: check_existing_def private_directory_def system_call_def change_mode_def update_node_def)
qed

lemma storage_path_facts:
  "path_append d ''mode'' \<noteq> []" "path_append d ''mode'' \<noteq> d"
  by (simp_all add: path_append_def)

lemma safe_mode_name: "safe_filename ''mode''"
  by (simp add: safe_filename_def find_any_def)

lemma mode_load_stored:
  assumes dir: "storage_directory env ConfigArea = Some dir" and own: "owned_directory dir d"
    and f: "holds_file (path_append dir ''mode'') s d" and a: "answers d = []" and l: "length s \<le> 7"
  shows "fst (run_state (mode_load (disk_mode_storage env)) d) = interpret_mode_file s"
proof -
  let ?p = "path_append dir ''mode''"
  obtain d1 where d1: "run_state (check_existing dir) d = (None, d1)" "answers d1 = []"
    "\<forall>q. q \<noteq> dir \<longrightarrow> nodes d1 q = nodes d q"
    using check_existing_owned[OF own a] by blast
  have f1: "holds_file ?p s d1"
    using f d1(3) storage_path_facts(2)[of dir] by (simp add: holds_file_def)
  have "fst (run_state (read_private_file default_read_limit ?p) (d1\<lparr>answers := []\<rparr>)) = Inr s"
    by (rule read_private_succeeds) (use f1 l in \<open>simp_all add: default_read_limit_def holds_file_def\<close>)
  moreover have "nodes d1 ?p \<noteq> None"
    using f1 by (auto simp: holds_file_def)
  ultimately show ?thesis
    using d1(1,2) safe_mode_name storage_path_facts(1)[of dir]
    by (simp add: mode_load_def disk_mode_storage_def secure_local_path_def dir split_def)
qed

lemma mode_save_stores:
  assumes "fst (fst (run_state (mode_save (disk_mode_storage env) m) d))"
  obtains dir where "storage_directory env ConfigArea = Some dir"
    "owned_directory dir (snd (run_state (mode_save (disk_mode_storage env) m) d))"
    "holds_file (path_append dir ''mode'') (mode_file_value m)
       (snd (run_state (mode_save (disk_mode_storage env) m) d))"
proof (cases "storage_directory env ConfigArea")
  case None
  then show ?thesis
    using assms by (simp add: mode_save_def disk_mode_storage_def secure_local_path_def safe_mode_name)
next
  case (Some dir)
  let ?p = "path_append dir ''mode''"
  obtain r d1 where r: "run_state (chain [system_call (create_directories dir), check_existing dir]) d = (r, d1)"
    by (metis surj_pair)
  obtain w d2 where w: "run_state (write_private_file ?p (mode_file_value m) False) d1 = (w, d2)"
    by (metis surj_pair)
  have run: "run_state (mode_save (disk_mode_storage env) m) d =
      (case r of Some e \<Rightarrow> ((False, e), d1)
       | None \<Rightarrow> (case w of Some e \<Rightarrow> ((False, e), d2) | None \<Rightarrow> ((True, ?p), d2)))"
    using r w storage_path_facts(1)[of dir]
    by (cases r; cases w)
      (simp_all add: mode_save_def disk_mode_storage_def secure_local_path_def safe_mode_name Some
        split_def del: chain.simps)
  have ok: "r = None" "w = None"
    using assms by (auto simp: run split: option.splits)
  have o: "owned_directory dir d1"
    using specD[OF created_directory_owned[of dir], of d] by (simp add: r ok del: chain.simps)
  have "owned_directory dir d2"
    using specD[OF owned_directory_write[of dir ?p "mode_file_value m"] o] storage_path_facts(2)[of dir]
    by (simp add: w ok)
  moreover have "holds_file ?p (mode_file_value m) d2"
    using specD[OF spec_write_private[of ?p "mode_file_value m"], of d1] by (simp add: w ok)
  ultimately show ?thesis
    using that[OF Some] by (simp add: run ok)
qed

section \<open>Properties\<close>

text \<open>A mode that was saved is the mode that the next start loads, for every environment and
  every state of the disk.\<close>

theorem saved_mode_is_loaded:
  "fst (fst (run_state (mode_save (disk_mode_storage env) m) d)) \<Longrightarrow>
   fst (run_state (mode_load (disk_mode_storage env))
     ((snd (run_state (mode_save (disk_mode_storage env) m) d))\<lparr>answers := []\<rparr>)) =
   \<lparr>loaded_mode = m, load_status = LoadAvailable, load_diagnostic = []\<rparr>"
proof -
  assume ok: "fst (fst (run_state (mode_save (disk_mode_storage env) m) d))"
  obtain dir where dir: "storage_directory env ConfigArea = Some dir"
    "owned_directory dir (snd (run_state (mode_save (disk_mode_storage env) m) d))"
    "holds_file (path_append dir ''mode'') (mode_file_value m)
       (snd (run_state (mode_save (disk_mode_storage env) m) d))"
    using mode_save_stores[OF ok] .
  show ?thesis
    using dir(2,3) unfolding interpret_mode_file_value(1)[symmetric]
    by (intro mode_load_stored[OF dir(1)])
      (simp_all add: owned_directory_def holds_file_def mode_file_value_def)
qed

definition example_environment :: environment where
  "example_environment = \<lparr>xdg_config_home = None, xdg_state_home = None, home_variable = Some ''/h''\<rparr>"

lemma saved_mode_witness:
  "fst (run_state (mode_load (disk_mode_storage example_environment))
     ((snd (run_state (mode_save (disk_mode_storage example_environment) HostileNetwork)
        (fresh_disk (\<lambda>p. None) [])))\<lparr>answers := []\<rparr>)) =
   \<lparr>loaded_mode = HostileNetwork, load_status = LoadAvailable, load_diagnostic = []\<rparr>"
  by (rule saved_mode_is_loaded)
    (simp add: mode_save_def disk_mode_storage_def secure_local_path_def safe_mode_name
      storage_directory_def example_environment_def path_append_def check_existing_def
      private_directory_def system_call_def create_directories_def path_steps_def upt_rec make_directory_def directory_check_def change_mode_def
      fresh_disk_def new_directory_def update_node_def write_private_file_def open_for_writing_def
      private_regular_file_def file_check_def truncate_file_def flush_call_def write_all_def
      write_loop.simps append_contents_def mode_file_value_def new_file_def Let_def)

end
