(* ===== verification/Credentials.thy ===== *)
theory Credentials
  imports StoredMode
begin

text \<open>
  \<open>src/security/credentials.cpp\<close>: the key of the geolocation service.  It comes from the
  environment variable \<open>FFC_IPIFY_API_KEY\<close> (the parameter \<open>variable\<close>) when that holds a valid
  key, and from an owner-only file otherwise; no key is the empty string.
\<close>

definition is_valid_ipify_api_key :: "string \<Rightarrow> bool" where
  "is_valid_ipify_api_key key \<longleftrightarrow>
     key \<noteq> [] \<and> length key \<le> 128 \<and>
     list_all (\<lambda>c. is_alnum c \<or> c = CHR ''_'' \<or> c = CHR ''-'') key"

definition key_file :: string where
  "key_file = ''ipify.key''"

definition first_line :: "string \<Rightarrow> string" where
  "first_line s = takeWhile (\<lambda>c. c \<noteq> newline_char) s"

definition credentials_load :: "string option \<Rightarrow> environment \<Rightarrow> (disk, string) state" where
  "credentials_load variable env =
     (if \<exists>k\<in>set_option variable. is_valid_ipify_api_key k then State_Monad.return (the variable)
      else do {
        path \<leftarrow> secure_local_path env ConfigArea key_file False;
        case path of
          Inl e \<Rightarrow> State_Monad.return []
        | Inr p \<Rightarrow> do {
            content \<leftarrow> read_private_file default_read_limit p;
            State_Monad.return
              (case content of
                 Inl e \<Rightarrow> []
               | Inr s \<Rightarrow> if is_valid_ipify_api_key (first_line s) then first_line s else [])
          }
      })"

text \<open>The flag of \<open>save\<close> and the text it leaves in \<open>result\<close>: an error, or the path of the file.\<close>

definition credentials_save :: "environment \<Rightarrow> string \<Rightarrow> (disk, bool \<times> string) state" where
  "credentials_save env key =
     (if \<not> is_valid_ipify_api_key key then State_Monad.return (False, ''key format is invalid'')
      else do {
        path \<leftarrow> secure_local_path env ConfigArea key_file True;
        case path of
          Inl e \<Rightarrow> State_Monad.return (False, e)
        | Inr p \<Rightarrow> do {
            written \<leftarrow> write_private_file p key False;
            State_Monad.return (case written of Some e \<Rightarrow> (False, e) | None \<Rightarrow> (True, p))
          }
      })"

section \<open>Keys that are loaded\<close>

lemma credentials_load_valid:
  "fst (run_state (credentials_load variable env) d) = [] \<or>
   is_valid_ipify_api_key (fst (run_state (credentials_load variable env) d))"
  by (auto simp: credentials_load_def split_def split: sum.splits option.splits)

lemma path_append_name: "f \<noteq> [] \<Longrightarrow> path_append d f \<noteq> [] \<and> path_append d f \<noteq> d"
  by (auto simp: path_append_def)

text \<open>A path that was resolved with its directory.\<close>

lemma created_path:
  assumes "run_state (secure_local_path env area f True) d = (Inr p, d')"
  obtains dir where "storage_directory env area = Some dir" "p = path_append dir f"
    "owned_directory dir d'" "safe_filename f"
proof (cases "storage_directory env area")
  case None
  then show ?thesis using assms by (simp add: secure_local_path_def split: if_splits)
next
  case (Some dir)
  have safe: "safe_filename f" using assms by (simp add: secure_local_path_def split: if_splits)
  obtain r d1 where r: "run_state (chain [system_call (create_directories dir), check_existing dir]) d = (r, d1)"
    by (metis surj_pair)
  have "r = None \<and> d1 = d' \<and> p = path_append dir f"
    using assms safe r
    by (cases r) (simp_all add: secure_local_path_def Some del: chain.simps)
  note r = r this
  have "owned_directory dir d'"
    using specD[OF created_directory_owned[of dir], of d] by (simp add: r del: chain.simps)
  then show ?thesis using that Some r(2) safe by blast
qed

lemma resolved_path:
  assumes "storage_directory env area = Some dir" "owned_directory dir d" "answers d = []" "safe_filename f"
  obtains d' where "run_state (secure_local_path env area f False) d = (Inr (path_append dir f), d')"
    "answers d' = []" "\<forall>q. q \<noteq> dir \<longrightarrow> nodes d' q = nodes d q"
  using check_existing_owned[OF assms(2,3)] assms(1,4)
  by (auto simp: secure_local_path_def)

lemma credentials_save_stores:
  assumes "fst (fst (run_state (credentials_save env key) d))"
  obtains dir where "storage_directory env ConfigArea = Some dir"
    "owned_directory dir (snd (run_state (credentials_save env key) d))"
    "holds_file (path_append dir key_file) key (snd (run_state (credentials_save env key) d))"
    "is_valid_ipify_api_key key"
proof -
  have valid: "is_valid_ipify_api_key key" using assms by (simp add: credentials_save_def split: if_splits)
  obtain q d1 where q: "run_state (secure_local_path env ConfigArea key_file True) d = (q, d1)"
    by (metis surj_pair)
  obtain p where p: "q = Inr p" using assms valid q by (cases q) (simp_all add: credentials_save_def)
  obtain dir where dir: "storage_directory env ConfigArea = Some dir" "p = path_append dir key_file"
    "owned_directory dir d1" using created_path q p by blast
  obtain w d2 where w: "run_state (write_private_file p key False) d1 = (w, d2)" by (metis surj_pair)
  have run: "run_state (credentials_save env key) d =
      (case w of Some e \<Rightarrow> ((False, e), d2) | None \<Rightarrow> ((True, p), d2))"
    using valid q p w by (cases w) (simp_all add: credentials_save_def)
  have wn: "w = None" using assms run by (cases w) simp_all
  have "p \<noteq> dir" using dir(2) path_append_name[of key_file dir] by (simp add: key_file_def)
  then have "owned_directory dir d2"
    using specD[OF owned_directory_write[of dir p key] dir(3)] by (simp add: w wn)
  moreover have "holds_file p key d2"
    using specD[OF spec_write_private[of p key], of d1] by (simp add: w wn)
  ultimately show ?thesis using that dir valid run wn by simp
qed

lemma first_line_key: "is_valid_ipify_api_key key \<Longrightarrow> first_line key = key"
  by (auto simp: first_line_def takeWhile_eq_all_conv is_valid_ipify_api_key_def list_all_iff
      is_alnum_def is_digit_def is_upper_def is_lower_def)

section \<open>Properties\<close>

text \<open>C34: A key that was saved is the key that the next start loads, unless the environment names a
  valid one, which takes precedence; what is loaded is always empty or a valid key.\<close>

theorem saved_key_is_loaded:
  "fst (fst (run_state (credentials_save env key) d)) \<Longrightarrow>
   fst (run_state (credentials_load variable env)
     ((snd (run_state (credentials_save env key) d))\<lparr>answers := []\<rparr>)) =
   (case variable of Some k \<Rightarrow> if is_valid_ipify_api_key k then k else key | None \<Rightarrow> key)"
proof -
  assume ok: "fst (fst (run_state (credentials_save env key) d))"
  let ?d = "(snd (run_state (credentials_save env key) d))\<lparr>answers := []\<rparr>"
  obtain dir where dir: "storage_directory env ConfigArea = Some dir" "owned_directory dir ?d"
    "holds_file (path_append dir key_file) key ?d" "is_valid_ipify_api_key key"
    by (rule credentials_save_stores[OF ok]) (auto simp: holds_file_def owned_directory_def)
  have "safe_filename key_file" by (simp add: safe_filename_def find_any_def key_file_def)
  moreover have "answers ?d = []" by simp
  ultimately obtain d' where d': "run_state (secure_local_path env ConfigArea key_file False) ?d =
      (Inr (path_append dir key_file), d')" "answers d' = []" "\<forall>q. q \<noteq> dir \<longrightarrow> nodes d' q = nodes ?d q"
    using resolved_path[OF dir(1,2)] by blast
  have "path_append dir key_file \<noteq> dir" using path_append_name by (simp add: key_file_def)
  then have "holds_file (path_append dir key_file) key d'" using dir(3) d'(3) by (simp add: holds_file_def)
  moreover have "length key \<le> default_read_limit"
    using dir(4) by (simp add: is_valid_ipify_api_key_def default_read_limit_def)
  ultimately have r: "fst (run_state (read_private_file default_read_limit (path_append dir key_file)) d') = Inr key"
    using read_private_succeeds d'(2) by blast
  show ?thesis
    using d'(1) r dir(4) first_line_key[OF dir(4)]
    by (cases variable) (auto simp: credentials_load_def split_def)
qed

lemma saved_key_witness:
  "fst (run_state (credentials_load None example_environment)
     ((snd (run_state (credentials_save example_environment ''at_7-x'')
        (fresh_disk (\<lambda>p. None) [])))\<lparr>answers := []\<rparr>)) = ''at_7-x''"
proof -
  have "fst (fst (run_state (credentials_save example_environment ''at_7-x'') (fresh_disk (\<lambda>p. None) [])))"
    by (simp add: credentials_save_def is_valid_ipify_api_key_def is_alnum_def is_digit_def is_lower_def
        is_upper_def secure_local_path_def safe_filename_def find_any_def key_file_def
        storage_directory_def example_environment_def path_append_def check_existing_def
        private_directory_def system_call_def create_directories_def path_steps_def upt_rec make_directory_def directory_check_def change_mode_def
        fresh_disk_def new_directory_def update_node_def write_private_file_def open_for_writing_def
        private_regular_file_def file_check_def truncate_file_def flush_call_def write_all_def
        write_loop.simps append_contents_def new_file_def Let_def)
  from saved_key_is_loaded[OF this, of None] show ?thesis by simp
qed

end
