(* ===== verification/Calendar.thy ===== *)
theory Calendar
  imports Prelude "HOL-Library.Signed_Division"
begin

text \<open>
  The UTC calendar of \<open>gmtime_r\<close> and the \<open>std::put_time\<close> formats of the sources.  A time
  point of the system clock is a count of nanoseconds since the epoch, and \<open>to_time_t\<close>
  truncates it to seconds.
\<close>

section \<open>Civil dates\<close>

definition is_leap :: "int \<Rightarrow> bool" where
  "is_leap y \<longleftrightarrow> 4 dvd y \<and> (\<not> 100 dvd y \<or> 400 dvd y)"

definition year_length :: "int \<Rightarrow> int" where
  "year_length y = (if is_leap y then 366 else 365)"

text \<open>The year of a day number and the day within it, counted from the first day of \<open>y\<close>.\<close>

function split_year :: "int \<Rightarrow> int \<Rightarrow> int \<times> int" where
  "split_year y d =
     (if d < 0 then split_year (y - 1) (d + year_length (y - 1))
      else if year_length y \<le> d then split_year (y + 1) (d - year_length y)
      else (y, d))"
  by auto

termination
  by (relation "measure (\<lambda>(y, d). nat (if d < 0 then 400 - d else d))")
    (auto simp: year_length_def split: if_splits)

declare split_year.simps [simp del]

definition month_lengths :: "int \<Rightarrow> int list" where
  "month_lengths y = [31, if is_leap y then 29 else 28, 31, 30, 31, 30, 31, 31, 30, 31, 30, 31]"

fun split_month :: "nat \<Rightarrow> int list \<Rightarrow> int \<Rightarrow> nat \<times> int" where
  "split_month m [] d = (m, d)"
| "split_month m (l # ls) d = (if d < l then (m, d) else split_month (Suc m) ls (d - l))"

text \<open>Year, month and day of the month of a number of days since 1970-01-01.\<close>

definition civil_from_days :: "int \<Rightarrow> int \<times> nat \<times> int" where
  "civil_from_days days =
     (let (y, doy) = split_year 1970 days; (m, d) = split_month 1 (month_lengths y) doy
      in (y, m, d + 1))"

section \<open>Formats\<close>

definition two_digits :: "nat \<Rightarrow> string" where
  "two_digits n = [char_of (48 + n div 10 mod 10), char_of (48 + n mod 10)]"

definition time_of_day :: "int \<Rightarrow> string" where
  "time_of_day seconds =
     (let s = nat (seconds mod 86400)
      in two_digits (s div 3600) @ '':'' @ two_digits (s div 60 mod 60) @ '':'' @ two_digits (s mod 60))"

definition to_time_t :: "int \<Rightarrow> int" where
  "to_time_t t = t sdiv 1000000000"

text \<open>The format \<open>%Y-%m-%dT%H:%M:%SZ\<close>.\<close>

definition iso_timestamp :: "int \<Rightarrow> string" where
  "iso_timestamp t =
     (let s = to_time_t t; (y, m, d) = civil_from_days (s div 86400)
      in show_nat (nat y) @ ''-'' @ two_digits m @ ''-'' @ two_digits (nat d) @ ''T'' @
         time_of_day s @ ''Z'')"

section \<open>Correctness of the calendar\<close>

text \<open>The number of days from year 1 to the first day of a year, in closed form.\<close>

definition days_before_year :: "int \<Rightarrow> int" where
  "days_before_year y = 365 * y + (y - 1) div 4 - (y - 1) div 100 + (y - 1) div 400"

lemma div_step: "0 < k \<Longrightarrow> y div k - (y - 1) div k = (if k dvd y then 1 else (0::int))"
proof -
  assume k: "0 < k"
  define q r where "q = y div k" and "r = y mod k"
  have y: "y = k * q + r" and r: "0 \<le> r" "r < k" using k by (simp_all add: q_def r_def)
  show ?thesis
  proof (cases "r = 0")
    case True
    have "(y - 1) div k = q - 1"
      by (rule int_div_pos_eq[where r = "k - 1"]) (use y True k in \<open>simp_all add: algebra_simps\<close>)
    with True show ?thesis by (simp add: q_def r_def dvd_eq_mod_eq_0)
  next
    case False
    have "(y - 1) div k = q"
      by (rule int_div_pos_eq[where r = "r - 1"]) (use y False r in simp_all)
    with False show ?thesis by (simp add: q_def r_def dvd_eq_mod_eq_0)
  qed
qed

lemma year_length_eq: "year_length y = days_before_year (y + 1) - days_before_year y"
proof -
  have h: "100 dvd y \<Longrightarrow> 4 dvd y" "400 dvd y \<Longrightarrow> 100 dvd y"
    by (rule dvd_trans[of 4 100], simp_all, rule dvd_trans[of 100 400], simp_all)
  have steps: "y div 4 - (y - 1) div 4 = (if 4 dvd y then 1 else 0)"
    "y div 100 - (y - 1) div 100 = (if 100 dvd y then 1 else 0)"
    "y div 400 - (y - 1) div 400 = (if 400 dvd y then 1 else 0)"
    by (rule div_step, simp)+
  have "days_before_year (y + 1) - days_before_year y =
      365 + (y div 4 - (y - 1) div 4) - (y div 100 - (y - 1) div 100) + (y div 400 - (y - 1) div 400)"
    by (simp add: days_before_year_def)
  also have "\<dots> = year_length y"
    unfolding steps year_length_def is_leap_def using h
    by (cases "4 dvd y"; cases "100 dvd y"; cases "400 dvd y") simp_all
  finally show ?thesis by simp
qed

lemma split_year_correct:
  "split_year y d = (y', d') \<Longrightarrow>
     0 \<le> d' \<and> d' < year_length y' \<and> days_before_year y' + d' = days_before_year y + d"
proof (induction y d rule: split_year.induct)
  case (1 y d)
  consider "d < 0" | "0 \<le> d" "year_length y \<le> d" | "0 \<le> d" "d < year_length y" by linarith
  then show ?case
  proof cases
    case 1
    with "1.IH"(1) "1.prems" show ?thesis
      using year_length_eq[of "y - 1"] by (simp add: split_year.simps[of y d])
  next
    case 2
    with "1.IH"(2) "1.prems" show ?thesis
      using year_length_eq[of y] by (simp add: split_year.simps[of y d])
  next
    case 3
    with "1.prems" show ?thesis by (simp add: split_year.simps[of y d])
  qed
qed

lemma split_month_correct:
  "split_month m ls d = (m', d') \<Longrightarrow> 0 \<le> d \<Longrightarrow> d < sum_list ls \<Longrightarrow>
     m \<le> m' \<and> m' < m + length ls \<and> 0 \<le> d' \<and> d' < ls ! (m' - m) \<and>
     d = sum_list (take (m' - m) ls) + d'"
proof (induction ls arbitrary: m d)
  case Nil
  then show ?case by simp
next
  case (Cons l ls)
  show ?case
  proof (cases "d < l")
    case True
    with Cons.prems show ?thesis by simp
  next
    case False
    with Cons.IH[of "Suc m" "d - l"] Cons.prems
    show ?thesis by (auto simp: nth_Cons' take_Cons' Suc_diff_le)
  qed
qed

lemma sum_month_lengths: "sum_list (month_lengths y) = year_length y"
  by (simp add: month_lengths_def year_length_def)

text \<open>A date is in the calendar, and the day number is recovered from it.\<close>

definition days_from_civil :: "int \<Rightarrow> nat \<Rightarrow> int \<Rightarrow> int" where
  "days_from_civil y m d =
     days_before_year y - days_before_year 1970 + sum_list (take (m - 1) (month_lengths y)) + d - 1"

lemma civil_from_days_correct:
  assumes "civil_from_days days = (y, m, d)"
  shows "1 \<le> m" "m \<le> 12" "1 \<le> d" "d \<le> month_lengths y ! (m - 1)" "days_from_civil y m d = days"
proof -
  obtain y' doy where sy: "split_year 1970 days = (y', doy)" by fastforce
  obtain m' d' where sm: "split_month 1 (month_lengths y') doy = (m', d')" by fastforce
  have eq: "y = y'" "m = m'" "d = d' + 1"
    using assms sy sm by (simp_all add: civil_from_days_def)
  note year = split_year_correct[OF sy]
  note month = split_month_correct[OF sm, unfolded sum_month_lengths]
  show "1 \<le> m" "m \<le> 12" "1 \<le> d" "d \<le> month_lengths y ! (m - 1)" "days_from_civil y m d = days"
    using year month eq by (auto simp: days_from_civil_def month_lengths_def)
qed

section \<open>The characters of a time stamp\<close>

definition is_stamp_char :: "char \<Rightarrow> bool" where
  "is_stamp_char c \<longleftrightarrow> is_digit c \<or> c \<in> {CHR ''-'', CHR '':'', CHR ''T'', CHR ''Z''}"

lemma two_digits_chars: "\<forall>c\<in>set (two_digits n). is_digit c"
  by (simp add: two_digits_def is_digit_char_of)

lemma time_of_day_chars: "\<forall>c\<in>set (time_of_day s). is_stamp_char c"
  using two_digits_chars by (auto simp: time_of_day_def is_stamp_char_def Let_def)

lemma iso_timestamp_chars: "\<forall>c\<in>set (iso_timestamp t). is_stamp_char c"
  using two_digits_chars show_nat_digits time_of_day_chars[of "to_time_t t"]
  by (auto simp: iso_timestamp_def is_stamp_char_def Let_def split: prod.split)

section \<open>The length of a time stamp\<close>

text \<open>Every time of the 64-bit clock falls in a year of four digits.\<close>

definition clock_time :: "int \<Rightarrow> bool" where
  "clock_time t \<longleftrightarrow> - (2 ^ 63) \<le> t \<and> t < 2 ^ 63"

lemma civil_year_four_digits:
  assumes "civil_from_days days = (y, m, d)" "\<bar>days\<bar> \<le> 200000"
  shows "1000 \<le> y" "y \<le> 9999"
proof -
  obtain doy where sy: "split_year 1970 days = (y, doy)"
    using assms(1) by (auto simp: civil_from_days_def split: prod.splits)
  note facts = split_year_correct[OF sy]
  have doy: "0 \<le> doy" "doy < 366" using facts by (auto simp: year_length_def split: if_splits)
  have eq: "days_before_year y = days - doy + 719527"
    using facts by (simp add: days_before_year_def)
  show "1000 \<le> y"
  proof (rule ccontr)
    assume "\<not> 1000 \<le> y"
    then have "(y - 1) div 4 \<le> 250" "(y - 1) div 400 \<le> 3" "(y - 1) div 100 \<ge> (y - 1) div 100"
      by linarith+
    moreover have "(y - 1) div 4 - (y - 1) div 100 \<le> 250"
      using \<open>\<not> 1000 \<le> y\<close> by linarith
    ultimately have "days_before_year y \<le> 365 * 999 + 253"
      using \<open>\<not> 1000 \<le> y\<close> unfolding days_before_year_def by linarith
    then show False using eq doy assms(2) by linarith
  qed
  show "y \<le> 9999"
  proof (rule ccontr)
    assume "\<not> y \<le> 9999"
    then have "(y - 1) div 100 \<le> (y - 1) div 4" "0 \<le> (y - 1) div 400"
      by linarith+
    then have "365 * 10000 \<le> days_before_year y"
      using \<open>\<not> y \<le> 9999\<close> unfolding days_before_year_def by linarith
    then show False using eq doy assms(2) by linarith
  qed
qed

lemma show_nat_length_four: "1000 \<le> n \<Longrightarrow> n \<le> 9999 \<Longrightarrow> length (show_nat n) = 4"
proof -
  assume n: "1000 \<le> n" "n \<le> 9999"
  have one: "length (show_nat k) = 1" if "k < 10" for k
    using that by (subst show_nat.simps) simp
  have two: "length (show_nat k) = 2" if "10 \<le> k" "k < 100" for k
    using that one[of "k div 10"] by (subst show_nat.simps) simp
  have three: "length (show_nat k) = 3" if "100 \<le> k" "k < 1000" for k
    using that two[of "k div 10"] by (subst show_nat.simps) simp
  show ?thesis using n three[of "n div 10"] by (subst show_nat.simps) simp
qed

lemma time_of_day_length: "length (time_of_day s) = 8"
  by (simp add: time_of_day_def two_digits_def Let_def)

lemma to_time_t_bounds:
  assumes "clock_time t"
  shows "\<bar>to_time_t t div 86400\<bar> \<le> 200000"
proof -
  have "\<bar>to_time_t t\<bar> = \<bar>t\<bar> div 1000000000"
    by (simp add: to_time_t_def signed_divide_int_def sgn_mult abs_mult sgn_if)
  moreover have "\<bar>t\<bar> \<le> 9223372036854775808" using assms by (auto simp: clock_time_def)
  ultimately have "\<bar>to_time_t t\<bar> \<le> 9223372037" by linarith
  then show ?thesis by linarith
qed

lemma iso_timestamp_length:
  assumes "clock_time t"
  shows "length (iso_timestamp t) = 20"
proof -
  obtain y m d where c: "civil_from_days (to_time_t t div 86400) = (y, m, d)" by (cases "civil_from_days (to_time_t t div 86400)")
  have "1000 \<le> nat y" "nat y \<le> 9999"
    using civil_year_four_digits[OF c to_time_t_bounds[OF assms]] by simp_all
  then show ?thesis
    by (simp add: iso_timestamp_def c Let_def show_nat_length_four time_of_day_length two_digits_def)
qed

end
