(* ===== verification/Json.thy ===== *)
theory Json
  imports Prelude
begin

text \<open>
  The JSON support of \<open>src/ui/dashboard_json_support.hpp\<close>, and the specification of what it
  is for: a grammar that says when a text is a JSON text of a value (RFC 8259, on bytes), and
  documents with the layouts that the two serializers use, whose rendering always is one.
\<close>

section \<open>Escaping\<close>

definition quote_char :: char where
  "quote_char = CHR 0x22"

definition backslash :: char where
  "backslash = CHR 0x5C"

definition hex_digit :: "nat \<Rightarrow> char" where
  "hex_digit n = (if n < 10 then char_of (48 + n) else char_of (87 + n))"

definition escape_char :: "char \<Rightarrow> string" where
  "escape_char c =
     (if c = quote_char then [backslash, quote_char]
      else if c = backslash then [backslash, backslash]
      else if c = CHR 0x08 then [backslash, CHR ''b'']
      else if c = CHR 0x0C then [backslash, CHR ''f'']
      else if c = CHR 0x0A then [backslash, CHR ''n'']
      else if c = CHR 0x0D then [backslash, CHR ''r'']
      else if c = CHR 0x09 then [backslash, CHR ''t'']
      else if byte c < 32
      then [backslash, CHR ''u'', CHR ''0'', CHR ''0'', hex_digit (byte c div 16), hex_digit (byte c mod 16)]
      else [c])"

definition escape :: "string \<Rightarrow> string" where
  "escape s = concat (map escape_char s)"

definition quote :: "string \<Rightarrow> string" where
  "quote s = quote_char # escape s @ [quote_char]"

section \<open>Reading a string back\<close>

definition hex_value :: "char \<Rightarrow> nat option" where
  "hex_value c =
     (if 48 \<le> byte c \<and> byte c \<le> 57 then Some (byte c - 48)
      else if 97 \<le> byte c \<and> byte c \<le> 102 then Some (byte c - 87)
      else if 65 \<le> byte c \<and> byte c \<le> 70 then Some (byte c - 55) else None)"

text \<open>The escapes of the standard, the solidus included.\<close>

definition simple_escape :: "char \<Rightarrow> char option" where
  "simple_escape e =
     map_of [(quote_char, quote_char), (backslash, backslash), (CHR ''/'', CHR ''/''),
             (CHR ''b'', CHR 0x08), (CHR ''f'', CHR 0x0C), (CHR ''n'', CHR 0x0A),
             (CHR ''r'', CHR 0x0D), (CHR ''t'', CHR 0x09)] e"

text \<open>
  The bytes that the inside of a JSON string stands for; \<open>None\<close> for a text that is no such
  inside: a raw quote, a control character, a bad escape.  A \<open>\u\<close> escape is read up to the
  ASCII range, the only one the program writes.
\<close>

fun unescape :: "string \<Rightarrow> string option" where
  "unescape [] = Some []"
| "unescape (c # s) =
     (if c = backslash then
        (case s of
           [] \<Rightarrow> None
         | e # s1 \<Rightarrow>
            (case simple_escape e of
               Some d \<Rightarrow> map_option (Cons d) (unescape s1)
             | None \<Rightarrow>
                (if e = CHR ''u'' then
                   (case s1 of
                      h1 # h2 # h3 # h4 # s2 \<Rightarrow>
                        (case (hex_value h1, hex_value h2, hex_value h3, hex_value h4) of
                           (Some a, Some b, Some c, Some d) \<Rightarrow>
                             (let v = 4096 * a + 256 * b + 16 * c + d in
                              if v < 128 then map_option (Cons (char_of v)) (unescape s2) else None)
                         | _ \<Rightarrow> None)
                    | _ \<Rightarrow> None)
                 else None)))
      else if c = quote_char \<or> byte c < 32 then None
      else map_option (Cons c) (unescape s))"

lemma byte_inject: "byte c = byte d \<longleftrightarrow> c = d"
  by (metis char_of_char)

lemma hex_value_digit: "n < 16 \<Longrightarrow> hex_value (hex_digit n) = Some n"
  by (auto simp: hex_digit_def hex_value_def of_char_of)

lemma char_of_hex: "byte c < 128 \<Longrightarrow> char_of (16 * (byte c div 16) + byte c mod 16) = c"
  by simp

lemma unescape_escape_char: "unescape (escape_char c @ s) = map_option (Cons c) (unescape s)"
proof -
  have s: "simple_escape (CHR ''u'') = None"
    by (simp add: simple_escape_def quote_char_def backslash_def)
  show ?thesis
  proof (cases "byte c < 32")
    case True
    then have v: "byte c div 16 < 16" "byte c mod 16 < 16" "byte c < 128" by simp_all
    have "char_of (byte c) = c" by simp
    with True v show ?thesis
      by (simp add: escape_char_def simple_escape_def quote_char_def backslash_def
          hex_value_digit[OF v(1)] hex_value_digit[OF v(2)] hex_value_def[of "CHR ''0''"] Let_def)
  next
    case False
    then show ?thesis
      by (auto simp: escape_char_def simple_escape_def quote_char_def backslash_def)
  qed
qed

lemma unescape_escape: "unescape (escape s) = Some s"
  by (induction s) (simp_all add: escape_def unescape_escape_char)

lemma escape_plain:
  "\<forall>c\<in>set s. 32 \<le> byte c \<and> c \<noteq> quote_char \<and> c \<noteq> backslash \<Longrightarrow> escape s = s"
  by (induction s) (auto simp: escape_def escape_char_def)

text \<open>No control byte, quote or line break of the input reaches the output unescaped.\<close>

lemma hex_digit_printable: "n < 16 \<Longrightarrow> 48 \<le> byte (hex_digit n) \<and> byte (hex_digit n) \<le> 102"
  by (auto simp: hex_digit_def of_char_of)

lemma escape_no_control: "\<forall>c\<in>set (escape s). 32 \<le> byte c"
proof -
  have "\<forall>d\<in>set (escape_char c). 32 \<le> byte d" for c
  proof (cases "byte c < 32")
    case True
    then have "byte c div 16 < 16" "byte c mod 16 < 16" by simp_all
    note hex = this[THEN hex_digit_printable]
    show ?thesis using hex by (auto simp: escape_char_def quote_char_def backslash_def)
  next
    case False
    then show ?thesis by (auto simp: escape_char_def quote_char_def backslash_def)
  qed
  then show ?thesis by (auto simp: escape_def)
qed

section \<open>JSON texts\<close>

datatype json =
    JNull
  | JBool bool
  | JNumber nat
  | JString string
  | JArray "json list"
  | JObject "(string \<times> json) list"

definition is_json_space :: "char \<Rightarrow> bool" where
  "is_json_space c \<longleftrightarrow> c \<in> {blank_char, tab_char, newline_char, CHR 0x0D}"

inductive json_text :: "json \<Rightarrow> string \<Rightarrow> bool"
  and json_elements :: "json list \<Rightarrow> string \<Rightarrow> bool"
  and json_members :: "(string \<times> json) list \<Rightarrow> string \<Rightarrow> bool" where
  null: "json_text JNull ''null''"
| true: "json_text (JBool True) ''true''"
| false: "json_text (JBool False) ''false''"
| number: "json_text (JNumber n) (show_nat n)"
| string: "unescape t = Some s \<Longrightarrow> json_text (JString s) (quote_char # t @ [quote_char])"
| empty_array: "\<forall>c\<in>set ws. is_json_space c \<Longrightarrow> json_text (JArray []) (CHR ''['' # ws @ '']'')"
| array: "json_elements js t \<Longrightarrow> json_text (JArray js) (CHR ''['' # t @ '']'')"
| empty_object: "\<forall>c\<in>set ws. is_json_space c \<Longrightarrow> json_text (JObject []) (CHR ''{'' # ws @ ''}'')"
| object: "json_members ms t \<Longrightarrow> json_text (JObject ms) (CHR ''{'' # t @ ''}'')"
| space_before: "json_text j t \<Longrightarrow> is_json_space c \<Longrightarrow> json_text j (c # t)"
| space_after: "json_text j t \<Longrightarrow> is_json_space c \<Longrightarrow> json_text j (t @ [c])"
| one_element: "json_text j t \<Longrightarrow> json_elements [j] t"
| more_elements: "json_text j t \<Longrightarrow> json_elements js u \<Longrightarrow> json_elements (j # js) (t @ CHR '','' # u)"
| one_member: "json_text (JString k) kt \<Longrightarrow> json_text j t \<Longrightarrow> json_members [(k, j)] (kt @ CHR '':'' # t)"
| more_members: "json_members [(k, j)] t \<Longrightarrow> json_members ms u \<Longrightarrow>
     json_members ((k, j) # ms) (t @ CHR '','' # u)"

inductive_cases json_membersE: "json_members ms t"

section \<open>Documents\<close>

text \<open>
  The layouts of the serializers: compact, with a blank after each separator, and the outer
  object with one member per line.
\<close>

datatype layout = CompactLayout | SpacedLayout | OuterLayout

datatype jdoc =
    DNull
  | DBool bool
  | DNumber nat
  | DString string
  | DArray "jdoc list"
  | DObject layout "(string \<times> jdoc) list"

fun open_text :: "layout \<Rightarrow> string" where
  "open_text OuterLayout = CHR ''{'' # newline_char # ''  ''"
| "open_text _ = ''{''"

fun close_text :: "layout \<Rightarrow> string" where
  "close_text OuterLayout = newline_char # CHR ''}'' # [newline_char]"
| "close_text _ = ''}''"

fun separator :: "layout \<Rightarrow> string" where
  "separator OuterLayout = CHR '','' # newline_char # ''  ''"
| "separator SpacedLayout = '', ''"
| "separator CompactLayout = '',''"

fun after_key :: "layout \<Rightarrow> string" where
  "after_key CompactLayout = '':''"
| "after_key _ = '': ''"

fun sep_join :: "string \<Rightarrow> string list \<Rightarrow> string" where
  "sep_join sep [] = []"
| "sep_join sep [x] = x"
| "sep_join sep (x # y # zs) = x @ sep @ sep_join sep (y # zs)"

fun render :: "jdoc \<Rightarrow> string" where
  "render DNull = ''null''"
| "render (DBool b) = (if b then ''true'' else ''false'')"
| "render (DNumber n) = show_nat n"
| "render (DString s) = quote s"
| "render (DArray ds) = CHR ''['' # sep_join '','' (map render ds) @ '']''"
| "render (DObject l ms) =
     open_text l @ sep_join (separator l) (map (\<lambda>m. quote (fst m) @ after_key l @ render (snd m)) ms)
       @ close_text l"

fun json_of :: "jdoc \<Rightarrow> json" where
  "json_of DNull = JNull"
| "json_of (DBool b) = JBool b"
| "json_of (DNumber n) = JNumber n"
| "json_of (DString s) = JString s"
| "json_of (DArray ds) = JArray (map json_of ds)"
| "json_of (DObject l ms) = JObject (map (\<lambda>m. (fst m, json_of (snd m))) ms)"

section \<open>Every rendered document is a JSON text of its value\<close>

lemma json_text_quote: "json_text (JString s) (quote s)"
  unfolding quote_def by (rule string) (rule unescape_escape)

lemma space_before_all: "json_text j t \<Longrightarrow> \<forall>c\<in>set ws. is_json_space c \<Longrightarrow> json_text j (ws @ t)"
  by (induction ws) (auto intro: space_before)

lemma space_after_all: "json_text j t \<Longrightarrow> \<forall>c\<in>set ws. is_json_space c \<Longrightarrow> json_text j (t @ ws)"
proof (induction ws rule: rev_induct)
  case Nil
  then show ?case by simp
next
  case (snoc c ws)
  then show ?case using space_after[of j "t @ ws" c] by simp
qed

lemma json_elements_render:
  "\<forall>d\<in>set ds. json_text (json_of d) (render d) \<Longrightarrow> ds \<noteq> [] \<Longrightarrow>
     json_elements (map json_of ds) (sep_join '','' (map render ds))"
proof (induction ds rule: induct_list012)
  case 1
  then show ?case by simp
next
  case (2 d)
  then show ?case by (simp add: one_element)
next
  case (3 d e ds)
  then show ?case using more_elements[of "json_of d" "render d"] by simp
qed

definition render_member :: "layout \<Rightarrow> string \<times> jdoc \<Rightarrow> string" where
  "render_member l m = quote (fst m) @ after_key l @ render (snd m)"

text \<open>White space may stand before a member, which is where the layouts have it.\<close>

lemma json_member_render:
  assumes "json_text (json_of d) (render d)" "\<forall>c\<in>set ws. is_json_space c"
  shows "json_members [(k, json_of d)] (ws @ render_member l (k, d))"
proof -
  obtain ws' where k: "after_key l = CHR '':'' # ws'" "\<forall>c\<in>set ws'. is_json_space c"
    by (cases l) (auto simp: is_json_space_def)
  have "json_text (JString k) (ws @ quote k)"
    using assms(2) json_text_quote by (rule space_before_all[rotated])
  from one_member[OF this space_before_all[OF assms(1) k(2)]] show ?thesis
    by (simp add: render_member_def k(1))
qed

lemma separator_split:
  obtains ws where "separator l = CHR '','' # ws" "\<forall>c\<in>set ws. is_json_space c"
  by (cases l) (auto simp: is_json_space_def)

lemma json_members_render:
  "\<forall>m\<in>set ms. json_text (json_of (snd m)) (render (snd m)) \<Longrightarrow> ms \<noteq> [] \<Longrightarrow>
   \<forall>c\<in>set ws. is_json_space c \<Longrightarrow>
     json_members (map (\<lambda>m. (fst m, json_of (snd m))) ms)
       (ws @ sep_join (separator l) (map (render_member l) ms))"
proof (induction ms arbitrary: ws rule: induct_list012)
  case 1
  then show ?case by simp
next
  case (2 m)
  then show ?case using json_member_render[of "snd m" ws "fst m" l] by simp
next
  case (3 m n ms)
  obtain sep where sep: "separator l = CHR '','' # sep" "\<forall>c\<in>set sep. is_json_space c"
    by (rule separator_split)
  have "json_members [(fst m, json_of (snd m))] (ws @ render_member l m)"
    using 3 json_member_render[of "snd m" ws "fst m" l] by simp
  moreover have "json_members (map (\<lambda>m. (fst m, json_of (snd m))) (n # ms))
                   (sep @ sep_join (separator l) (map (render_member l) (n # ms)))"
    using "3.IH"(2)[OF _ _ sep(2)] "3.prems" by simp
  ultimately have "json_members ((fst m, json_of (snd m)) # map (\<lambda>m. (fst m, json_of (snd m))) (n # ms))
      ((ws @ render_member l m) @ CHR '','' # (sep @ sep_join (separator l) (map (render_member l) (n # ms))))"
    by (rule more_members)
  then show ?case by (simp add: sep(1))
qed

lemma json_members_space_after:
  "json_members ms t \<Longrightarrow> is_json_space c \<Longrightarrow> json_members ms (t @ [c])"
proof (induction ms arbitrary: t)
  case Nil
  then show ?case by (auto elim: json_membersE)
next
  case (Cons m ms)
  from Cons.prems(1) show ?case
  proof (rule json_membersE)
    fix k kt j u
    assume eq: "m # ms = [(k, j)]" "t = kt @ CHR '':'' # u" and k: "json_text (JString k) kt"
      and j: "json_text j u"
    show ?thesis
      using one_member[OF k space_after[OF j Cons.prems(2)]] eq by simp
  next
    fix k j u ns v
    assume eq: "m # ms = (k, j) # ns" "t = u @ CHR '','' # v" and k: "json_members [(k, j)] u"
      and v: "json_members ns v"
    show ?thesis
      using more_members[OF k Cons.IH[of v]] v Cons.prems(2) eq by simp
  qed
qed

lemma json_members_space_after_all:
  "json_members ms t \<Longrightarrow> \<forall>c\<in>set ws. is_json_space c \<Longrightarrow> json_members ms (t @ ws)"
proof (induction ws rule: rev_induct)
  case Nil
  then show ?case by simp
next
  case (snoc c ws)
  then show ?case using json_members_space_after[of ms "t @ ws" c] by simp
qed

lemma json_object_render:
  assumes "\<forall>m\<in>set ms. json_text (json_of (snd m)) (render (snd m))"
  shows "json_text (json_of (DObject l ms)) (render (DObject l ms))"
proof -
  obtain ws where o: "open_text l = CHR ''{'' # ws" "\<forall>c\<in>set ws. is_json_space c"
    by (cases l) (auto simp: is_json_space_def)
  obtain ws1 ws2 where c: "close_text l = ws1 @ CHR ''}'' # ws2"
      "\<forall>c\<in>set ws1. is_json_space c" "\<forall>c\<in>set ws2. is_json_space c"
    by (cases l) (auto simp: is_json_space_def intro: that[of "[]" "[]"] that[of "[newline_char]" "[newline_char]"])
  have body: "json_text (JObject (map (\<lambda>m. (fst m, json_of (snd m))) ms))
          (CHR ''{'' # (ws @ sep_join (separator l) (map (render_member l) ms) @ ws1) @ ''}'')"
  proof (cases "ms = []")
    case True
    have "\<forall>c\<in>set (ws @ ws1). is_json_space c" using o c by auto
    from empty_object[OF this] True show ?thesis by simp
  next
    case False
    from json_members_space_after_all[OF json_members_render[OF assms False o(2)] c(2)]
    have "json_members (map (\<lambda>m. (fst m, json_of (snd m))) ms)
            (ws @ sep_join (separator l) (map (render_member l) ms) @ ws1)" by simp
    then show ?thesis by (rule object)
  qed
  have members: "(\<lambda>m. quote (fst m) @ after_key l @ render (snd m)) = render_member l"
    by (simp add: fun_eq_iff render_member_def)
  from space_after_all[OF body c(3)] show ?thesis by (simp add: o(1) c(1) members)
qed

lemma json_array_render:
  assumes "\<forall>d\<in>set ds. json_text (json_of d) (render d)"
  shows "json_text (json_of (DArray ds)) (render (DArray ds))"
proof (cases "ds = []")
  case True
  then show ?thesis using empty_array[of "[]"] by simp
next
  case False
  from array[OF json_elements_render[OF assms False]] show ?thesis by simp
qed

theorem render_is_json: "json_text (json_of d) (render d)"
proof (induction d)
  case (DArray ds)
  then show ?case using json_array_render by blast
next
  case (DObject l ms)
  have "\<forall>m\<in>set ms. json_text (json_of (snd m)) (render (snd m))"
    using DObject by (metis prod.collapse snds.intros prod_set_simps(2) singletonI surjective_pairing)
  then show ?case by (rule json_object_render)
qed (simp_all add: null true false number json_text_quote split: if_split)

section \<open>Properties\<close>

text \<open>Escaping loses nothing and lets nothing through: every byte string is read back from
  its escaped form, which holds no control byte, and its quoted form is a JSON text of it.\<close>

theorem escape_round_trip:
  "unescape (escape s) = Some s \<and> list_all (\<lambda>c. 32 \<le> byte c) (escape s) \<and>
   json_text (JString s) (quote s)"
  using unescape_escape escape_no_control json_text_quote by (simp add: list_all_iff)

end
