(* ===== verification/NetworkMetadata.thy ===== *)
theory NetworkMetadata
  imports NetworkPath Credentials CommandRunner Calendar Json
begin

text \<open>
  \<open>src/network/network_metadata.cpp\<close>: the route, connection, Wi-Fi network, public address and, on
  request, geolocation of this host.  The clock and the key store are computations handed to
  the inspector, as the code hands it references.  The two regular expressions are written as the
  search for the leftmost match: their repetitions never compete for a character.
\<close>

section \<open>Text\<close>

definition is_trim_char :: "char \<Rightarrow> bool" where
  "is_trim_char c \<longleftrightarrow> c = blank_char \<or> c = tab_char \<or> c = CHR 0x0D \<or> c = newline_char"

definition trim :: "string \<Rightarrow> string" where
  "trim s = rev (dropWhile is_trim_char (rev (dropWhile is_trim_char s)))"

text \<open>The fields of a terse line of \<open>nmcli\<close>; the state of the loop is the list of fields, the
  field being read and whether the character before was a backslash.\<close>

fun split_step :: "char \<Rightarrow> string list \<times> string \<times> bool \<Rightarrow> string list \<times> string \<times> bool" where
  "split_step c (parts, field, escaped) =
     (if escaped then (parts, field @ [c], False)
      else if c = backslash then (parts, field, True)
      else if c = colon_char then (parts @ [field], [], False)
      else (parts, field @ [c], False))"

definition split_escaped_colons :: "string \<Rightarrow> string list" where
  "split_escaped_colons line =
     (let (parts, field, escaped) = fold split_step line ([], [], False)
      in parts @ [if escaped then field @ [backslash] else field])"

section \<open>The two regular expressions\<close>

fun regex_search :: "(string \<Rightarrow> 'a option) \<Rightarrow> string \<Rightarrow> 'a option" where
  "regex_search m [] = m []"
| "regex_search m (c # cs) =
     (case m (c # cs) of Some v \<Rightarrow> Some v | None \<Rightarrow> regex_search m cs)"

text \<open>The name in quotes, a colon and the white space around it: what is left of the text.\<close>

definition match_name :: "string \<Rightarrow> string \<Rightarrow> string option" where
  "match_name name s =
     (let key = [quote_char] @ name @ [quote_char] in
      if starts_with s key
      then (case dropWhile is_space (drop (length key) s) of
              c # rest \<Rightarrow> if c = colon_char then Some (dropWhile is_space rest) else None
            | [] \<Rightarrow> None)
      else None)"

definition match_string :: "string \<Rightarrow> string \<Rightarrow> string option" where
  "match_string name s =
     (case match_name name s of
        Some (c # rest) \<Rightarrow>
          if c = quote_char \<and> quote_char \<in> set rest then Some (takeWhile (\<lambda>d. d \<noteq> quote_char) rest)
          else None
      | _ \<Rightarrow> None)"

definition match_number :: "string \<Rightarrow> string \<Rightarrow> string option" where
  "match_number name s =
     (case match_name name s of
        Some rest \<Rightarrow> if takeWhile is_digit rest \<noteq> [] then Some (takeWhile is_digit rest) else None
      | None \<Rightarrow> None)"

definition found_or_empty :: "string option \<Rightarrow> string" where
  "found_or_empty r = (case r of None \<Rightarrow> [] | Some s \<Rightarrow> s)"

definition json_string_field :: "string \<Rightarrow> string \<Rightarrow> string" where
  "json_string_field json name = found_or_empty (regex_search (match_string name) json)"

definition json_number :: "string \<Rightarrow> string \<Rightarrow> string" where
  "json_number json name = found_or_empty (regex_search (match_number name) json)"

section \<open>Metadata\<close>

record network_metadata =
  observed_at_utc :: string
  public_ip :: string
  default_gateway :: string
  default_interface :: string
  connection_profile :: string
  wifi_ssid :: string
  wifi_bssid :: string
  wifi_security :: string
  country :: string
  timezone :: string
  isp :: string
  autonomous_system :: string
  public_ip_lookup_succeeded :: bool
  nm_diagnostic_text :: string

definition empty_metadata :: network_metadata where
  "empty_metadata = \<lparr>observed_at_utc = [], public_ip = [], default_gateway = [],
     default_interface = [], connection_profile = [], wifi_ssid = [], wifi_bssid = [],
     wifi_security = [], country = [], timezone = [], isp = [], autonomous_system = [],
     public_ip_lookup_succeeded = False, nm_diagnostic_text = []\<rparr>"

fun route_pairs :: "string list \<Rightarrow> network_metadata \<Rightarrow> network_metadata" where
  "route_pairs (v # w # vs) m =
     route_pairs (w # vs)
       (let m1 = (if v = ''via'' then m\<lparr>default_gateway := w\<rparr> else m)
        in if v = ''dev'' then m1\<lparr>default_interface := w\<rparr> else m1)"
| "route_pairs _ m = m"

definition is_default_route :: "string list \<Rightarrow> bool" where
  "is_default_route values \<longleftrightarrow> values \<noteq> [] \<and> hd values = ''default''"

definition parse_default_route :: "string \<Rightarrow> network_metadata" where
  "parse_default_route s =
     (case find is_default_route (map words (getlines s)) of
        None \<Rightarrow> empty_metadata
      | Some values \<Rightarrow> route_pairs values empty_metadata)"

definition profile_step :: "string \<Rightarrow> network_metadata \<Rightarrow> network_metadata" where
  "profile_step line m =
     (let parts = split_escaped_colons line
      in if 4 \<le> length parts \<and> parts ! 0 = default_interface m
         then m\<lparr>connection_profile := parts ! 3\<rparr> else m)"

definition wifi_in_use :: "string list \<Rightarrow> bool" where
  "wifi_in_use parts \<longleftrightarrow> 4 \<le> length parts \<and> (parts ! 0 = ''yes'' \<or> parts ! 0 = ''*'')"

definition apply_wifi :: "string \<Rightarrow> network_metadata \<Rightarrow> network_metadata" where
  "apply_wifi listing m =
     (case find wifi_in_use (map split_escaped_colons (getlines listing)) of
        None \<Rightarrow> m
      | Some parts \<Rightarrow> m\<lparr>wifi_ssid := parts ! 1, wifi_bssid := parts ! 2, wifi_security := parts ! 3\<rparr>)"

definition add_diagnostic :: "string \<Rightarrow> network_metadata \<Rightarrow> network_metadata" where
  "add_diagnostic detail m =
     m\<lparr>nm_diagnostic_text :=
        nm_diagnostic_text m @ (if nm_diagnostic_text m = [] then [] else ''; '') @ detail\<rparr>"

definition apply_public_ip :: "ipv6_parser \<Rightarrow> command_result \<Rightarrow> network_metadata \<Rightarrow> network_metadata" where
  "apply_public_ip pton6 r m =
     (let candidate = trim (stdout_text r) in
      if success r \<and> is_valid_ip_address pton6 candidate
      then m\<lparr>public_ip := candidate, public_ip_lookup_succeeded := True\<rparr>
      else add_diagnostic
             (if stderr_text r = [] then ''public IP response was invalid'' else trim (stderr_text r)) m)"

definition enrichment_request :: "string \<Rightarrow> string" where
  "enrichment_request key =
     ''url = '' @ [quote_char] @ ''https://geo.ipify.org/api/v2/country?apiKey='' @ key @
     [quote_char, newline_char]"

definition apply_enrichment :: "command_result \<Rightarrow> network_metadata \<Rightarrow> network_metadata" where
  "apply_enrichment r m =
     (if \<not> success r
      then add_diagnostic
             (if stderr_text r = [] then ''geolocation enrichment failed'' else trim (stderr_text r)) m
      else
        let response = stdout_text r; asn = json_number response ''asn''; as_name = json_string_field response ''name''
        in m\<lparr>country := json_string_field response ''country'', timezone := json_string_field response ''timezone'',
             isp := json_string_field response ''isp'',
             autonomous_system :=
               (if asn = [] then as_name
                else ''AS'' @ asn @ (if as_name = [] then [] else '' '' @ as_name))\<rparr>)"

definition enrich_metadata :: "'w runner \<Rightarrow> ('w, string) state \<Rightarrow> network_metadata \<Rightarrow> ('w, network_metadata) state" where
  "enrich_metadata R load m = do {
     key \<leftarrow> load;
     if key = []
     then State_Monad.return
            (add_diagnostic ''configure an ipify key or set FFC_IPIFY_API_KEY to use enrichment'' m)
     else do {
       enrichment \<leftarrow> run_with_input R enrichment_command (enrichment_request key);
       State_Monad.return (apply_enrichment enrichment m)
     }
   }"

definition route_command :: "string list" where
  "route_command = metadata_queries ! 0"

definition profile_command :: "string list" where
  "profile_command = metadata_queries ! 1"

definition wifi_command :: "string list" where
  "wifi_command = metadata_queries ! 2"

definition utc_now :: "('w, int) state \<Rightarrow> ('w, string) state" where
  "utc_now clock = do { now \<leftarrow> clock; State_Monad.return (iso_timestamp now) }"

lemma utc_now_keeps [keeps_intro]: "keeps I clock \<Longrightarrow> keeps I (utc_now clock)"
  unfolding utc_now_def by (intro keeps_intro)

text \<open>The local part of the observation: route, connection profile and Wi-Fi network.\<close>

definition local_metadata :: "'w runner \<Rightarrow> ('w, int) state \<Rightarrow> ('w, network_metadata) state" where
  "local_metadata R clock = do {
     route \<leftarrow> run R route_command;
     stamp \<leftarrow> utc_now clock;
     let m0 = (if success route then parse_default_route (stdout_text route) else empty_metadata)
                \<lparr>observed_at_utc := stamp\<rparr>;
     let m1 = (if success route then m0
               else m0\<lparr>nm_diagnostic_text := stderr_or ''default-route query failed'' route\<rparr>);
     devices \<leftarrow> run R profile_command;
     let m2 = (if success devices then fold profile_step (getlines (stdout_text devices)) m1 else m1);
     wifi \<leftarrow> run R wifi_command;
     State_Monad.return (if success wifi then apply_wifi (stdout_text wifi) m2 else m2)
   }"

definition metadata_inspect ::
  "ipv6_parser \<Rightarrow> 'w runner \<Rightarrow> ('w, int) state \<Rightarrow> ('w, string) state \<Rightarrow> bool \<Rightarrow>
     ('w, network_metadata) state" where
  "metadata_inspect pton6 R clock load enrich = do {
     m \<leftarrow> local_metadata R clock;
     public \<leftarrow> run R public_ip_command;
     let m1 = apply_public_ip pton6 public m;
     if \<not> enrich then State_Monad.return m1 else enrich_metadata R load m1
   }"

section \<open>Escaped fields\<close>

text \<open>The writer of the terse format: a backslash before every colon and backslash.\<close>

definition escape_field :: "string \<Rightarrow> string" where
  "escape_field f = concat (map (\<lambda>c. if c = colon_char \<or> c = backslash then [backslash, c] else [c]) f)"

fun join_colons :: "string list \<Rightarrow> string" where
  "join_colons [] = []"
| "join_colons [f] = escape_field f"
| "join_colons (f # fs) = escape_field f @ colon_char # join_colons fs"

lemma split_escape_field:
  "fold split_step (escape_field f) (parts, field, False) = (parts, field @ f, False)"
proof (induction f arbitrary: field)
  case Nil
  then show ?case by (simp add: escape_field_def)
next
  case (Cons c f)
  then show ?case by (simp add: escape_field_def backslash_def)
qed

lemma split_join_colons:
  "fs \<noteq> [] \<Longrightarrow> fold split_step (join_colons fs) (parts, [], False) =
     (parts @ butlast fs, List.last fs, False)"
proof (induction fs arbitrary: parts rule: join_colons.induct)
  case 1
  then show ?case by simp
next
  case (2 f)
  then show ?case by (simp add: split_escape_field)
next
  case (3 f g fs)
  then show ?case by (simp add: split_escape_field backslash_def)
qed

lemma split_escaped_join: "fs \<noteq> [] \<Longrightarrow> split_escaped_colons (join_colons fs) = fs"
  by (simp add: split_escaped_colons_def split_join_colons)

section \<open>What an observation holds\<close>

definition metadata_wf :: "ipv6_parser \<Rightarrow> network_metadata \<Rightarrow> bool" where
  "metadata_wf pton6 m \<longleftrightarrow>
     (if public_ip_lookup_succeeded m then is_valid_ip_address pton6 (public_ip m) else public_ip m = [])"

lemma route_pairs_ip [simp]:
  "public_ip (route_pairs vs m) = public_ip m"
  "public_ip_lookup_succeeded (route_pairs vs m) = public_ip_lookup_succeeded m"
  by (induction vs m rule: route_pairs.induct) (auto simp: Let_def)

lemma parse_default_route_ip [simp]:
  "public_ip (parse_default_route s) = []" "\<not> public_ip_lookup_succeeded (parse_default_route s)"
  by (simp_all add: parse_default_route_def empty_metadata_def split: option.splits)

lemma fold_profile_ip [simp]:
  "public_ip (fold profile_step ls m) = public_ip m"
  "public_ip_lookup_succeeded (fold profile_step ls m) = public_ip_lookup_succeeded m"
  by (induction ls arbitrary: m) (simp_all add: profile_step_def Let_def)

lemma apply_wifi_ip [simp]:
  "public_ip (apply_wifi s m) = public_ip m"
  "public_ip_lookup_succeeded (apply_wifi s m) = public_ip_lookup_succeeded m"
  by (simp_all add: apply_wifi_def split: option.splits)

lemma add_diagnostic_ip [simp]:
  "public_ip (add_diagnostic s m) = public_ip m"
  "public_ip_lookup_succeeded (add_diagnostic s m) = public_ip_lookup_succeeded m"
  by (simp_all add: add_diagnostic_def)

lemma apply_enrichment_ip [simp]:
  "public_ip (apply_enrichment r m) = public_ip m"
  "public_ip_lookup_succeeded (apply_enrichment r m) = public_ip_lookup_succeeded m"
  by (simp_all add: apply_enrichment_def Let_def)

lemma local_metadata_ip:
  "public_ip (fst (run_state (local_metadata R clock) w)) = []"
  "\<not> public_ip_lookup_succeeded (fst (run_state (local_metadata R clock) w))"
  by (simp_all add: local_metadata_def split_def Let_def empty_metadata_def)

lemma apply_public_ip_wf:
  "public_ip m = [] \<Longrightarrow> \<not> public_ip_lookup_succeeded m \<Longrightarrow> metadata_wf pton6 (apply_public_ip pton6 r m)"
  by (simp add: metadata_wf_def apply_public_ip_def Let_def)

lemma enrich_metadata_wf:
  "metadata_wf pton6 m \<Longrightarrow> metadata_wf pton6 (fst (run_state (enrich_metadata R load m) w))"
  by (simp add: metadata_wf_def enrich_metadata_def split_def)

lemma metadata_inspect_wf:
  "metadata_wf pton6 (fst (run_state (metadata_inspect pton6 R clock load enrich) w))"
  by (simp add: metadata_inspect_def split_def Let_def apply_public_ip_wf enrich_metadata_wf
      local_metadata_ip)

lemma metadata_commands:
  "probe_command route_command" "probe_command profile_command" "probe_command wifi_command"
  "probe_command public_ip_command" "probe_command enrichment_command"
  by (simp_all add: probe_command_def probe_commands_def route_command_def profile_command_def
      wifi_command_def metadata_queries_def)

context probing_host
begin

lemmas probe_input_keeps = run_with_input_keeps[OF allowed_probe]

lemma local_metadata_keeps: "keeps I clock \<Longrightarrow> keeps I (local_metadata R clock)"
  unfolding local_metadata_def by (intro keeps_intro probe_keeps metadata_commands) auto

lemma metadata_inspect_keeps:
  "\<lbrakk> keeps I clock; keeps I load \<rbrakk> \<Longrightarrow> keeps I (metadata_inspect pton6 R clock load enrich)"
  unfolding metadata_inspect_def enrich_metadata_def
  by (intro keeps_intro probe_keeps probe_input_keeps metadata_commands local_metadata_keeps) auto

end

section \<open>Properties\<close>

text \<open>The reader of the terse \<open>nmcli\<close> format inverts its writer for all fields, with colons and
  backslashes in them.\<close>

theorem escaped_fields_round_trip:
  "fs \<noteq> [] \<Longrightarrow> split_escaped_colons (join_colons fs) = fs"
  by (rule split_escaped_join)

lemma escaped_fields_witness:
  "split_escaped_colons (join_colons [''wlan0'', [CHR 0x5C, CHR 0x3A], []]) =
     [''wlan0'', [CHR 0x5C, CHR 0x3A], []]"
  by (rule escaped_fields_round_trip) simp

end
