(* ===== verification/StorageReads.thy ===== *)
theory StorageReads
  imports StoredMode
begin

text \<open>
  What \<open>read_private_file\<close> (\<open>src/core/secure_storage.cpp\<close>) can answer: an error that the kernel made
  up, the absence of the file, the reason why the file is not trusted, the size limit, or the contents.
  Reading changes nothing on the disk and uses up answers of the kernel.
\<close>

definition size_limit_error :: string where
  "size_limit_error = ''storage file exceeds safe size limit''"

section \<open>The loop\<close>

lemma used_answers: "set (tl xs) \<subseteq> set xs"
  by (cases xs) auto

lemma read_loop_tree:
  "nodes (snd (read_loop maximum rest acc d)) = nodes d \<and> history (snd (read_loop maximum rest acc d)) = history d"
  by (induction rest acc d rule: read_loop_induct[where maximum = maximum]) simp_all

lemmas read_loop_nodes = read_loop_tree[THEN conjunct1]

lemma read_loop_answers: "set (answers (snd (read_loop maximum rest acc d))) \<subseteq> set (answers d)"
proof (induction rest acc d rule: read_loop_induct[where maximum = maximum])
  case (interrupted rest acc d)
  then show ?case using used_answers[of "answers d"] by (simp only:) (simp add: subset_trans)
next
  case (more rest acc d k)
  then show ?case using used_answers[of "answers d"] by (simp only:) (simp add: subset_trans)
qed (simp_all add: used_answers)

lemma read_loop_error:
  "fst (read_loop maximum rest acc d) = Inl e \<Longrightarrow>
     Refused e \<in> set (answers d) \<or> e = size_limit_error \<and> maximum < length acc + length rest"
proof (induction rest acc d rule: read_loop_induct[where maximum = maximum])
  case (interrupted rest acc d)
  then show ?case using used_answers[of "answers d"] by auto
next
  case (final rest acc d k)
  then show ?case by (auto simp: size_limit_error_def min_def split: if_splits)
next
  case (more rest acc d k)
  then show ?case using used_answers[of "answers d"] by (auto simp: min_def split: if_splits)
qed simp_all

section \<open>Calls\<close>

lemma system_call_error:
  "run_state (system_call f) d = (Some e, d') \<Longrightarrow> Refused e \<in> set (answers d) \<or> f (nodes d) = Inl e"
  "answers (snd (run_state (system_call f) d)) = tl (answers d)"
  by (auto simp: system_call_def Let_def split: list.splits answer.splits sum.splits)

lemma system_call_done: "run_state (system_call f) d = (None, d') \<Longrightarrow> f (nodes d) = Inr (nodes d')"
  by (auto simp: system_call_def change_def Let_def split: list.splits answer.splits sum.splits)

lemma system_call_failed: "run_state (system_call f) d = (Some e, d') \<Longrightarrow> nodes d' = nodes d"
  by (auto simp: system_call_def change_def Let_def split: list.splits answer.splits sum.splits)

lemma flush_call_run:
  "run_state flush_call d = (r, d') \<Longrightarrow>
     nodes d' = nodes d \<and> answers d' = tl (answers d) \<and> (\<forall>e. r = Some e \<longrightarrow> Refused e \<in> set (answers d))"
  by (auto simp: flush_call_def system_call_def change_def Let_def split: list.splits answer.splits)

text \<open>The two checks before the reading: the file may be read, or the reason why not.\<close>

definition distrusted :: "string \<Rightarrow> string \<Rightarrow> disk \<Rightarrow> bool" where
  "distrusted path e d \<longleftrightarrow>
     e \<noteq> no_such_file \<and> e \<noteq> size_limit_error \<and> (\<exists>x. nodes d path = Some x \<and> \<not> private_file x)"

lemma open_for_reading_cases:
  "open_for_reading path (nodes d) = Inl e \<Longrightarrow> nodes d path = None \<and> e = no_such_file \<or> distrusted path e d"
  "open_for_reading path (nodes d) = Inr n \<Longrightarrow> n = nodes d \<and> nodes d path \<noteq> None"
  by (auto simp: open_for_reading_def distrusted_def private_file_def no_such_file_def size_limit_error_def
      split: option.splits if_splits)

lemma file_check_cases:
  "nodes d path \<noteq> None \<Longrightarrow> file_check path (nodes d) = Inl e \<Longrightarrow> distrusted path e d"
  by (auto simp: file_check_def distrusted_def private_file_def no_such_file_def size_limit_error_def
      split: option.splits if_splits)

lemma read_checks:
  assumes "run_state (chain [system_call (open_for_reading path), private_regular_file path]) d = (r, d1)"
  shows "nodes d1 = nodes d \<and> set (answers d1) \<subseteq> set (answers d) \<and>
    (case r of
       None \<Rightarrow> \<exists>s. holds_file path s d
     | Some e \<Rightarrow> Refused e \<in> set (answers d) \<or> nodes d path = None \<and> e = no_such_file \<or> distrusted path e d)"
proof -
  obtain r1 d2 where o: "run_state (system_call (open_for_reading path)) d = (r1, d2)" by (metis surj_pair)
  have a2: "set (answers d2) \<subseteq> set (answers d)"
    using system_call_error(2)[of "open_for_reading path" d] used_answers[of "answers d"] by (simp add: o)
  show ?thesis
  proof (cases r1)
    case (Some e)
    then show ?thesis
      using assms o a2 system_call_failed[OF o[unfolded Some]] system_call_error(1)[OF o[unfolded Some]]
        open_for_reading_cases(1)[of path d e] by auto
  next
    case None
    then have n2: "nodes d2 = nodes d" "nodes d path \<noteq> None"
      using open_for_reading_cases(2) system_call_done o by metis+
    obtain r3 d3 where c: "run_state (system_call (file_check path)) d2 = (r3, d3)" by (metis surj_pair)
    have r: "r = r3" "d1 = d3" using assms o c None by (cases r3; simp add: private_regular_file_def)+
    have "set (answers d3) \<subseteq> set (answers d)"
      using system_call_error(2)[of "file_check path" d2] used_answers[of "answers d2"] a2 by (auto simp: c)
    then show ?thesis
      using c a2 system_call_failed[of "file_check path" d2] system_call_error(1)[of "file_check path" d2]
        file_check_cases[of d path] system_call_done[of "file_check path" d2 d3] n2
      by (cases r3) (auto simp: r file_check_private holds_file_def)
  qed
qed

section \<open>The outcome of a read\<close>

lemma read_private_tree:
  "nodes (snd (run_state (read_private_file maximum path) d)) = nodes d"
  "set (answers (snd (run_state (read_private_file maximum path) d))) \<subseteq> set (answers d)"
proof -
  obtain r d1 where r: "run_state (chain [system_call (open_for_reading path), private_regular_file path]) d
      = (r, d1)" by (metis surj_pair)
  note checks = read_checks[OF r]
  obtain q d2 where q: "run_state (read_open_file maximum path) d1 = (q, d2)" by (metis surj_pair)
  have d2: "nodes d2 = nodes d1" "set (answers d2) \<subseteq> set (answers d1)"
    using q read_loop_nodes[of maximum "case nodes d1 path of None \<Rightarrow> [] | Some x \<Rightarrow> node_contents x" "[]" d1]
      read_loop_answers[of maximum "case nodes d1 path of None \<Rightarrow> [] | Some x \<Rightarrow> node_contents x" "[]" d1]
    by (simp_all add: read_open_file_def)
  obtain w d3 where w: "run_state flush_call d2 = (w, d3)" by (metis surj_pair)
  have "nodes d3 = nodes d2" "set (answers d3) \<subseteq> set (answers d2)"
    using flush_call_run[OF w] used_answers[of "answers d2"] by simp_all
  then show "nodes (snd (run_state (read_private_file maximum path) d)) = nodes d"
    "set (answers (snd (run_state (read_private_file maximum path) d))) \<subseteq> set (answers d)"
    using checks d2 by (cases r; cases q; auto simp: read_private_file_def r q w split_def simp del: chain.simps)+
qed

lemmas read_private_nodes = read_private_tree(1)

lemma read_private_cases:
  obtains (refused) e where "fst (run_state (read_private_file maximum path) d) = Inl e" "Refused e \<in> set (answers d)"
  | (absent) "fst (run_state (read_private_file maximum path) d) = Inl no_such_file" "nodes d path = None"
  | (distrusted) e where "fst (run_state (read_private_file maximum path) d) = Inl e" "distrusted path e d"
  | (long) s where "fst (run_state (read_private_file maximum path) d) = Inl size_limit_error"
      "holds_file path s d" "maximum < length s"
  | (contents) s where "fst (run_state (read_private_file maximum path) d) = Inr s" "holds_file path s d"
proof -
  let ?q = "fst (run_state (read_private_file maximum path) d)"
  show ?thesis
  proof (cases ?q)
    case (Inr s)
    then show ?thesis using read_private_exact contents by blast
  next
    case (Inl e)
    obtain r d1 where r: "run_state (chain [system_call (open_for_reading path), private_regular_file path]) d
        = (r, d1)" by (metis surj_pair)
    note checks = read_checks[OF r]
    show ?thesis
    proof (cases r)
      case (Some e')
      then have "?q = Inl e'" by (simp add: read_private_file_def r del: chain.simps)
      then show ?thesis using checks Some refused absent distrusted by auto
    next
      case None
      then obtain x where x: "nodes d path = Some x" "private_file x" "nodes d1 = nodes d"
        using checks by (auto simp: holds_file_def)
      obtain w d2 where w: "read_loop maximum (node_contents x) [] d1 = (w, d2)" by (metis surj_pair)
      obtain v d3 where v: "run_state flush_call d2 = (v, d3)" by (metis surj_pair)
      have "?q = (case w of Inl e' \<Rightarrow> Inl e' | Inr s \<Rightarrow> case v of Some e' \<Rightarrow> Inl e' | None \<Rightarrow> Inr s)"
        using x w v
        by (auto simp: read_private_file_def read_open_file_def r None split_def simp del: chain.simps
            split: sum.split)
      moreover have "set (answers d2) \<subseteq> set (answers d1)"
        using read_loop_answers[of maximum "node_contents x" "[]" d1] by (simp add: w)
      ultimately have "Refused e \<in> set (answers d) \<or> e = size_limit_error \<and> maximum < length (node_contents x)"
        using Inl checks flush_call_run[OF v] read_loop_error[of maximum "node_contents x" "[]" d1 e] w
        by (cases w; cases v) auto
      then show ?thesis using Inl x refused long[of "node_contents x"] by (auto simp: holds_file_def)
    qed
  qed
qed

text \<open>A kernel that makes up neither of the two errors that the stores tolerate.\<close>

definition honest :: "disk \<Rightarrow> bool" where
  "honest d \<longleftrightarrow> Refused no_such_file \<notin> set (answers d) \<and> Refused size_limit_error \<notin> set (answers d)"

lemma honest_read: "honest d \<Longrightarrow> honest (snd (run_state (read_private_file maximum path) d))"
  using read_private_tree(2)[of maximum path d] by (auto simp: honest_def)

lemma read_private_answers:
  "answers d = [] \<Longrightarrow> answers (snd (run_state (read_private_file maximum path) d)) = []"
  using read_private_tree(2)[of maximum path d] by simp

text \<open>A private file is refused by the kernel or longer than the limit when it cannot be read.\<close>

lemma read_private_error:
  assumes "holds_file path s d" and "fst (run_state (read_private_file maximum path) d) = Inl e"
  shows "Refused e \<in> set (answers d) \<or> e = size_limit_error \<and> maximum < length s"
  by (rule read_private_cases[of maximum path d]) (use assms in \<open>auto simp: holds_file_def distrusted_def\<close>)

lemma read_missing:
  assumes "nodes d path = None" and "fst (run_state (read_private_file maximum path) d) = r"
  shows "\<exists>e. r = Inl e \<and> (Refused e \<in> set (answers d) \<or> e = no_such_file)"
  by (rule read_private_cases[of maximum path d]) (use assms in \<open>auto simp: holds_file_def distrusted_def\<close>)

lemma read_reports_missing:
  assumes "fst (run_state (read_private_file maximum path) d) = Inl no_such_file"
    and "Refused no_such_file \<notin> set (answers d)"
  shows "nodes d path = None"
  by (rule read_private_cases[of maximum path d])
    (use assms in \<open>auto simp: distrusted_def no_such_file_def size_limit_error_def\<close>)

end
