(* ===== verification/StorageReplacement.thy ===== *)
theory StorageReplacement
  imports SecureStorage
begin

text \<open>
  \<open>replace_private_file_atomically\<close> (\<open>src/core/secure_storage.cpp\<close>): what the disk can hold in each state
  of a replacement, from the check of the target over the filling of the temporary file to the rename.
\<close>

section \<open>The target of a replacement\<close>

text \<open>
  What a state of the tree may be while \<open>path\<close> is replaced: the target is as it was or
  complete and private with the new contents, and every other file that existed is as it was.
\<close>

definition replaced :: "string \<Rightarrow> string \<Rightarrow> tree \<Rightarrow> bool" where
  "replaced path content n \<longleftrightarrow>
     (\<exists>x. n path = Some x \<and> private_file x \<and> node_mode x = owner_read_write \<and>
          node_contents x = content)"

definition others_kept :: "string \<Rightarrow> string \<Rightarrow> tree \<Rightarrow> tree \<Rightarrow> bool" where
  "others_kept path directory n0 n \<longleftrightarrow>
     (\<forall>p x. p \<noteq> path \<and> p \<noteq> directory \<and> n0 p = Some x \<longrightarrow> n p = Some x)"

definition old_or_new :: "string \<Rightarrow> string \<Rightarrow> string \<Rightarrow> tree \<Rightarrow> tree \<Rightarrow> bool" where
  "old_or_new path directory content n0 n \<longleftrightarrow>
     (n path = n0 path \<or> replaced path content n) \<and> others_kept path directory n0 n"

definition unreplaced :: "string \<Rightarrow> string \<Rightarrow> string \<Rightarrow> tree \<Rightarrow> disk \<Rightarrow> bool" where
  "unreplaced path directory content n0 d \<longleftrightarrow>
     steady (old_or_new path directory content n0) d \<and> nodes d path = n0 path"

definition filling ::
  "string \<Rightarrow> string \<Rightarrow> string \<Rightarrow> tree \<Rightarrow> string \<Rightarrow> string \<Rightarrow> disk \<Rightarrow> bool" where
  "filling path directory content n0 temp s d \<longleftrightarrow>
     unreplaced path directory content n0 d \<and> n0 temp = None \<and> temp \<noteq> path \<and>
     replaced temp s (nodes d)"

lemmas replacement_defs = unreplaced_def filling_def old_or_new_def others_kept_def replaced_def

text \<open>Calls that leave the target and the other files alone.\<close>

lemma unreplaced_call:
  assumes "\<And>n n'. f n = Inr n' \<Longrightarrow> n' path = n path \<and>
      (\<forall>p x. p \<noteq> directory \<and> n p = Some x \<longrightarrow> n' p = Some x)"
  shows "spec (unreplaced path directory content n0) (system_call f)
    (unreplaced path directory content n0) (unreplaced path directory content n0)"
proof (rule spec_system_call)
  fix d as n
  assume d: "unreplaced path directory content n0 d" and f: "f (nodes d) = Inr n"
  have "n path = n0 path" "others_kept path directory n0 n"
    using assms[OF f] d by (simp_all add: unreplaced_def steady_def old_or_new_def others_kept_def)
  then show "unreplaced path directory content n0 (change n (d\<lparr>answers := as\<rparr>))"
    using d by (simp add: unreplaced_def old_or_new_def steady_def)
qed (simp add: unreplaced_def)

lemma unreplaced_directory_check:
  "spec (unreplaced path directory content n0) (system_call (directory_check p))
     (unreplaced path directory content n0) (unreplaced path directory content n0)"
  by (rule unreplaced_call) (auto simp: directory_check_def split: option.splits if_splits)

lemma unreplaced_directory_mode:
  "directory \<noteq> path \<Longrightarrow>
   spec (unreplaced path directory content n0) (system_call (change_mode directory m))
     (unreplaced path directory content n0) (unreplaced path directory content n0)"
  by (rule unreplaced_call) (auto simp: change_mode_def update_node_def)

lemma unreplaced_flush:
  "spec (unreplaced path directory content n0) flush_call
     (unreplaced path directory content n0) (unreplaced path directory content n0)"
  unfolding flush_call_def by (rule unreplaced_call) simp

lemma unreplaced_target:
  "spec (unreplaced path directory content n0) (check_target p)
     (unreplaced path directory content n0) (unreplaced path directory content n0)"
  unfolding check_target_def
  by (rule unreplaced_call) (auto simp: target_check_def split: option.splits if_splits)

lemma unreplaced_private_directory:
  "directory \<noteq> path \<Longrightarrow>
   spec (unreplaced path directory content n0) (private_directory directory)
     (unreplaced path directory content n0) (unreplaced path directory content n0)"
  unfolding private_directory_def
  by (rule spec_chain[OF unreplaced_directory_check spec_chain[OF unreplaced_directory_mode spec_chain_Nil]])

text \<open>The temporary file while it is filled.\<close>

lemma filling_call:
  assumes "\<And>n n' x. f n = Inr n' \<Longrightarrow> n temp = Some x \<Longrightarrow> private_file x \<Longrightarrow>
      node_mode x = owner_read_write \<Longrightarrow> n' = n"
  shows "spec (filling path directory content n0 temp s) (system_call f)
    (filling path directory content n0 temp s) (filling path directory content n0 temp s)"
proof (rule spec_system_call)
  fix d as n assume d: "filling path directory content n0 temp s d" "f (nodes d) = Inr n"
  then have "n = nodes d" using assms[of "nodes d" n] by (auto simp: filling_def replaced_def)
  then show "filling path directory content n0 temp s (change n (d\<lparr>answers := as\<rparr>))"
    using d by (simp add: filling_def unreplaced_def steady_def)
qed (simp add: filling_def unreplaced_def)

lemma filling_append:
  assumes "filling path directory content n0 temp s d"
  shows "filling path directory content n0 temp (s @ t) (append_contents temp t d)"
proof -
  let ?n = "update_node temp (\<lambda>x. x\<lparr>node_contents := node_contents x @ t\<rparr>) (nodes d)"
  have "replaced temp (s @ t) ?n" "?n path = nodes d path"
    using assms by (auto simp: filling_def replaced_def update_node_def private_file_def)
  moreover have "others_kept path directory n0 ?n"
    using assms by (auto simp: filling_def unreplaced_def steady_def old_or_new_def
        others_kept_def update_node_def)
  ultimately show ?thesis
    using assms by (simp add: append_contents_def filling_def unreplaced_def steady_def old_or_new_def)
qed

lemma filling_answers [simp]:
  "filling path directory content n0 temp s (d\<lparr>answers := as\<rparr>) =
     filling path directory content n0 temp s d"
  by (simp add: filling_def unreplaced_def)

lemma filling_write_loop:
  "filling path directory content n0 temp s d \<Longrightarrow> write_loop temp t d = (r, d') \<Longrightarrow>
     (r = None \<longrightarrow> filling path directory content n0 temp (s @ t) d') \<and>
     (\<exists>u. filling path directory content n0 temp u d')"
  by (rule write_loop_rule) (simp_all add: filling_append)

definition some_filling :: "string \<Rightarrow> string \<Rightarrow> string \<Rightarrow> tree \<Rightarrow> string \<Rightarrow> disk \<Rightarrow> bool" where
  "some_filling path directory content n0 temp d \<longleftrightarrow>
     (\<exists>s. filling path directory content n0 temp s d)"

lemma filling_some [intro]:
  "filling path directory content n0 temp s d \<Longrightarrow> some_filling path directory content n0 temp d"
  by (auto simp: some_filling_def)

lemma spec_write_all:
  "spec (filling path directory content n0 temp s) (write_all temp t)
     (filling path directory content n0 temp (s @ t)) (some_filling path directory content n0 temp)"
  unfolding spec_def write_all_def
  using filling_write_loop[of path directory content n0 temp s]
  by (auto simp: some_filling_def split: prod.splits option.splits)

lemma spec_flush_filling:
  "spec (filling path directory content n0 temp s) flush_call
     (filling path directory content n0 temp s) (some_filling path directory content n0 temp)"
  unfolding flush_call_def by (rule spec_weaken[OF filling_call]) auto

lemma spec_fill:
  "spec (filling path directory content n0 temp []) (fill_temporary temp t)
     (filling path directory content n0 temp t) (some_filling path directory content n0 temp)"
proof -
  have "spec (filling path directory content n0 temp []) (private_regular_file temp)
      (filling path directory content n0 temp []) (some_filling path directory content n0 temp)"
    unfolding private_regular_file_def
    by (rule spec_weaken[OF filling_call]) (auto simp: file_check_def split: option.splits if_splits)
  moreover have "spec (filling path directory content n0 temp [])
      (system_call (change_mode temp owner_read_write))
      (filling path directory content n0 temp []) (some_filling path directory content n0 temp)"
    by (rule spec_weaken[OF filling_call])
      (auto simp: change_mode_def update_node_def fun_upd_idem_iff)
  moreover have "spec (filling path directory content n0 temp []) (write_all temp t)
      (filling path directory content n0 temp t) (some_filling path directory content n0 temp)"
    using spec_write_all[of path directory content n0 temp "[]" t] by simp
  ultimately show ?thesis
    unfolding fill_temporary_def
    by (blast intro: spec_chain spec_flush_filling spec_weaken[OF spec_chain_Nil])
qed

lemma spec_install:
  "spec (filling path directory content n0 temp content) (install_temporary temp path)
     (\<lambda>d. steady (old_or_new path directory content n0) d \<and> replaced path content (nodes d))
     (steady (old_or_new path directory content n0))"
proof -
  let ?ok = "old_or_new path directory content n0"
  let ?done = "\<lambda>d. steady ?ok d \<and> replaced path content (nodes d)"
  have 1: "spec (filling path directory content n0 temp content) flush_call
      (filling path directory content n0 temp content) (steady ?ok)"
    by (rule spec_weaken[OF spec_flush_filling]) (auto simp: some_filling_def filling_def unreplaced_def)
  have 2: "spec (filling path directory content n0 temp content)
      (system_call (rename_over temp path)) ?done (steady ?ok)"
  proof (rule spec_system_call)
    fix d as n
    assume d: "filling path directory content n0 temp content d"
      and n: "rename_over temp path (nodes d) = Inr n"
    obtain x where x: "nodes d temp = Some x" "n = (nodes d)(temp := None, path \<mapsto> x)"
      using n by (auto simp: rename_over_def split: option.splits)
    have "replaced path content n" using d x by (auto simp: filling_def replaced_def)
    moreover have "others_kept path directory n0 n"
      using d x by (auto simp: filling_def unreplaced_def steady_def old_or_new_def others_kept_def)
    ultimately show "?done (change n (d\<lparr>answers := as\<rparr>))"
      using d by (simp add: filling_def unreplaced_def steady_def old_or_new_def)
  qed (simp add: filling_def unreplaced_def)
  have 3: "spec ?done flush_call ?done (steady ?ok)"
    unfolding flush_call_def by (rule spec_system_call) (auto simp: steady_def)
  show ?thesis
    unfolding install_temporary_def
    by (rule spec_chain[OF 1 spec_chain[OF 2 spec_chain[OF 3 spec_chain_Nil]]])
qed

lemma steady_unlink:
  assumes "n0 temp = None" "temp \<noteq> path"
  shows "spec (steady (old_or_new path directory content n0)) (discard_temporary temp e) Q
    (steady (old_or_new path directory content n0))"
proof -
  let ?S = "steady (old_or_new path directory content n0)"
  have "spec ?S (system_call (unlink temp)) ?S ?S"
    using assms
    by (intro spec_system_call)
      (auto simp: unlink_def steady_def old_or_new_def others_kept_def replaced_def)
  then show ?thesis
    unfolding discard_temporary_def by (rule spec_bind) (auto simp: spec_def)
qed

text \<open>What holds after a replacement, whatever its outcome.\<close>

definition replacement_ok :: "string \<Rightarrow> string \<Rightarrow> string \<Rightarrow> tree \<Rightarrow> string option \<times> disk \<Rightarrow> bool" where
  "replacement_ok path directory content n0 r \<longleftrightarrow>
     steady (old_or_new path directory content n0) (snd r) \<and>
     (fst r = None \<longrightarrow> replaced path content (nodes (snd r)))"

lemma replacement_okI:
  "spec P m (\<lambda>d. steady (old_or_new path directory content n0) d \<and> replaced path content (nodes d))
     (steady (old_or_new path directory content n0)) \<Longrightarrow> P d \<Longrightarrow>
   replacement_ok path directory content n0 (run_state m d)"
  unfolding spec_def replacement_ok_def by (cases "run_state m d") (auto split: option.splits)

lemma replace_with_ok:
  assumes "filling path directory content n0 temp [] d"
  shows "replacement_ok path directory content n0 (run_state (replace_with temp path content) d)"
proof (rule replacement_okI[of "filling path directory content n0 temp []"])
  let ?S = "steady (old_or_new path directory content n0)"
  have t: "n0 temp = None" "temp \<noteq> path" using assms by (simp_all add: filling_def)
  have discard: "spec ?S (discard_temporary temp e) Q ?S" for e Q
    by (rule steady_unlink) (fact t)+
  have flush: "spec (some_filling path directory content n0 temp) flush_call ?S ?S"
    unfolding flush_call_def
    by (rule spec_system_call) (auto simp: some_filling_def filling_def unreplaced_def steady_def)
  show "spec (filling path directory content n0 temp []) (replace_with temp path content)
      (\<lambda>d. ?S d \<and> replaced path content (nodes d)) ?S"
    unfolding replace_with_def
  proof (rule spec_bind[OF spec_fill], goal_cases)
    case 1
    show ?case
      by simp (rule spec_bind[OF spec_install]; simp add: discard spec_return)
  next
    case (2 e)
    show ?case
      by simp (rule spec_bind[OF flush]; simp add: discard)
  qed
qed (rule assms)

text \<open>The names that are tried are not the target and not its directory; the one that is created is empty,
  private, and was not there before.\<close>

lemma temporary_created:
  assumes "temp \<noteq> path" "temp \<noteq> directory"
  shows "spec (unreplaced path directory content n0) (system_call (create_exclusive temp))
    (filling path directory content n0 temp []) (unreplaced path directory content n0)"
proof (rule spec_system_call)
  fix d as n
  assume d: "unreplaced path directory content n0 d" and "create_exclusive temp (nodes d) = Inr n"
  then have fresh: "nodes d temp = None" and n: "n = (nodes d)(temp \<mapsto> new_file)"
    by (auto simp: create_exclusive_def split: option.splits)
  have kept: "others_kept path directory n0 (nodes d)"
    using d by (simp add: unreplaced_def steady_def old_or_new_def)
  then have "n0 temp = None"
    using assms fresh unfolding others_kept_def by (cases "n0 temp") fastforce+
  moreover have "others_kept path directory n0 n"
    using kept fresh unfolding others_kept_def n by fastforce
  moreover have "replaced temp [] n"
    by (simp add: n replaced_def new_file_def private_file_def)
  ultimately show "filling path directory content n0 temp [] (change n (d\<lparr>answers := as\<rparr>))"
    using d assms by (simp add: filling_def unreplaced_def steady_def old_or_new_def n)
qed (simp add: unreplaced_def)

lemma allocate_ok:
  assumes "unreplaced path directory content n0 d" "path = directory @ ''/'' @ filename"
  shows "case run_state (allocate directory filename pid attempts) d of
      (Inl e, d') \<Rightarrow> unreplaced path directory content n0 d'
    | (Inr temp, d') \<Rightarrow> filling path directory content n0 temp [] d'"
  using assms(1)
proof (induction attempts arbitrary: d)
  case Nil
  then show ?case by simp
next
  case (Cons a attempts)
  let ?temp = "directory @ ''/'' @ temporary_name filename pid a"
  have "spec (unreplaced path directory content n0) (system_call (create_exclusive ?temp))
      (filling path directory content n0 ?temp []) (unreplaced path directory content n0)"
    by (rule temporary_created) (simp_all add: assms(2) temporary_name_def)
  from specD[OF this Cons.prems] show ?case
    by (auto simp: Let_def split: option.splits prod.splits dest: Cons.IH)
qed

lemma replacement_ok_fresh:
  "unreplaced path directory content n0 d \<Longrightarrow> replacement_ok path directory content n0 (Some e, d)"
  by (simp add: replacement_ok_def unreplaced_def)

lemma replace_ok:
  assumes start: "unreplaced path directory content n0 d"
    and split: "split_path path = Some (directory, filename)"
  shows "replacement_ok path directory content n0
    (run_state (replace_private_file_atomically pid path content) d)"
proof (cases "directory = ''/'' \<or> \<not> safe_filename filename")
  case True
  then show ?thesis
    using start by (simp add: replace_private_file_atomically_def split replacement_ok_fresh)
next
  case False
  have p: "path = directory @ ''/'' @ filename" using split_path_Some[OF split] False by simp
  let ?P = "unreplaced path directory content n0"
  have "spec ?P (chain [private_directory directory, flush_call, check_target path]) ?P ?P"
    by (rule spec_chain[OF unreplaced_private_directory spec_chain[OF unreplaced_flush
          spec_chain[OF unreplaced_target spec_chain_Nil]]]) (simp add: p)
  from specD[OF this start] obtain r d1
    where r: "run_state (chain [private_directory directory, flush_call, check_target path]) d = (r, d1)"
      and d1: "?P d1" by (auto split: prod.splits option.splits)
  obtain a d2 where a: "run_state (allocate directory filename pid [0..<maximum_attempts]) d1 = (a, d2)"
    by (cases "run_state (allocate directory filename pid [0..<maximum_attempts]) d1")
  show ?thesis
    using allocate_ok[OF d1 p, of pid "[0..<maximum_attempts]"] d1 False
    by (cases r; cases a)
      (simp_all add: replace_private_file_atomically_def split r a replacement_ok_fresh replace_with_ok
        del: chain.simps allocate.simps)
qed

lemma unreplaced_fresh: "unreplaced path directory content n (fresh_disk n as)"
  by (simp add: unreplaced_def steady_def fresh_disk_def old_or_new_def others_kept_def)

section \<open>Properties\<close>

text \<open>C12: Replacement is atomic: whatever the kernel refuses, interrupts or cuts short, in every
  state of the directory that was ever on the disk (so after a crash at any moment) the
  target is as it was before or a private file with the whole new contents, every other
  file that existed is untouched, and success means that the new contents are in place.\<close>

theorem replacement_is_atomic:
  "split_path path = Some (directory, filename) \<Longrightarrow>
     replacement_ok path directory content n
       (run_state (replace_private_file_atomically pid path content) (fresh_disk n as))"
  by (rule replace_ok[OF unreplaced_fresh])

lemma replacement_is_atomic_witness:
  "replacement_ok ''/s/log'' ''/s'' ''new'' (\<lambda>p. None)
     (run_state (replace_private_file_atomically 7 ''/s/log'' ''new'') (fresh_disk (\<lambda>p. None) [Refused ''no'']))"
  by (rule replacement_is_atomic[of _ _ "''log''"]) code_simp

end
