(* ===== verification/Logging.thy ===== *)
theory Logging
  imports StorageReads StorageReplacement Calendar
begin

text \<open>
  \<open>src/logging/core\<close>, \<open>src/logging/utils\<close> and \<open>src/logging/engine\<close>: the structured local logs.
  An event becomes one bounded line without control characters or API keys, and is appended
  to the log of its channel, or replaces the log when it has reached its limit.  The clock
  and the process id are parameters; the files are those of the disk of
  \<open>SecureStorage\<close>.
\<close>

section \<open>Events\<close>

datatype log_channel = Operations | Audit | Security | ErrorChannel

datatype log_level = InfoLevel | WarningLevel | ErrorLevel

record log_event =
  le_channel :: log_channel
  le_level :: log_level
  le_event :: string
  le_detail :: string

fun channel_to_string :: "log_channel \<Rightarrow> string" where
  "channel_to_string Operations = ''operations''"
| "channel_to_string Audit = ''audit''"
| "channel_to_string Security = ''security''"
| "channel_to_string ErrorChannel = ''error''"

fun log_level_to_string :: "log_level \<Rightarrow> string" where
  "log_level_to_string InfoLevel = ''INFO''"
| "log_level_to_string WarningLevel = ''WARN''"
| "log_level_to_string ErrorLevel = ''ERROR''"

definition log_file_name :: "log_channel \<Rightarrow> string" where
  "log_file_name c = channel_to_string c @ ''.log''"

text \<open>The order of the channels is that of their declaration.\<close>

fun channel_index :: "log_channel \<Rightarrow> nat" where
  "channel_index Operations = 0"
| "channel_index Audit = 1"
| "channel_index Security = 2"
| "channel_index ErrorChannel = 3"

lemma channel_index_inject: "channel_index a = channel_index b \<longleftrightarrow> a = b"
  by (cases a; cases b) simp_all

instantiation log_channel :: linorder
begin

definition less_eq_log_channel :: "log_channel \<Rightarrow> log_channel \<Rightarrow> bool" where
  "a \<le> b \<longleftrightarrow> channel_index a \<le> channel_index b"

definition less_log_channel :: "log_channel \<Rightarrow> log_channel \<Rightarrow> bool" where
  "a < b \<longleftrightarrow> channel_index a < channel_index b"

instance
  by standard (auto simp: less_eq_log_channel_def less_log_channel_def channel_index_inject)

end

section \<open>Sanitising\<close>

definition is_ipify_key_character :: "char \<Rightarrow> bool" where
  "is_ipify_key_character c \<longleftrightarrow> is_alnum c \<or> c = CHR ''_'' \<or> c = CHR ''-''"

definition key_prefix :: string where
  "key_prefix = ''at_''"

definition redaction :: string where
  "redaction = ''[REDACTED_IPIFY_KEY]''"

text \<open>The characters of a key after its prefix, when the text starts with a key.\<close>

definition key_length :: "string \<Rightarrow> nat" where
  "key_length rest =
     (if starts_with rest key_prefix then length (takeWhile is_ipify_key_character (drop 3 rest)) else 0)"

definition sanitize_log_char :: "char \<Rightarrow> char" where
  "sanitize_log_char c = (if byte c < 32 \<or> byte c = 127 then blank_char else c)"

function sanitize_log_loop :: "nat \<Rightarrow> string \<Rightarrow> string \<Rightarrow> string" where
  "sanitize_log_loop maximum out rest =
     (if rest = [] \<or> maximum \<le> length out then out
      else if 0 < key_length rest
      then sanitize_log_loop maximum (out @ take (min (length redaction) (maximum - length out)) redaction)
             (drop (3 + key_length rest) rest)
      else sanitize_log_loop maximum (out @ [sanitize_log_char (hd rest)]) (tl rest))"
  by auto

termination
  by (relation "measure (\<lambda>(maximum, out, rest). length rest)") (auto simp: neq_Nil_conv)

declare sanitize_log_loop.simps [simp del]

definition sanitize_log_value :: "string \<Rightarrow> nat \<Rightarrow> string" where
  "sanitize_log_value value maximum = sanitize_log_loop maximum [] value"

definition default_value_length :: nat where
  "default_value_length = 512"

definition utc_log_timestamp :: "int \<Rightarrow> string" where
  [simp]: "utc_log_timestamp now = iso_timestamp now"

definition format_log_event :: "int \<Rightarrow> log_event \<Rightarrow> string" where
  "format_log_event now ev =
     utc_log_timestamp now @ [tab_char] @ log_level_to_string (le_level ev) @ [tab_char] @
     channel_to_string (le_channel ev) @ [tab_char] @ sanitize_log_value (le_event ev) 96 @ [tab_char] @
     sanitize_log_value (le_detail ev) default_value_length @ [newline_char]"

section \<open>The engine\<close>

definition maximum_log_bytes :: nat where
  "maximum_log_bytes = 512 * 1024"

definition lock_check :: "string \<Rightarrow> tree \<Rightarrow> string + tree" where
  "lock_check path n =
     (case n path of
        None \<Rightarrow> Inl no_such_file
      | Some x \<Rightarrow> if private_file x then Inr n else Inl ''log lock is not a private regular file'')"

text \<open>\<open>ScopedLogLock::acquire\<close>: the last call is \<open>flock\<close>.\<close>

definition acquire_lock :: "string \<Rightarrow> (disk, string option) state" where
  "acquire_lock path =
     chain [system_call (open_for_writing path), system_call (lock_check path),
            system_call (change_mode path owner_read_write), flush_call]"

definition rotation_event :: "log_channel \<Rightarrow> log_event" where
  "rotation_event c = \<lparr>le_channel = c, le_level = InfoLevel, le_event = ''log-rotation'',
     le_detail = ''retained log reached 512 KiB limit''\<rparr>"

text \<open>The append or rotation once the lock is held; \<open>now\<close> and \<open>later\<close> are the two readings of
  the clock.\<close>

definition write_entry ::
  "nat \<Rightarrow> int \<Rightarrow> int \<Rightarrow> log_event \<Rightarrow> string \<Rightarrow> bool \<Rightarrow> (disk, string option) state" where
  "write_entry pid now later ev path full =
     (let entry = format_log_event now ev in
      if full
      then replace_private_file_atomically pid path
             (format_log_event later (rotation_event (le_channel ev)) @ entry)
      else write_private_file path entry True)"

definition entry_after ::
  "nat \<Rightarrow> int \<Rightarrow> int \<Rightarrow> log_event \<Rightarrow> string \<Rightarrow> string + string \<Rightarrow> (disk, string option) state" where
  "entry_after pid now later ev path existing =
     (case existing of
        Inl e \<Rightarrow>
          if e \<noteq> no_such_file \<and> e \<noteq> size_limit_error then State_Monad.return (Some e)
          else write_entry pid now later ev path
                 (e = size_limit_error \<or> maximum_log_bytes < length (format_log_event now ev))
      | Inr s \<Rightarrow>
          write_entry pid now later ev path
            (maximum_log_bytes < length s + length (format_log_event now ev)))"

definition store_entry ::
  "nat \<Rightarrow> int \<Rightarrow> int \<Rightarrow> log_event \<Rightarrow> string \<Rightarrow> (disk, string option) state" where
  "store_entry pid now later ev path = do {
     existing \<leftarrow> read_private_file maximum_log_bytes path;
     entry_after pid now later ev path existing
   }"

definition log_record ::
  "environment \<Rightarrow> nat \<Rightarrow> int \<Rightarrow> int \<Rightarrow> log_event \<Rightarrow> (disk, string option) state" where
  "log_record env pid now later ev = do {
     path \<leftarrow> secure_local_path env StateArea (log_file_name (le_channel ev)) True;
     case path of
       Inl e \<Rightarrow> State_Monad.return (Some e)
     | Inr p \<Rightarrow> do {
         lock \<leftarrow> secure_local_path env StateArea (log_file_name (le_channel ev) @ ''.lock'') True;
         case lock of
           Inl e \<Rightarrow> State_Monad.return (Some e)
         | Inr l \<Rightarrow> chain [acquire_lock l, store_entry pid now later ev p]
       }
   }"

section \<open>Sanitised values\<close>

lemma starts_with_key: "starts_with s key_prefix \<longleftrightarrow> (\<exists>t. s = key_prefix @ t)"
  by (auto simp: starts_with_def key_prefix_def) (metis append_take_drop_id append_Cons append_Nil)

text \<open>No key is left: after its prefix comes no key character.\<close>

fun keyless :: "string \<Rightarrow> bool" where
  "keyless [] = True"
| "keyless (c # cs) \<longleftrightarrow> key_length (c # cs) = 0 \<and> keyless cs"

definition printable_log_char :: "char \<Rightarrow> bool" where
  "printable_log_char c \<longleftrightarrow> 32 \<le> byte c \<and> byte c \<noteq> 127"

lemma sanitize_log_char_printable [simp]: "printable_log_char (sanitize_log_char c)"
  by (simp add: printable_log_char_def sanitize_log_char_def)

lemma redaction_printable: "\<forall>c\<in>set redaction. printable_log_char c"
  by (simp add: redaction_def printable_log_char_def)

lemma sanitize_log_loop_length:
  "length out \<le> maximum \<Longrightarrow> length (sanitize_log_loop maximum out rest) \<le> maximum"
proof (induction maximum out rest rule: sanitize_log_loop.induct)
  case (1 maximum out rest)
  then show ?case
    by (subst sanitize_log_loop.simps) (auto simp: redaction_def)
qed

lemma sanitize_log_loop_printable:
  "\<forall>c\<in>set out. printable_log_char c \<Longrightarrow>
     \<forall>c\<in>set (sanitize_log_loop maximum out rest). printable_log_char c"
proof (induction maximum out rest rule: sanitize_log_loop.induct)
  case (1 maximum out rest)
  have "\<forall>c\<in>set (take n redaction). printable_log_char c" for n
    using redaction_printable by (meson in_set_takeD)
  with 1 show ?case by (subst sanitize_log_loop.simps) auto
qed

text \<open>The loop only appends, and what it appends after a prefix cannot complete a key.\<close>

lemma key_length_append_pos:
  "0 < key_length s \<longleftrightarrow> (\<exists>c t. s = key_prefix @ c # t \<and> is_ipify_key_character c)"
proof
  assume k: "0 < key_length s"
  then obtain t where t: "s = key_prefix @ t"
    by (auto simp: key_length_def starts_with_key split: if_splits)
  then have "0 < length (takeWhile is_ipify_key_character t)"
    using k by (auto simp: key_length_def starts_with_key key_prefix_def split: if_splits)
  then show "\<exists>c t. s = key_prefix @ c # t \<and> is_ipify_key_character c"
    using t by (cases t) (auto split: if_splits)
qed (auto simp: key_length_def starts_with_def key_prefix_def)

lemma keyless_iff: "keyless s \<longleftrightarrow> \<not> (\<exists>t u c. s = t @ key_prefix @ c # u \<and> is_ipify_key_character c)"
proof (induction s)
  case (Cons a s)
  have "(\<exists>t u c. a # s = t @ key_prefix @ c # u \<and> is_ipify_key_character c) \<longleftrightarrow>
      0 < key_length (a # s) \<or> (\<exists>t u c. s = t @ key_prefix @ c # u \<and> is_ipify_key_character c)"
    unfolding key_length_append_pos by (auto simp: Cons_eq_append_conv) blast+
  then show ?case using Cons.IH by auto
qed (simp add: key_prefix_def)

text \<open>A character that occurs in no key separates what is around it.\<close>

definition separates :: "char \<Rightarrow> bool" where
  "separates b \<longleftrightarrow> b \<notin> set key_prefix \<and> \<not> is_ipify_key_character b"

lemma key_before_separator:
  "\<lbrakk> separates b; 0 < key_length (s @ b # y) \<rbrakk> \<Longrightarrow> 0 < key_length (s @ z)"
  unfolding key_length_append_pos key_prefix_def separates_def
  by (cases s; cases "tl s"; cases "tl (tl s)"; cases "tl (tl (tl s))") auto

text \<open>The invariant of the loop: no key starts in what was written.\<close>

definition no_key_started :: "string \<Rightarrow> string \<Rightarrow> bool" where
  "no_key_started out rest \<longleftrightarrow>
     (\<forall>p s. out = p @ s \<and> s \<noteq> [] \<longrightarrow> key_length (s @ rest) = 0)"

lemma no_key_started_keyless: "no_key_started out rest \<Longrightarrow> keyless out"
proof (induction out)
  case (Cons c out)
  have "no_key_started out rest"
    using Cons.prems unfolding no_key_started_def by (metis append_Cons)
  moreover have "key_length (c # out @ rest) = 0"
    using Cons.prems unfolding no_key_started_def by (metis append_Cons append_Nil list.distinct(1))
  then have "key_length (c # out) = 0"
    using key_length_append_pos[of "c # out"] key_length_append_pos[of "c # out @ rest"]
    by (metis append.assoc append_Cons gr0I less_irrefl)
  ultimately show ?case using Cons.IH by simp
qed simp

lemma no_key_started_char:
  assumes "no_key_started out (c # rs)" "key_length (c # rs) = 0"
  shows "no_key_started (out @ [sanitize_log_char c]) rs"
  unfolding no_key_started_def
proof (intro allI impI)
  fix p s assume s: "out @ [sanitize_log_char c] = p @ s \<and> s \<noteq> []"
  then obtain s' where s': "s = s' @ [sanitize_log_char c]" "out = p @ s'"
    by (cases s rule: rev_cases) auto
  have before: "key_length (s' @ c # rs) = 0"
    using assms s'(2) unfolding no_key_started_def by (cases "s' = []") auto
  show "key_length (s @ rs) = 0"
  proof (cases "sanitize_log_char c = c")
    case True
    then show ?thesis using before s'(1) by simp
  next
    case False
    then have "sanitize_log_char c = blank_char" by (simp add: sanitize_log_char_def split: if_splits)
    moreover have "separates blank_char"
      by (simp add: separates_def key_prefix_def is_ipify_key_character_def is_alnum_def is_digit_def
          is_upper_def is_lower_def)
    ultimately show ?thesis
      using key_before_separator[of blank_char s' rs "c # rs"] before s'(1) by auto
  qed
qed

lemma no_key_started_redaction:
  assumes "no_key_started out rest" "0 < k"
  shows "no_key_started (out @ take k redaction) rest'"
  unfolding no_key_started_def
proof (intro allI impI, rule ccontr)
  fix p s assume s: "out @ take k redaction = p @ s \<and> s \<noteq> []" and key: "key_length (s @ rest') \<noteq> 0"
  obtain r where r: "take k redaction = CHR ''['' # r" "CHR ''a'' \<notin> set (take k redaction)"
    using assms(2) in_set_takeD[of "CHR ''a''" k redaction] by (cases k) (auto simp: redaction_def)
  from s consider (later) "\<exists>q. s = q \<and> q \<noteq> [] \<and> set q \<subseteq> set (take k redaction)"
    | (earlier) s' where "s = s' @ take k redaction" "out = p @ s'" "s' \<noteq> []"
    unfolding append_eq_append_conv2 by fastforce
  then show False
  proof cases
    case later
    then have "hd s \<noteq> CHR ''a''" using r(2) by (metis hd_in_set subsetD)
    moreover have "hd (s @ rest') = CHR ''a''"
      using key key_length_append_pos[of "s @ rest'"] by (auto simp: key_prefix_def)
    ultimately show ?thesis using s by simp
  next
    case earlier
    have "separates (CHR ''['')"
      by (simp add: separates_def key_prefix_def is_ipify_key_character_def is_alnum_def is_digit_def
          is_upper_def is_lower_def)
    then have "0 < key_length (s' @ rest)"
      using key_before_separator[of "CHR ''[''" s' "r @ rest'" rest] key earlier(1) r(1) by simp
    then show ?thesis using assms(1) earlier(2,3) by (auto simp: no_key_started_def)
  qed
qed

lemma sanitize_log_loop_keyless:
  "no_key_started out rest \<Longrightarrow> keyless (sanitize_log_loop maximum out rest)"
proof (induction maximum out rest rule: sanitize_log_loop.induct)
  case (1 maximum out rest)
  show ?case
  proof (cases "rest = [] \<or> maximum \<le> length out")
    case True
    then show ?thesis
      using no_key_started_keyless[OF "1.prems"] by (subst sanitize_log_loop.simps) auto
  next
    case False
    show ?thesis
    proof (cases "0 < key_length rest")
      case True
      have "0 < min (length redaction) (maximum - length out)"
        using False by (simp add: redaction_def)
      then show ?thesis
        using "1.IH"(1)[OF False True] no_key_started_redaction[OF "1.prems"] False True
        by (subst sanitize_log_loop.simps) simp
    next
      case no_key: False
      then obtain c rs where rest: "rest = c # rs" using False by (cases rest) auto
      show ?thesis
        using "1.IH"(2)[OF False no_key] no_key_started_char[of out c rs] "1.prems" False no_key
        by (subst sanitize_log_loop.simps) (simp add: rest)
    qed
  qed
qed

section \<open>What a record leaves on the disk\<close>

text \<open>No operation looks at the history, so the facts on fresh disks hold on every disk.\<close>

definition same_disk :: "disk \<Rightarrow> disk \<Rightarrow> bool" where
  "same_disk d e \<longleftrightarrow> nodes d = nodes e \<and> answers d = answers e"

definition history_blind :: "(disk, 'a) state \<Rightarrow> bool" where
  "history_blind m \<longleftrightarrow> (\<forall>d e. same_disk d e \<longrightarrow>
     fst (run_state m d) = fst (run_state m e) \<and> same_disk (snd (run_state m d)) (snd (run_state m e)))"

named_theorems blind_intro \<open>operations that do not look at the history\<close>

lemma blind_return [blind_intro]: "history_blind (State_Monad.return x)"
  by (simp add: history_blind_def)

lemma blind_bind [blind_intro]:
  "history_blind m \<Longrightarrow> (\<And>x. history_blind (f x)) \<Longrightarrow> history_blind (State_Monad.bind m f)"
  by (simp add: history_blind_def split_def)

lemma blind_option [blind_intro]:
  "history_blind m \<Longrightarrow> (\<And>y. history_blind (n y)) \<Longrightarrow>
     history_blind (case x of None \<Rightarrow> m | Some y \<Rightarrow> n y)"
  by (cases x) simp_all

lemma blind_sum [blind_intro]:
  "(\<And>y. history_blind (m y)) \<Longrightarrow> (\<And>y. history_blind (n y)) \<Longrightarrow>
     history_blind (case x of Inl y \<Rightarrow> m y | Inr y \<Rightarrow> n y)"
  by (cases x) simp_all

lemma blind_if [blind_intro]: "history_blind m \<Longrightarrow> history_blind n \<Longrightarrow> history_blind (if b then m else n)"
  by simp

lemma blind_system_call [blind_intro]: "history_blind (system_call f)"
  by (auto simp: history_blind_def system_call_def same_disk_def Let_def
      split: list.splits answer.splits sum.splits)

lemma blind_chain [blind_intro]: "(\<And>m. m \<in> set ms \<Longrightarrow> history_blind m) \<Longrightarrow> history_blind (chain ms)"
  by (induction ms) (auto intro!: blind_intro)

lemma blind_write_loop:
  "same_disk d e \<Longrightarrow> fst (write_loop path t d) = fst (write_loop path t e) \<and>
     same_disk (snd (write_loop path t d)) (snd (write_loop path t e))"
proof (induction path t d arbitrary: e rule: write_loop.induct)
  case (1 path t d)
  have a: "answers e = answers d" and n: "nodes e = nodes d" using "1.prems" by (simp_all add: same_disk_def)
  have app: "same_disk (append_contents path u (d\<lparr>answers := as\<rparr>)) (append_contents path u (e\<lparr>answers := as\<rparr>))" for u as
    using n by (simp add: same_disk_def append_contents_def)
  have ans: "same_disk (d\<lparr>answers := as\<rparr>) (e\<lparr>answers := as\<rparr>)" for as
    using n by (simp add: same_disk_def)
  show ?case
  proof (cases "t = []")
    case True
    then show ?thesis using "1.prems" by (subst (1 2 3 4) write_loop.simps) simp
  next
    case False
    show ?thesis
    proof (cases "answers d")
      case Nil
      then show ?thesis
        using False app[of t "[]"] by (subst (1 2 3 4) write_loop.simps) (simp add: a)
    next
      case (Cons x as)
      then show ?thesis
        using "1.IH"(1)[OF False refl Cons _ ans] False app ans
          "1.IH"(2)[OF False refl Cons _ _ app]
        by (subst (1 2 3 4) write_loop.simps) (cases x; simp add: a Let_def)
    qed
  qed
qed

lemma blind_write_all [blind_intro]: "history_blind (write_all path t)"
  by (simp add: history_blind_def write_all_def blind_write_loop)

lemma blind_allocate [blind_intro]: "history_blind (allocate directory filename pid attempts)"
  by (induction attempts) (auto simp: Let_def intro!: blind_intro)

lemma blind_replace: "history_blind (replace_private_file_atomically pid path content)"
  unfolding replace_private_file_atomically_def replace_with_def fill_temporary_def
    install_temporary_def discard_temporary_def private_directory_def check_target_def
    private_regular_file_def flush_call_def
  by (auto intro!: blind_intro split: option.split)

lemma replace_stores:
  assumes "fst (run_state (replace_private_file_atomically pid path content) d) = None"
  shows "holds_file path content (snd (run_state (replace_private_file_atomically pid path content) d))"
proof -
  let ?m = "replace_private_file_atomically pid path content"
  let ?f = "fresh_disk (nodes d) (answers d)"
  obtain directory filename where s: "split_path path = Some (directory, filename)"
    using assms by (auto simp: replace_private_file_atomically_def split: option.splits)
  have "same_disk d ?f" by (simp add: same_disk_def fresh_disk_def)
  then have b: "fst (run_state ?m d) = fst (run_state ?m ?f)"
    "nodes (snd (run_state ?m d)) = nodes (snd (run_state ?m ?f))"
    using blind_replace[of pid path content] unfolding history_blind_def same_disk_def by blast+
  show ?thesis
    using replace_ok[OF unreplaced_fresh[where as = "answers d" and n = "nodes d"] s, of content pid] assms b
    by (auto simp: replacement_ok_def replaced_def holds_file_def)
qed

text \<open>Appending.\<close>

lemma append_holds:
  "spec (holds_file path s) (write_private_file path t True) (holds_file path (s @ t)) (\<lambda>d. True)"
  "spec (\<lambda>d. nodes d path = None) (write_private_file path t True) (holds_file path t) (\<lambda>d. True)"
proof -
  have check: "spec (holds_file path u) (private_regular_file path) (holds_file path u) (\<lambda>d. True)" for u
    unfolding private_regular_file_def by (rule holds_file_call) (auto simp: file_check_private)
  have mode: "spec (holds_file path u) (system_call (change_mode path m)) (holds_file path u) (\<lambda>d. True)" for u m
    by (rule spec_system_call) (auto simp: change_mode_def update_node_def holds_file_def private_file_def)
  have tail: "spec (holds_file path u) (chain [private_regular_file path,
      system_call (change_mode path owner_read_write), write_all path t, flush_call, flush_call])
      (holds_file path (u @ t)) (\<lambda>d. True)" for u
    by (rule spec_chain[OF check spec_chain[OF mode spec_chain[OF write_all_holds
          spec_chain[OF flush_holds spec_chain[OF flush_holds spec_done]]]]]) simp
  have old: "spec (holds_file path s) (system_call (open_for_writing path)) (holds_file path s) (\<lambda>d. True)"
    by (rule holds_file_call) (auto simp: open_for_writing_def split: option.splits if_splits)
  have new: "spec (\<lambda>d. nodes d path = None) (system_call (open_for_writing path)) (holds_file path []) (\<lambda>d. True)"
    by (rule spec_system_call)
      (auto simp: open_for_writing_def holds_file_def new_file_def private_file_def
        split: option.splits if_splits)
  show "spec (holds_file path s) (write_private_file path t True) (holds_file path (s @ t)) (\<lambda>d. True)"
    unfolding write_private_file_def if_True append.simps
    by (rule spec_chain[OF old tail])
  show "spec (\<lambda>d. nodes d path = None) (write_private_file path t True) (holds_file path t) (\<lambda>d. True)"
    unfolding write_private_file_def if_True append.simps
    using spec_chain[OF new tail] by simp
qed

section \<open>Bounded logs\<close>

lemma sanitized_length: "length (sanitize_log_value s n) \<le> n"
  unfolding sanitize_log_value_def by (rule sanitize_log_loop_length) simp

lemma format_log_event_length: "clock_time now \<Longrightarrow> length (format_log_event now ev) \<le> 648"
  using sanitized_length[of "le_event ev" 96] sanitized_length[of "le_detail ev" default_value_length]
  by (cases "le_level ev"; cases "le_channel ev")
    (simp_all add: format_log_event_def iso_timestamp_length default_value_length_def)

text \<open>The contents of the log before a record, and what a record may leave.\<close>

definition log_before :: "string \<Rightarrow> string \<Rightarrow> disk \<Rightarrow> bool" where
  "log_before path s d \<longleftrightarrow> holds_file path s d \<or> (s = [] \<and> nodes d path = None)"

definition log_after :: "int \<Rightarrow> int \<Rightarrow> log_event \<Rightarrow> string \<Rightarrow> string \<Rightarrow> disk \<Rightarrow> bool" where
  "log_after now later ev path s d \<longleftrightarrow>
     (\<exists>t. holds_file path t d \<and> length t \<le> maximum_log_bytes \<and>
        (t = s @ format_log_event now ev \<or>
         t = format_log_event later (rotation_event (le_channel ev)) @ format_log_event now ev))"

lemma write_entry_stores:
  assumes "fst (run_state (write_entry pid now later ev path full) d) = None"
    and "clock_time now" "clock_time later" and "log_before path s d"
    and fits: "\<not> full \<Longrightarrow> length s + length (format_log_event now ev) \<le> maximum_log_bytes"
  shows "log_after now later ev path s (snd (run_state (write_entry pid now later ev path full) d))"
proof (cases full)
  case True
  let ?t = "format_log_event later (rotation_event (le_channel ev)) @ format_log_event now ev"
  have "length ?t \<le> 648 + 648"
    using format_log_event_length[OF assms(2), of ev]
      format_log_event_length[OF assms(3), of "rotation_event (le_channel ev)"]
    by simp
  then have "length ?t \<le> maximum_log_bytes" by (simp add: maximum_log_bytes_def)
  moreover have "holds_file path ?t (snd (run_state (write_entry pid now later ev path full) d))"
    using replace_stores[of pid path ?t d] assms(1) True by (simp add: write_entry_def Let_def)
  ultimately show ?thesis unfolding log_after_def by blast
next
  case False
  have "holds_file path (s @ format_log_event now ev) (snd (run_state (write_entry pid now later ev path full) d))"
    using assms(1,4) False specD[OF append_holds(1)[of path s "format_log_event now ev"], of d]
      specD[OF append_holds(2)[of path "format_log_event now ev"], of d]
    by (auto simp: write_entry_def Let_def log_before_def split: prod.splits)
  then show ?thesis using fits[OF False] by (auto simp: log_after_def)
qed

lemma store_entry_stores:
  assumes ok: "fst (run_state (store_entry pid now later ev path) d) = None"
    and times: "clock_time now" "clock_time later" and before: "log_before path s d"
    and honest: "Refused no_such_file \<notin> set (answers d)"
  shows "log_after now later ev path s (snd (run_state (store_entry pid now later ev path) d))"
proof -
  obtain r d1 where r: "run_state (read_private_file maximum_log_bytes path) d = (r, d1)"
    by (metis surj_pair)
  have n: "nodes d1 = nodes d" using read_private_nodes[of maximum_log_bytes path d] by (simp add: r)
  have before1: "log_before path s d1" using before n by (simp add: log_before_def holds_file_def)
  show ?thesis
  proof (cases r)
    case (Inl e)
    have e: "e = no_such_file \<or> e = size_limit_error"
      using ok by (auto simp: store_entry_def entry_after_def r Inl split: if_splits)
    let ?full = "e = size_limit_error \<or> maximum_log_bytes < length (format_log_event now ev)"
    have run: "run_state (store_entry pid now later ev path) d =
        run_state (write_entry pid now later ev path ?full) d1"
      using e by (auto simp: store_entry_def entry_after_def r Inl)
    have "length s + length (format_log_event now ev) \<le> maximum_log_bytes" if "\<not> ?full"
    proof -
      have "nodes d path = None"
        using read_reports_missing[of maximum_log_bytes path d] honest e that by (simp add: r Inl)
      then have "s = []" using before by (auto simp: log_before_def holds_file_def)
      then show ?thesis using that by simp
    qed
    then show ?thesis
      using write_entry_stores[OF _ times before1] ok unfolding run by blast
  next
    case (Inr t)
    have "holds_file path t d" using read_private_exact[of maximum_log_bytes path d t] by (simp add: r Inr)
    then have t: "t = s" using before by (auto simp: log_before_def holds_file_def)
    show ?thesis
      using write_entry_stores[OF _ times before1, of pid ev
          "maximum_log_bytes < length t + length (format_log_event now ev)"] ok t
      by (simp add: store_entry_def entry_after_def r Inr)
  qed
qed

section \<open>The whole record\<close>

text \<open>A call that changes at most some nodes and invents no refusal.\<close>

definition touches_only :: "string set \<Rightarrow> (disk, 'a) state \<Rightarrow> bool" where
  "touches_only q m \<longleftrightarrow>
     (\<forall>d. (\<forall>p. p \<notin> q \<longrightarrow> nodes (snd (run_state m d)) p = nodes d p) \<and>
          set (answers (snd (run_state m d))) \<subseteq> set (answers d))"

named_theorems touches_intro \<open>operations on one node\<close>

lemma touches_return [touches_intro]: "touches_only q (State_Monad.return x)"
  by (simp add: touches_only_def)

lemma touches_bind [touches_intro]:
  "touches_only q m \<Longrightarrow> (\<And>x. touches_only q (f x)) \<Longrightarrow> touches_only q (State_Monad.bind m f)"
  unfolding touches_only_def by (simp add: split_def) (metis subset_trans)

lemma touches_chain [touches_intro]:
  "(\<And>m. m \<in> set ms \<Longrightarrow> touches_only q m) \<Longrightarrow> touches_only q (chain ms)"
  by (induction ms) (auto intro!: touches_intro split: option.split)

lemma touches_option [touches_intro]:
  "touches_only q m \<Longrightarrow> (\<And>y. touches_only q (n y)) \<Longrightarrow>
     touches_only q (case x of None \<Rightarrow> m | Some y \<Rightarrow> n y)"
  by (cases x) simp_all

lemma touches_system_call:
  assumes "\<And>n n' p. f n = Inr n' \<Longrightarrow> p \<notin> q \<Longrightarrow> n' p = n p"
  shows "touches_only q (system_call f)"
  unfolding touches_only_def
proof (intro allI conjI impI)
  fix d p assume "p \<notin> q"
  then show "nodes (snd (run_state (system_call f) d)) p = nodes d p"
    using assms by (auto simp: system_call_def Let_def split: list.split answer.split sum.split)
next
  fix d
  show "set (answers (snd (run_state (system_call f) d))) \<subseteq> set (answers d)"
    unfolding system_call_error(2) by (cases "answers d") auto
qed

lemma touches_acquire: "touches_only {path} (acquire_lock path)"
  unfolding acquire_lock_def flush_call_def
  by (rule touches_chain)
    (auto intro!: touches_system_call simp: open_for_writing_def lock_check_def change_mode_def
      update_node_def split: option.splits if_splits)

lemma touches_private_directory: "path \<in> q \<Longrightarrow> touches_only q (private_directory path)"
  unfolding private_directory_def
  by (rule touches_chain)
    (auto intro!: touches_system_call simp: directory_check_def change_mode_def update_node_def
      split: option.splits if_splits)

lemma touches_secure_path:
  assumes "storage_directory env area = Some dir"
  shows "touches_only (set (path_steps dir)) (secure_local_path env area filename create)"
proof -
  have "touches_only (set (path_steps dir)) (system_call (create_directories dir))"
    by (rule touches_system_call) (use created_directories(2) in blast)
  moreover have "touches_only (set (path_steps dir)) (check_existing dir)"
    using touches_private_directory[of dir "set (path_steps dir)"]
    by (simp add: check_existing_def touches_only_def path_steps_def)
  ultimately show ?thesis
    unfolding secure_local_path_def
    by (auto simp: assms simp del: chain.simps intro!: touches_intro)
qed

lemma secure_path_result:
  "run_state (secure_local_path env area filename create) d = (Inr p, d') \<Longrightarrow>
     \<exists>dir. storage_directory env area = Some dir \<and> p = path_append dir filename"
  by (auto simp: secure_local_path_def split_def split: if_splits option.splits)

lemma path_append_facts:
  "path_append dir f \<noteq> dir \<longleftrightarrow> f \<noteq> [] \<or> (dir \<noteq> [] \<and> List.last dir \<noteq> CHR ''/'')"
  "path_append dir f = path_append dir g \<longleftrightarrow> f = g"
  by (auto simp: path_append_def)

lemma path_append_outside: "path_append dir f \<noteq> dir \<Longrightarrow> path_append dir f \<notin> set (path_steps dir)"
  using path_steps_length[of "path_append dir f" dir] by (auto simp: path_append_def split: if_splits)

lemma log_name_nonempty: "log_file_name c \<noteq> []"
  by (cases c) (simp_all add: log_file_name_def)

lemma log_before_kept:
  "touches_only q m \<Longrightarrow> p \<notin> q \<Longrightarrow> log_before p s d \<Longrightarrow> log_before p s (snd (run_state m d))"
  by (simp add: touches_only_def log_before_def holds_file_def)

lemma log_record_stores:
  assumes ok: "fst (run_state (log_record env pid now later ev) d) = None"
    and dir: "storage_directory env StateArea = Some dir"
    and times: "clock_time now" "clock_time later"
    and before: "log_before (path_append dir (log_file_name (le_channel ev))) s d"
    and honest: "Refused no_such_file \<notin> set (answers d)"
  shows "log_after now later ev (path_append dir (log_file_name (le_channel ev))) s
    (snd (run_state (log_record env pid now later ev) d))"
proof -
  let ?name = "log_file_name (le_channel ev)"
  let ?p = "path_append dir ?name" and ?l = "path_append dir (?name @ ''.lock'')"
  obtain r1 d1 where r1: "run_state (secure_local_path env StateArea ?name True) d = (r1, d1)"
    by (metis surj_pair)
  obtain r2 d2 where r2: "run_state (secure_local_path env StateArea (?name @ ''.lock'') True) d1 = (r2, d2)"
    by (metis surj_pair)
  obtain r3 d3 where r3: "run_state (acquire_lock ?l) d2 = (r3, d3)" by (metis surj_pair)
  have p: "r1 = Inr ?p"
    using ok secure_path_result[of env StateArea ?name True d] dir
    by (cases r1) (auto simp: log_record_def r1)
  have l: "r2 = Inr ?l"
    using ok p secure_path_result[of env StateArea "?name @ ''.lock''" True d1] dir
    by (cases r2) (auto simp: log_record_def r1 r2)
  have a: "r3 = None"
    using ok by (cases r3) (simp_all add: log_record_def r1 r2 r3 p l)
  have run: "run_state (log_record env pid now later ev) d = run_state (store_entry pid now later ev ?p) d3"
    by (simp add: log_record_def r1 r2 r3 p l a split_def)
      (cases "run_state (store_entry pid now later ev ?p) d3"; cases "fst (run_state (store_entry pid now later ev ?p) d3)"; simp)
  have pd: "?p \<notin> set (path_steps dir)" "?p \<notin> {?l}"
    using log_name_nonempty path_append_outside by (simp_all add: path_append_facts)
  note t = touches_secure_path[OF dir, of ?name True] touches_secure_path[OF dir, of "?name @ ''.lock''" True]
    touches_acquire[of ?l]
  have "log_before ?p s d1" using log_before_kept[OF t(1) pd(1) before] by (simp add: r1)
  then have "log_before ?p s d2" using log_before_kept[OF t(2) pd(1), of s d1] by (simp add: r2)
  then have before3: "log_before ?p s d3" using log_before_kept[OF t(3) pd(2), of s d2] by (simp add: r3)
  have "set (answers d1) \<subseteq> set (answers d)" "set (answers d2) \<subseteq> set (answers d1)"
    "set (answers d3) \<subseteq> set (answers d2)"
    using t unfolding touches_only_def by (metis r1 r2 r3 snd_conv)+
  then have "Refused no_such_file \<notin> set (answers d3)" using honest by blast
  then show ?thesis
    using store_entry_stores[OF _ times before3] ok unfolding run by blast
qed

section \<open>Properties\<close>

text \<open>C32: What is logged is bounded, on one line and free of API keys: a sanitised value has at
  most the maximal length, no control character, and nowhere an ipify key prefix followed by a
  character of a key.\<close>

theorem logged_value_is_safe:
  "length (sanitize_log_value v maximum) \<le> maximum \<and>
   list_all printable_log_char (sanitize_log_value v maximum) \<and>
   \<not> (\<exists>t u c. sanitize_log_value v maximum = t @ ''at_'' @ c # u \<and> is_ipify_key_character c)"
proof -
  have "keyless (sanitize_log_value v maximum)"
    unfolding sanitize_log_value_def
    by (rule sanitize_log_loop_keyless) (simp add: no_key_started_def)
  then show ?thesis
    using sanitized_length[of v maximum] sanitize_log_loop_printable[of "[]" maximum v]
    by (simp add: keyless_iff key_prefix_def sanitize_log_value_def list_all_iff)
qed

text \<open>C33: Logs are append-only and bounded: a successful record leaves the old log followed by
  the new line, or the rotation notice and the new line, and in either case at most 512 KiB,
  whatever calls the kernel refuses, interrupts or cuts short on the way (the one thing
  relied on is that it reports a missing file only when the file is missing).\<close>

theorem record_appends_or_rotates:
  "\<lbrakk> fst (run_state (log_record env pid now later ev) d) = None;
     storage_directory env StateArea = Some dir;
     clock_time now; clock_time later;
     log_before (path_append dir (log_file_name (le_channel ev))) s d;
     Refused no_such_file \<notin> set (answers d) \<rbrakk> \<Longrightarrow>
   log_after now later ev (path_append dir (log_file_name (le_channel ev))) s
     (snd (run_state (log_record env pid now later ev) d))"
  by (rule log_record_stores)

definition example_event :: log_event where
  "example_event = \<lparr>le_channel = Audit, le_level = InfoLevel, le_event = ''start'', le_detail = []\<rparr>"

definition record_example :: "string option \<times> disk" where
  "record_example = run_state (log_record example_environment 1 0 0 example_event)
     (fresh_disk (\<lambda>p. None) [])"

lemma record_example_succeeds: "fst record_example = None"
proof -
  have e: "\<not> maximum_log_bytes < length (format_log_event 0 ev)" for ev
    using format_log_event_length[of 0 ev] by (simp add: clock_time_def maximum_log_bytes_def)
  show ?thesis
    unfolding record_example_def
    by (simp add: log_record_def secure_local_path_def storage_directory_def example_environment_def
        path_append_def check_existing_def private_directory_def system_call_def create_directories_def path_steps_def upt_rec make_directory_def
        directory_check_def change_mode_def fresh_disk_def new_directory_def update_node_def
        acquire_lock_def lock_check_def flush_call_def open_for_writing_def new_file_def private_file_def
        store_entry_def entry_after_def read_private_file_def open_for_reading_def write_entry_def
        write_private_file_def private_regular_file_def file_check_def write_all_def write_loop.simps
        safe_filename_def find_any_def log_file_name_def no_such_file_def size_limit_error_def Let_def
        example_event_def append_contents_def e)
qed

lemma record_witness:
  "log_after 0 0 example_event ''/h/.local/state/fedora-firewall-control/audit.log'' [] (snd record_example)"
proof -
  have d: "storage_directory example_environment StateArea = Some ''/h/.local/state/fedora-firewall-control''"
    by (simp add: storage_directory_def example_environment_def path_append_def)
  have p: "path_append ''/h/.local/state/fedora-firewall-control'' (log_file_name (le_channel example_event))
      = ''/h/.local/state/fedora-firewall-control/audit.log''"
    by (simp add: path_append_def log_file_name_def example_event_def)
  show ?thesis
    unfolding p[symmetric] record_example_def
    by (rule record_appends_or_rotates)
      (use record_example_succeeds d in \<open>simp_all add: record_example_def clock_time_def
        log_before_def fresh_disk_def no_such_file_def\<close>)
qed

end
