(* ===== verification/StorageProgress.thy ===== *)
theory StorageProgress
  imports StorageReplacement StoredMode
begin

text \<open>
  Progress of \<open>src/core/secure_storage.cpp\<close>: on a kernel that grants its calls, writing and
  replacing succeed.  \<open>granted P m Q\<close> is the total-correctness triple of a storage computation
  that leads from trees in \<open>P\<close> to trees in \<open>Q\<close> without an error.
\<close>

definition granted :: "(tree \<Rightarrow> bool) \<Rightarrow> (disk, string option) state \<Rightarrow> (tree \<Rightarrow> bool) \<Rightarrow> bool" where
  "granted P m Q \<longleftrightarrow>
     (\<forall>d. P (nodes d) \<and> answers d = [] \<longrightarrow>
        (\<exists>d'. run_state m d = (None, d') \<and> Q (nodes d') \<and> answers d' = []))"

named_theorems granted_intro \<open>storage calls that succeed when the kernel grants them\<close>

lemma grantedI:
  "(\<And>d. P (nodes d) \<Longrightarrow> answers d = [] \<Longrightarrow>
      \<exists>d'. run_state m d = (None, d') \<and> Q (nodes d') \<and> answers d' = []) \<Longrightarrow> granted P m Q"
  by (simp add: granted_def)

lemma granted_call:
  "(\<And>n. P n \<Longrightarrow> \<exists>n'. f n = Inr n' \<and> Q n') \<Longrightarrow> granted P (system_call f) Q"
  by (rule grantedI) (fastforce simp: system_call_def)

lemma granted_flush: "granted P flush_call P"
  unfolding flush_call_def by (rule granted_call) simp

lemma granted_done: "granted P (chain []) P"
  by (simp add: granted_def)

lemma granted_chain: "granted P m Q \<Longrightarrow> granted Q (chain ms) R \<Longrightarrow> granted P (chain (m # ms)) R"
  by (rule grantedI) (fastforce simp: granted_def simp del: chain.simps(1))

lemma granted_weaken: "granted P m Q \<Longrightarrow> (\<And>n. P' n \<Longrightarrow> P n) \<Longrightarrow> granted P' m Q"
  by (simp add: granted_def)

lemma granted_check: "granted (\<lambda>n. (\<exists>x. n path = Some x \<and> private_file x) \<and> P n) (private_regular_file path)
    (\<lambda>n. (\<exists>x. n path = Some x \<and> private_file x) \<and> P n)"
  unfolding private_regular_file_def by (rule granted_call) (auto simp: file_check_private)

lemma granted_update:
  assumes "\<And>n x. P n \<Longrightarrow> n path = Some x \<Longrightarrow> Q (n(path \<mapsto> f x))" and "\<And>n. P n \<Longrightarrow> n path \<noteq> None"
  shows "granted P (system_call (\<lambda>n. Inr (update_node path f n))) Q"
proof (rule granted_call)
  fix n assume p: "P n"
  then obtain x where x: "n path = Some x" using assms(2) by blast
  show "\<exists>n'. Inr (update_node path f n) = Inr n' \<and> Q n'"
    using assms(1)[OF p x] by (simp add: update_node_def x)
qed

lemma write_loop_granted:
  "answers d = [] \<Longrightarrow> write_loop path content d =
     (None, if content = [] then d else append_contents path content (d\<lparr>answers := []\<rparr>))"
  by (subst write_loop.simps) simp

lemma granted_write_all:
  assumes "\<And>n x. P n \<Longrightarrow> n path = Some x \<Longrightarrow> P (n(path \<mapsto> x\<lparr>node_contents := node_contents x @ content\<rparr>))"
    and "\<And>n. P n \<Longrightarrow> n path \<noteq> None"
  shows "granted P (write_all path content) P"
proof (rule grantedI)
  fix d :: disk assume p: "P (nodes d)" "answers d = []"
  then obtain x where x: "nodes d path = Some x" using assms(2) by blast
  let ?d = "d\<lparr>answers := []\<rparr>"
  have "nodes (append_contents path content ?d) = (nodes d)(path \<mapsto> x\<lparr>node_contents := node_contents x @ content\<rparr>)"
    by (simp add: append_contents_def update_node_def x change_def)
  moreover have "answers (append_contents path content ?d) = []"
    by (simp add: append_contents_def change_def)
  ultimately show "\<exists>d'. run_state (write_all path content) d = (None, d') \<and> P (nodes d') \<and> answers d' = []"
    using assms(1)[OF p(1) x] p by (simp add: write_all_def write_loop_granted)
qed


text \<open>Where a file may be written: at the path is nothing, or a private file.\<close>

definition writable :: "string \<Rightarrow> tree \<Rightarrow> bool" where
  "writable path n \<longleftrightarrow> (case n path of None \<Rightarrow> True | Some x \<Rightarrow> private_file x)"

definition has_private :: "string \<Rightarrow> tree \<Rightarrow> bool" where
  "has_private path n \<longleftrightarrow> (\<exists>x. n path = Some x \<and> private_file x)"

definition has_directory :: "string \<Rightarrow> tree \<Rightarrow> bool" where
  "has_directory p n \<longleftrightarrow> (\<exists>y. n p = Some y \<and> node_kind y = DirectoryNode \<and> node_owned y)"

definition replaceable :: "string \<Rightarrow> string \<Rightarrow> string \<Rightarrow> tree \<Rightarrow> bool" where
  "replaceable directory path temporary n \<longleftrightarrow>
     has_directory directory n \<and> writable path n \<and> n temporary = None"

lemma private_calls_granted:
  "granted (has_private path) (private_regular_file path) (has_private path)"
  "granted (has_private path) (system_call (change_mode path m)) (has_private path)"
  "granted (has_private path) (system_call (truncate_file path)) (has_private path)"
  "granted (has_private path) (write_all path content) (has_private path)"
proof -
  show "granted (has_private path) (private_regular_file path) (has_private path)"
    using granted_check[of path "\<lambda>n. True"] by (simp add: has_private_def[abs_def])
  show "granted (has_private path) (system_call (change_mode path m)) (has_private path)"
    "granted (has_private path) (system_call (truncate_file path)) (has_private path)"
    by (rule granted_call; auto simp: change_mode_def truncate_file_def update_node_def has_private_def
        private_file_def)+
  show "granted (has_private path) (write_all path content) (has_private path)"
    by (rule granted_write_all) (auto simp: has_private_def private_file_def)
qed

lemma write_granted: "granted (writable path) (write_private_file path content b) (has_private path)"
proof -
  have "granted (writable path) (system_call (open_for_writing path)) (has_private path)"
    by (rule granted_call)
      (auto simp: open_for_writing_def writable_def has_private_def private_file_def new_file_def
        split: option.splits)
  note o = granted_chain[OF this] and p = private_calls_granted[of path, THEN granted_chain]
  show ?thesis
    unfolding write_private_file_def
    by (cases b; simp only: if_True if_False append.simps)
      (intro o p granted_chain[OF granted_flush] granted_done)+
qed

lemma directory_granted:
  assumes "directory \<noteq> path" "directory \<noteq> temporary"
  shows "granted (replaceable directory path temporary) (private_directory directory)
    (replaceable directory path temporary)"
proof -
  have 1: "granted (replaceable directory path temporary) (system_call (directory_check directory))
      (replaceable directory path temporary)"
    by (rule granted_call) (auto simp: replaceable_def has_directory_def directory_check_def)
  have 2: "granted (replaceable directory path temporary) (system_call (change_mode directory m))
      (replaceable directory path temporary)" for m
    by (rule granted_call)
      (use assms in \<open>auto simp: replaceable_def has_directory_def change_mode_def update_node_def writable_def\<close>)
  show ?thesis unfolding private_directory_def by (intro granted_chain[OF 1] granted_chain[OF 2] granted_done)
qed

lemma allocate_granted:
  assumes "nodes d (directory @ ''/'' @ temporary_name filename pid k) = None" "answers d = []"
  shows "\<exists>d'. run_state (allocate directory filename pid (k # ks)) d =
      (Inr (directory @ ''/'' @ temporary_name filename pid k), d') \<and> answers d' = [] \<and>
      has_private (directory @ ''/'' @ temporary_name filename pid k) (nodes d')"
  using assms
  by (simp add: Let_def system_call_def create_exclusive_def has_private_def private_file_def new_file_def
      change_def)

lemma replace_with_granted:
  assumes "has_private temporary (nodes d)" "answers d = []" "temporary \<noteq> path"
  shows "\<exists>d'. run_state (replace_with temporary path content) d = (None, d') \<and>
    has_private path (nodes d') \<and> answers d' = []"
proof -
  have f: "granted (has_private temporary) (fill_temporary temporary content) (has_private temporary)"
    unfolding fill_temporary_def
    by (intro private_calls_granted[THEN granted_chain] granted_chain[OF granted_flush] granted_done)
  have r: "granted (has_private temporary) (system_call (rename_over temporary path)) (has_private path)"
    by (rule granted_call) (use assms(3) in \<open>auto simp: has_private_def rename_over_def\<close>)
  have i: "granted (has_private temporary) (install_temporary temporary path) (has_private path)"
    unfolding install_temporary_def
    by (intro granted_chain[OF granted_flush] granted_chain[OF r] granted_done)
  obtain d1 where d1: "run_state (fill_temporary temporary content) d = (None, d1)"
    "has_private temporary (nodes d1)" "answers d1 = []"
    using f assms by (auto simp: granted_def)
  obtain d2 where "run_state (install_temporary temporary path) d1 = (None, d2)"
    "has_private path (nodes d2)" "answers d2 = []"
    using i d1 by (auto simp: granted_def)
  then show ?thesis by (simp add: replace_with_def d1)
qed

text \<open>The first temporary name is taken when nothing has it yet.\<close>

lemma replace_granted:
  assumes split: "split_path path = Some (directory, filename)" "directory \<noteq> ''/''" "safe_filename filename"
    and ready: "replaceable directory path (directory @ ''/'' @ temporary_name filename pid 0) (nodes d)"
    and a: "answers d = []"
  shows "\<exists>d'. run_state (replace_private_file_atomically pid path content) d = (None, d') \<and>
    has_private path (nodes d') \<and> answers d' = []"
proof -
  let ?t = "directory @ ''/'' @ temporary_name filename pid 0"
  have path: "path = directory @ ''/'' @ filename" using split_path_Some[OF split(1)] split(2) by simp
  have ne: "directory \<noteq> path" "directory \<noteq> ?t" "?t \<noteq> path"
    by (auto simp: path temporary_name_def dest: arg_cong[where f = length])
  have check: "granted (replaceable directory path ?t) (check_target path) (replaceable directory path ?t)"
    unfolding check_target_def
    by (rule granted_call) (auto simp: target_check_def replaceable_def writable_def split: option.splits)
  have "granted (replaceable directory path ?t)
      (chain [private_directory directory, flush_call, check_target path]) (replaceable directory path ?t)"
    by (intro granted_chain[OF directory_granted[OF ne(1,2)]] granted_chain[OF granted_flush]
        granted_chain[OF check] granted_done)
  then obtain d1 where d1: "run_state (chain [private_directory directory, flush_call, check_target path]) d
      = (None, d1)" "replaceable directory path ?t (nodes d1)" "answers d1 = []"
    using ready a unfolding granted_def by blast
  have upt: "[0..<maximum_attempts] = 0 # [1..<maximum_attempts]"
    by (simp add: maximum_attempts_def upt_conv_Cons)
  obtain d2 where d2: "run_state (allocate directory filename pid [0..<maximum_attempts]) d1 = (Inr ?t, d2)"
    "answers d2 = []" "has_private ?t (nodes d2)"
    using allocate_granted[of d1 directory filename pid 0] d1(2,3) unfolding upt replaceable_def by blast
  obtain d3 where "run_state (replace_with ?t path content) d2 = (None, d3)" "has_private path (nodes d3)"
    "answers d3 = []" using replace_with_granted[OF d2(3,2) ne(3)] by blast
  then show ?thesis
    using split by (simp add: replace_private_file_atomically_def d1(1) d2(1) del: chain.simps)
qed

section \<open>Properties\<close>

text \<open>C36: Storage makes progress: when the kernel grants the calls, the directory is the user's, the
  target is missing or private and the first temporary name is free, the replacement succeeds, and so
  does a plain write.\<close>

theorem granted_storage_succeeds:
  "\<lbrakk> split_path path = Some (directory, filename); directory \<noteq> ''/''; safe_filename filename;
     replaceable directory path (directory @ ''/'' @ temporary_name filename pid 0) n \<rbrakk> \<Longrightarrow>
   fst (run_state (replace_private_file_atomically pid path content) (fresh_disk n [])) = None \<and>
   fst (run_state (write_private_file path content b) (fresh_disk n [])) = None"
proof -
  assume s: "split_path path = Some (directory, filename)" "directory \<noteq> ''/''" "safe_filename filename"
    and r: "replaceable directory path (directory @ ''/'' @ temporary_name filename pid 0) n"
  have "writable path (nodes (fresh_disk n []))" using r by (simp add: replaceable_def fresh_disk_def)
  moreover have "answers (fresh_disk n []) = []" by (simp add: fresh_disk_def)
  ultimately have "fst (run_state (write_private_file path content b) (fresh_disk n [])) = None"
    using write_granted[of path content b] unfolding granted_def by fastforce
  then show ?thesis
    using replace_granted[OF s, of pid "fresh_disk n []" content] r by (fastforce simp: fresh_disk_def)
qed

definition home_tree :: tree where
  "home_tree = [''/h'' \<mapsto> new_directory]"

lemma granted_storage_witness:
  "fst (run_state (replace_private_file_atomically 7 ''/h/log'' ''new'') (fresh_disk home_tree [])) = None"
  by (rule granted_storage_succeeds[of "''/h/log''" "''/h''" "''log''" 7 home_tree "''new''" True, THEN conjunct1])
    (simp_all add: split_path_def rfind_index_def safe_filename_def find_any_def replaceable_def
      has_directory_def home_tree_def new_directory_def writable_def temporary_name_def)

end
