(* ===== verification/StorageInvariants.thy ===== *)
theory StorageInvariants
  imports StorageReads StorageReplacement
begin

text \<open>
  Invariants of the disk under the operations of \<open>src/core/secure_storage.cpp\<close>.  The locale
  \<open>storage_host\<close> is the contract: an invariant and the paths it says nothing about, with four laws on
  the calls of the kernel; that every operation on such a path keeps the invariant is proved once.  The
  contract holds for a node that stays on the disk, a directory or the contents of a file, and for the
  answers that the kernel has left.
\<close>

section \<open>What a call changes\<close>

text \<open>Apart from the paths \<open>Q\<close>, a call removes no node and changes nothing of one but its permissions.\<close>

definition changes_only :: "string set \<Rightarrow> (tree \<Rightarrow> string + tree) \<Rightarrow> bool" where
  "changes_only Q f \<longleftrightarrow>
     (\<forall>n n' q y. f n = Inr n' \<longrightarrow> q \<notin> Q \<longrightarrow> n q = Some y \<longrightarrow> (\<exists>m. n' q = Some (y\<lparr>node_mode := m\<rparr>)))"

lemma same_mode: "\<exists>m. y = y\<lparr>node_mode := m\<rparr>"
  by (rule exI[of _ "node_mode y"]) simp

lemma calls_change:
  "changes_only {} Inr" "changes_only {} (open_for_writing q)" "changes_only {} (open_for_reading q)"
  "changes_only {} (change_mode q m)" "changes_only {} (file_check q)" "changes_only {} (directory_check q)"
  "changes_only {} (target_check q)" "changes_only {} (create_exclusive q)"
  "changes_only {q} (truncate_file q)" "changes_only {q} (unlink q)" "changes_only {q, r} (rename_over q r)"
  unfolding changes_only_def
  by (auto simp: same_mode open_for_writing_def open_for_reading_def change_mode_def update_node_def
      file_check_def directory_check_def target_check_def create_exclusive_def truncate_file_def unlink_def
      rename_over_def split: option.splits if_splits)

lemma directories_change: "changes_only {} (create_directories q)"
  unfolding changes_only_def using created_directories(2) same_mode by (metis option.distinct(1))

lemma keeps_chain: "(\<And>m. m \<in> set ms \<Longrightarrow> keeps I m) \<Longrightarrow> keeps I (chain ms)"
proof (induction ms)
  case Nil
  then show ?case by (simp add: keeps_def)
next
  case (Cons m ms)
  then show ?case
    by (auto simp: keeps_def split_def split: option.split)
qed

section \<open>The contract\<close>

locale storage_host =
  fixes I :: "disk \<Rightarrow> bool" and free :: "string \<Rightarrow> bool"
  assumes call_keeps: "\<lbrakk> changes_only Q f; \<And>q. q \<in> Q \<Longrightarrow> free q \<rbrakk> \<Longrightarrow> keeps I (system_call f)"
    and write_all_keeps: "free q \<Longrightarrow> keeps I (write_all q t)"
    and read_open_keeps: "keeps I (read_open_file maximum q)"
    and new_free: "\<lbrakk> I d; nodes d q = None \<rbrakk> \<Longrightarrow> free q"
begin

lemma calls_keep:
  "keeps I flush_call" "keeps I (system_call (open_for_writing q))" "keeps I (system_call (open_for_reading q))"
  "keeps I (system_call (change_mode q m))" "keeps I (private_regular_file q)"
  "keeps I (system_call (directory_check q))" "keeps I (check_target q)"
  "keeps I (system_call (create_exclusive q))" "keeps I (system_call (create_directories q))"
  unfolding flush_call_def private_regular_file_def check_target_def
  by (rule call_keeps[OF calls_change(1)] call_keeps[OF calls_change(2)] call_keeps[OF calls_change(3)]
      call_keeps[OF calls_change(4)] call_keeps[OF calls_change(5)] call_keeps[OF calls_change(6)]
      call_keeps[OF calls_change(7)] call_keeps[OF calls_change(8)] call_keeps[OF directories_change]; simp)+

lemma free_calls_keep:
  "free q \<Longrightarrow> keeps I (system_call (truncate_file q))"
  "free q \<Longrightarrow> keeps I (system_call (unlink q))"
  "\<lbrakk> free q; free r \<rbrakk> \<Longrightarrow> keeps I (system_call (rename_over q r))"
  by (rule call_keeps, rule calls_change, blast)+

text \<open>A call that fails only uses up an answer.\<close>

lemma answer_used: "I d \<Longrightarrow> I (d\<lparr>answers := tl (answers d)\<rparr>)"
proof -
  assume d: "I d"
  have "keeps I (system_call (\<lambda>n. Inl []))" by (rule call_keeps[of "{}"]) (simp_all add: changes_only_def)
  from keepsD[OF this d] show ?thesis
    by (simp add: system_call_def Let_def split: list.splits answer.splits)
qed

lemma private_directory_keeps: "keeps I (private_directory q)"
  unfolding private_directory_def by (rule keeps_chain) (auto intro!: calls_keep)

lemma read_keeps: "keeps I (read_private_file maximum q)"
proof -
  have "keeps I (chain [system_call (open_for_reading q), private_regular_file q])"
    by (rule keeps_chain) (auto intro!: calls_keep)
  then show ?thesis
    unfolding read_private_file_def
    by (intro keeps_bind keeps_option keeps_sum keeps_return calls_keep read_open_keeps)
qed

lemma write_keeps: "free q \<Longrightarrow> keeps I (write_private_file q t app)"
  unfolding write_private_file_def
  by (rule keeps_chain) (auto intro!: calls_keep free_calls_keep write_all_keeps split: if_splits)

lemma replace_with_keeps:
  assumes "free temporary" "free path"
  shows "keeps I (replace_with temporary path content)"
proof -
  have f: "keeps I (fill_temporary temporary content)"
    unfolding fill_temporary_def
    by (rule keeps_chain) (use assms in \<open>auto intro!: calls_keep write_all_keeps\<close>)
  have i: "keeps I (install_temporary temporary path)"
    unfolding install_temporary_def
    by (rule keeps_chain) (use assms in \<open>auto intro!: calls_keep free_calls_keep\<close>)
  have d: "keeps I (discard_temporary temporary e)" for e
    unfolding discard_temporary_def by (intro keeps_intro free_calls_keep assms)
  show ?thesis
    unfolding replace_with_def
    by (intro keeps_bind[OF f] keeps_bind[OF i] keeps_option keeps_intro calls_keep d)
qed

text \<open>A temporary file is a new one, so its path is free.\<close>

lemma allocate_keeps:
  "\<lbrakk> I d; run_state (allocate directory filename pid ks) d = (r, d') \<rbrakk> \<Longrightarrow>
     I d' \<and> (\<forall>t. r = Inr t \<longrightarrow> free t)"
proof (induction ks arbitrary: d)
  case (Cons k ks)
  let ?t = "directory @ ''/'' @ temporary_name filename pid k"
  obtain c d1 where c: "run_state (system_call (create_exclusive ?t)) d = (c, d1)" by (metis surj_pair)
  have o: "I d1"
    using calls_keep(8)[of ?t] Cons.prems(1) c by (metis keepsD snd_conv)
  show ?case
  proof (cases c)
    case None
    then have "nodes d ?t = None"
      using c by (auto simp: system_call_def create_exclusive_def Let_def
            split: list.splits answer.splits option.splits)
    then show ?thesis using new_free[OF Cons.prems(1)] Cons.prems(2) c None o by (auto simp: Let_def)
  next
    case (Some e)
    then show ?thesis using Cons.prems(2) Cons.IH[OF o] c o by (auto simp: Let_def split: if_splits)
  qed
qed auto

lemma replace_keeps:
  assumes "free path"
  shows "keeps I (replace_private_file_atomically pid path content)"
proof -
  have rest: "keeps I (do {
      allocated \<leftarrow> allocate directory filename pid ks;
      case allocated of Inl e \<Rightarrow> State_Monad.return (Some e)
      | Inr temporary \<Rightarrow> replace_with temporary path content })" for directory filename ks
    unfolding keeps_def
  proof (intro allI impI)
    fix d assume d: "I d"
    obtain r d1 where r: "run_state (allocate directory filename pid ks) d = (r, d1)" by (metis surj_pair)
    note a = allocate_keeps[OF d r]
    show "I (snd (run_state (do {
      allocated \<leftarrow> allocate directory filename pid ks;
      case allocated of Inl e \<Rightarrow> State_Monad.return (Some e)
      | Inr temporary \<Rightarrow> replace_with temporary path content }) d))"
      using a replace_with_keeps[OF _ assms, THEN keepsD] by (cases r) (simp_all add: r)
  qed
  have pre: "keeps I (chain [private_directory directory, flush_call, check_target path])" for directory
    by (rule keeps_chain) (auto intro!: private_directory_keeps calls_keep)
  show ?thesis
    unfolding replace_private_file_atomically_def
    by (auto simp: keeps_return simp del: chain.simps split: option.splits prod.splits
        intro!: keeps_bind[OF pre] keeps_option rest)
qed

text \<open>The path of a store, and what it then does with its own file.\<close>

lemma check_existing_keeps: "keeps I (check_existing q)"
  using private_directory_keeps[of q] by (auto simp: keeps_def check_existing_def)

lemma secure_path_keeps: "keeps I (secure_local_path env area f create)"
proof (cases "storage_directory env area")
  case (Some dir)
  have "keeps I (chain ((if create then [system_call (create_directories dir)] else []) @ [check_existing dir]))"
    by (rule keeps_chain) (auto intro: calls_keep check_existing_keeps split: if_splits)
  then show ?thesis
    unfolding secure_local_path_def Some option.case
    by (intro keeps_if keeps_return keeps_bind)
qed (simp add: secure_local_path_def keeps_return)

lemma with_secure_path:
  assumes "\<And>e. keeps I (g (Inl e))" and "\<And>dir. keeps I (g (Inr (path_append dir f)))"
  shows "keeps I (do { r \<leftarrow> secure_local_path env area f create; g r })"
  unfolding keeps_def
proof (intro allI impI)
  fix d assume d: "I d"
  obtain r d' where r: "run_state (secure_local_path env area f create) d = (r, d')" by (metis surj_pair)
  have "I d'" using keepsD[OF secure_path_keeps d, of env area f create] by (simp add: r)
  moreover have "keeps I (g r)"
  proof (cases r)
    case (Inr q)
    then have "\<exists>dir. q = path_append dir f"
      using r by (auto simp: secure_local_path_def split_def prod_eq_iff split: if_splits option.splits)
    then show ?thesis using assms(2) Inr by blast
  qed (simp add: assms(1))
  ultimately show "I (snd (run_state (do { r \<leftarrow> secure_local_path env area f create; g r }) d))"
    by (simp add: r keepsD)
qed

end

section \<open>A node that stays\<close>

definition stays :: "string \<Rightarrow> (node \<Rightarrow> bool) \<Rightarrow> disk \<Rightarrow> bool" where
  "stays p K d \<longleftrightarrow> (\<exists>y. nodes d p = Some y \<and> K y)"

lemma stays_node: "stays p K d \<Longrightarrow> nodes d p \<noteq> None"
  by (auto simp: stays_def)

lemma read_open_nodes: "nodes (snd (run_state (read_open_file maximum q) d)) = nodes d"
  using read_loop_tree by (simp add: read_open_file_def)

locale kept_node =
  fixes p :: string and K :: "node \<Rightarrow> bool"
  assumes any_mode: "K (y\<lparr>node_mode := m\<rparr>) = K y"
begin

lemma stays_call:
  assumes "changes_only Q f" "\<And>q. q \<in> Q \<Longrightarrow> q \<noteq> p"
  shows "keeps (stays p K) (system_call f)"
proof -
  have "\<exists>z. n' p = Some z \<and> K z" if "f n = Inr n'" "n p = Some y" "K y" for n n' y
    using assms that any_mode unfolding changes_only_def by metis
  then show ?thesis
    by (fastforce simp: keeps_def stays_def system_call_def Let_def
      split: list.splits answer.splits sum.splits)
qed

lemma stays_write_all: "q \<noteq> p \<Longrightarrow> keeps (stays p K) (write_all q t)"
  unfolding keeps_def write_all_def stays_def
  by (auto simp: write_loop_other[OF surjective_pairing])

lemma stays_read_open: "keeps (stays p K) (read_open_file maximum q)"
  by (simp add: keeps_def stays_def read_open_nodes)

sublocale storage_host "stays p K" "\<lambda>q. q \<noteq> p"
  by unfold_locales (auto intro: stays_call stays_write_all stays_read_open dest: stays_node)

end

definition owned_directory_node :: "node \<Rightarrow> bool" where
  "owned_directory_node y \<longleftrightarrow> node_kind y = DirectoryNode \<and> node_owned y"

definition file_node :: "string \<Rightarrow> node \<Rightarrow> bool" where
  "file_node s y \<longleftrightarrow> private_file y \<and> node_contents y = s"

interpretation kept_directory: kept_node p owned_directory_node for p
  by unfold_locales (simp add: owned_directory_node_def)

interpretation kept_contents: kept_node p "file_node s" for p s
  by unfold_locales (simp add: file_node_def private_file_def)

lemma owned_directory_stays: "owned_directory p = stays p owned_directory_node"
  by (rule ext) (simp add: owned_directory_def stays_def owned_directory_node_def)

lemma holds_file_stays: "holds_file p s = stays p (file_node s)"
  by (rule ext) (simp add: holds_file_def stays_def file_node_def)

section \<open>The answers that are left\<close>

definition answered_from :: "answer set \<Rightarrow> disk \<Rightarrow> bool" where
  "answered_from A d \<longleftrightarrow> set (answers d) \<subseteq> A"

lemma answered_used: "answered_from A d \<Longrightarrow> answered_from A (d\<lparr>answers := tl (answers d)\<rparr>)"
  using used_answers[of "answers d"] by (auto simp: answered_from_def)

lemma answered_write_loop:
  assumes "answered_from A d"
  shows "answered_from A (snd (write_loop path content d))"
  using write_loop_rule[of "\<lambda>s. answered_from A" path "[]" d content, OF answered_used _ assms surjective_pairing]
  by (simp add: answered_from_def append_contents_def change_def)

interpretation answered: storage_host "answered_from A" "\<lambda>_. True" for A
proof unfold_locales
  show "keeps (answered_from A) (system_call f)" for f
    using used_answers by (fastforce simp: keeps_def answered_from_def system_call_error(2))
  show "keeps (answered_from A) (write_all q t)" for q t
    by (simp add: keeps_def write_all_def answered_write_loop)
  show "keeps (answered_from A) (read_open_file maximum q)" for maximum q
    using read_loop_answers by (fastforce simp: keeps_def answered_from_def read_open_file_def)
qed simp

end
