(* ===== verification/NetworkHistory.thy ===== *)
theory NetworkHistory
  imports NetworkMetadata Logging StorageProgress StorageInvariants
begin

text \<open>
  \<open>src/network/network_history.cpp\<close> and \<open>src/network/network_evidence.cpp\<close>: the owner-only history
  of observations, one record of tab-separated fields on each line, compacted to the most recent
  records, and the workflow that saves an observation only when its lookup succeeded.
\<close>

section \<open>Records\<close>

definition maximum_history_records :: nat where
  "maximum_history_records = 512"

definition maximum_history_bytes :: nat where
  "maximum_history_bytes = 256 * 1024"

definition history_char :: "char \<Rightarrow> char" where
  "history_char c =
     (if c = tab_char \<or> c = CHR 0x0D \<or> c = newline_char \<or> byte c < 32 \<or> c = CHR 0x7F
      then blank_char else c)"

definition history_field :: "string \<Rightarrow> string" where
  "history_field s = map history_char s"

definition record_line :: "network_metadata \<Rightarrow> bool \<Rightarrow> string" where
  "record_line m vpn_active =
     history_field (observed_at_utc m) @ [tab_char] @ history_field (public_ip m) @ [tab_char] @
     history_field (default_interface m) @ [tab_char] @ history_field (default_gateway m) @ [tab_char] @
     history_field (connection_profile m) @ [tab_char] @ history_field (wifi_ssid m) @ [tab_char] @
     history_field (wifi_bssid m) @ [tab_char] @ history_field (wifi_security m) @ [tab_char] @
     history_field (country m) @ [tab_char] @ history_field (timezone m) @ [tab_char] @
     history_field (isp m) @ [tab_char] @ history_field (autonomous_system m) @ [tab_char] @
     (if vpn_active then ''active'' else ''inactive'')"

section \<open>Compaction\<close>

definition keep_record :: "string \<Rightarrow> string list \<Rightarrow> string list" where
  "keep_record line records =
     (if line = [] then records
      else let rs = records @ [line] in if maximum_history_records \<le> length rs then tl rs else rs)"

text \<open>The records from the newest on, as long as they fit.\<close>

fun retain_newest :: "string list \<Rightarrow> string \<Rightarrow> string" where
  "retain_newest [] retained = retained"
| "retain_newest (r # rs) retained =
     (if maximum_history_bytes < length retained + (length r + 1) then retained
      else retain_newest rs (r @ newline_char # retained))"

definition retain_recent_records :: "string \<Rightarrow> string" where
  "retain_recent_records content = retain_newest (rev (fold keep_record (getlines content) [])) []"

definition history_record_count :: "string \<Rightarrow> nat" where
  "history_record_count content = length (filter (\<lambda>c. c = newline_char) content)"

section \<open>The store\<close>

definition history_path :: "environment \<Rightarrow> bool \<Rightarrow> (disk, string + string) state" where
  "history_path env create_directory =
     secure_local_path env StateArea ''network-history.tsv'' create_directory"

definition store_after ::
  "nat \<Rightarrow> string \<Rightarrow> string \<Rightarrow> string + string \<Rightarrow> (disk, string option) state" where
  "store_after pid path entry existing =
     (let compaction =
        (case existing of
           Inl e \<Rightarrow> Some []
         | Inr s \<Rightarrow>
             let retained = retain_recent_records s
             in if retained \<noteq> s \<or> maximum_history_records \<le> history_record_count s \<or>
                   maximum_history_bytes < length retained + length entry
                then Some retained else None)
      in if (\<exists>e. existing = Inl e \<and> e \<noteq> no_such_file \<and> e \<noteq> size_limit_error)
         then State_Monad.return (case existing of Inl e \<Rightarrow> Some e | Inr s \<Rightarrow> None)
         else case compaction of
           Some retained \<Rightarrow> replace_private_file_atomically pid path (retained @ entry)
         | None \<Rightarrow> write_private_file path entry True)"

definition store_record :: "nat \<Rightarrow> string \<Rightarrow> string \<Rightarrow> (disk, string option) state" where
  "store_record pid path entry = do {
     existing \<leftarrow> read_private_file (maximum_history_bytes * 4) path;
     store_after pid path entry existing
   }"

text \<open>The flag of \<open>append\<close> and the text it leaves in \<open>result\<close>.\<close>

definition history_append ::
  "environment \<Rightarrow> nat \<Rightarrow> network_metadata \<Rightarrow> bool \<Rightarrow> (disk, bool \<times> string) state" where
  "history_append env pid m vpn_active = do {
     path \<leftarrow> history_path env True;
     case path of
       Inl e \<Rightarrow> State_Monad.return (False, e)
     | Inr p \<Rightarrow> do {
         stored \<leftarrow> store_record pid p (record_line m vpn_active @ [newline_char]);
         State_Monad.return (case stored of Some e \<Rightarrow> (False, e) | None \<Rightarrow> (True, p))
       }
   }"

definition history_records :: "string \<Rightarrow> string list" where
  "history_records content = filter (\<lambda>l. l \<noteq> []) (getlines content)"

text \<open>The error of \<open>read_recent\<close>, or the records with the path.\<close>

definition history_read_recent :: "environment \<Rightarrow> (disk, string + string list \<times> string) state" where
  "history_read_recent env = do {
     path \<leftarrow> history_path env False;
     case path of
       Inl e \<Rightarrow> State_Monad.return (Inl e)
     | Inr p \<Rightarrow> do {
         content \<leftarrow> read_private_file maximum_history_bytes p;
         State_Monad.return
           (case content of
              Inl e \<Rightarrow> Inl (if e = no_such_file then ''no network metadata history yet'' else e)
            | Inr s \<Rightarrow> Inr (history_records s, p))
       }
   }"

section \<open>The evidence workflow\<close>

record network_capture =
  nc_metadata :: network_metadata
  nc_saved :: bool
  storage_result :: string

definition capture_successful :: "network_capture \<Rightarrow> bool" where
  "capture_successful c \<longleftrightarrow> public_ip_lookup_succeeded (nc_metadata c) \<and> nc_saved c"

definition history_status :: "network_capture \<Rightarrow> string" where
  "history_status c = (if nc_saved c then storage_result c else ''not saved: '' @ storage_result c)"

record saved_network_history =
  sh_records :: "string list"
  sh_available :: bool
  sh_result :: string

definition display_status :: "saved_network_history \<Rightarrow> string" where
  "display_status h = (if sh_available h then sh_result h else ''history unavailable: '' @ sh_result h)"

definition evidence_capture ::
  "('w, network_metadata) state \<Rightarrow> (network_metadata \<Rightarrow> ('w, bool \<times> string) state) \<Rightarrow>
     ('w, network_capture) state" where
  "evidence_capture collect store = do {
     m \<leftarrow> collect;
     if \<not> public_ip_lookup_succeeded m
     then State_Monad.return \<lparr>nc_metadata = m, nc_saved = False,
            storage_result = ''public-IP lookup failed''\<rparr>
     else do {
       (saved, result) \<leftarrow> store m;
       State_Monad.return \<lparr>nc_metadata = m, nc_saved = saved, storage_result = result\<rparr>
     }
   }"

definition evidence_read_history ::
  "('w, string + string list \<times> string) state \<Rightarrow> ('w, saved_network_history) state" where
  "evidence_read_history read = do {
     r \<leftarrow> read;
     State_Monad.return
       (case r of
          Inl e \<Rightarrow> \<lparr>sh_records = [], sh_available = False, sh_result = e\<rparr>
        | Inr (rs, p) \<Rightarrow> \<lparr>sh_records = rs, sh_available = True, sh_result = p\<rparr>)
   }"

section \<open>What compaction keeps\<close>

lemma keep_records:
  "length rs \<le> 511 \<Longrightarrow> fold keep_record ls rs =
     (let xs = rs @ filter (\<lambda>l. l \<noteq> []) ls in drop (length xs - 511) xs)"
proof (induction ls arbitrary: rs)
  case Nil
  then show ?case by simp
next
  case (Cons l ls)
  show ?case
  proof (cases "l \<noteq> [] \<and> length rs = 511")
    case True
    then obtain r rs' where rs: "rs = r # rs'" by (cases rs) auto
    then have k: "keep_record l rs = rs' @ [l]" using True by (simp add: keep_record_def maximum_history_records_def)
    have "length (rs' @ [l]) \<le> 511" using True rs by simp
    from Cons.IH[OF this] show ?thesis
      using True by (simp add: k[unfolded rs] rs Let_def Suc_diff_le)
  next
    case False
    then have k: "keep_record l rs = (if l = [] then rs else rs @ [l])"
      using Cons.prems by (auto simp: keep_record_def maximum_history_records_def Let_def)
    have "length (keep_record l rs) \<le> 511" using False Cons.prems k by auto
    moreover have "keep_record l rs @ filter (\<lambda>l. l \<noteq> []) ls = rs @ filter (\<lambda>l. l \<noteq> []) (l # ls)"
      using k by simp
    ultimately show ?thesis using Cons.IH by (simp only: Let_def fold_simps)
  qed
qed

lemma retain_newest_suffix:
  "length retained \<le> maximum_history_bytes \<Longrightarrow>
     \<exists>k. retain_newest rs retained = unlines (rev (take k rs)) @ retained \<and>
         length (retain_newest rs retained) \<le> maximum_history_bytes"
proof (induction rs arbitrary: retained)
  case Nil
  then show ?case by (intro exI[of _ 0]) simp
next
  case (Cons r rs)
  show ?case
  proof (cases "maximum_history_bytes < length retained + (length r + 1)")
    case True
    then show ?thesis using Cons.prems by (intro exI[of _ 0]) simp
  next
    case False
    then have "length (r @ newline_char # retained) \<le> maximum_history_bytes" by simp
    from Cons.IH[OF this] obtain k where
      "retain_newest rs (r @ newline_char # retained) = unlines (rev (take k rs)) @ r @ newline_char # retained"
      "length (retain_newest rs (r @ newline_char # retained)) \<le> maximum_history_bytes" by blast
    then show ?thesis using False by (intro exI[of _ "Suc k"]) simp
  qed
qed

lemma retain_recent_suffix:
  "\<exists>k. retain_recent_records s = unlines (drop k (history_records s)) \<and>
       length (drop k (history_records s)) \<le> 511 \<and>
       length (retain_recent_records s) \<le> maximum_history_bytes"
proof -
  let ?all = "history_records s" let ?kept = "drop (length ?all - 511) ?all"
  have kept: "fold keep_record (getlines s) [] = ?kept"
    using keep_records[of "[]" "getlines s"] by (simp add: history_records_def Let_def)
  obtain k where k: "retain_recent_records s = unlines (rev (take k (rev ?kept)))"
    "length (retain_recent_records s) \<le> maximum_history_bytes"
    using retain_newest_suffix[of "[]" "rev ?kept"] by (auto simp: retain_recent_records_def kept)
  have "rev (take k (rev ?kept)) = drop (length ?kept - k) ?kept" by (simp add: rev_take)
  also have "\<dots> = drop (length ?kept - k + (length ?all - 511)) ?all" by simp
  finally have e: "rev (take k (rev ?kept)) = drop (length ?kept - k + (length ?all - 511)) ?all" .
  show ?thesis
    by (rule exI[of _ "length ?kept - k + (length ?all - 511)"]) (use k e in simp)
qed

lemma history_record_no_newline: "l \<in> set (history_records s) \<Longrightarrow> newline_char \<notin> set l"
  by (auto simp: history_records_def dest: getlines_no_newline)

lemma records_of_unlines:
  "\<forall>l\<in>set ls. newline_char \<notin> set l \<and> l \<noteq> [] \<Longrightarrow> history_records (unlines ls) = ls"
  by (simp add: history_records_def getlines_unlines)

lemma history_char_plain: "history_char c \<noteq> newline_char"
  by (simp add: history_char_def)

lemma record_line_plain: "newline_char \<notin> set (record_line m v)" "record_line m v \<noteq> []"
  using history_char_plain
  by (auto simp: record_line_def history_field_def) (metis history_char_plain)+

section \<open>What an observation leaves on the disk\<close>

lemma history_records_Nil [simp]: "history_records [] = []" "retain_recent_records [] = []"
  by (simp_all add: history_records_def retain_recent_records_def)

lemma store_after_unread:
  assumes "fst (run_state (store_after pid path r (Inl e)) d) = None"
  shows "e = no_such_file \<or> e = size_limit_error"
    "holds_file path r (snd (run_state (store_after pid path r (Inl e)) d))"
proof -
  show e: "e = no_such_file \<or> e = size_limit_error"
    using assms by (auto simp: store_after_def Let_def split: if_splits)
  then have "run_state (store_after pid path r (Inl e)) d = run_state (replace_private_file_atomically pid path r) d"
    by (auto simp: store_after_def Let_def)
  then show "holds_file path r (snd (run_state (store_after pid path r (Inl e)) d))"
    using replace_stores[of pid path r d] assms by simp
qed

lemma store_after_read:
  assumes "fst (run_state (store_after pid path r (Inr s)) d) = None" "holds_file path s d"
  shows "holds_file path (retain_recent_records s @ r) (snd (run_state (store_after pid path r (Inr s)) d))"
proof -
  let ?compact = "retain_recent_records s \<noteq> s \<or> maximum_history_records \<le> history_record_count s \<or>
    maximum_history_bytes < length (retain_recent_records s) + length r"
  have run: "run_state (store_after pid path r (Inr s)) d =
      (if ?compact then run_state (replace_private_file_atomically pid path (retain_recent_records s @ r)) d
       else run_state (write_private_file path r True) d)"
    by (simp add: store_after_def Let_def)
  show ?thesis
  proof (cases ?compact)
    case True
    then show ?thesis
      using replace_stores[of pid path "retain_recent_records s @ r" d] assms(1) by (simp add: run)
  next
    case False
    then show ?thesis
      using specD[OF append_holds(1)[of path s r] assms(2)] assms(1)
      by (auto simp: run split: prod.splits option.splits)
  qed
qed

lemma store_record_stores:
  assumes ok: "fst (run_state (store_record pid path r) d) = None"
    and before: "log_before path s d" and honest: "honest d"
    and fits: "length s \<le> maximum_history_bytes * 4"
  shows "holds_file path (retain_recent_records s @ r) (snd (run_state (store_record pid path r) d))"
proof -
  obtain q d1 where q: "run_state (read_private_file (maximum_history_bytes * 4) path) d = (q, d1)"
    by (metis surj_pair)
  have run: "run_state (store_record pid path r) d = run_state (store_after pid path r q) d1"
    by (simp add: store_record_def q)
  have n: "nodes d1 = nodes d" using read_private_nodes[of "maximum_history_bytes * 4" path d] by (simp add: q)
  show ?thesis
  proof (cases q)
    case (Inl e)
    note stored = store_after_unread[OF ok[unfolded run Inl]]
    have "\<not> holds_file path s d"
      using read_private_error[of path s d "maximum_history_bytes * 4" e] q Inl stored(1) honest fits
      by (auto simp: honest_def no_such_file_def size_limit_error_def)
    then have "s = []" using before by (simp add: log_before_def)
    then show ?thesis using stored(2) by (simp add: run Inl)
  next
    case (Inr t)
    have "holds_file path t d"
      using read_private_exact[of "maximum_history_bytes * 4" path d t] by (simp add: q Inr)
    then have t: "t = s" "holds_file path s d1" using before n by (auto simp: log_before_def holds_file_def)
    then show ?thesis using store_after_read[OF _ t(2)] ok by (simp add: run Inr)
  qed
qed

text \<open>Storing a record keeps every invariant that says nothing about its file.\<close>

context storage_host
begin

lemma store_record_keeps: "free path \<Longrightarrow> keeps I (store_record pid path r)"
  unfolding store_record_def store_after_def Let_def
  by (intro keeps_bind keeps_if keeps_return keeps_option read_keeps replace_keeps write_keeps)

end

definition history_file :: "string \<Rightarrow> string" where
  "history_file dir = path_append dir ''network-history.tsv''"

definition history_before :: "environment \<Rightarrow> string \<Rightarrow> string \<Rightarrow> disk \<Rightarrow> bool" where
  "history_before env dir s d \<longleftrightarrow>
     storage_directory env StateArea = Some dir \<and> log_before (history_file dir) s d \<and> honest d \<and>
     length s \<le> maximum_history_bytes * 4"

lemma history_file_facts: "history_file dir \<noteq> dir"
  by (simp add: history_file_def path_append_facts)

lemma history_file_outside: "history_file dir \<notin> set (path_steps dir)"
  using path_append_outside[of dir] history_file_facts by (simp add: history_file_def)

lemma history_append_stores:
  assumes ok: "fst (fst (run_state (history_append env pid m v) d))" and before: "history_before env dir s d"
  shows "owned_directory dir (snd (run_state (history_append env pid m v) d)) \<and>
    holds_file (history_file dir) (retain_recent_records s @ record_line m v @ [newline_char])
      (snd (run_state (history_append env pid m v) d))"
proof -
  note b = before[unfolded history_before_def]
  let ?r = "record_line m v @ [newline_char]" and ?p = "history_file dir"
  obtain q d1 where q: "run_state (history_path env True) d = (q, d1)" by (metis surj_pair)
  obtain p where p: "q = Inr p" using ok q by (cases q) (simp_all add: history_append_def)
  have made: "p = ?p" "owned_directory dir d1"
    using q[unfolded history_path_def p] b
    by (auto simp: history_file_def elim!: created_path)
  have t: "touches_only (set (path_steps dir)) (history_path env True)"
    using touches_secure_path b by (simp add: history_path_def)
  have before1: "log_before ?p s d1"
    using log_before_kept[OF t history_file_outside] b q by (metis snd_conv)
  have "set (answers d1) \<subseteq> set (answers d)"
    using t q unfolding touches_only_def by (metis snd_conv)
  then have honest1: "honest d1" using b by (auto simp: honest_def)
  obtain w d2 where w: "run_state (store_record pid ?p ?r) d1 = (w, d2)" by (metis surj_pair)
  have run: "run_state (history_append env pid m v) d =
      (case w of Some e \<Rightarrow> ((False, e), d2) | None \<Rightarrow> ((True, ?p), d2))"
    using q p made(1) w by (cases w) (simp_all add: history_append_def)
  have wn: "w = None" using ok run by (cases w) simp_all
  have "owned_directory dir d2"
    using kept_directory.store_record_keeps[OF history_file_facts, of dir pid ?r] made(2) w
    unfolding owned_directory_stays by (metis keepsD snd_conv)
  then show ?thesis
    using store_record_stores[of pid ?p ?r d1 s] before1 honest1 b w wn run by simp
qed

lemma history_read_granted:
  assumes own: "owned_directory dir d" and f: "holds_file (history_file dir) t d"
    and dir: "storage_directory env StateArea = Some dir" and a: "answers d = []"
  shows "fst (run_state (history_read_recent env) d) =
    (if maximum_history_bytes < length t then Inl size_limit_error
     else Inr (history_records t, history_file dir))"
proof -
  have "safe_filename ''network-history.tsv''" by (simp add: safe_filename_def find_any_def)
  from resolved_path[OF dir own a this] obtain d' where d':
    "run_state (history_path env False) d = (Inr (history_file dir), d')" "answers d' = []"
    "\<forall>q. q \<noteq> dir \<longrightarrow> nodes d' q = nodes d q"
    unfolding history_path_def history_file_def by blast
  have f': "holds_file (history_file dir) t d'"
    using f d'(3) history_file_facts[of dir] by (simp add: holds_file_def)
  have "fst (run_state (read_private_file maximum_history_bytes (history_file dir)) d') =
      (if maximum_history_bytes < length t then Inl size_limit_error else Inr t)"
  proof (cases "maximum_history_bytes < length t")
    case False
    then show ?thesis using read_private_succeeds[OF f' d'(2)] by simp
  next
    case True
    obtain r where r: "fst (run_state (read_private_file maximum_history_bytes (history_file dir)) d') = r" by blast
    show ?thesis
    proof (cases r)
      case (Inl e)
      then show ?thesis using read_private_error[OF f'] r d'(2) True by auto
    next
      case (Inr u)
      then have "holds_file (history_file dir) u d'" "u \<noteq> [] \<longrightarrow> length u \<le> maximum_history_bytes"
        using read_private_exact r by blast+
      then show ?thesis using f' True by (auto simp: holds_file_def)
    qed
  qed
  then show ?thesis
    using d'(1) by (simp add: history_read_recent_def split_def no_such_file_def size_limit_error_def)
qed

lemma history_append_then_read:
  assumes ok: "fst (fst (run_state (history_append env pid m v) d))" and before: "history_before env dir s d"
  shows "fst (run_state (history_read_recent env)
      ((snd (run_state (history_append env pid m v) d))\<lparr>answers := []\<rparr>)) =
    (if maximum_history_bytes < length (retain_recent_records s) + length (record_line m v) + 1
     then Inl size_limit_error
     else Inr (history_records (retain_recent_records s @ record_line m v @ [newline_char]), history_file dir))"
proof -
  let ?d = "(snd (run_state (history_append env pid m v) d))\<lparr>answers := []\<rparr>"
  have "owned_directory dir ?d"
    "holds_file (history_file dir) (retain_recent_records s @ record_line m v @ [newline_char]) ?d"
    using history_append_stores[OF ok before] by (auto simp: owned_directory_def holds_file_def)
  then show ?thesis
    using history_read_granted[of dir ?d _ env] before by (simp add: history_before_def)
qed

lemma appended_records:
  "\<exists>k. history_records (retain_recent_records s @ record_line m v @ [newline_char]) =
      drop k (history_records s) @ [record_line m v] \<and> length (drop k (history_records s)) \<le> 511"
proof -
  obtain k where k: "retain_recent_records s = unlines (drop k (history_records s))"
    "length (drop k (history_records s)) \<le> 511"
    using retain_recent_suffix by blast
  have "retain_recent_records s @ record_line m v @ [newline_char] =
      unlines (drop k (history_records s) @ [record_line m v])" by (simp add: k(1))
  moreover have "\<forall>l\<in>set (drop k (history_records s) @ [record_line m v]). newline_char \<notin> set l \<and> l \<noteq> []"
    using record_line_plain history_record_no_newline
    by (auto dest!: in_set_dropD) (auto simp: history_records_def)
  ultimately show ?thesis using k(2) records_of_unlines by metis
qed

section \<open>The history of a granting kernel\<close>

lemma store_record_granted:
  assumes s: "holds_file path s d" "length s \<le> maximum_history_bytes * 4" "answers d = []"
    and path: "split_path path = Some (directory, filename)" "directory \<noteq> ''/''" "safe_filename filename"
    and ready: "replaceable directory path (directory @ ''/'' @ temporary_name filename pid 0) (nodes d)"
  shows "fst (run_state (store_record pid path r) d) = None"
proof -
  obtain q d1 where q: "run_state (read_private_file (maximum_history_bytes * 4) path) d = (q, d1)"
    by (metis surj_pair)
  have d1: "q = Inr s" "nodes d1 = nodes d" "answers d1 = []"
    using read_private_succeeds[OF s(1,3,2)] read_private_nodes[of "maximum_history_bytes * 4" path d]
      read_private_answers[OF s(3), of "maximum_history_bytes * 4" path] by (simp_all add: q)
  have "writable path (nodes d1)" using ready d1(2) by (simp add: replaceable_def)
  then have "fst (run_state (write_private_file path r True) d1) = None"
    using write_granted[of path r True] d1(3) unfolding granted_def by fastforce
  moreover have "fst (run_state (replace_private_file_atomically pid path t) d1) = None" for t
    using replace_granted[OF path, of pid d1 t] ready d1 by fastforce
  ultimately show ?thesis
    by (simp add: store_record_def store_after_def q d1(1) Let_def split: option.split)
qed

definition history_directory :: string where
  "history_directory = ''/h/.local/state/fedora-firewall-control''"

definition history_disk :: "string \<Rightarrow> disk" where
  "history_disk s = fresh_disk
     [''/h'' \<mapsto> new_directory, ''/h/.local'' \<mapsto> new_directory, ''/h/.local/state'' \<mapsto> new_directory,
      history_directory \<mapsto> new_directory,
      history_file history_directory \<mapsto> new_file\<lparr>node_contents := s\<rparr>] []"

lemma history_directory_facts:
  "storage_directory example_environment StateArea = Some history_directory"
  "split_path (history_file history_directory) = Some (history_directory, ''network-history.tsv'')"
  "safe_filename ''network-history.tsv''" "history_directory \<noteq> ''/''"
  by (simp_all add: storage_directory_def example_environment_def path_append_def history_directory_def
      split_path_def rfind_index_def history_file_def safe_filename_def find_any_def)

lemma history_disk_facts:
  "holds_file (history_file history_directory) s (history_disk s)" "answers (history_disk s) = []"
  "has_directory history_directory (nodes (history_disk s))"
  "nodes (history_disk s) (history_directory @ ''/'' @ temporary_name ''network-history.tsv'' pid 0) = None"
proof -
  let ?t = "history_directory @ ''/'' @ temporary_name ''network-history.tsv'' pid 0"
  have "history_file history_directory = history_directory @ ''/network-history.tsv''"
    by (simp add: history_file_def path_append_def history_directory_def)
  then have "?t \<noteq> history_file history_directory" "?t \<noteq> history_directory"
    by (simp_all add: temporary_name_def)
  moreover have "?t \<notin> {''/h'', ''/h/.local'', ''/h/.local/state''}" by (auto simp: history_directory_def)
  ultimately show "nodes (history_disk s) ?t = None" by (simp add: history_disk_def fresh_disk_def)
  show "holds_file (history_file history_directory) s (history_disk s)" "answers (history_disk s) = []"
    "has_directory history_directory (nodes (history_disk s))"
    using history_file_facts[of history_directory]
    by (simp_all add: history_disk_def fresh_disk_def holds_file_def new_file_def private_file_def
        has_directory_def new_directory_def)
qed

lemma history_disk_created:
  "create_directories history_directory (nodes (history_disk s)) = Inr (nodes (history_disk s))"
proof -
  have "path_steps history_directory = [''/h'', ''/h/.local'', ''/h/.local/state'', history_directory]"
    by (simp add: path_steps_def history_directory_def upt_rec)
  moreover have "nodes (history_disk s) p = Some new_directory"
    if "p \<in> {''/h'', ''/h/.local'', ''/h/.local/state'', history_directory}" for p
    using that by (auto simp: history_disk_def fresh_disk_def history_file_def path_append_def history_directory_def)
  ultimately show ?thesis
    by (simp add: create_directories_def make_directory_def new_directory_def)
qed

lemma history_disk_before:
  "length s \<le> maximum_history_bytes * 4 \<Longrightarrow>
     history_before example_environment history_directory s (history_disk s)"
  using history_disk_facts(1,2)[of s]
  by (simp add: history_before_def history_directory_facts log_before_def honest_def)

lemma history_disk_append:
  assumes "length s \<le> maximum_history_bytes * 4"
  shows "fst (fst (run_state (history_append example_environment 7 m v) (history_disk s)))"
proof -
  let ?f = "history_file history_directory"
  let ?d = "change (nodes (history_disk s)) (history_disk s)"
  have own: "owned_directory history_directory ?d" and a: "answers ?d = []"
    using history_disk_facts(2,3)[of s] by (auto simp: owned_directory_def has_directory_def change_def)
  obtain d1 where d1: "run_state (check_existing history_directory) ?d = (None, d1)" "answers d1 = []"
    "\<forall>q. q \<noteq> history_directory \<longrightarrow> nodes d1 q = nodes ?d q"
    using check_existing_owned[OF own a] by blast
  have "run_state (system_call (create_directories history_directory)) (history_disk s) = (None, ?d)"
    using history_disk_facts(2) history_disk_created by (intro system_call_granted) simp_all
  then have run: "run_state (history_path example_environment True) (history_disk s) = (Inr ?f, d1)"
    using d1(1) by (simp add: history_path_def secure_local_path_def history_directory_facts history_file_def)
  have f: "holds_file ?f s d1"
    using history_disk_facts(1)[of s] d1(3) history_file_facts[of history_directory]
    by (simp add: holds_file_def change_def)
  have "owned_directory history_directory d1"
    using created_path[of example_environment StateArea _ "history_disk s" ?f d1] run history_directory_facts(1)
    unfolding history_path_def by (metis option.inject)
  moreover have "nodes d1 (history_directory @ ''/'' @ temporary_name ''network-history.tsv'' 7 0) = None"
    using history_disk_facts(4)[of s 7] d1(3) by (simp add: change_def temporary_name_def)
  moreover have "writable ?f (nodes d1)" using f by (auto simp: holds_file_def writable_def)
  ultimately have "replaceable history_directory ?f
      (history_directory @ ''/'' @ temporary_name ''network-history.tsv'' 7 0) (nodes d1)"
    by (auto simp: replaceable_def has_directory_def owned_directory_def)
  from store_record_granted[OF f assms d1(2) history_directory_facts(2,4,3) this]
  have "fst (run_state (store_record 7 ?f (record_line m v @ [newline_char])) d1) = None" .
  then show ?thesis by (simp add: history_append_def run split_def)
qed

text \<open>A history of one record that nearly fills the reader's limit.\<close>

definition long_line :: string where
  "long_line = replicate 262143 (CHR ''a'')"

lemma long_line_facts: "length long_line = 262143" "newline_char \<notin> set long_line" "long_line \<noteq> []"
  by (simp_all only: long_line_def length_replicate set_replicate_conv_if) auto

lemma long_history: "retain_recent_records (long_line @ [newline_char]) = long_line @ [newline_char]"
  using getlines_line[OF long_line_facts(2), of "[]"] long_line_facts(1,3)
  by (simp add: retain_recent_records_def keep_record_def maximum_history_records_def maximum_history_bytes_def)

section \<open>Properties\<close>



text \<open>C29: Compaction by size does not make room: when the records kept and the new one exceed the
  limit of the reader together, the append succeeds and leaves a history that the
  program can no longer read.\<close>

theorem history_outgrows_reader:
  "\<lbrakk> fst (fst (run_state (history_append env pid m v) d)); history_before env dir s d;
     maximum_history_bytes \<le> length (retain_recent_records s) + length (record_line m v) \<rbrakk> \<Longrightarrow>
   fst (run_state (history_read_recent env)
     ((snd (run_state (history_append env pid m v) d))\<lparr>answers := []\<rparr>)) = Inl size_limit_error"
  using history_append_then_read[of env pid m v d dir s] by simp

lemma history_outgrows_reader_witness:
  "fst (run_state (history_read_recent example_environment)
     ((snd (run_state (history_append example_environment 7 empty_metadata False)
        (history_disk (long_line @ [newline_char]))))\<lparr>answers := []\<rparr>)) = Inl size_limit_error"
proof (rule history_outgrows_reader)
  have l: "length (long_line @ [newline_char]) \<le> maximum_history_bytes * 4"
    by (simp add: long_line_facts maximum_history_bytes_def)
  show "fst (fst (run_state (history_append example_environment 7 empty_metadata False)
      (history_disk (long_line @ [newline_char]))))" by (rule history_disk_append[OF l])
  show "history_before example_environment history_directory (long_line @ [newline_char])
      (history_disk (long_line @ [newline_char]))" by (rule history_disk_before[OF l])
  show "maximum_history_bytes \<le> length (retain_recent_records (long_line @ [newline_char])) +
      length (record_line empty_metadata False)"
    by (simp add: long_history long_line_facts maximum_history_bytes_def)
qed

end
