(* ===== verification/CppMap.thy ===== *)
theory CppMap
  imports Prelude
begin

text \<open>
  \<open>std::map\<close> and \<open>std::set\<close>.  A map is the list of its entries in iteration order, that
  is with strictly increasing keys (\<open>map_wf\<close>); \<open>find\<close> is \<open>map_of\<close>.  All three ways in
  which the sources write to a map (\<open>m[k] = v\<close>, \<open>m.emplace(k, v)\<close> and \<open>++m[k]\<close>) are
  instances of one operation \<open>map_upsert\<close>, which recomputes the value at a key from the
  value that is there.  The locale \<open>cpp_map\<close> states what the parsers rely on, with the
  facts on loops of writes proved once; it is interpreted on the model below.  A set is the
  sorted list of its elements.
\<close>

section \<open>The interface of a map\<close>

locale cpp_map =
  fixes empty :: 'm
    and lookup :: "'m \<Rightarrow> 'k \<Rightarrow> 'v option"
    and upsert :: "('v option \<Rightarrow> 'v) \<Rightarrow> 'k \<Rightarrow> 'm \<Rightarrow> 'm"
    and wf :: "'m \<Rightarrow> bool"
  assumes lookup_empty: "lookup empty k = None"
    and lookup_upsert: "wf m \<Longrightarrow> lookup (upsert f k m) = (lookup m)(k \<mapsto> f (lookup m k))"
    and wf_empty: "wf empty"
    and wf_upsert: "wf m \<Longrightarrow> wf (upsert f k m)"
begin

text \<open>A loop of writes: each item writes one key, or none.\<close>

definition write_entries :: "('a \<Rightarrow> ('k \<times> ('v option \<Rightarrow> 'v)) option) \<Rightarrow> 'a list \<Rightarrow> 'm \<Rightarrow> 'm" where
  "write_entries w xs m =
     fold (\<lambda>x m. case w x of None \<Rightarrow> m | Some (k, f) \<Rightarrow> upsert f k m) xs m"

lemma write_entries_simps [simp]:
  "write_entries w [] m = m"
  "write_entries w (x # xs) m =
     write_entries w xs (case w x of None \<Rightarrow> m | Some (k, f) \<Rightarrow> upsert f k m)"
  by (simp_all add: write_entries_def)

lemma wf_write_entries: "wf m \<Longrightarrow> wf (write_entries w xs m)"
  by (induction xs arbitrary: m) (auto simp: wf_upsert split: option.split)

lemma lookup_write_entries_None:
  "wf m \<Longrightarrow> lookup (write_entries w xs m) k = None \<longleftrightarrow>
     lookup m k = None \<and> (\<forall>x\<in>set xs. \<forall>f. w x \<noteq> Some (k, f))"
proof (induction xs arbitrary: m)
  case Nil
  then show ?case by simp
next
  case (Cons x xs)
  show ?case
  proof (cases "w x")
    case None
    with Cons show ?thesis by simp
  next
    case (Some kf)
    obtain k' f where kf: "kf = (k', f)" by fastforce
    show ?thesis
      using Cons.IH[OF wf_upsert[OF Cons.prems]] Cons.prems Some kf
      by (cases "k' = k") (auto simp: lookup_upsert)
  qed
qed

text \<open>The value at a key is the fold of the writes to that key, in order.\<close>

lemma lookup_write_entries:
  "wf m \<Longrightarrow> lookup (write_entries w xs m) k =
     fold (\<lambda>x old. case w x of None \<Rightarrow> old | Some (k', f) \<Rightarrow> if k' = k then Some (f old) else old)
       xs (lookup m k)"
proof (induction xs arbitrary: m)
  case Nil
  then show ?case by simp
next
  case (Cons x xs)
  then show ?case by (cases "w x") (auto simp: lookup_upsert wf_upsert)
qed

end

section \<open>The model of a map\<close>

fun map_upsert :: "('v option \<Rightarrow> 'v) \<Rightarrow> 'k::linorder \<Rightarrow> ('k \<times> 'v) list \<Rightarrow> ('k \<times> 'v) list" where
  "map_upsert f k [] = [(k, f None)]"
| "map_upsert f k (e # m) =
     (if fst e = k then (k, f (Some (snd e))) # m
      else if k < fst e then (k, f None) # e # m
      else e # map_upsert f k m)"

definition map_wf :: "('k::linorder \<times> 'v) list \<Rightarrow> bool" where
  "map_wf m \<longleftrightarrow> sorted_wrt (<) (map fst m)"

abbreviation map_assign :: "'k::linorder \<Rightarrow> 'v \<Rightarrow> ('k \<times> 'v) list \<Rightarrow> ('k \<times> 'v) list" where
  "map_assign k v \<equiv> map_upsert (\<lambda>_. v) k"

abbreviation map_emplace :: "'k::linorder \<Rightarrow> 'v \<Rightarrow> ('k \<times> 'v) list \<Rightarrow> ('k \<times> 'v) list" where
  "map_emplace k v \<equiv> map_upsert (\<lambda>old. case old of None \<Rightarrow> v | Some u \<Rightarrow> u) k"

abbreviation map_increment :: "'k::linorder \<Rightarrow> ('k \<times> nat) list \<Rightarrow> ('k \<times> nat) list" where
  "map_increment k \<equiv> map_upsert (\<lambda>old. case old of None \<Rightarrow> 1 | Some n \<Rightarrow> Suc n) k"

definition map_contains :: "('k \<times> 'v) list \<Rightarrow> 'k \<Rightarrow> bool" where
  "map_contains m k \<longleftrightarrow> map_of m k \<noteq> None"

lemma keys_map_upsert: "fst ` set (map_upsert f k m) = insert k (fst ` set m)"
  by (induction m) (auto split: if_splits)

lemma map_wf_Nil [simp]: "map_wf []"
  by (simp add: map_wf_def)

lemma map_wf_Cons [simp]:
  "map_wf (e # m) \<longleftrightarrow> (\<forall>k\<in>fst ` set m. fst e < k) \<and> map_wf m"
  by (auto simp: map_wf_def)

lemma map_wf_upsert [simp]: "map_wf m \<Longrightarrow> map_wf (map_upsert f k m)"
proof (induction m)
  case Nil
  then show ?case by simp
next
  case (Cons e m)
  then show ?case
    by (cases "fst e = k"; cases "k < fst e") (auto simp: keys_map_upsert)
qed

lemma map_of_upsert:
  "map_wf m \<Longrightarrow> map_of (map_upsert f k m) = (map_of m)(k \<mapsto> f (map_of m k))"
proof (induction m)
  case Nil
  then show ?case by simp
next
  case (Cons e m)
  obtain a b where e: "e = (a, b)" by fastforce
  have "map_of m k = None" if "k < a"
    using Cons.prems that e by (force simp: map_of_eq_None_iff)
  with Cons e show ?case by auto
qed

lemma map_wf_distinct: "map_wf m \<Longrightarrow> distinct (map fst m)"
  by (simp add: map_wf_def strict_sorted_iff)

lemma map_wf_sorted: "map_wf m \<Longrightarrow> sorted (map fst m)"
  by (simp add: map_wf_def strict_sorted_iff)

lemma map_contains_iff: "map_contains m k \<longleftrightarrow> k \<in> fst ` set m"
  by (auto simp: map_contains_def map_of_eq_None_iff)

lemma map_wf_filter [simp]: "map_wf m \<Longrightarrow> map_wf (filter p m)"
  by (induction m) auto

text \<open>Maps with the same contents are the same object.\<close>

lemma map_wf_ext:
  assumes "map_wf m" "map_wf n" "map_of m = map_of n"
  shows "m = n"
proof -
  have "set m = set n"
    using assms map_of_inject_set map_wf_distinct by metis
  moreover have "inj_on fst (set m)"
    using map_wf_distinct[OF assms(1)] by (simp add: distinct_map)
  ultimately show ?thesis
    using assms(1,2)[THEN map_wf_distinct] assms(1,2)[THEN map_wf_sorted]
    by (intro map_sorted_distinct_set_unique[where f = fst]) auto
qed

text \<open>The model satisfies the interface.\<close>

interpretation cmap: cpp_map "[] :: ('k::linorder \<times> 'v) list" map_of map_upsert map_wf
  by unfold_locales (auto simp: map_of_upsert)

section \<open>Sets\<close>

definition sset_insert :: "'a::linorder \<Rightarrow> 'a list \<Rightarrow> 'a list" where
  "sset_insert x xs = (if x \<in> set xs then xs else insort x xs)"

definition sset_wf :: "'a::linorder list \<Rightarrow> bool" where
  "sset_wf xs \<longleftrightarrow> sorted xs \<and> distinct xs"

definition sset_of :: "'a::linorder list \<Rightarrow> 'a list" where
  "sset_of xs = fold sset_insert xs []"

lemma sset_insert_set [simp]: "set (sset_insert x xs) = insert x (set xs)"
  by (auto simp: sset_insert_def set_insort_key)

lemma sset_insert_wf [simp]: "sset_wf xs \<Longrightarrow> sset_wf (sset_insert x xs)"
  by (auto simp: sset_insert_def sset_wf_def sorted_insort distinct_insort)

lemma sset_wf_Nil [simp]: "sset_wf []"
  by (simp add: sset_wf_def)

lemma fold_sset_insert:
  "set (fold sset_insert xs ys) = set xs \<union> set ys"
  "sset_wf ys \<Longrightarrow> sset_wf (fold sset_insert xs ys)"
  by (induction xs arbitrary: ys) auto

lemma sset_of_set [simp]: "set (sset_of xs) = set xs"
  by (simp add: sset_of_def fold_sset_insert)

lemma sset_of_wf [simp]: "sset_wf (sset_of xs)"
  by (simp add: sset_of_def fold_sset_insert)

lemma sset_length: "sset_wf xs \<Longrightarrow> length xs = card (set xs)"
  by (simp add: sset_wf_def distinct_card)

lemma sset_of_length_le: "length (sset_of xs) \<le> length xs"
  by (metis card_length sset_length sset_of_set sset_of_wf)

lemma sset_wf_ext: "sset_wf xs \<Longrightarrow> sset_wf ys \<Longrightarrow> set xs = set ys \<Longrightarrow> xs = ys"
  by (simp add: sset_wf_def sorted_distinct_set_unique)

end
