(* ===== verification/SecurityAdvisories.thy ===== *)
theory SecurityAdvisories
  imports CommandRunner CppMap
begin

text \<open>
  \<open>src/security/security_advisories.cpp\<close>: the security advisories that the package manager lists,
  and the CVE identifiers in its answer.  The regular expression
  \<open>CVE-[0-9]{4}-[0-9]{4,}\<close> is written as a match at a position; \<open>sregex_iterator\<close> visits the leftmost
  matches that do not overlap.
\<close>

record security_advisory_report =
  dnf_available :: bool
  query_succeeded :: bool
  advisory_count :: nat
  cves :: "string list"
  advisory_diagnostic :: string

definition default_report :: security_advisory_report where
  "default_report = \<lparr>dnf_available = True, query_succeeded = False, advisory_count = 0, cves = [],
     advisory_diagnostic = []\<rparr>"

lemma find_str_bound: "find_str n s = Some i \<Longrightarrow> i + length n \<le> length s"
proof (induction n s arbitrary: i rule: find_str.induct)
  case (1 n)
  then show ?case by (simp split: if_splits)
next
  case (2 n c cs)
  then show ?case
    by (auto simp: starts_with_def split: if_splits dest: arg_cong[where f = length])
qed

text \<open>The needle is a nonempty literal in the only call.\<close>

function occurrences :: "string \<Rightarrow> string \<Rightarrow> nat" where
  "occurrences needle s =
     (if needle = [] then 0
      else case find_str needle s of None \<Rightarrow> 0
        | Some position \<Rightarrow> Suc (occurrences needle (drop (position + length needle) s)))"
  by auto

termination
  by (relation "measure (\<lambda>(n, s). length s)")
    (auto dest!: find_str_bound simp flip: length_greater_0_conv)

declare occurrences.simps [simp del]

definition match_cve :: "string \<Rightarrow> string option" where
  "match_cve s =
     (let year = take 4 (drop 4 s); digits = takeWhile is_digit (drop 9 s) in
      if starts_with s ''CVE-'' \<and> length year = 4 \<and> list_all is_digit year \<and>
         starts_with (drop 8 s) ''-'' \<and> 4 \<le> length digits
      then Some (take (9 + length digits) s) else None)"

lemma match_cve_length: "match_cve s = Some m \<Longrightarrow> 13 \<le> length m"
proof -
  assume m: "match_cve s = Some m"
  then have d: "4 \<le> length (takeWhile is_digit (drop 9 s))" and
    e: "m = take (9 + length (takeWhile is_digit (drop 9 s))) s"
    by (auto simp: match_cve_def Let_def split: if_splits)
  have "length (takeWhile is_digit (drop 9 s)) \<le> length s - 9"
    using length_takeWhile_le[of is_digit "drop 9 s"] by simp
  with d have "9 + length (takeWhile is_digit (drop 9 s)) \<le> length s" by linarith
  then show ?thesis using d e by simp
qed

function cve_matches :: "string \<Rightarrow> string list" where
  "cve_matches [] = []"
| "cve_matches (c # cs) =
     (case match_cve (c # cs) of
        None \<Rightarrow> cve_matches cs
      | Some m \<Rightarrow> m # cve_matches (drop (length m) (c # cs)))"
  by pat_completeness auto
termination
  by (relation "measure length") (auto dest!: match_cve_length)

declare cve_matches.simps [simp del]

definition apply_advisories :: "string \<Rightarrow> security_advisory_report \<Rightarrow> security_advisory_report" where
  "apply_advisories output report =
     report\<lparr>advisory_count := occurrences ([CHR 0x22] @ ''advisory_name'' @ [CHR 0x22]) output,
            cves := sset_of (cve_matches output)\<rparr>"

definition advisory_report :: "command_result \<Rightarrow> security_advisory_report" where
  "advisory_report result =
     (let report = default_report\<lparr>dnf_available := exit_code result \<noteq> 127, query_succeeded := success result\<rparr>
      in if \<not> dnf_available report then report\<lparr>advisory_diagnostic := ''dnf5 is not installed''\<rparr>
         else if \<not> query_succeeded report
         then report\<lparr>advisory_diagnostic := stderr_or ''DNF5 advisory query failed'' result\<rparr>
         else apply_advisories (stdout_text result) report)"

definition advisories_inspect :: "'w runner \<Rightarrow> ('w, security_advisory_report) state" where
  "advisories_inspect R = do {
     result \<leftarrow> run R advisory_command;
     State_Monad.return (advisory_report result)
   }"

section \<open>Identifiers\<close>

text \<open>A year of four digits and a number of at least four.\<close>

definition cve_identifier :: "string \<Rightarrow> string \<Rightarrow> string" where
  "cve_identifier year number = ''CVE-'' @ year @ ''-'' @ number"

definition is_cve :: "string \<Rightarrow> bool" where
  "is_cve s \<longleftrightarrow> (\<exists>year number. s = cve_identifier year number \<and> length year = 4 \<and>
     list_all is_digit year \<and> 4 \<le> length number \<and> list_all is_digit number)"

lemma take_identifier:
  "length y = 4 \<Longrightarrow> take (9 + k) (''CVE-'' @ y @ ''-'' @ q) = ''CVE-'' @ y @ ''-'' @ take k q"
  by (simp add: take_add)

lemma match_cve_Some:
  assumes "match_cve s = Some m"
  shows "is_cve m \<and> m = take (length m) s"
proof -
  let ?ds = "takeWhile is_digit (drop 9 s)" and ?y = "take 4 (drop 4 s)"
  have c: "starts_with s ''CVE-''" "length ?y = 4" "list_all is_digit ?y" "starts_with (drop 8 s) ''-''"
    "4 \<le> length ?ds" "m = take (9 + length ?ds) s"
    using assms by (auto simp: match_cve_def Let_def split: if_splits)
  obtain r where r: "s = ''CVE-'' @ r" using c(1) by (auto simp: starts_with_iff)
  then have y: "?y = take 4 r" "drop 8 s = drop 4 r" "drop 9 s = drop 5 r" by simp_all
  obtain q where q: "drop 4 r = ''-'' @ q" using c(4) y by (auto simp: starts_with_iff)
  have r2: "r = take 4 r @ ''-'' @ q" using append_take_drop_id[of 4 r] q by simp
  have d5: "drop 5 r = q" using q by (metis append_Cons append_Nil drop_drop drop_Suc_Cons drop0 eval_nat_numeral(3) add.commute plus_1_eq_Suc numeral_eq_Suc pred_numeral_simps(3))
  have n: "?ds = takeWhile is_digit q" by (simp add: y(3) d5)
  have l4: "length (take 4 r) = 4" using c(2) y by simp
  have tq: "take (length (takeWhile is_digit q)) q = takeWhile is_digit q"
    by (metis append_eq_conv_conj takeWhile_dropWhile_id)
  have "m = take (9 + length (takeWhile is_digit q)) (''CVE-'' @ take 4 r @ ''-'' @ q)"
    using c(6) r r2 n by metis
  also have "\<dots> = cve_identifier (take 4 r) (takeWhile is_digit q)"
    unfolding cve_identifier_def take_identifier[OF l4] tq ..
  finally have m: "m = cve_identifier (take 4 r) (takeWhile is_digit q)" .
  have "list_all is_digit (takeWhile is_digit q)" by (auto simp: list_all_iff dest: set_takeWhileD)
  then have "is_cve m"
    using m c(3,5) y n l4 unfolding is_cve_def by metis
  moreover have "m = take (length m) s" by (subst (1 2) c(6)) (simp add: min_def)
  ultimately show ?thesis by blast
qed

lemma match_cve_identifier:
  assumes "length year = 4" "list_all is_digit year" "4 \<le> length number" "list_all is_digit number"
    "\<not> is_digit c"
  shows "match_cve (cve_identifier year number @ c # rest) = Some (cve_identifier year number)"
proof -
  let ?s = "cve_identifier year number @ c # rest"
  have d: "take 4 (drop 4 ?s) = year" "drop 8 ?s = ''-'' @ number @ c # rest" "drop 9 ?s = number @ c # rest"
    using assms(1) by (simp_all add: cve_identifier_def)
  have t: "takeWhile is_digit (number @ c # rest) = number"
    using assms(4,5) by (simp add: list_all_iff takeWhile_append2)
  have "starts_with ?s ''CVE-''" "starts_with (''-'' @ number @ c # rest) ''-''"
    by (simp_all only: cve_identifier_def append_assoc starts_with_append)
  moreover have "take (9 + length number) ?s = cve_identifier year number"
    using take_identifier[OF assms(1), of "length number" "number @ c # rest"]
    by (simp add: cve_identifier_def)
  ultimately show ?thesis
    using assms(1-3) unfolding match_cve_def Let_def d t by simp
qed

lemma cve_matches_sound: "m \<in> set (cve_matches s) \<Longrightarrow> is_cve m \<and> (\<exists>p q. s = p @ m @ q)"
proof (induction s rule: cve_matches.induct)
  case 1
  then show ?case by (simp add: cve_matches.simps)
next
  case (2 c cs)
  show ?case
  proof (cases "match_cve (c # cs)")
    case None
    then have "m \<in> set (cve_matches cs)" using 2(3) by (subst (asm) cve_matches.simps) simp
    from 2(1)[OF None this] show ?thesis by (metis append_Cons)
  next
    case (Some k)
    show ?thesis
    proof (cases "m = k")
      case True
      then show ?thesis
        using match_cve_Some[OF Some] by (metis append_Nil append_take_drop_id)
    next
      case False
      then have "m \<in> set (cve_matches (drop (length k) (c # cs)))"
        using 2(3) Some by (subst (asm) cve_matches.simps) simp
      from 2(2)[OF Some this] show ?thesis
        by (metis append.assoc append_take_drop_id)
    qed
  qed
qed

text \<open>The identifiers as the package manager prints them, in quotes.\<close>

definition quoted_identifiers :: "(string \<times> string) list \<Rightarrow> string" where
  "quoted_identifiers ids =
     concat (map (\<lambda>(y, n). [CHR 0x22] @ cve_identifier y n @ [CHR 0x22, CHR '','']) ids)"

definition plain_identifier :: "string \<times> string \<Rightarrow> bool" where
  "plain_identifier r \<longleftrightarrow> length (fst r) = 4 \<and> list_all is_digit (fst r) \<and> 4 \<le> length (snd r) \<and>
     list_all is_digit (snd r)"

lemma no_match: "c \<noteq> CHR ''C'' \<Longrightarrow> cve_matches (c # cs) = cve_matches cs"
  by (subst cve_matches.simps) (simp add: match_cve_def starts_with_def Let_def)

lemma cve_matches_quoted:
  "list_all plain_identifier ids \<Longrightarrow>
     cve_matches (quoted_identifiers ids) = map (\<lambda>(y, n). cve_identifier y n) ids"
proof (induction ids)
  case Nil
  then show ?case by (simp add: quoted_identifiers_def cve_matches.simps)
next
  case (Cons r ids)
  obtain y n where r: "r = (y, n)" by (cases r)
  let ?rest = "CHR '','' # quoted_identifiers ids"
  let ?s = "cve_identifier y n @ CHR 0x22 # ?rest"
  have m: "match_cve ?s = Some (cve_identifier y n)"
    using Cons.prems by (intro match_cve_identifier) (simp_all add: r plain_identifier_def is_digit_def)
  have "cve_matches ?s = cve_identifier y n # cve_matches (CHR 0x22 # ?rest)"
    using m by (cases ?s) (simp_all add: cve_matches.simps cve_identifier_def)
  then have "cve_matches ?s = cve_identifier y n # cve_matches (quoted_identifiers ids)"
    by (simp add: no_match)
  then show ?case
    using Cons by (simp add: r quoted_identifiers_def no_match)
qed

context probing_host
begin

lemma advisories_inspect_keeps: "keeps I (advisories_inspect R)"
  unfolding advisories_inspect_def
  by (intro keeps_intro probe_keeps) (simp add: probe_command_def probe_commands_def)

end

definition report_ok :: "command_result \<Rightarrow> security_advisory_report \<Rightarrow> bool" where
  "report_ok r p \<longleftrightarrow>
     sset_wf (cves p) \<and> (query_succeeded p \<longleftrightarrow> success r) \<and>
     (\<not> success r \<longrightarrow> cves p = [] \<and> advisory_count p = 0 \<and> advisory_diagnostic p \<noteq> []) \<and>
     (\<forall>c\<in>set (cves p). is_cve c \<and> (\<exists>s t. stdout_text r = s @ c @ t))"

section \<open>Properties\<close>

text \<open>An advisory report claims nothing that was not answered: identifiers and counts come from a
  successful query only, the identifiers are distinct and in order, and each is a well-formed
  CVE identifier that occurs in the answer.\<close>

theorem advisory_report_ok: "report_ok r (advisory_report r)"
  using cve_matches_sound
  by (auto simp: report_ok_def advisory_report_def Let_def default_report_def apply_advisories_def
      success_def stderr_or_def)

text \<open>Every listed identifier is found: in a listing of identifiers in quotes the report finds
  them all, each once.\<close>

theorem listed_identifiers_are_reported:
  "list_all plain_identifier ids \<Longrightarrow>
   set (cves (advisory_report \<lparr>exit_code = 0, stdout_text = quoted_identifiers ids, stderr_text = e\<rparr>)) =
   set (map (\<lambda>(y, n). cve_identifier y n) ids)"
  by (simp add: advisory_report_def default_report_def apply_advisories_def success_def Let_def
      cve_matches_quoted)

lemma listed_identifiers_witness:
  "set (cves (advisory_report \<lparr>exit_code = 0, stdout_text = quoted_identifiers
      [(''2024'', ''12345''), (''2023'', ''0001'')], stderr_text = []\<rparr>)) =
   {''CVE-2024-12345'', ''CVE-2023-0001''}"
  using listed_identifiers_are_reported[of "[(''2024'', ''12345''), (''2023'', ''0001'')]" "[]"]
  by (simp add: plain_identifier_def is_digit_def cve_identifier_def)

end
