(* ===== verification/LogAnalysis.thy ===== *)
theory LogAnalysis
  imports Logging CppMap "HOL-Library.Product_Lexorder"
begin

text \<open>
  \<open>src/logging/analysis/log_analysis.cpp\<close>: the summary of the retained local logs.  Lines that
  are not entries of the expected channel are skipped, the others are counted in two maps
  with the key (channel, event), and the six highest counts are reported.
\<close>

section \<open>Entries\<close>

record parsed_log_entry =
  pe_timestamp :: string
  pe_level :: log_level
  pe_event :: string

definition parse_level :: "string \<Rightarrow> log_level option" where
  "parse_level s =
     (if s = ''INFO'' then Some InfoLevel
      else if s = ''WARN'' then Some WarningLevel
      else if s = ''ERROR'' then Some ErrorLevel else None)"

definition is_safe_event_name :: "string \<Rightarrow> bool" where
  "is_safe_event_name e \<longleftrightarrow>
     e \<noteq> [] \<and> length e \<le> 96 \<and> list_all (\<lambda>c. is_alnum c \<or> c = CHR ''-'' \<or> c = CHR ''_'') e"

text \<open>The fields between the tabs.\<close>

fun tab_fields :: "string \<Rightarrow> string list" where
  "tab_fields [] = [[]]"
| "tab_fields (c # cs) =
     (if c = tab_char then [] # tab_fields cs
      else case tab_fields cs of [] \<Rightarrow> [[c]] | f # fs \<Rightarrow> (c # f) # fs)"

definition parse_entry :: "string \<Rightarrow> log_channel \<Rightarrow> parsed_log_entry option" where
  "parse_entry line expected_channel =
     (case tab_fields line of
        [timestamp, level, channel, event, detail] \<Rightarrow>
          if length timestamp \<noteq> 20 \<or> channel \<noteq> channel_to_string expected_channel \<or>
             \<not> is_safe_event_name event
          then None
          else map_option (\<lambda>l. \<lparr>pe_timestamp = timestamp, pe_level = l, pe_event = event\<rparr>)
                 (parse_level level)
      | _ \<Rightarrow> None)"

section \<open>The analysis\<close>

record log_event_frequency =
  lf_channel :: log_channel
  lf_event :: string
  lf_count :: nat

record log_analysis =
  logs_available :: bool
  la_entries :: nat
  la_warnings :: nat
  la_errors :: nat
  most_recent_utc :: string
  frequent_events :: "log_event_frequency list"
  recurring_failures :: "log_event_frequency list"
  la_diagnostic :: string

definition empty_analysis :: log_analysis where
  "empty_analysis = \<lparr>logs_available = False, la_entries = 0, la_warnings = 0, la_errors = 0,
     most_recent_utc = [], frequent_events = [], recurring_failures = [], la_diagnostic = []\<rparr>"

type_synonym event_counts = "((log_channel \<times> string) \<times> nat) list"

record log_tally =
  tally :: log_analysis
  all_events :: event_counts
  failures :: event_counts

definition empty_tally :: log_tally where
  "empty_tally = \<lparr>tally = empty_analysis, all_events = [], failures = []\<rparr>"

definition count_entry :: "log_channel \<Rightarrow> parsed_log_entry \<Rightarrow> log_tally \<Rightarrow> log_tally" where
  "count_entry c entry t =
     (let a = tally t; key = (c, pe_event entry) in
      \<lparr>tally = a\<lparr>la_entries := Suc (la_entries a),
          la_warnings := (if pe_level entry = WarningLevel then Suc (la_warnings a) else la_warnings a),
          la_errors := (if pe_level entry = ErrorLevel then Suc (la_errors a) else la_errors a),
          most_recent_utc :=
            (if most_recent_utc a < pe_timestamp entry then pe_timestamp entry else most_recent_utc a)\<rparr>,
       all_events = map_increment key (all_events t),
       failures = (if pe_level entry = ErrorLevel then map_increment key (failures t) else failures t)\<rparr>)"

definition analyze_line :: "log_channel \<Rightarrow> string \<Rightarrow> log_tally \<Rightarrow> log_tally" where
  "analyze_line c line t =
     (case parse_entry line c of None \<Rightarrow> t | Some entry \<Rightarrow> count_entry c entry t)"

definition analyze_content :: "log_channel \<Rightarrow> string \<Rightarrow> log_tally \<Rightarrow> log_tally" where
  "analyze_content c content t =
     fold (analyze_line c) (getlines content) (t\<lparr>tally := (tally t)\<lparr>logs_available := True\<rparr>\<rparr>)"

definition set_diagnostic :: "string \<Rightarrow> log_tally \<Rightarrow> log_tally" where
  "set_diagnostic d t = t\<lparr>tally := (tally t)\<lparr>la_diagnostic := d\<rparr>\<rparr>"

definition inspect_channel :: "environment \<Rightarrow> log_channel \<Rightarrow> log_tally \<Rightarrow> (disk, log_tally) state" where
  "inspect_channel env c t = do {
     path \<leftarrow> secure_local_path env StateArea (log_file_name c) False;
     case path of
       Inl e \<Rightarrow> State_Monad.return (set_diagnostic ''local log storage is unavailable'' t)
     | Inr p \<Rightarrow> do {
         content \<leftarrow> read_private_file maximum_log_bytes p;
         State_Monad.return
           (case content of
              Inl e \<Rightarrow> if e \<noteq> no_such_file
                      then set_diagnostic ''one or more local logs could not be read safely'' t else t
            | Inr s \<Rightarrow> analyze_content c s t)
       }
   }"

definition display_limit :: nat where
  "display_limit = 6"

text \<open>\<open>append_ranked\<close>: the pairs with at least the minimal count, by descending (count, event).
  \<open>std::sort\<close> leaves the order of equal pairs open; here it is that of the map.\<close>

definition frequency_key :: "log_event_frequency \<Rightarrow> nat \<times> string" where
  "frequency_key f = (lf_count f, lf_event f)"

definition candidates :: "event_counts \<Rightarrow> nat \<Rightarrow> log_event_frequency list" where
  "candidates counts minimum_count =
     map (\<lambda>((c, e), n). \<lparr>lf_channel = c, lf_event = e, lf_count = n\<rparr>)
       (filter (\<lambda>(k, n). minimum_count \<le> n) counts)"

definition append_ranked :: "event_counts \<Rightarrow> nat \<Rightarrow> log_event_frequency list" where
  "append_ranked counts minimum_count =
     take display_limit (rev (sort_key frequency_key (rev (candidates counts minimum_count))))"

definition conclude_analysis :: "log_tally \<Rightarrow> log_analysis" where
  "conclude_analysis t =
     (let a = (tally t)\<lparr>frequent_events := append_ranked (all_events t) 1,
                        recurring_failures := append_ranked (failures t) 2\<rparr>;
          b = (if \<not> logs_available a \<and> la_diagnostic a = []
               then a\<lparr>la_diagnostic := ''no local application logs yet''\<rparr> else a)
      in if logs_available b \<and> la_errors b = 0 \<and> la_diagnostic b = []
         then b\<lparr>la_diagnostic := ''no error-level events in retained logs''\<rparr> else b)"

definition log_analyzer_inspect :: "environment \<Rightarrow> (disk, log_analysis) state" where
  "log_analyzer_inspect env = do {
     t1 \<leftarrow> inspect_channel env Operations empty_tally;
     t2 \<leftarrow> inspect_channel env Audit t1;
     t3 \<leftarrow> inspect_channel env Security t2;
     t4 \<leftarrow> inspect_channel env ErrorChannel t3;
     State_Monad.return (conclude_analysis t4)
   }"

section \<open>Reading back what the engine wrote\<close>

lemma tab_fields_append:
  "tab_char \<notin> set f \<Longrightarrow> tab_fields (f @ tab_char # s) = f # tab_fields s"
  by (induction f) auto

lemma tab_fields_last: "tab_char \<notin> set f \<Longrightarrow> tab_fields f = [f]"
  by (induction f) auto

lemma parse_level_to_string [simp]: "parse_level (log_level_to_string l) = Some l"
  by (cases l) (simp_all add: parse_level_def)

lemma parse_level_Some: "parse_level s = Some l \<longleftrightarrow> s = log_level_to_string l"
  by (cases l) (auto simp: parse_level_def)

text \<open>Sanitising keeps a printable text without keys that fits.\<close>

lemma sanitize_log_loop_id:
  "\<lbrakk> \<forall>c\<in>set rest. printable_log_char c; keyless rest; length out + length rest \<le> maximum \<rbrakk> \<Longrightarrow>
     sanitize_log_loop maximum out rest = out @ rest"
proof (induction rest arbitrary: out)
  case Nil
  then show ?case by (subst sanitize_log_loop.simps) simp
next
  case (Cons c rest)
  then show ?case
    by (subst sanitize_log_loop.simps) (auto simp: sanitize_log_char_def printable_log_char_def)
qed

lemma event_char_printable:
  "is_alnum c \<or> c = CHR ''-'' \<or> c = CHR ''_'' \<Longrightarrow> printable_log_char c"
  by (auto simp: is_alnum_def is_digit_def is_upper_def is_lower_def printable_log_char_def)

lemma safe_event_kept: "is_safe_event_name e \<Longrightarrow> keyless e \<Longrightarrow> sanitize_log_value e 96 = e"
  unfolding sanitize_log_value_def
  by (subst sanitize_log_loop_id)
    (use event_char_printable in \<open>auto simp: is_safe_event_name_def list_all_iff\<close>)

lemma printable_no_tab: "printable_log_char c \<Longrightarrow> c \<noteq> tab_char \<and> c \<noteq> newline_char"
  by (auto simp: printable_log_char_def)

lemma sanitized_no_tab: "tab_char \<notin> set (sanitize_log_value s n)" "newline_char \<notin> set (sanitize_log_value s n)"
  using sanitize_log_loop_printable[of "[]" n s] printable_no_tab
  by (auto simp: sanitize_log_value_def)

lemma stamp_no_tab: "tab_char \<notin> set (iso_timestamp t)" "newline_char \<notin> set (iso_timestamp t)"
  using iso_timestamp_chars[of t] by (auto simp: is_stamp_char_def is_digit_def)

lemma names_no_tab:
  "tab_char \<notin> set (log_level_to_string l)" "newline_char \<notin> set (log_level_to_string l)"
  "tab_char \<notin> set (channel_to_string c)" "newline_char \<notin> set (channel_to_string c)"
  by (cases l; simp)+ (cases c; simp)+

text \<open>The line of an event, without its newline.\<close>

definition event_line :: "int \<Rightarrow> log_event \<Rightarrow> string" where
  "event_line now ev = butlast (format_log_event now ev)"

lemma format_event_line:
  "format_log_event now ev = event_line now ev @ [newline_char]"
  "newline_char \<notin> set (event_line now ev)"
  using sanitized_no_tab stamp_no_tab names_no_tab
  by (auto simp: event_line_def format_log_event_def butlast_append)

lemma parse_event_line:
  assumes "is_safe_event_name (le_event ev)" "keyless (le_event ev)" "clock_time now"
  shows "parse_entry (event_line now ev) (le_channel ev) =
    Some \<lparr>pe_timestamp = iso_timestamp now, pe_level = le_level ev, pe_event = le_event ev\<rparr>"
proof -
  have "tab_fields (event_line now ev) =
      [iso_timestamp now, log_level_to_string (le_level ev), channel_to_string (le_channel ev),
       le_event ev, sanitize_log_value (le_detail ev) default_value_length]"
    using sanitized_no_tab[of "le_event ev" 96] sanitized_no_tab[of "le_detail ev" default_value_length]
    by (simp add: event_line_def format_log_event_def butlast_append tab_fields_append tab_fields_last
        stamp_no_tab names_no_tab safe_event_kept[OF assms(1,2)])
  then show ?thesis
    using assms(1) iso_timestamp_length[OF assms(3)] by (simp add: parse_entry_def)
qed

section \<open>Counting\<close>

lemma sum_map_increment:
  "sum_list (map snd (map_increment k m)) = Suc (sum_list (map snd m))"
  by (induction m) auto

text \<open>The invariant of the tally: the counts add up to the entries and to the errors.\<close>

definition tally_ok :: "log_tally \<Rightarrow> bool" where
  "tally_ok t \<longleftrightarrow>
     sum_list (map snd (all_events t)) = la_entries (tally t) \<and>
     sum_list (map snd (failures t)) = la_errors (tally t) \<and>
     la_errors (tally t) + la_warnings (tally t) \<le> la_entries (tally t) \<and>
     map_wf (all_events t) \<and> map_wf (failures t)"

lemma tally_ok_count: "tally_ok t \<Longrightarrow> tally_ok (count_entry c e t)"
  by (auto simp: tally_ok_def count_entry_def Let_def sum_map_increment simp del: One_nat_def)

lemma tally_ok_line: "tally_ok t \<Longrightarrow> tally_ok (analyze_line c line t)"
  by (simp add: analyze_line_def tally_ok_count split: option.split)

lemma tally_ok_fold: "tally_ok t \<Longrightarrow> tally_ok (fold (analyze_line c) ls t)"
  by (induction ls arbitrary: t) (simp_all add: tally_ok_line)

lemma tally_ok_update:
  "tally_ok (t\<lparr>tally := (tally t)\<lparr>logs_available := b\<rparr>\<rparr>) = tally_ok t"
  "tally_ok (set_diagnostic d t) = tally_ok t"
  by (simp_all add: tally_ok_def set_diagnostic_def)

lemma tally_ok_content: "tally_ok t \<Longrightarrow> tally_ok (analyze_content c s t)"
  by (simp add: analyze_content_def tally_ok_fold tally_ok_update)

lemma tally_ok_channel: "tally_ok t \<Longrightarrow> tally_ok (fst (run_state (inspect_channel env c t) d))"
  by (auto simp: inspect_channel_def split_def tally_ok_update tally_ok_content split: sum.split)

lemma inspect_tally:
  obtains t where "tally_ok t" "fst (run_state (log_analyzer_inspect env) d) = conclude_analysis t"
proof -
  have ok: "tally_ok empty_tally" by (simp add: tally_ok_def empty_tally_def empty_analysis_def)
  have "\<exists>t. tally_ok t \<and> fst (run_state (log_analyzer_inspect env) d) = conclude_analysis t"
    unfolding log_analyzer_inspect_def
    by (simp add: split_def) (rule exI, rule conjI[rotated], rule refl, intro tally_ok_channel ok)
  then show ?thesis using that by blast
qed

text \<open>The reports: the highest counts, in descending order.\<close>

definition ranked :: "event_counts \<Rightarrow> nat \<Rightarrow> log_event_frequency list" where
  "ranked counts n = rev (sort_key frequency_key (rev (candidates counts n)))"

lemma ranked_sorted: "sorted_wrt (\<lambda>f g. frequency_key g \<le> frequency_key f) (ranked counts n)"
proof -
  have "sorted (map frequency_key (sort_key frequency_key (rev (candidates counts n))))" by simp
  then show ?thesis by (simp add: ranked_def sorted_map sorted_wrt_rev)
qed

lemma append_ranked_take: "append_ranked counts n = take display_limit (ranked counts n)"
  by (simp add: append_ranked_def ranked_def)

lemma append_ranked_sorted:
  "sorted_wrt (\<lambda>f g. frequency_key g \<le> frequency_key f) (append_ranked counts n)"
  unfolding append_ranked_take by (rule sorted_wrt_take[OF ranked_sorted])

lemma append_ranked_top:
  assumes "f \<in> set (candidates counts n)" "f \<notin> set (append_ranked counts n)" "g \<in> set (append_ranked counts n)"
  shows "frequency_key f \<le> frequency_key g"
proof -
  let ?t = "take display_limit (ranked counts n)" and ?d = "drop display_limit (ranked counts n)"
  have srt: "sorted_wrt (\<lambda>f g. frequency_key g \<le> frequency_key f) (?t @ ?d)"
    unfolding append_take_drop_id by (rule ranked_sorted)
  have "f \<in> set (?t @ ?d)" using assms(1) unfolding append_take_drop_id by (simp add: ranked_def)
  then have "f \<in> set ?d" using assms(2) unfolding append_ranked_take set_append by blast
  then show ?thesis
    using srt assms(3) unfolding append_ranked_take sorted_wrt_append by blast
qed

lemma append_ranked_subset: "set (append_ranked counts n) \<subseteq> set (candidates counts n)"
  unfolding append_ranked_def by (auto dest: in_set_takeD)

lemma conclude_simps:
  "la_entries (conclude_analysis t) = la_entries (tally t)"
  "la_errors (conclude_analysis t) = la_errors (tally t)"
  "la_warnings (conclude_analysis t) = la_warnings (tally t)"
  "frequent_events (conclude_analysis t) = append_ranked (all_events t) 1"
  "recurring_failures (conclude_analysis t) = append_ranked (failures t) 2"
  by (simp_all add: conclude_analysis_def Let_def)

lemma candidate_count: "f \<in> set (candidates counts n) \<Longrightarrow> n \<le> lf_count f \<and> lf_count f \<le> sum_list (map snd counts)"
  by (force simp: candidates_def intro: member_le_sum_list)

text \<open>A well-formed report, whatever is on the disk.\<close>

definition analysis_ok :: "log_analysis \<Rightarrow> bool" where
  "analysis_ok a \<longleftrightarrow>
     la_errors a + la_warnings a \<le> la_entries a \<and>
     length (frequent_events a) \<le> 6 \<and> length (recurring_failures a) \<le> 6 \<and>
     sorted_wrt (\<lambda>f g. frequency_key g \<le> frequency_key f) (frequent_events a) \<and>
     sorted_wrt (\<lambda>f g. frequency_key g \<le> frequency_key f) (recurring_failures a) \<and>
     (\<forall>f\<in>set (frequent_events a). 1 \<le> lf_count f \<and> lf_count f \<le> la_entries a) \<and>
     (\<forall>f\<in>set (recurring_failures a). 2 \<le> lf_count f \<and> lf_count f \<le> la_errors a)"

lemma append_ranked_counts:
  "f \<in> set (append_ranked counts n) \<Longrightarrow> n \<le> lf_count f \<and> lf_count f \<le> sum_list (map snd counts)"
  using append_ranked_subset candidate_count by (meson subsetD)

lemma append_ranked_length: "length (append_ranked counts n) \<le> 6"
  by (simp add: append_ranked_def display_limit_def)

lemma conclude_ok: "tally_ok t \<Longrightarrow> analysis_ok (conclude_analysis t)"
  unfolding analysis_ok_def conclude_simps
  by (intro conjI ballI append_ranked_length append_ranked_sorted)
    (auto simp: tally_ok_def dest: append_ranked_counts)

text \<open>A log that consists of recorded events.\<close>

definition recorded_log :: "(int \<times> log_event) list \<Rightarrow> string" where
  "recorded_log rs = concat (map (\<lambda>(now, ev). format_log_event now ev) rs)"

definition countable_event :: "log_channel \<Rightarrow> int \<times> log_event \<Rightarrow> bool" where
  "countable_event c r \<longleftrightarrow>
     clock_time (fst r) \<and> le_channel (snd r) = c \<and> is_safe_event_name (le_event (snd r)) \<and>
     keyless (le_event (snd r))"

lemma getlines_recorded: "getlines (recorded_log rs) = map (\<lambda>(now, ev). event_line now ev) rs"
proof -
  have "recorded_log rs = unlines (map (\<lambda>(now, ev). event_line now ev) rs)"
    by (simp add: recorded_log_def unlines_def format_event_line(1) o_def split_def)
  moreover have "\<forall>l\<in>set (map (\<lambda>(now, ev). event_line now ev) rs). newline_char \<notin> set l"
    using format_event_line(2) by auto
  ultimately show ?thesis using getlines_unlines by metis
qed

lemma analyze_recorded:
  "\<forall>r\<in>set rs. countable_event c r \<Longrightarrow>
     la_entries (tally (fold (analyze_line c) (map (\<lambda>(now, ev). event_line now ev) rs) t)) =
       la_entries (tally t) + length rs \<and>
     la_errors (tally (fold (analyze_line c) (map (\<lambda>(now, ev). event_line now ev) rs) t)) =
       la_errors (tally t) + length (filter (\<lambda>r. le_level (snd r) = ErrorLevel) rs)"
proof (induction rs arbitrary: t)
  case (Cons r rs)
  obtain now ev where r: "r = (now, ev)" by (cases r)
  have "parse_entry (event_line now ev) c =
      Some \<lparr>pe_timestamp = iso_timestamp now, pe_level = le_level ev, pe_event = le_event ev\<rparr>"
    using parse_event_line[of ev now] Cons.prems by (auto simp: countable_event_def r)
  then show ?case
    using Cons.IH Cons.prems by (simp add: r analyze_line_def count_entry_def Let_def)
qed simp

section \<open>Properties\<close>

text \<open>C31: Everything that was recorded is counted: when the log of a channel consists of events
  that the engine formatted, with names of the accepted form, each line is read back with its time,
  level and name, every event is counted once, and every error as an error.\<close>

theorem recorded_events_are_counted:
  "\<forall>r\<in>set rs. countable_event c r \<Longrightarrow>
     (\<forall>r\<in>set rs. parse_entry (event_line (fst r) (snd r)) c =
        Some \<lparr>pe_timestamp = iso_timestamp (fst r), pe_level = le_level (snd r), pe_event = le_event (snd r)\<rparr>) \<and>
     la_entries (tally (analyze_content c (recorded_log rs) t)) = la_entries (tally t) + length rs \<and>
     la_errors (tally (analyze_content c (recorded_log rs) t)) =
       la_errors (tally t) + length (filter (\<lambda>r. le_level (snd r) = ErrorLevel) rs)"
  using analyze_recorded[of rs c "t\<lparr>tally := (tally t)\<lparr>logs_available := True\<rparr>\<rparr>"] parse_event_line
  by (auto simp: analyze_content_def getlines_recorded countable_event_def)

lemma recorded_events_witness:
  "la_entries (tally (analyze_content Audit (recorded_log [(0, example_event), (10, example_event)]) empty_tally))
     = la_entries (tally empty_tally) + length [(0 :: int, example_event), (10, example_event)]"
proof -
  have "\<forall>r\<in>set [(0, example_event), (10, example_event)]. countable_event Audit r"
    by (simp add: countable_event_def clock_time_def example_event_def is_safe_event_name_def
        is_alnum_def is_digit_def is_lower_def is_upper_def key_length_def starts_with_def key_prefix_def)
  from recorded_events_are_counted[OF this, of empty_tally] show ?thesis by blast
qed

text \<open>For every state of the disk the log report is well formed: warnings and errors are among
  the entries, at most six events and six repeated failures are listed, each list by descending
  count, and no count exceeds the entries or the errors it is taken from.\<close>

theorem log_report_well_formed:
  "analysis_ok (fst (run_state (log_analyzer_inspect env) d))"
  by (rule inspect_tally[of env d]) (simp add: conclude_ok)

end
