(* ===== verification/NetworkManager.thy ===== *)
theory NetworkManager
  imports CommandRunner
begin

text \<open>
  \<open>src/network/network_manager.cpp\<close> and \<open>src/network/vpn.cpp\<close>: the device inventory of
  NetworkManager and the tunnel interfaces of the host.
\<close>

section \<open>NetworkManager devices\<close>

record network_device =
  interface_name :: string
  device_type :: string
  device_state :: string

record network_manager_state =
  nm_available :: bool
  nm_devices :: "network_device list"
  nm_diagnostic :: string

definition parse_device_line :: "string \<Rightarrow> network_device option" where
  "parse_device_line line =
     (case getline_delim colon_char line of None \<Rightarrow> None
      | Some (name, r1) \<Rightarrow>
        (case getline_delim colon_char r1 of None \<Rightarrow> None
         | Some (kind, r2) \<Rightarrow>
           (case getline_delim newline_char r2 of None \<Rightarrow> None
            | Some (st, r3) \<Rightarrow>
                if name \<noteq> []
                then Some \<lparr>interface_name = name, device_type = kind, device_state = st\<rparr>
                else None)))"

definition parse_network_manager_devices :: "string \<Rightarrow> network_device list" where
  "parse_network_manager_devices txt = List.map_filter parse_device_line (getlines txt)"

definition nm_command :: "string list" where
  "nm_command =
     [''nmcli'', ''--terse'', ''--fields'', ''DEVICE,TYPE,STATE'', ''device'', ''status'']"

definition nm_inspect :: "'w runner \<Rightarrow> ('w, network_manager_state) state" where
  "nm_inspect R = do {
     result \<leftarrow> run R nm_command;
     State_Monad.return
       (if \<not> success result
        then \<lparr>nm_available = False, nm_devices = [],
              nm_diagnostic = stderr_or ''nmcli status command failed'' result\<rparr>
        else \<lparr>nm_available = True,
              nm_devices = parse_network_manager_devices (stdout_text result),
              nm_diagnostic = []\<rparr>)
   }"

text \<open>The reader inverts the terse output format, for values without the separators.\<close>

definition plain_field :: "string \<Rightarrow> bool" where
  "plain_field f \<longleftrightarrow> f \<noteq> [] \<and> colon_char \<notin> set f \<and> newline_char \<notin> set f"

definition print_device :: "network_device \<Rightarrow> string" where
  "print_device d =
     interface_name d @ [colon_char] @ device_type d @ [colon_char] @ device_state d"

definition plain_device :: "network_device \<Rightarrow> bool" where
  "plain_device d \<longleftrightarrow> plain_field (interface_name d) \<and> plain_field (device_type d) \<and>
     device_state d \<noteq> [] \<and> newline_char \<notin> set (device_state d)"

lemma takeWhile_until: "d \<notin> set xs \<Longrightarrow> takeWhile (\<lambda>c. c \<noteq> d) (xs @ d # ys) = xs"
  by (induction xs) auto

lemma dropWhile_until: "d \<notin> set xs \<Longrightarrow> dropWhile (\<lambda>c. c \<noteq> d) (xs @ d # ys) = d # ys"
  by (induction xs) auto

lemma getline_delim_until [cpp_string]:
  "d \<notin> set xs \<Longrightarrow> getline_delim d (xs @ d # ys) = Some (xs, ys)"
  by (simp add: getline_delim_def takeWhile_until dropWhile_until)

lemma getline_delim_all [cpp_string]:
  assumes "d \<notin> set xs" "xs \<noteq> []"
  shows "getline_delim d xs = Some (xs, [])"
proof -
  have "\<forall>x\<in>set xs. x \<noteq> d" using assms(1) by auto
  then have t: "takeWhile (\<lambda>c. c \<noteq> d) xs = xs" and "dropWhile (\<lambda>c. c \<noteq> d) xs = []"
    by (induction xs) auto
  with assms(2) show ?thesis by (simp only: getline_delim_def if_False drop.simps)
qed

lemma parse_print_device:
  assumes "plain_device d"
  shows "parse_device_line (print_device d) = Some d"
proof -
  have "getline_delim colon_char (print_device d) =
          Some (interface_name d, device_type d @ colon_char # device_state d)"
    using assms
    by (simp add: plain_device_def plain_field_def print_device_def getline_delim_until)
  moreover have "getline_delim colon_char (device_type d @ colon_char # device_state d) =
          Some (device_type d, device_state d)"
    using assms by (simp add: plain_device_def plain_field_def getline_delim_until)
  moreover have "getline_delim newline_char (device_state d) = Some (device_state d, [])"
    using assms by (simp add: plain_device_def getline_delim_all)
  ultimately show ?thesis
    using assms by (simp add: parse_device_line_def plain_device_def plain_field_def)
qed

lemma parse_device_name: "parse_device_line l = Some d \<Longrightarrow> interface_name d \<noteq> []"
  by (auto simp: parse_device_line_def split: option.splits if_splits)

lemma parse_devices_print:
  "\<forall>d\<in>set ds. plain_device d \<Longrightarrow>
     parse_network_manager_devices (unlines (map print_device ds)) = ds"
proof (induction ds)
  case Nil
  then show ?case by (simp add: parse_network_manager_devices_def List.map_filter_def)
next
  case (Cons d ds)
  have "newline_char \<notin> set (print_device d)"
    using Cons.prems by (auto simp: plain_device_def plain_field_def print_device_def)
  with Cons show ?case
    by (simp add: parse_network_manager_devices_def cpp_string parse_print_device List.map_filter_def)
qed

section \<open>Tunnel interfaces\<close>

record vpn_state =
  nordvpn_installed :: bool
  interface_scan_available :: bool
  active_tunnel_interfaces :: "string list"
  vpn_diagnostic :: string

definition looks_like_tunnel :: "string \<Rightarrow> bool" where
  "looks_like_tunnel name =
     (let lower = map to_lower name
      in lower = ''nordlynx'' \<or> starts_with lower ''wg'' \<or> starts_with lower ''tun'' \<or>
         starts_with lower ''tap'' \<or> starts_with lower ''tailscale'' \<or> starts_with lower ''zt'')"

text \<open>The name between the first two colons of a line of \<open>ip -o link show\<close>.\<close>

definition link_name :: "string \<Rightarrow> string option" where
  "link_name line =
     (case find_char colon_char line of None \<Rightarrow> None
      | Some first_colon \<Rightarrow>
        (let rest = drop (Suc first_colon) line in
         case find_char colon_char rest of None \<Rightarrow> None
         | Some len \<Rightarrow>
             Some (takeWhile (\<lambda>c. c \<noteq> CHR 0x40) (dropWhile is_blank (take len rest)))))"

definition parse_vpn_tunnel_interfaces :: "string \<Rightarrow> string list" where
  "parse_vpn_tunnel_interfaces txt =
     filter looks_like_tunnel (List.map_filter link_name (getlines txt))"

definition vpn_inspect :: "'w runner \<Rightarrow> ('w, vpn_state) state" where
  "vpn_inspect R = do {
     nord \<leftarrow> run R [''rpm'', ''-q'', ''nordvpn''];
     links \<leftarrow> run R [''ip'', ''-o'', ''link'', ''show''];
     State_Monad.return
       \<lparr>nordvpn_installed = success nord,
        interface_scan_available = success links,
        active_tunnel_interfaces =
          (if success links then parse_vpn_tunnel_interfaces (stdout_text links) else []),
        vpn_diagnostic =
          (if success links then [] else stderr_or ''could not inspect local interfaces'' links)\<rparr>
   }"

lemma tunnels_look_like_tunnels:
  "t \<in> set (parse_vpn_tunnel_interfaces txt) \<Longrightarrow> looks_like_tunnel t \<and> t \<noteq> []"
  by (auto simp: parse_vpn_tunnel_interfaces_def looks_like_tunnel_def starts_with_def)

context landing_host
begin

lemma nm_inspect_keeps: "keeps I (nm_inspect R)"
  unfolding nm_inspect_def
  by (intro keeps_intro landing_keeps) (simp add: nm_command_def query_defs)

lemma vpn_inspect_keeps: "keeps I (vpn_inspect R)"
  unfolding vpn_inspect_def
  by (intro keeps_intro landing_keeps) (simp_all add: query_defs)

end

section \<open>Properties\<close>

text \<open>The device parser inverts the terse \<open>nmcli\<close> format: a listing whose values contain
  no separator is read back as the same devices, in order.\<close>

theorem devices_round_trip:
  "list_all plain_device ds \<Longrightarrow>
     parse_network_manager_devices (unlines (map print_device ds)) = ds"
  using parse_devices_print by (simp add: list_all_iff)

lemma devices_round_trip_witness:
  "parse_network_manager_devices (unlines (map print_device
     [\<lparr>interface_name = ''wlan0'', device_type = ''wifi'', device_state = ''connected (externally)''\<rparr>,
      \<lparr>interface_name = ''lo'', device_type = ''loopback'', device_state = ''unmanaged''\<rparr>])) =
     [\<lparr>interface_name = ''wlan0'', device_type = ''wifi'', device_state = ''connected (externally)''\<rparr>,
      \<lparr>interface_name = ''lo'', device_type = ''loopback'', device_state = ''unmanaged''\<rparr>]"
  by (rule devices_round_trip) (simp add: plain_device_def plain_field_def)

end
