(* ===== verification/SocketInspector.thy ===== *)
theory SocketInspector
  imports CommandRunner CppMap
begin

text \<open>
  \<open>src/security/socket_inspector.cpp\<close>: the listening sockets of \<open>ss -H -lntup\<close> and the
  exposure summary that the readiness report, the threat assessment and the dashboard share.
\<close>

record listening_socket =
  ls_protocol :: string
  ls_endpoint :: string
  loopback_only :: bool
  multicast_only :: bool
  process_name :: string

record socket_state =
  sockets_available :: bool
  listeners :: "listening_socket list"
  process_metadata_requested :: bool
  sockets_diagnostic :: string

record listener_exposure_summary =
  non_loopback_bindings :: nat
  multicast_only_bindings :: nat
  network_reachable_bindings :: nat
  logical_network_services :: nat
  process_attributed_network_bindings :: nat

section \<open>Parsing one listener\<close>

definition endpoint_address :: "string \<Rightarrow> string" where
  "endpoint_address endpoint =
     (case rfind_char colon_char endpoint of None \<Rightarrow> endpoint | Some i \<Rightarrow> take i endpoint)"

definition is_loopback_endpoint :: "string \<Rightarrow> bool" where
  "is_loopback_endpoint endpoint =
     (let address = endpoint_address endpoint
      in starts_with address ''127.'' \<or> starts_with address ''[::1]'' \<or>
         starts_with address ''[::ffff:127.'')"

definition is_multicast_endpoint :: "string \<Rightarrow> bool" where
  "is_multicast_endpoint endpoint =
     (case rfind_char colon_char endpoint of None \<Rightarrow> False
      | Some separator \<Rightarrow>
        (let address = take separator endpoint in
         if starts_with address ''[''
         then (case find_char (CHR '']'') address of None \<Rightarrow> False
               | Some closing \<Rightarrow>
                 (let inner = take (closing - 1) (drop 1 address)
                  in 2 \<le> length inner \<and> to_lower (inner ! 0) = CHR ''f'' \<and>
                     to_lower (inner ! 1) = CHR ''f''))
         else (case parse_whole_u32 (takeWhile (\<lambda>c. c \<noteq> CHR ''.'') address) of
                 None \<Rightarrow> False
               | Some parsed \<Rightarrow> 224 \<le> parsed \<and> parsed \<le> 239)))"

definition endpoint_port :: "string \<Rightarrow> string" where
  "endpoint_port endpoint =
     (case rfind_char colon_char endpoint of None \<Rightarrow> [] | Some i \<Rightarrow> drop (Suc i) endpoint)"

definition users_marker :: string where
  "users_marker = ''users:(('' @ [CHR 0x22]"

definition process_name_of :: "string \<Rightarrow> string" where
  "process_name_of line =
     (case find_str users_marker line of None \<Rightarrow> []
      | Some start \<Rightarrow>
        (let rest = drop (start + length users_marker) line in
         case find_char (CHR 0x22) rest of None \<Rightarrow> [] | Some len \<Rightarrow> take len rest))"

definition parse_listener_line :: "string \<Rightarrow> listening_socket option" where
  "parse_listener_line line =
     (let values = words line in
      if length values < 6 then None
      else if values ! 0 \<noteq> ''tcp'' \<and> values ! 0 \<noteq> ''udp'' then None
      else Some \<lparr>ls_protocol = values ! 0, ls_endpoint = values ! 4,
                 loopback_only = is_loopback_endpoint (values ! 4),
                 multicast_only = is_multicast_endpoint (values ! 4),
                 process_name = process_name_of line\<rparr>)"

definition parse_listening_sockets :: "string \<Rightarrow> listening_socket list" where
  "parse_listening_sockets ss_output = List.map_filter parse_listener_line (getlines ss_output)"

definition is_network_reachable :: "listening_socket \<Rightarrow> bool" where
  "is_network_reachable l \<longleftrightarrow> \<not> loopback_only l \<and> \<not> multicast_only l"

section \<open>The exposure summary\<close>

text \<open>The loop of \<open>summarize_listener_exposure\<close>: the summary and the set of services.\<close>

definition service_key :: "listening_socket \<Rightarrow> string" where
  "service_key l = ls_protocol l @ ''/'' @ endpoint_port (ls_endpoint l)"

definition summarize_step ::
  "listening_socket \<Rightarrow> listener_exposure_summary \<times> string list
     \<Rightarrow> listener_exposure_summary \<times> string list" where
  "summarize_step l = (\<lambda>(s, services).
     if loopback_only l then (s, services)
     else
       let s1 = s\<lparr>non_loopback_bindings := Suc (non_loopback_bindings s)\<rparr> in
       if multicast_only l
       then (s1\<lparr>multicast_only_bindings := Suc (multicast_only_bindings s1)\<rparr>, services)
       else
         let s2 = s1\<lparr>network_reachable_bindings := Suc (network_reachable_bindings s1)\<rparr>;
             s3 = (if process_name l \<noteq> []
                   then s2\<lparr>process_attributed_network_bindings :=
                             Suc (process_attributed_network_bindings s2)\<rparr>
                   else s2)
         in (s3, if endpoint_port (ls_endpoint l) \<noteq> []
                 then sset_insert (service_key l) services else services))"

definition empty_exposure :: listener_exposure_summary where
  "empty_exposure = \<lparr>non_loopback_bindings = 0, multicast_only_bindings = 0,
     network_reachable_bindings = 0, logical_network_services = 0,
     process_attributed_network_bindings = 0\<rparr>"

definition summarize_listener_exposure :: "socket_state \<Rightarrow> listener_exposure_summary" where
  "summarize_listener_exposure st =
     (let (summary, services) = fold summarize_step (listeners st) (empty_exposure, [])
      in summary\<lparr>logical_network_services := length services\<rparr>)"

definition sockets_inspect :: "'w runner \<Rightarrow> ('w, socket_state) state" where
  "sockets_inspect R = do {
     result \<leftarrow> run R [''ss'', ''-H'', ''-lntup''];
     State_Monad.return
       (if \<not> success result
        then \<lparr>sockets_available = False, listeners = [], process_metadata_requested = False,
              sockets_diagnostic = stderr_or ''ss listener query failed'' result\<rparr>
        else \<lparr>sockets_available = True,
              listeners = parse_listening_sockets (stdout_text result),
              process_metadata_requested = True, sockets_diagnostic = []\<rparr>)
   }"

section \<open>What the summary counts\<close>

abbreviation reachable_listeners :: "listening_socket list \<Rightarrow> listening_socket list" where
  "reachable_listeners \<equiv> filter is_network_reachable"

definition named_services :: "listening_socket list \<Rightarrow> string list" where
  "named_services ls =
     map service_key (filter (\<lambda>l. endpoint_port (ls_endpoint l) \<noteq> []) (reachable_listeners ls))"

lemma fold_summarize_step:
  assumes "fold summarize_step ls (s, sv) = (s', sv')" "sset_wf sv"
  shows "non_loopback_bindings s' =
           non_loopback_bindings s + length (filter (\<lambda>l. \<not> loopback_only l) ls) \<and>
         multicast_only_bindings s' =
           multicast_only_bindings s
             + length (filter (\<lambda>l. \<not> loopback_only l \<and> multicast_only l) ls) \<and>
         network_reachable_bindings s' =
           network_reachable_bindings s + length (reachable_listeners ls) \<and>
         process_attributed_network_bindings s' =
           process_attributed_network_bindings s
             + length (filter (\<lambda>l. process_name l \<noteq> []) (reachable_listeners ls)) \<and>
         set sv' = set sv \<union> set (named_services ls) \<and> sset_wf sv'"
  using assms
proof (induction ls arbitrary: s sv)
  case Nil
  then show ?case by (simp add: named_services_def)
next
  case (Cons l ls)
  obtain s1 sv1 where step: "summarize_step l (s, sv) = (s1, sv1)" by fastforce
  then have wf: "sset_wf sv1"
    using Cons.prems(2) by (auto simp: summarize_step_def Let_def split: if_splits)
  have IH: "fold summarize_step ls (s1, sv1) = (s', sv')"
    using Cons.prems(1) step by simp
  show ?case
    using Cons.IH[OF IH wf] step
    by (auto simp: summarize_step_def Let_def is_network_reachable_def named_services_def
        split: if_splits)
qed

lemma summary_counts:
  "non_loopback_bindings (summarize_listener_exposure st) =
     length (filter (\<lambda>l. \<not> loopback_only l) (listeners st))"
  "multicast_only_bindings (summarize_listener_exposure st) =
     length (filter (\<lambda>l. \<not> loopback_only l \<and> multicast_only l) (listeners st))"
  "network_reachable_bindings (summarize_listener_exposure st) =
     length (reachable_listeners (listeners st))"
  "process_attributed_network_bindings (summarize_listener_exposure st) =
     length (filter (\<lambda>l. process_name l \<noteq> []) (reachable_listeners (listeners st)))"
  "logical_network_services (summarize_listener_exposure st) =
     card (set (named_services (listeners st)))"
proof -
  obtain s sv where f: "fold summarize_step (listeners st) (empty_exposure, []) = (s, sv)"
    by fastforce
  note facts = fold_summarize_step[OF f sset_wf_Nil]
  from f have e: "summarize_listener_exposure st = s\<lparr>logical_network_services := length sv\<rparr>"
    by (simp add: summarize_listener_exposure_def)
  have "length sv = card (set (named_services (listeners st)))"
    using facts by (simp add: sset_length)
  with facts e show
    "non_loopback_bindings (summarize_listener_exposure st) =
       length (filter (\<lambda>l. \<not> loopback_only l) (listeners st))"
    "multicast_only_bindings (summarize_listener_exposure st) =
       length (filter (\<lambda>l. \<not> loopback_only l \<and> multicast_only l) (listeners st))"
    "network_reachable_bindings (summarize_listener_exposure st) =
       length (reachable_listeners (listeners st))"
    "process_attributed_network_bindings (summarize_listener_exposure st) =
       length (filter (\<lambda>l. process_name l \<noteq> []) (reachable_listeners (listeners st)))"
    "logical_network_services (summarize_listener_exposure st) =
       card (set (named_services (listeners st)))"
    by (simp_all add: empty_exposure_def)
qed

lemma attributed_le_reachable:
  "process_attributed_network_bindings (summarize_listener_exposure st)
     \<le> network_reachable_bindings (summarize_listener_exposure st)"
  by (simp add: summary_counts del: filter_filter)

lemma services_le_reachable:
  "logical_network_services (summarize_listener_exposure st)
     \<le> network_reachable_bindings (summarize_listener_exposure st)"
proof -
  have "card (set (named_services (listeners st))) \<le> length (named_services (listeners st))"
    by (rule card_length)
  also have "\<dots> \<le> length (reachable_listeners (listeners st))"
    by (simp add: named_services_def del: filter_filter)
  finally show ?thesis by (simp add: summary_counts)
qed

context landing_host
begin

lemma sockets_inspect_keeps: "keeps I (sockets_inspect R)"
  unfolding sockets_inspect_def
  by (intro keeps_intro landing_keeps) (simp add: query_defs)

end

section \<open>Properties\<close>

text \<open>C25: The exposure summary counts what it says: the bindings beyond loopback split into the
  multicast-only and the reachable ones, the attributed bindings are the reachable ones with a
  process name, so \<open>reachable - attributed\<close> never wraps around, and the logical services are
  the distinct protocol/port pairs of the reachable bindings.\<close>

theorem listener_summary_correct:
  "non_loopback_bindings (summarize_listener_exposure st) =
     length (filter (\<lambda>l. \<not> loopback_only l) (listeners st)) \<and>
   non_loopback_bindings (summarize_listener_exposure st) =
     multicast_only_bindings (summarize_listener_exposure st)
       + network_reachable_bindings (summarize_listener_exposure st) \<and>
   network_reachable_bindings (summarize_listener_exposure st) =
     process_attributed_network_bindings (summarize_listener_exposure st)
       + length (filter (\<lambda>l. is_network_reachable l \<and> process_name l = []) (listeners st)) \<and>
   logical_network_services (summarize_listener_exposure st) =
     card (set (named_services (listeners st)))"
proof -
  have "length (filter (\<lambda>l. \<not> loopback_only l) ls) =
          length (filter (\<lambda>l. \<not> loopback_only l \<and> multicast_only l) ls)
            + length (reachable_listeners ls)" for ls :: "listening_socket list"
    by (induction ls) (auto simp: is_network_reachable_def)
  moreover have "length (reachable_listeners ls) =
          length (filter (\<lambda>l. process_name l \<noteq> []) (reachable_listeners ls))
            + length (filter (\<lambda>l. is_network_reachable l \<and> process_name l = []) ls)"
    for ls :: "listening_socket list"
    by (induction ls) auto
  ultimately show ?thesis by (simp add: summary_counts del: filter_filter)
qed

end
