(* ===== verification/SecuritySignals.thy ===== *)
theory SecuritySignals
  imports TextUtils CppMap CommandRunner
begin

text \<open>
  \<open>src/security/security_signals.cpp\<close> and \<open>src/security/evidence_quality.cpp\<close>: the bounded
  summaries of the kernel and firewalld journals, and the checks that their time stamps can
  be trusted.
\<close>

section \<open>State\<close>

datatype journal_query_status = JournalUnavailable | JournalPartial | JournalAvailable

definition journal_query_available :: "journal_query_status \<Rightarrow> bool" where
  "journal_query_available st \<longleftrightarrow> st = JournalAvailable"

record security_signals_state =
  kernel_journal_available :: bool
  kernel_journal_status :: journal_query_status
  kernel_journal_truncated :: bool
  kernel_drop_or_reject_events :: nat
  kernel_denial_unique_sources :: nat
  kernel_denial_unique_destination_ports :: nat
  firewalld_journal_available :: bool
  firewalld_journal_status :: journal_query_status
  firewalld_journal_truncated :: bool
  firewalld_service_events :: nat
  signals_diagnostic :: string

definition default_signals :: security_signals_state where
  "default_signals = \<lparr>kernel_journal_available = False,
     kernel_journal_status = JournalUnavailable, kernel_journal_truncated = False,
     kernel_drop_or_reject_events = 0, kernel_denial_unique_sources = 0,
     kernel_denial_unique_destination_ports = 0, firewalld_journal_available = False,
     firewalld_journal_status = JournalUnavailable, firewalld_journal_truncated = False,
     firewalld_service_events = 0, signals_diagnostic = []\<rparr>"

record kernel_denial_summary =
  event_count :: nat
  unique_sources :: nat
  unique_destination_ports :: nat

definition journal_limit :: nat where
  "journal_limit = 200"

section \<open>Reading the journal\<close>

definition field_value :: "string \<Rightarrow> string \<Rightarrow> string" where
  "field_value line key =
     (case find_str key line of None \<Rightarrow> []
      | Some first \<Rightarrow>
          takeWhile (\<lambda>c. c \<notin> {blank_char, tab_char, newline_char})
            (drop (first + length key) line))"

definition is_journal_entry :: "string \<Rightarrow> bool" where
  "is_journal_entry line \<longleftrightarrow>
     line \<noteq> [] \<and> line \<noteq> ''-- No entries --'' \<and> \<not> starts_with line ''-- Boot ''"

definition count_journal_entries :: "string \<Rightarrow> nat" where
  "count_journal_entries journal_output =
     fold (\<lambda>line count. if is_journal_entry line then Suc count else count)
       (getlines journal_output) 0"

definition insert_field :: "string \<Rightarrow> string \<Rightarrow> string list \<Rightarrow> string list" where
  "insert_field line key values =
     (let v = field_value line key in if v \<noteq> [] then sset_insert v values else values)"

definition denial_step ::
  "string \<Rightarrow> nat \<times> string list \<times> string list \<Rightarrow> nat \<times> string list \<times> string list" where
  "denial_step line = (\<lambda>(count, sources, ports).
     if \<not> is_journal_entry line then (count, sources, ports)
     else (Suc count, insert_field line ''SRC='' sources, insert_field line ''DPT='' ports))"

definition summarize_kernel_denials :: "string \<Rightarrow> kernel_denial_summary" where
  "summarize_kernel_denials journal_output =
     (let (count, sources, ports) = fold denial_step (getlines journal_output) (0, [], [])
      in \<lparr>event_count = count, unique_sources = length sources,
          unique_destination_ports = length ports\<rparr>)"

section \<open>The inspector\<close>

definition kernel_journal_command :: "string list" where
  "kernel_journal_command =
     [''journalctl'', ''-k'', ''--no-pager'', ''--since=-24h'', ''--grep=DROP|REJECT'', ''-n'', ''200'']"

definition firewalld_journal_command :: "string list" where
  "firewalld_journal_command =
     [''journalctl'', ''-u'', ''firewalld.service'', ''--no-pager'', ''--since=-24h'', ''-n'', ''200'']"

definition bounded_status :: "bool \<Rightarrow> journal_query_status" where
  "bounded_status truncated = (if truncated then JournalPartial else JournalAvailable)"

definition apply_kernel_journal ::
  "command_result \<Rightarrow> security_signals_state \<Rightarrow> security_signals_state" where
  "apply_kernel_journal denials st =
     (if success denials then
        let summary = summarize_kernel_denials (stdout_text denials);
            truncated = (journal_limit \<le> event_count summary)
        in st\<lparr>kernel_drop_or_reject_events := event_count summary,
              kernel_denial_unique_sources := unique_sources summary,
              kernel_denial_unique_destination_ports := unique_destination_ports summary,
              kernel_journal_truncated := truncated,
              kernel_journal_status := bounded_status truncated,
              kernel_journal_available := journal_query_available (bounded_status truncated)\<rparr>
      else st\<lparr>signals_diagnostic := stderr_or ''kernel journal query failed'' denials\<rparr>)"

definition apply_firewalld_journal ::
  "command_result \<Rightarrow> security_signals_state \<Rightarrow> security_signals_state" where
  "apply_firewalld_journal firewalld st =
     (if success firewalld then
        let events = count_journal_entries (stdout_text firewalld);
            truncated = (journal_limit \<le> events)
        in st\<lparr>firewalld_service_events := events,
              firewalld_journal_truncated := truncated,
              firewalld_journal_status := bounded_status truncated,
              firewalld_journal_available := journal_query_available (bounded_status truncated)\<rparr>
      else if signals_diagnostic st = []
      then st\<lparr>signals_diagnostic := stderr_or ''firewalld journal query failed'' firewalld\<rparr>
      else st)"

definition signals_inspect :: "'w runner \<Rightarrow> ('w, security_signals_state) state" where
  "signals_inspect R = do {
     denials \<leftarrow> run R kernel_journal_command;
     firewalld \<leftarrow> run R firewalld_journal_command;
     State_Monad.return
       (apply_firewalld_journal firewalld (apply_kernel_journal denials default_signals))
   }"

section \<open>Evidence quality\<close>

record evidence_quality_state =
  time_sync_status_available :: bool
  time_synchronized :: bool
  journald_service_available :: bool
  evidence_diagnostic :: string

definition default_evidence_quality :: evidence_quality_state where
  "default_evidence_quality = \<lparr>time_sync_status_available = False, time_synchronized = False,
     journald_service_available = False, evidence_diagnostic = []\<rparr>"

definition evidence_of :: "command_result \<Rightarrow> command_result \<Rightarrow> evidence_quality_state" where
  "evidence_of time_sync journald =
     (let diagnostic = (if success time_sync then []
                        else stderr_or ''time synchronization status unavailable'' time_sync);
          journald_ok = (success journald \<and> trim_copy (stdout_text journald) = ''active'')
      in \<lparr>time_sync_status_available = success time_sync,
          time_synchronized = (success time_sync \<and> trim_copy (stdout_text time_sync) = ''yes''),
          journald_service_available = journald_ok,
          evidence_diagnostic =
            (if \<not> journald_ok \<and> diagnostic = []
             then stderr_or ''systemd-journald is not active'' journald else diagnostic)\<rparr>)"

definition evidence_inspect :: "'w runner \<Rightarrow> ('w, evidence_quality_state) state" where
  "evidence_inspect R = do {
     time_sync \<leftarrow> run R [''timedatectl'', ''show'', ''--property=NTPSynchronized'', ''--value''];
     journald \<leftarrow> run R [''systemctl'', ''is-active'', ''systemd-journald.service''];
     State_Monad.return (evidence_of time_sync journald)
   }"

section \<open>The summaries\<close>

abbreviation entries_of :: "string \<Rightarrow> string list" where
  "entries_of out \<equiv> filter is_journal_entry (getlines out)"

definition field_values :: "string \<Rightarrow> string list \<Rightarrow> string list" where
  "field_values key ls = filter (\<lambda>v. v \<noteq> []) (map (\<lambda>l. field_value l key) ls)"

lemma fold_count: "fold (\<lambda>x n. if p x then Suc n else n) xs n = n + length (filter p xs)"
  by (induction xs arbitrary: n) auto

lemma count_journal_entries_eq: "count_journal_entries out = length (entries_of out)"
  by (simp add: count_journal_entries_def fold_count)

lemma insert_field_simps:
  "set (insert_field l key vs) = set (field_values key [l]) \<union> set vs"
  "sset_wf vs \<Longrightarrow> sset_wf (insert_field l key vs)"
  by (auto simp: insert_field_def field_values_def Let_def)

lemma denial_step_simps:
  "is_journal_entry l \<Longrightarrow> denial_step l (n, vs, ps) =
     (Suc n, insert_field l ''SRC='' vs, insert_field l ''DPT='' ps)"
  "\<not> is_journal_entry l \<Longrightarrow> denial_step l (n, vs, ps) = (n, vs, ps)"
  by (simp_all add: denial_step_def)

lemma fold_denial_step:
  assumes "fold denial_step ls (n, vs, ps) = (n', vs', ps')" "sset_wf vs" "sset_wf ps"
  shows "n' = n + length (filter is_journal_entry ls) \<and>
    set vs' = set vs \<union> set (field_values ''SRC='' (filter is_journal_entry ls)) \<and>
    set ps' = set ps \<union> set (field_values ''DPT='' (filter is_journal_entry ls)) \<and>
    sset_wf vs' \<and> sset_wf ps'"
  using assms
proof (induction ls arbitrary: n vs ps)
  case Nil
  then show ?case by (simp add: field_values_def)
next
  case (Cons l ls)
  show ?case
  proof (cases "is_journal_entry l")
    case False
    with Cons show ?thesis by (simp add: denial_step_simps)
  next
    case True
    with Cons.prems(1)
    have "fold denial_step ls
            (Suc n, insert_field l ''SRC='' vs, insert_field l ''DPT='' ps) = (n', vs', ps')"
      by (simp add: denial_step_simps)
    from Cons.IH[OF this insert_field_simps(2) insert_field_simps(2)] Cons.prems(2,3) True
    show ?thesis by (auto simp: insert_field_simps(1) field_values_def)
  qed
qed

lemma summarize_kernel_denials_eq:
  "summarize_kernel_denials out =
     \<lparr>event_count = count_journal_entries out,
      unique_sources = card (set (field_values ''SRC='' (entries_of out))),
      unique_destination_ports = card (set (field_values ''DPT='' (entries_of out)))\<rparr>"
proof -
  obtain n vs ps where f: "fold denial_step (getlines out) (0, [], []) = (n, vs, ps)"
    by (metis surj_pair)
  from fold_denial_step[OF f] show ?thesis
    by (simp add: summarize_kernel_denials_def f count_journal_entries_eq sset_length)
qed

lemma card_field_values: "card (set (field_values key ls)) \<le> length ls"
  by (metis card_length field_values_def le_trans length_filter_le length_map)

lemma denial_unique_le_events:
  "unique_sources (summarize_kernel_denials out) \<le> event_count (summarize_kernel_denials out)"
  "unique_destination_ports (summarize_kernel_denials out)
     \<le> event_count (summarize_kernel_denials out)"
  by (simp_all add: summarize_kernel_denials_eq count_journal_entries_eq card_field_values)

text \<open>
  What every collected state satisfies: the convenience flag agrees with the status, counts
  come from a query that answered, and a count at the limit of the query is never presented
  as complete.
\<close>

definition signals_wf :: "security_signals_state \<Rightarrow> bool" where
  "signals_wf st \<longleftrightarrow>
     kernel_journal_available st = (kernel_journal_status st = JournalAvailable) \<and>
     firewalld_journal_available st = (firewalld_journal_status st = JournalAvailable) \<and>
     kernel_journal_truncated st = (200 \<le> kernel_drop_or_reject_events st) \<and>
     firewalld_journal_truncated st = (200 \<le> firewalld_service_events st) \<and>
     (kernel_journal_status st = JournalAvailable \<longrightarrow> \<not> kernel_journal_truncated st) \<and>
     (firewalld_journal_status st = JournalAvailable \<longrightarrow> \<not> firewalld_journal_truncated st) \<and>
     (kernel_journal_status st = JournalUnavailable \<longrightarrow> kernel_drop_or_reject_events st = 0) \<and>
     (firewalld_journal_status st = JournalUnavailable \<longrightarrow> firewalld_service_events st = 0) \<and>
     kernel_denial_unique_sources st \<le> kernel_drop_or_reject_events st \<and>
     kernel_denial_unique_destination_ports st \<le> kernel_drop_or_reject_events st"

lemma signals_wf_default: "signals_wf default_signals"
  by (simp add: signals_wf_def default_signals_def)

lemma signals_wf_kernel: "signals_wf st \<Longrightarrow> signals_wf (apply_kernel_journal r st)"
  by (auto simp: signals_wf_def apply_kernel_journal_def bounded_status_def journal_limit_def
      journal_query_available_def denial_unique_le_events Let_def)

lemma signals_wf_firewalld: "signals_wf st \<Longrightarrow> signals_wf (apply_firewalld_journal r st)"
  by (auto simp: signals_wf_def apply_firewalld_journal_def bounded_status_def journal_limit_def
      journal_query_available_def Let_def)

lemma signals_inspect_wf: "signals_wf (fst (run_state (signals_inspect R) w))"
  by (simp add: signals_inspect_def split_def signals_wf_default signals_wf_kernel
      signals_wf_firewalld)

text \<open>A failed check always leaves a diagnostic.\<close>

lemma evidence_of_diagnostic:
  "(evidence_diagnostic (evidence_of t j) = []) =
     (time_sync_status_available (evidence_of t j) \<and> journald_service_available (evidence_of t j))"
  by (auto simp: evidence_of_def stderr_or_def Let_def)

context landing_host
begin

lemma signals_inspect_keeps: "keeps I (signals_inspect R)"
  unfolding signals_inspect_def kernel_journal_command_def firewalld_journal_command_def
  by (intro keeps_intro landing_keeps) (simp_all add: query_defs)

end

context local_host
begin

lemma evidence_inspect_keeps: "keeps I (evidence_inspect R)"
  unfolding evidence_inspect_def
  by (intro keeps_intro complete_keeps) (simp_all add: query_defs)

end

section \<open>Properties\<close>

text \<open>The denial summary counts the journal entries and the distinct non-empty source
  addresses and destination ports among them, so neither count exceeds the events.\<close>

theorem denial_summary_correct:
  "event_count (summarize_kernel_denials out) = count_journal_entries out \<and>
   count_journal_entries out = length (filter is_journal_entry (getlines out)) \<and>
   unique_sources (summarize_kernel_denials out) =
     card (set (field_values ''SRC='' (filter is_journal_entry (getlines out)))) \<and>
   unique_destination_ports (summarize_kernel_denials out) =
     card (set (field_values ''DPT='' (filter is_journal_entry (getlines out)))) \<and>
   unique_sources (summarize_kernel_denials out) \<le> event_count (summarize_kernel_denials out) \<and>
   unique_destination_ports (summarize_kernel_denials out)
     \<le> event_count (summarize_kernel_denials out)"
  using denial_unique_le_events[of out]
  by (simp add: summarize_kernel_denials_eq count_journal_entries_eq)

text \<open>A journal view is never overstated: a count that reached the query limit of 200 is
  partial, an unavailable journal reports no events, and the flags agree with the statuses.\<close>

theorem journal_view_not_overstated:
  "signals_wf (fst (run_state (signals_inspect R) w))"
  by (rule signals_inspect_wf)

end
