(* ===== verification/FirewallState.thy ===== *)
theory FirewallState
  imports TextUtils CppMap NetworkManager SocketInspector SecuritySignals OperatingMode
begin

text \<open>
  \<open>src/firewall/firewall_state.cpp\<close>: the posture snapshot, the parsers of the
  \<open>firewall-cmd\<close> output, the comparison of zone policies, and the zones that apply to the
  host's traffic.
\<close>

section \<open>Data\<close>

datatype observation_status = Unavailable | Partial | Available

definition observation_available :: "observation_status \<Rightarrow> bool" where
  "observation_available st \<longleftrightarrow> st = Available"

record zone_state =
  zone_target :: string
  zone_interfaces :: "string list"
  zone_sources :: "string list"
  zone_services :: "string list"
  zone_ports :: "string list"
  zone_protocols :: "string list"
  zone_source_ports :: "string list"
  zone_rich_rules :: "string list"
  zone_forward_ports :: "string list"
  zone_masquerade :: bool
  zone_forward :: bool
  zone_details_valid :: bool

definition default_zone_state :: zone_state where
  "default_zone_state = \<lparr>zone_target = [], zone_interfaces = [], zone_sources = [],
     zone_services = [], zone_ports = [], zone_protocols = [], zone_source_ports = [],
     zone_rich_rules = [], zone_forward_ports = [], zone_masquerade = False,
     zone_forward = False, zone_details_valid = True\<rparr>"

type_synonym zone_map = "(string \<times> zone_state) list"
type_synonym member_map = "(string \<times> string list) list"

record firewall_state =
  fw_operating_mode :: operating_mode
  operating_mode_status :: mode_load_status
  operating_mode_diagnostic :: string
  fw_installed :: bool
  fw_active :: bool
  fw_enabled :: bool
  fw_panic :: bool
  permanent_config_valid :: bool
  permanent_config_checked :: bool
  installation_status :: observation_status
  service_state :: observation_status
  service_enablement :: observation_status
  panic_state :: observation_status
  permanent_config :: observation_status
  default_zone_status :: observation_status
  denied_logging_status :: observation_status
  active_zones_status :: observation_status
  runtime_zones_status :: observation_status
  permanent_zones_status :: observation_status
  active_policies_status :: observation_status
  default_zone :: string
  log_denied :: string
  active_zone_interfaces :: member_map
  active_zone_sources :: member_map
  active_policies :: "string list"
  network_manager :: network_manager_state
  vpn :: vpn_state
  sockets :: socket_state
  security_signals :: security_signals_state
  evidence_quality :: evidence_quality_state
  runtime_zones :: zone_map
  permanent_zones :: zone_map
  fw_errors :: "string list"

definition default_firewall_state :: firewall_state where
  "default_firewall_state = \<lparr>fw_operating_mode = NormalMode, operating_mode_status = Defaulted,
     operating_mode_diagnostic = [], fw_installed = False, fw_active = False,
     fw_enabled = False, fw_panic = False, permanent_config_valid = False,
     permanent_config_checked = False, installation_status = Unavailable,
     service_state = Unavailable, service_enablement = Unavailable, panic_state = Unavailable,
     permanent_config = Unavailable, default_zone_status = Unavailable,
     denied_logging_status = Unavailable, active_zones_status = Unavailable,
     runtime_zones_status = Unavailable, permanent_zones_status = Unavailable,
     active_policies_status = Unavailable, default_zone = [], log_denied = [],
     active_zone_interfaces = [], active_zone_sources = [], active_policies = [],
     network_manager = \<lparr>nm_available = False, nm_devices = [], nm_diagnostic = []\<rparr>,
     vpn = \<lparr>nordvpn_installed = False, interface_scan_available = False,
            active_tunnel_interfaces = [], vpn_diagnostic = []\<rparr>,
     sockets = \<lparr>sockets_available = False, listeners = [], process_metadata_requested = False,
                sockets_diagnostic = []\<rparr>,
     security_signals = default_signals, evidence_quality = default_evidence_quality,
     runtime_zones = [], permanent_zones = [], fw_errors = []\<rparr>"

section \<open>Parsers\<close>

definition sanitize_terminal_identifier :: "string \<Rightarrow> string" where
  "sanitize_terminal_identifier s =
     map (\<lambda>c. if 32 \<le> byte c \<and> byte c \<le> 126 then c else CHR ''?'') s"

definition is_header :: "string \<Rightarrow> bool" where
  "is_header line \<longleftrightarrow> line \<noteq> [] \<and> \<not> is_blank (hd line)"

definition first_word :: "string \<Rightarrow> string" where
  "first_word line = (case words line of [] \<Rightarrow> [] | w # _ \<Rightarrow> w)"

definition trim_key :: "string \<Rightarrow> string" where
  "trim_key key = rev (dropWhile is_blank (rev (dropWhile is_blank key)))"

definition all_blank :: "string \<Rightarrow> bool" where
  "all_blank s \<longleftrightarrow> (\<forall>c\<in>set s. is_blank c)"

text \<open>The chain of \<open>else if (key == ...)\<close> of \<open>parse_zone_info\<close>.\<close>

definition zone_flag :: "string \<Rightarrow> (bool \<Rightarrow> zone_state) \<Rightarrow> zone_state \<Rightarrow> zone_state" where
  "zone_flag val set_flag zone =
     (if words val = [''yes''] then set_flag True
      else if words val = [''no''] then set_flag False
      else zone\<lparr>zone_details_valid := False\<rparr>)"

definition zone_entry :: "string \<Rightarrow> string \<Rightarrow> zone_state \<Rightarrow> zone_state" where
  "zone_entry key val zone =
     (if key = ''target''
      then (case words val of [t] \<Rightarrow> zone\<lparr>zone_target := t\<rparr>
            | _ \<Rightarrow> zone\<lparr>zone_details_valid := False\<rparr>)
      else if key = ''interfaces'' then zone\<lparr>zone_interfaces := words val\<rparr>
      else if key = ''sources'' then zone\<lparr>zone_sources := words val\<rparr>
      else if key = ''services'' then zone\<lparr>zone_services := words val\<rparr>
      else if key = ''ports'' then zone\<lparr>zone_ports := words val\<rparr>
      else if key = ''protocols'' then zone\<lparr>zone_protocols := words val\<rparr>
      else if key = ''source-ports'' then zone\<lparr>zone_source_ports := words val\<rparr>
      else if key = ''forward-ports'' \<and> \<not> all_blank val
      then zone\<lparr>zone_forward_ports := zone_forward_ports zone @ [val]\<rparr>
      else if key = ''rich rules''
      then (if \<not> all_blank val then zone\<lparr>zone_rich_rules := zone_rich_rules zone @ [val]\<rparr> else zone)
      else if key = ''masquerade''
      then zone_flag val (\<lambda>b. zone\<lparr>zone_masquerade := b\<rparr>) zone
      else if key = ''forward'' then zone_flag val (\<lambda>b. zone\<lparr>zone_forward := b\<rparr>) zone
      else zone)"

text \<open>One turn of the loop; the flag is \<open>reading_forward_ports\<close>.\<close>

definition zone_line_step :: "string \<Rightarrow> zone_state \<times> bool \<Rightarrow> zone_state \<times> bool" where
  "zone_line_step line = (\<lambda>(zone, reading).
     if contains_str ''rule '' line
     then (zone\<lparr>zone_rich_rules := zone_rich_rules zone @ [line]\<rparr>, reading)
     else if reading \<and> contains_str ''port='' line
     then (zone\<lparr>zone_forward_ports := zone_forward_ports zone @ [line]\<rparr>, reading)
     else case find_char colon_char line of
       None \<Rightarrow>
         (if reading \<and> \<not> all_blank line
          then zone\<lparr>zone_forward_ports := zone_forward_ports zone @ [line]\<rparr> else zone, reading)
     | Some colon \<Rightarrow>
         if all_blank (take colon line) then (zone, reading)
         else (let key = trim_key (take colon line)
               in (zone_entry key (drop (Suc colon) line) zone, key = ''forward-ports'')))"

definition parse_zone_info :: "string \<Rightarrow> zone_state" where
  "parse_zone_info txt = fst (fold zone_line_step (getlines txt) (default_zone_state, False))"

definition save_zone :: "zone_map \<Rightarrow> string \<Rightarrow> string \<Rightarrow> zone_map" where
  "save_zone zones name body =
     (if name \<noteq> [] then map_emplace name (parse_zone_info body) zones else zones)"

definition all_zones_step ::
  "string \<Rightarrow> zone_map \<times> string \<times> string \<Rightarrow> zone_map \<times> string \<times> string" where
  "all_zones_step line = (\<lambda>(zones, name, body).
     if is_header line then (save_zone zones name body, first_word line, [])
     else if name \<noteq> [] then (zones, name, body @ line @ [newline_char])
     else (zones, name, body))"

definition parse_all_zone_info :: "string \<Rightarrow> zone_map" where
  "parse_all_zone_info txt =
     (let (zones, name, body) = fold all_zones_step (getlines txt) ([], [], [])
      in save_zone zones name body)"

definition active_zone_step ::
  "string \<Rightarrow> string \<Rightarrow> member_map \<times> string \<Rightarrow> member_map \<times> string" where
  "active_zone_step label line = (\<lambda>(zones, current).
     if line = [] then (zones, current)
     else if is_header line then (zones, first_word line)
     else case find_char colon_char line of
       None \<Rightarrow> (zones, current)
     | Some colon \<Rightarrow>
         (if current = [] then (zones, current)
          else if contains_str label (take colon line)
          then (map_assign current (words (drop (Suc colon) line)) zones, current)
          else (zones, current)))"

definition parse_active_zones :: "string \<Rightarrow> member_map" where
  "parse_active_zones txt = fst (fold (active_zone_step ''interfaces'') (getlines txt) ([], []))"

definition parse_active_zone_sources :: "string \<Rightarrow> member_map" where
  "parse_active_zone_sources txt = fst (fold (active_zone_step ''sources'') (getlines txt) ([], []))"

definition policy_name :: "string \<Rightarrow> string option" where
  "policy_name line =
     (if line = [] \<or> is_blank (hd line) then None
      else case words line of [] \<Rightarrow> None | w # _ \<Rightarrow> Some (sanitize_terminal_identifier w))"

definition parse_active_policy_names :: "string \<Rightarrow> string list" where
  "parse_active_policy_names txt = List.map_filter policy_name (getlines txt)"

section \<open>Comparing zone policies\<close>

definition unordered_values_equal :: "string list \<Rightarrow> string list \<Rightarrow> bool" where
  "unordered_values_equal l r \<longleftrightarrow> sort l = sort r"

definition zone_policy_values_equal :: "zone_state \<Rightarrow> zone_state \<Rightarrow> bool" where
  "zone_policy_values_equal l r \<longleftrightarrow>
     zone_target l = zone_target r \<and>
     unordered_values_equal (zone_sources l) (zone_sources r) \<and>
     unordered_values_equal (zone_services l) (zone_services r) \<and>
     unordered_values_equal (zone_ports l) (zone_ports r) \<and>
     unordered_values_equal (zone_protocols l) (zone_protocols r) \<and>
     unordered_values_equal (zone_source_ports l) (zone_source_ports r) \<and>
     zone_rich_rules l = zone_rich_rules r \<and>
     unordered_values_equal (zone_forward_ports l) (zone_forward_ports r) \<and>
     zone_masquerade l = zone_masquerade r \<and> zone_forward l = zone_forward r \<and>
     zone_details_valid l = zone_details_valid r"

definition zone_configurations_equal :: "zone_state \<Rightarrow> zone_state \<Rightarrow> bool" where
  "zone_configurations_equal l r \<longleftrightarrow>
     unordered_values_equal (zone_interfaces l) (zone_interfaces r) \<and>
     zone_policy_values_equal l r"

definition zone_policies_equal :: "zone_state \<Rightarrow> zone_state \<Rightarrow> bool" where
  "zone_policies_equal l r \<longleftrightarrow> zone_policy_values_equal l r"

section \<open>Applicable zones\<close>

definition is_zone_active :: "firewall_state \<Rightarrow> string \<Rightarrow> bool" where
  "is_zone_active st zone \<longleftrightarrow>
     map_contains (active_zone_interfaces st) zone \<or> map_contains (active_zone_sources st) zone"

definition is_connected_transport_device :: "network_device \<Rightarrow> bool" where
  "is_connected_transport_device d \<longleftrightarrow>
     starts_with (device_state d) ''connected'' \<and>
     device_type d \<noteq> ''loopback'' \<and> device_type d \<noteq> ''wireguard'' \<and>
     device_type d \<noteq> ''tun'' \<and> device_type d \<noteq> ''vpn''"

definition explicitly_bound :: "member_map \<Rightarrow> network_device \<Rightarrow> bool" where
  "explicitly_bound zones d =
     fold (\<lambda>(zone, members) bound. bound \<or> interface_name d \<in> set members) zones False"

definition default_zone_applies :: "firewall_state \<Rightarrow> bool" where
  "default_zone_applies st =
     (if \<not> nm_available (network_manager st) then True
      else fold (\<lambda>d applies.
                   if \<not> is_connected_transport_device d then applies
                   else applies \<or> \<not> explicitly_bound (active_zone_interfaces st) d)
             (nm_devices (network_manager st)) False)"

definition applicable_zone_names :: "firewall_state \<Rightarrow> string list" where
  "applicable_zone_names st =
     (let bound = fold sset_insert (map fst (active_zone_sources st))
                    (fold sset_insert (map fst (active_zone_interfaces st)) [])
      in if default_zone_applies st \<and> observation_available (default_zone_status st) \<and>
            default_zone st \<noteq> []
         then sset_insert (default_zone st) bound else bound)"

definition is_zone_applicable :: "firewall_state \<Rightarrow> string \<Rightarrow> bool" where
  "is_zone_applicable st zone \<longleftrightarrow> zone \<in> set (applicable_zone_names st)"

definition active_zone_member_count :: "firewall_state \<Rightarrow> string \<Rightarrow> nat" where
  "active_zone_member_count st zone =
     (case map_of (active_zone_interfaces st) zone of None \<Rightarrow> 0 | Some l \<Rightarrow> length l)
     + (case map_of (active_zone_sources st) zone of None \<Rightarrow> 0 | Some l \<Rightarrow> length l)"

definition applicable_zone_details_available :: "firewall_state \<Rightarrow> bool" where
  "applicable_zone_details_available st \<longleftrightarrow>
     observation_available (active_zones_status st) \<and>
     observation_available (runtime_zones_status st) \<and>
     observation_available (default_zone_status st) \<and>
     list_all (map_contains (runtime_zones st)) (applicable_zone_names st)"

section \<open>The parsers build maps\<close>

lemma map_wf_save_zone [simp]: "map_wf zones \<Longrightarrow> map_wf (save_zone zones name body)"
  by (simp add: save_zone_def)

lemma fold_fst_inv:
  "P (fst s) \<Longrightarrow> (\<And>x s. P (fst s) \<Longrightarrow> P (fst (f x s))) \<Longrightarrow> P (fst (fold f xs s))"
  by (induction xs arbitrary: s) auto

lemma parse_all_zone_info_wf [simp]: "map_wf (parse_all_zone_info txt)"
proof -
  have "map_wf (fst (fold all_zones_step (getlines txt) ([], [], [])))"
    by (rule fold_fst_inv) (auto simp: all_zones_step_def split: prod.splits)
  then show ?thesis by (simp add: parse_all_zone_info_def split_def Let_def)
qed

lemma active_zone_step_wf: "map_wf (fst s) \<Longrightarrow> map_wf (fst (active_zone_step label line s))"
  by (cases s) (simp add: active_zone_step_def split: option.split)

lemma parse_active_zones_wf [simp]:
  "map_wf (parse_active_zones txt)" "map_wf (parse_active_zone_sources txt)"
  unfolding parse_active_zones_def parse_active_zone_sources_def
  by (rule fold_fst_inv; simp add: active_zone_step_wf)+

lemma parse_all_zone_info_no_empty: "map_of (parse_all_zone_info txt) [] = None"
proof -
  have inv: "map_wf (fst (fold all_zones_step ls s)) \<and> map_of (fst (fold all_zones_step ls s)) [] = None"
    if "map_wf (fst s) \<and> map_of (fst s) [] = None" for ls s
    using that
    by (rule fold_fst_inv) (auto simp: all_zones_step_def save_zone_def map_of_upsert split: prod.splits)
  from inv[of "([], [], [])" "getlines txt"] show ?thesis
    by (simp add: parse_all_zone_info_def split_def Let_def save_zone_def map_of_upsert)
qed

section \<open>Comparison of policies\<close>

lemma unordered_values_equal_iff: "unordered_values_equal l r \<longleftrightarrow> mset l = mset r"
  by (metis mset_sort properties_for_sort sorted_sort unordered_values_equal_def)

text \<open>
  The contract of a zone policy: the unordered collections as multisets, the rich rules as
  the sequence they are.
\<close>

type_synonym policy_view =
  "(string \<times> string list \<times> bool \<times> bool \<times> bool) \<times> string multiset list"

definition policy_view :: "zone_state \<Rightarrow> policy_view" where
  "policy_view z =
     ((zone_target z, zone_rich_rules z, zone_masquerade z, zone_forward z, zone_details_valid z),
      map mset [zone_sources z, zone_services z, zone_ports z, zone_protocols z,
                zone_source_ports z, zone_forward_ports z])"

lemma zone_policies_equal_view: "zone_policies_equal l r \<longleftrightarrow> policy_view l = policy_view r"
  by (auto simp: zone_policies_equal_def zone_policy_values_equal_def policy_view_def
      unordered_values_equal_iff)

lemma zone_configurations_equal_view:
  "zone_configurations_equal l r \<longleftrightarrow>
     mset (zone_interfaces l) = mset (zone_interfaces r) \<and> policy_view l = policy_view r"
  by (simp add: zone_configurations_equal_def unordered_values_equal_iff
      zone_policies_equal_view[unfolded zone_policies_equal_def])

section \<open>Which zones apply\<close>

lemma explicitly_bound_iff:
  "explicitly_bound zones d \<longleftrightarrow> (\<exists>e\<in>set zones. interface_name d \<in> set (snd e))"
proof -
  have "fold (\<lambda>(zone, members) bound. bound \<or> interface_name d \<in> set members) zones b \<longleftrightarrow>
          b \<or> (\<exists>e\<in>set zones. interface_name d \<in> set (snd e))" for b
    by (induction zones arbitrary: b) (auto split: prod.splits)
  then show ?thesis by (simp add: explicitly_bound_def)
qed

lemma default_zone_applies_iff:
  "default_zone_applies st \<longleftrightarrow>
     \<not> nm_available (network_manager st) \<or>
     (\<exists>d\<in>set (nm_devices (network_manager st)). is_connected_transport_device d \<and>
        \<not> explicitly_bound (active_zone_interfaces st) d)"
proof -
  have "fold (\<lambda>d applies. if \<not> is_connected_transport_device d then applies
                         else applies \<or> \<not> explicitly_bound zs d) ds b \<longleftrightarrow>
          b \<or> (\<exists>d\<in>set ds. is_connected_transport_device d \<and> \<not> explicitly_bound zs d)" for ds zs b
    by (induction ds arbitrary: b) auto
  then show ?thesis by (simp add: default_zone_applies_def)
qed

lemma applicable_zone_names_wf [simp]: "sset_wf (applicable_zone_names st)"
  by (simp add: applicable_zone_names_def fold_sset_insert Let_def)

lemma applicable_zone_names_set:
  "set (applicable_zone_names st) =
     fst ` set (active_zone_interfaces st) \<union> fst ` set (active_zone_sources st) \<union>
     (if default_zone_applies st \<and> observation_available (default_zone_status st) \<and>
         default_zone st \<noteq> [] then {default_zone st} else {})"
  by (auto simp: applicable_zone_names_def fold_sset_insert Let_def)

lemma is_zone_active_iff:
  "is_zone_active st z \<longleftrightarrow>
     z \<in> fst ` set (active_zone_interfaces st) \<or> z \<in> fst ` set (active_zone_sources st)"
  by (simp add: is_zone_active_def map_contains_iff)

lemma active_zone_applicable: "is_zone_active st z \<Longrightarrow> is_zone_applicable st z"
  by (auto simp: is_zone_active_iff is_zone_applicable_def applicable_zone_names_set)

lemma member_count_active: "0 < active_zone_member_count st z \<Longrightarrow> is_zone_active st z"
  by (auto simp: active_zone_member_count_def is_zone_active_def map_contains_def
      split: option.splits)

lemma applicable_details_lookup:
  "applicable_zone_details_available st \<Longrightarrow> z \<in> set (applicable_zone_names st) \<Longrightarrow>
     \<exists>zone. map_of (runtime_zones st) z = Some zone"
  by (auto simp: applicable_zone_details_available_def list_all_iff map_contains_def)

section \<open>Properties\<close>

text \<open>C22: The applicable zones are, in sorted order without duplicates, the zones with an
  active binding and, if its query answered, the default zone whenever NetworkManager is
  unavailable or some connected transport device is in no active zone.\<close>

theorem applicable_zones_characterised:
  "sset_wf (applicable_zone_names st) \<and>
   (\<forall>z. z \<in> set (applicable_zone_names st) \<longleftrightarrow>
      is_zone_active st z \<or>
      z = default_zone st \<and> z \<noteq> [] \<and> default_zone_status st = Available \<and>
      (\<not> nm_available (network_manager st) \<or>
       (\<exists>d\<in>set (nm_devices (network_manager st)). is_connected_transport_device d \<and>
          (\<forall>e\<in>set (active_zone_interfaces st). interface_name d \<notin> set (snd e)))))"
  by (auto simp: applicable_zone_names_set is_zone_active_iff default_zone_applies_iff
      explicitly_bound_iff observation_available_def)

definition wifi_example :: firewall_state where
  "wifi_example = default_firewall_state
     \<lparr>default_zone := ''public'', default_zone_status := Available,
      active_zone_interfaces := [(''home'', [''eth0''])],
      network_manager := \<lparr>nm_available = True, nm_devices =
        [\<lparr>interface_name = ''wlan0'', device_type = ''wifi'', device_state = ''connected''\<rparr>],
        nm_diagnostic = []\<rparr>\<rparr>"

lemma applicable_zones_witness:
  "''public'' \<in> set (applicable_zone_names wifi_example) \<and>
   ''home'' \<in> set (applicable_zone_names wifi_example)"
  using applicable_zones_characterised[of wifi_example]
  by (simp add: wifi_example_def is_zone_active_def map_contains_def
      is_connected_transport_device_def starts_with_def)

text \<open>Two zone policies compare equal exactly when the unordered collections agree as
  multisets and the target, the rich rules in their order and the flags agree; so the
  comparison is an equivalence that ignores the order of firewalld's sets only.\<close>

theorem zone_policies_equal_is_view_equality:
  "zone_policies_equal l r = (policy_view l = policy_view r) \<and>
   zone_configurations_equal l r =
     (mset (zone_interfaces l) = mset (zone_interfaces r) \<and> policy_view l = policy_view r)"
  using zone_policies_equal_view zone_configurations_equal_view by blast

end
