(* ===== verification/Readiness.thy ===== *)
theory Readiness
  imports FirewallState
begin

text \<open>
  \<open>src/firewall/readiness.cpp\<close> and the exit code of \<open>ffc --readiness\<close> in
  \<open>src/app/command_executor.cpp\<close>: the readiness checks in the order in which
  \<open>assess_readiness\<close> appends them, and what each exit code means for the firewall.
\<close>

section \<open>The checks\<close>

datatype check_level = CheckPass | CheckWarn | CheckFail | CheckInfo

record readiness_check =
  check_label :: string
  check_level :: check_level
  check_detail :: string

definition check :: "string \<Rightarrow> check_level \<Rightarrow> string \<Rightarrow> readiness_check" where
  "check l v d = \<lparr>check_label = l, check_level = v, check_detail = d\<rparr>"

fun level_to_string :: "check_level \<Rightarrow> string" where
  "level_to_string CheckPass = ''PASS''"
| "level_to_string CheckWarn = ''WARN''"
| "level_to_string CheckFail = ''FAIL''"
| "level_to_string CheckInfo = ''INFO''"

definition runtime_matches_permanent :: "firewall_state \<Rightarrow> bool" where
  "runtime_matches_permanent st =
     (if \<not> observation_available (runtime_zones_status st) \<or>
         \<not> observation_available (permanent_zones_status st) then False
      else if length (runtime_zones st) \<noteq> length (permanent_zones st) then False
      else list_all (\<lambda>(name, zone).
             case map_of (permanent_zones st) name of None \<Rightarrow> False
             | Some permanent \<Rightarrow> zone_policies_equal zone permanent) (runtime_zones st))"

definition unavailable_check :: "string \<Rightarrow> string \<Rightarrow> readiness_check" where
  "unavailable_check l d = check l CheckWarn d"

definition hostile_mode :: "firewall_state \<Rightarrow> bool" where
  "hostile_mode st \<longleftrightarrow> fw_operating_mode st = HostileNetwork"

definition service_checks :: "firewall_state \<Rightarrow> readiness_check list" where
  "service_checks st =
     [check ''assessment mode'' (if hostile_mode st then CheckPass else CheckInfo)
        (if hostile_mode st then ''hostile-network criteria active; no firewall setting was changed''
         else ''normal criteria active''),
      check ''firewalld installed'' (if fw_installed st then CheckPass else CheckFail)
        (if fw_installed st then [] else ''firewall-cmd was unavailable''),
      check ''firewalld active''
        (if \<not> observation_available (service_state st) then CheckWarn
         else if fw_active st then CheckPass else CheckFail)
        (if \<not> observation_available (service_state st) then ''firewalld state query unavailable''
         else if fw_active st then [] else ''firewalld is not running''),
      check ''firewalld enabled at boot''
        (if \<not> observation_available (service_enablement st) then CheckWarn
         else if fw_enabled st then CheckPass else CheckWarn)
        (if \<not> observation_available (service_enablement st)
         then ''service enablement query unavailable''
         else if fw_enabled st then [] else ''not enabled''),
      if \<not> observation_available (panic_state st)
      then unavailable_check ''firewalld panic mode'' ''panic-mode query unavailable''
      else check ''firewalld panic mode'' (if fw_panic st then CheckFail else CheckPass)
             (if fw_panic st then ''panic mode is active'' else ''off''),
      if \<not> observation_available (permanent_config st)
      then unavailable_check ''permanent configuration valid'' ''firewall-cmd --check-config unavailable''
      else check ''permanent configuration valid''
             (if permanent_config_valid st then CheckPass else CheckFail)
             (if permanent_config_valid st then [] else ''firewall-cmd --check-config did not pass''),
      if \<not> observation_available (default_zone_status st)
      then unavailable_check ''default zone set'' ''default-zone query unavailable''
      else check ''default zone set''
             (if default_zone st = [] then CheckFail else CheckPass) (default_zone st)]"

text \<open>The loop over the runtime zones: what the applicable zones allow.\<close>

record policy_scan =
  scan_forwarding :: bool
  scan_forwarding_path :: bool
  scan_masquerade :: bool
  scan_exposure :: bool
  scan_permissive_target :: bool
  scan_forward_ports :: bool

definition zone_exposure :: "zone_state \<Rightarrow> bool" where
  "zone_exposure config \<longleftrightarrow>
     zone_services config \<noteq> [] \<or> zone_ports config \<noteq> [] \<or> zone_protocols config \<noteq> [] \<or>
     zone_source_ports config \<noteq> [] \<or> zone_rich_rules config \<noteq> []"

definition scan_step :: "firewall_state \<Rightarrow> string \<times> zone_state \<Rightarrow> policy_scan \<Rightarrow> policy_scan" where
  "scan_step st = (\<lambda>(zone, config) s.
     if \<not> is_zone_applicable st zone then s
     else \<lparr>scan_forwarding = scan_forwarding s \<or> zone_forward config,
           scan_forwarding_path = scan_forwarding_path s \<or>
             (zone_forward config \<and> 1 < active_zone_member_count st zone),
           scan_masquerade = scan_masquerade s \<or> zone_masquerade config,
           scan_exposure = scan_exposure s \<or> zone_exposure config,
           scan_permissive_target = scan_permissive_target s \<or> zone_target config = ''ACCEPT'',
           scan_forward_ports = scan_forward_ports s \<or> zone_forward_ports config \<noteq> []\<rparr>)"

definition empty_scan :: policy_scan where
  "empty_scan = \<lparr>scan_forwarding = False, scan_forwarding_path = False, scan_masquerade = False,
     scan_exposure = False, scan_permissive_target = False, scan_forward_ports = False\<rparr>"

definition scan_policies :: "firewall_state \<Rightarrow> policy_scan" where
  "scan_policies st =
     (if applicable_zone_details_available st then fold (scan_step st) (runtime_zones st) empty_scan
      else empty_scan)"

definition connected_wifi :: "firewall_state \<Rightarrow> bool" where
  "connected_wifi st =
     fold (\<lambda>d b. b \<or> (device_type d = ''wifi'' \<and> starts_with (device_state d) ''connected''))
       (nm_devices (network_manager st)) False"

definition environment_checks :: "firewall_state \<Rightarrow> readiness_check list" where
  "environment_checks st =
     [check ''NetworkManager status''
        (if nm_available (network_manager st) then CheckPass else CheckWarn)
        (if nm_available (network_manager st) then ''available'' else ''nmcli status unavailable''),
      check ''untrusted-transport review'' (if connected_wifi st then CheckWarn else CheckInfo)
        (if connected_wifi st then ''Wi-Fi is connected; validate its zone and exposure''
         else ''transport alone cannot identify a venue or attacker''),
      check ''VPN tunnel awareness''
        (if \<not> interface_scan_available (vpn st) then CheckWarn
         else if active_tunnel_interfaces (vpn st) = [] then CheckInfo else CheckPass)
        (if \<not> interface_scan_available (vpn st) then ''local tunnel scan unavailable''
         else if active_tunnel_interfaces (vpn st) = [] then ''no detected tunnel-like interface''
         else ''detected tunnel-like interface; route use is not verified'')]"

definition unclassified_connected_device :: "firewall_state \<Rightarrow> bool" where
  "unclassified_connected_device st =
     (if nm_available (network_manager st) \<and> observation_available (active_zones_status st)
      then fold (\<lambda>d b. if \<not> is_connected_transport_device d then b
                       else b \<or> \<not> explicitly_bound (active_zone_interfaces st) d)
             (nm_devices (network_manager st)) False
      else False)"

definition assignment_checks :: "firewall_state \<Rightarrow> readiness_check list" where
  "assignment_checks st =
     [if \<not> observation_available (active_zones_status st)
      then unavailable_check ''active interface assignments'' ''active-zone query unavailable''
      else if active_zone_interfaces st = [] \<and> active_zone_sources st = []
      then check ''active interface assignments'' CheckWarn ''no active zone assignments reported''
      else if active_zone_interfaces st = []
      then check ''active interface assignments'' CheckInfo ''only source-based active zones reported''
      else check ''active interface assignments'' CheckPass ''inspect NetworkManager bindings separately'',
      if \<not> nm_available (network_manager st) \<or> \<not> observation_available (active_zones_status st)
      then unavailable_check ''connected devices assigned to active zones''
             ''NetworkManager or active-zone evidence unavailable''
      else check ''connected devices assigned to active zones''
             (if unclassified_connected_device st then CheckWarn else CheckPass)
             (if unclassified_connected_device st
              then ''a connected NetworkManager device has no active-zone binding''
              else ''all observed connected devices are classified''),
      if \<not> observation_available (active_zones_status st)
      then unavailable_check ''active source bindings'' ''active-zone query unavailable''
      else check ''active source bindings''
             (if active_zone_sources st = [] then CheckPass else CheckWarn)
             (if active_zone_sources st = [] then ''none'' else ''review source-based trust'')]"

definition listener_checks :: "firewall_state \<Rightarrow> readiness_check list" where
  "listener_checks st =
     (let e = summarize_listener_exposure (sockets st)
      in [check ''TCP/UDP non-multicast listener exposure''
            (if \<not> sockets_available (sockets st) then CheckWarn
             else if logical_network_services e = 0 then CheckPass
             else if hostile_mode st then CheckFail else CheckWarn)
            (if \<not> sockets_available (sockets st) then ''socket scan unavailable''
             else if logical_network_services e = 0
             then ''none observed; SCTP, DCCP, raw, and protocol sockets are not collected''
             else show_nat (logical_network_services e) @ '' logical service(s) across '' @
                  show_nat (network_reachable_bindings e) @ '' non-multicast binding(s)''),
          check ''multicast listener exposure''
            (if \<not> sockets_available (sockets st) then CheckWarn
             else if multicast_only_bindings e = 0 then CheckInfo
             else if hostile_mode st then CheckWarn else CheckInfo)
            (if \<not> sockets_available (sockets st) then ''socket scan unavailable''
             else if multicast_only_bindings e = 0
             then ''none observed in the TCP/UDP listener query''
             else show_nat (multicast_only_bindings e) @
                  '' binding(s); local-segment discovery traffic remains possible'')])"

definition journal_checks :: "firewall_state \<Rightarrow> readiness_check list" where
  "journal_checks st =
     (let s = security_signals st
      in [check ''kernel drop/reject log signals''
            (if \<not> kernel_journal_available s then CheckWarn
             else if kernel_drop_or_reject_events s = 0 then CheckPass else CheckWarn)
            (if \<not> kernel_journal_available s
             then (if kernel_journal_status s = JournalPartial
                   then ''at least '' @ show_nat (kernel_drop_or_reject_events s) @
                        '' event(s); bounded journal view may be truncated''
                   else ''journal unavailable'')
             else if kernel_drop_or_reject_events s = 0 then ''none in the last 24h''
             else show_nat (kernel_drop_or_reject_events s) @ '' event(s); review, do not attribute'')])"

definition unavailable_policy_detail :: string where
  "unavailable_policy_detail =
     ''applicable-zone or runtime policy collection unavailable or incomplete''"

definition applicable_rich_rules :: "firewall_state \<Rightarrow> nat" where
  "applicable_rich_rules st =
     fold (\<lambda>(zone, config) count.
             if is_zone_applicable st zone then count + length (zone_rich_rules config) else count)
       (runtime_zones st) 0"

text \<open>The checks that need the policies of the applicable zones.\<close>

definition policy_check :: "firewall_state \<Rightarrow> string \<Rightarrow> check_level \<Rightarrow> string \<Rightarrow> readiness_check" where
  "policy_check st l v d =
     (if \<not> applicable_zone_details_available st then unavailable_check l unavailable_policy_detail
      else check l v d)"

definition policy_checks :: "firewall_state \<Rightarrow> readiness_check list" where
  "policy_checks st =
     (let p = scan_policies st; strict = (if hostile_mode st then CheckFail else CheckWarn)
      in [policy_check st ''inbound services, ports, and protocols''
            (if scan_exposure p then strict else CheckPass)
            (if scan_exposure p then ''review configured exposure or rich rules'' else ''none''),
          (if applicable_rich_rules st = 0
           then policy_check st ''active rich rules'' CheckPass ''none''
           else policy_check st ''active rich rules'' strict
                  (show_nat (applicable_rich_rules st) @ '' rule(s); semantics are not fully parsed'')),
          policy_check st ''active zone target''
            (if scan_permissive_target p then CheckFail else CheckPass)
            (if scan_permissive_target p then ''ACCEPT target trusts unmatched traffic''
             else ''no active ACCEPT target''),
          policy_check st ''active forward ports''
            (if scan_forward_ports p then CheckWarn else CheckPass)
            (if scan_forward_ports p then ''review forwarded traffic'' else ''none''),
          policy_check st ''intra-zone forwarding''
            (if \<not> scan_forwarding p then CheckPass
             else if scan_forwarding_path p then strict else CheckInfo)
            (if \<not> scan_forwarding p then ''disabled''
             else if scan_forwarding_path p
             then ''active zone has multiple members that can forward between each other''
             else ''configured, but no active zone has multiple interface/source members''),
          policy_check st ''masquerading disabled''
            (if scan_masquerade p then strict else CheckPass) []])"

definition inventory_checks :: "firewall_state \<Rightarrow> readiness_check list" where
  "inventory_checks st =
     [if \<not> observation_available (active_policies_status st)
      then unavailable_check ''active firewalld policies'' ''policy inventory unavailable''
      else if active_policies st = [] then check ''active firewalld policies'' CheckPass ''none''
      else check ''active firewalld policies'' CheckWarn
             (show_nat (length (active_policies st)) @
              '' active policy name(s); policy details are not yet assessed''),
      if applicable_zone_details_available st
      then check ''zone policy coverage'' CheckInfo
             (''rich-rule semantics, ICMP blocks, helpers, priorities, and direct rules '' @
              ''are not yet assessed'')
      else unavailable_check ''zone policy coverage'' unavailable_policy_detail,
      if \<not> observation_available (runtime_zones_status st) \<or>
         \<not> observation_available (permanent_zones_status st)
      then unavailable_check ''permanent/runtime state aligned''
             ''runtime or permanent policy collection unavailable''
      else check ''permanent/runtime state aligned''
             (if runtime_matches_permanent st then CheckPass else CheckWarn)
             (if runtime_matches_permanent st then [] else ''runtime differs from permanent'')] @
     (if fw_errors st \<noteq> []
      then [check ''firewalld collection diagnostics'' CheckWarn
              (show_nat (length (fw_errors st)) @ '' collection issue(s) reported'')]
      else [])"

definition assess_readiness :: "firewall_state \<Rightarrow> readiness_check list" where
  "assess_readiness st =
     service_checks st @ environment_checks st @ assignment_checks st @ listener_checks st @
     journal_checks st @ policy_checks st @ inventory_checks st"

text \<open>The loop of \<open>readiness_exit_code\<close>; the accumulator is \<open>warned\<close>.\<close>

fun exit_code_loop :: "bool \<Rightarrow> readiness_check list \<Rightarrow> int" where
  "exit_code_loop warned [] = (if warned then 1 else 0)"
| "exit_code_loop warned (c # cs) =
     (if check_level c = CheckFail then 2
      else exit_code_loop (warned \<or> check_level c = CheckWarn) cs)"

definition readiness_exit_code :: "firewall_state \<Rightarrow> int" where
  "readiness_exit_code st = exit_code_loop False (assess_readiness st)"

section \<open>The exit code\<close>

definition no_warning :: "readiness_check \<Rightarrow> bool" where
  "no_warning c \<longleftrightarrow> check_level c = CheckPass \<or> check_level c = CheckInfo"

definition no_failure :: "readiness_check \<Rightarrow> bool" where
  "no_failure c \<longleftrightarrow> check_level c \<noteq> CheckFail"

lemma exit_code_loop_eq:
  "exit_code_loop w cs =
     (if \<not> list_all no_failure cs then 2
      else if w \<or> \<not> list_all no_warning cs then 1 else 0)"
proof (induction cs arbitrary: w)
  case Nil
  then show ?case by simp
next
  case (Cons c cs)
  then show ?case by (cases "check_level c") (auto simp: no_failure_def[of c] no_warning_def[of c])
qed

lemma no_warning_failure: "no_warning c \<Longrightarrow> no_failure c"
  by (auto simp: no_warning_def no_failure_def)

lemma exit_code_zero_iff: "readiness_exit_code st = 0 \<longleftrightarrow> list_all no_warning (assess_readiness st)"
  by (auto simp: readiness_exit_code_def exit_code_loop_eq list_all_iff no_warning_failure)

lemma exit_code_two_iff: "readiness_exit_code st = 2 \<longleftrightarrow> \<not> list_all no_failure (assess_readiness st)"
  by (simp add: readiness_exit_code_def exit_code_loop_eq)

lemma exit_code_range: "readiness_exit_code st \<in> {0, 1, 2}"
  by (simp add: readiness_exit_code_def exit_code_loop_eq)

section \<open>The policies of the applicable zones\<close>

definition applicable_configs :: "firewall_state \<Rightarrow> (string \<times> zone_state) list" where
  "applicable_configs st = filter (\<lambda>e. is_zone_applicable st (fst e)) (runtime_zones st)"

definition forwards :: "firewall_state \<Rightarrow> string \<times> zone_state \<Rightarrow> bool" where
  "forwards st e \<longleftrightarrow> zone_forward (snd e) \<and> 1 < active_zone_member_count st (fst e)"

lemma fold_scan_step:
  "fold (scan_step st) zs s =
     (let app = filter (\<lambda>e. is_zone_applicable st (fst e)) zs
      in \<lparr>scan_forwarding = scan_forwarding s \<or> list_ex (\<lambda>e. zone_forward (snd e)) app,
          scan_forwarding_path = scan_forwarding_path s \<or> list_ex (forwards st) app,
          scan_masquerade = scan_masquerade s \<or> list_ex (\<lambda>e. zone_masquerade (snd e)) app,
          scan_exposure = scan_exposure s \<or> list_ex (\<lambda>e. zone_exposure (snd e)) app,
          scan_permissive_target =
            scan_permissive_target s \<or> list_ex (\<lambda>e. zone_target (snd e) = ''ACCEPT'') app,
          scan_forward_ports =
            scan_forward_ports s \<or> list_ex (\<lambda>e. zone_forward_ports (snd e) \<noteq> []) app\<rparr>)"
proof (induction zs arbitrary: s)
  case Nil
  then show ?case by simp
next
  case (Cons e zs)
  then show ?case
    by (auto simp: scan_step_def split_def forwards_def Let_def)
qed

lemma scan_policies_simps:
  assumes "applicable_zone_details_available st"
  shows "scan_forwarding (scan_policies st) \<longleftrightarrow>
           list_ex (\<lambda>e. zone_forward (snd e)) (applicable_configs st)"
    and "scan_forwarding_path (scan_policies st) \<longleftrightarrow> list_ex (forwards st) (applicable_configs st)"
    and "scan_masquerade (scan_policies st) \<longleftrightarrow>
           list_ex (\<lambda>e. zone_masquerade (snd e)) (applicable_configs st)"
    and "scan_exposure (scan_policies st) \<longleftrightarrow>
           list_ex (\<lambda>e. zone_exposure (snd e)) (applicable_configs st)"
    and "scan_permissive_target (scan_policies st) \<longleftrightarrow>
           list_ex (\<lambda>e. zone_target (snd e) = ''ACCEPT'') (applicable_configs st)"
    and "scan_forward_ports (scan_policies st) \<longleftrightarrow>
           list_ex (\<lambda>e. zone_forward_ports (snd e) \<noteq> []) (applicable_configs st)"
  using assms
  by (simp_all add: scan_policies_def fold_scan_step empty_scan_def applicable_configs_def Let_def)

lemma applicable_rich_rules_eq:
  "applicable_rich_rules st =
     sum_list (map (\<lambda>e. length (zone_rich_rules (snd e))) (applicable_configs st))"
proof -
  have "fold (\<lambda>(zone, config) count.
               if is_zone_applicable st zone then count + length (zone_rich_rules config) else count)
          zs n =
        n + sum_list (map (\<lambda>e. length (zone_rich_rules (snd e)))
                (filter (\<lambda>e. is_zone_applicable st (fst e)) zs))" for zs :: zone_map and n
    by (induction zs arbitrary: n) (auto simp: split_def)
  then show ?thesis by (simp add: applicable_rich_rules_def applicable_configs_def)
qed

lemma rich_rules_exposure:
  "applicable_rich_rules st \<noteq> 0 \<Longrightarrow> list_ex (\<lambda>e. zone_exposure (snd e)) (applicable_configs st)"
  by (auto simp: applicable_rich_rules_eq list_ex_iff zone_exposure_def)

lemma forwards_forwarding:
  "list_ex (forwards st) es \<Longrightarrow> list_ex (\<lambda>e. zone_forward (snd e)) es"
  by (auto simp: list_ex_iff forwards_def)

lemma connected_wifi_iff:
  "connected_wifi st \<longleftrightarrow>
     list_ex (\<lambda>d. device_type d = ''wifi'' \<and> starts_with (device_state d) ''connected'')
       (nm_devices (network_manager st))"
proof -
  have "fold (\<lambda>d b. b \<or> p d) ds b \<longleftrightarrow> b \<or> list_ex p ds" for p b and ds :: "network_device list"
    by (induction ds arbitrary: b) auto
  then show ?thesis by (simp add: connected_wifi_def)
qed

lemma unclassified_iff:
  "unclassified_connected_device st \<longleftrightarrow>
     nm_available (network_manager st) \<and> observation_available (active_zones_status st) \<and>
     list_ex (\<lambda>d. is_connected_transport_device d \<and>
                  \<not> explicitly_bound (active_zone_interfaces st) d)
       (nm_devices (network_manager st))"
proof -
  have "fold (\<lambda>d b. if \<not> p d then b else b \<or> q d) ds b \<longleftrightarrow> b \<or> list_ex (\<lambda>d. p d \<and> q d) ds"
    for p q b and ds :: "network_device list"
    by (induction ds arbitrary: b) auto
  then show ?thesis by (auto simp: unclassified_connected_device_def)
qed

section \<open>What the checks demand\<close>

lemma no_warning_check [simp]:
  "no_warning (check l v d) \<longleftrightarrow> v = CheckPass \<or> v = CheckInfo"
  "\<not> no_warning (unavailable_check l d)"
  by (simp_all add: no_warning_def check_def unavailable_check_def)

lemma no_failure_check [simp]:
  "no_failure (check l v d) \<longleftrightarrow> v \<noteq> CheckFail"
  "no_failure (unavailable_check l d)"
  by (simp_all add: no_failure_def check_def unavailable_check_def)

text \<open>
  The contract of the command, over the snapshot alone.  A host is \<open>defensible\<close> when every
  observation was made and none of them calls for a review; it is \<open>blocked\<close> when an
  observation that was made rules it out, in the mode in force.
\<close>

definition service_defensible :: "firewall_state \<Rightarrow> bool" where
  "service_defensible st \<longleftrightarrow>
     fw_installed st \<and> service_state st = Available \<and> fw_active st \<and>
     service_enablement st = Available \<and> fw_enabled st \<and>
     panic_state st = Available \<and> \<not> fw_panic st \<and>
     permanent_config st = Available \<and> permanent_config_valid st \<and>
     default_zone_status st = Available \<and> default_zone st \<noteq> []"

definition assignment_defensible :: "firewall_state \<Rightarrow> bool" where
  "assignment_defensible st \<longleftrightarrow>
     nm_available (network_manager st) \<and> \<not> connected_wifi st \<and>
     interface_scan_available (vpn st) \<and>
     active_zones_status st = Available \<and> active_zone_interfaces st \<noteq> [] \<and>
     \<not> unclassified_connected_device st \<and> active_zone_sources st = []"

definition telemetry_defensible :: "firewall_state \<Rightarrow> bool" where
  "telemetry_defensible st \<longleftrightarrow>
     sockets_available (sockets st) \<and>
     logical_network_services (summarize_listener_exposure (sockets st)) = 0 \<and>
     (hostile_mode st \<longrightarrow> multicast_only_bindings (summarize_listener_exposure (sockets st)) = 0) \<and>
     kernel_journal_available (security_signals st) \<and>
     kernel_drop_or_reject_events (security_signals st) = 0"

definition closed_zone :: "firewall_state \<Rightarrow> string \<times> zone_state \<Rightarrow> bool" where
  "closed_zone st e \<longleftrightarrow>
     \<not> zone_exposure (snd e) \<and> zone_target (snd e) \<noteq> ''ACCEPT'' \<and>
     zone_forward_ports (snd e) = [] \<and> \<not> forwards st e \<and> \<not> zone_masquerade (snd e)"

definition policy_defensible :: "firewall_state \<Rightarrow> bool" where
  "policy_defensible st \<longleftrightarrow>
     applicable_zone_details_available st \<and> list_all (closed_zone st) (applicable_configs st) \<and>
     active_policies_status st = Available \<and> active_policies st = [] \<and>
     runtime_matches_permanent st \<and> fw_errors st = []"

definition defensible :: "firewall_state \<Rightarrow> bool" where
  "defensible st \<longleftrightarrow> service_defensible st \<and> assignment_defensible st \<and>
     telemetry_defensible st \<and> policy_defensible st"

definition open_zone :: "firewall_state \<Rightarrow> string \<times> zone_state \<Rightarrow> bool" where
  "open_zone st e \<longleftrightarrow>
     zone_target (snd e) = ''ACCEPT'' \<or>
     hostile_mode st \<and> (zone_exposure (snd e) \<or> forwards st e \<or> zone_masquerade (snd e))"

definition blocked :: "firewall_state \<Rightarrow> bool" where
  "blocked st \<longleftrightarrow>
     \<not> fw_installed st \<or>
     service_state st = Available \<and> \<not> fw_active st \<or>
     panic_state st = Available \<and> fw_panic st \<or>
     permanent_config st = Available \<and> \<not> permanent_config_valid st \<or>
     default_zone_status st = Available \<and> default_zone st = [] \<or>
     hostile_mode st \<and> sockets_available (sockets st) \<and>
       logical_network_services (summarize_listener_exposure (sockets st)) \<noteq> 0 \<or>
     applicable_zone_details_available st \<and> list_ex (open_zone st) (applicable_configs st)"

lemma service_checks_pass: "list_all no_warning (service_checks st) \<longleftrightarrow> service_defensible st"
  by (simp add: service_checks_def service_defensible_def observation_available_def
      split: if_split)

lemma environment_checks_pass:
  "list_all no_warning (environment_checks st) \<longleftrightarrow>
     nm_available (network_manager st) \<and> \<not> connected_wifi st \<and> interface_scan_available (vpn st)"
  by (simp add: environment_checks_def split: if_split)

lemma assignment_checks_pass:
  "list_all no_warning (assignment_checks st) \<longleftrightarrow>
     nm_available (network_manager st) \<and>
     active_zones_status st = Available \<and> active_zone_interfaces st \<noteq> [] \<and>
     \<not> unclassified_connected_device st \<and> active_zone_sources st = []"
  by (auto simp: assignment_checks_def observation_available_def split: if_split)

lemma telemetry_checks_pass:
  "list_all no_warning (listener_checks st) \<and> list_all no_warning (journal_checks st) \<longleftrightarrow>
     telemetry_defensible st"
  by (auto simp: listener_checks_def journal_checks_def telemetry_defensible_def Let_def
      split: if_split)

lemma policy_check_pass [simp]:
  "no_warning (policy_check st l v d) \<longleftrightarrow>
     applicable_zone_details_available st \<and> (v = CheckPass \<or> v = CheckInfo)"
  "no_failure (policy_check st l v d) \<longleftrightarrow>
     (applicable_zone_details_available st \<longrightarrow> v \<noteq> CheckFail)"
  by (simp_all add: policy_check_def)

lemma closed_zones_iff:
  assumes "applicable_zone_details_available st"
  shows "list_all (closed_zone st) (applicable_configs st) \<longleftrightarrow>
     \<not> scan_exposure (scan_policies st) \<and> \<not> scan_permissive_target (scan_policies st) \<and>
     \<not> scan_forward_ports (scan_policies st) \<and> \<not> scan_forwarding_path (scan_policies st) \<and>
     \<not> scan_masquerade (scan_policies st)"
  unfolding scan_policies_simps[OF assms] list_all_iff list_ex_iff closed_zone_def by blast

lemma open_zones_iff:
  assumes "applicable_zone_details_available st"
  shows "list_ex (open_zone st) (applicable_configs st) \<longleftrightarrow>
     scan_permissive_target (scan_policies st) \<or>
     hostile_mode st \<and> (scan_exposure (scan_policies st) \<or> scan_forwarding_path (scan_policies st) \<or>
       scan_masquerade (scan_policies st))"
  unfolding scan_policies_simps[OF assms] list_ex_iff open_zone_def by blast

lemma scan_implications:
  assumes "applicable_zone_details_available st"
  shows "applicable_rich_rules st \<noteq> 0 \<Longrightarrow> scan_exposure (scan_policies st)"
    and "scan_forwarding_path (scan_policies st) \<Longrightarrow> scan_forwarding (scan_policies st)"
  using rich_rules_exposure forwards_forwarding by (simp_all add: scan_policies_simps[OF assms])

lemma policy_checks_pass:
  "list_all no_warning (policy_checks st) \<longleftrightarrow>
     applicable_zone_details_available st \<and> list_all (closed_zone st) (applicable_configs st)"
proof (cases "applicable_zone_details_available st")
  case True
  then show ?thesis
    using scan_implications[OF True]
    by (auto simp: policy_checks_def closed_zones_iff Let_def split: if_splits)
next
  case False
  then show ?thesis by (simp add: policy_checks_def Let_def)
qed

lemma inventory_checks_pass:
  "list_all no_warning (inventory_checks st) \<longleftrightarrow>
     active_policies_status st = Available \<and> active_policies st = [] \<and>
     applicable_zone_details_available st \<and> runtime_matches_permanent st \<and> fw_errors st = []"
  by (auto simp: inventory_checks_def observation_available_def runtime_matches_permanent_def
      split: if_split)

lemma defensible_iff: "list_all no_warning (assess_readiness st) \<longleftrightarrow> defensible st"
  using telemetry_checks_pass[of st]
  by (auto simp: assess_readiness_def defensible_def service_checks_pass environment_checks_pass
      assignment_checks_pass policy_checks_pass inventory_checks_pass assignment_defensible_def
      policy_defensible_def)

lemma service_checks_fail:
  "list_all no_failure (service_checks st) \<longleftrightarrow>
     fw_installed st \<and> (service_state st = Available \<longrightarrow> fw_active st) \<and>
     (panic_state st = Available \<longrightarrow> \<not> fw_panic st) \<and>
     (permanent_config st = Available \<longrightarrow> permanent_config_valid st) \<and>
     (default_zone_status st = Available \<longrightarrow> default_zone st \<noteq> [])"
  by (simp add: service_checks_def observation_available_def split: if_split)

lemma environment_checks_fail:
  "list_all no_failure (environment_checks st)" "list_all no_failure (assignment_checks st)"
  "list_all no_failure (journal_checks st)" "list_all no_failure (inventory_checks st)"
  by (simp_all add: environment_checks_def assignment_checks_def journal_checks_def
      inventory_checks_def Let_def split: if_split)

lemma listener_checks_fail:
  "list_all no_failure (listener_checks st) \<longleftrightarrow>
     \<not> (hostile_mode st \<and> sockets_available (sockets st) \<and>
        logical_network_services (summarize_listener_exposure (sockets st)) \<noteq> 0)"
  by (auto simp: listener_checks_def Let_def split: if_split)

lemma policy_checks_fail:
  "list_all no_failure (policy_checks st) \<longleftrightarrow>
     \<not> (applicable_zone_details_available st \<and> list_ex (open_zone st) (applicable_configs st))"
proof (cases "applicable_zone_details_available st")
  case True
  then show ?thesis
    using scan_implications[OF True]
    by (auto simp: policy_checks_def open_zones_iff Let_def split: if_splits)
next
  case False
  then show ?thesis by (simp add: policy_checks_def Let_def)
qed

lemma blocked_iff: "\<not> list_all no_failure (assess_readiness st) \<longleftrightarrow> blocked st"
  by (auto simp: assess_readiness_def blocked_def service_checks_fail environment_checks_fail
      listener_checks_fail policy_checks_fail)

section \<open>Hostile mode is the stricter one\<close>

abbreviation in_mode :: "operating_mode \<Rightarrow> firewall_state \<Rightarrow> firewall_state" where
  "in_mode m st \<equiv> st\<lparr>fw_operating_mode := m\<rparr>"

lemma mode_irrelevant:
  "applicable_zone_names (in_mode m st) = applicable_zone_names st"
  "applicable_zone_details_available (in_mode m st) = applicable_zone_details_available st"
  "applicable_configs (in_mode m st) = applicable_configs st"
  "forwards (in_mode m st) = forwards st"
  "runtime_matches_permanent (in_mode m st) = runtime_matches_permanent st"
  "connected_wifi (in_mode m st) = connected_wifi st"
  "unclassified_connected_device (in_mode m st) = unclassified_connected_device st"
  by (simp_all add: applicable_zone_names_def default_zone_applies_def
      applicable_zone_details_available_def applicable_configs_def is_zone_applicable_def
      forwards_def active_zone_member_count_def runtime_matches_permanent_def
      connected_wifi_def unclassified_connected_device_def fun_eq_iff Let_def)

lemma closed_zone_mode: "closed_zone (in_mode m st) = closed_zone st"
  by (simp add: closed_zone_def mode_irrelevant fun_eq_iff)

lemma defensible_hostile: "defensible (in_mode HostileNetwork st) \<Longrightarrow> defensible (in_mode m st)"
  by (auto simp: defensible_def service_defensible_def assignment_defensible_def
      telemetry_defensible_def policy_defensible_def hostile_mode_def mode_irrelevant
      closed_zone_mode)

lemma blocked_hostile: "blocked (in_mode m st) \<Longrightarrow> blocked (in_mode HostileNetwork st)"
  by (auto simp: blocked_def open_zone_def hostile_mode_def mode_irrelevant list_ex_iff)

section \<open>Alignment of runtime and permanent policies\<close>

lemma same_domain:
  assumes "map_wf m" "map_wf n" "length m = length n" "fst ` set m \<subseteq> fst ` set n"
  shows "fst ` set m = fst ` set n"
proof -
  have "card (fst ` set m) = length m" "card (fst ` set n) = length n"
    using assms(1,2)[THEN map_wf_distinct] distinct_card by force+
  with assms(3,4) show ?thesis by (intro card_subset_eq) auto
qed

lemma map_of_wf_iff: "map_wf m \<Longrightarrow> (k, v) \<in> set m \<longleftrightarrow> map_of m k = Some v"
  by (simp add: map_wf_distinct)

definition policies_of :: "zone_map \<Rightarrow> string \<Rightarrow> policy_view option" where
  "policies_of zones name = map_option policy_view (map_of zones name)"

definition equal_policies :: "zone_map \<Rightarrow> zone_map \<Rightarrow> bool" where
  "equal_policies m n \<longleftrightarrow>
     list_all (\<lambda>(name, zone). case map_of n name of None \<Rightarrow> False
                              | Some permanent \<Rightarrow> zone_policies_equal zone permanent) m"

lemma equal_policies_map:
  assumes "map_wf m" "map_wf n" "length m = length n" "equal_policies m n"
  shows "policies_of m = policies_of n"
proof
  fix k
  have sub: "fst ` set m \<subseteq> fst ` set n"
    using assms(4) by (force simp: equal_policies_def list_all_iff split: option.splits dest: map_of_SomeD)
  show "policies_of m k = policies_of n k"
  proof (cases "map_of m k")
    case None
    then have "map_of n k = None"
      using same_domain[OF assms(1,2) _ sub] assms(3) by (simp add: map_of_eq_None_iff)
    with None show ?thesis by (simp add: policies_of_def)
  next
    case (Some v)
    then have "(k, v) \<in> set m" using assms(1) by (simp add: map_of_wf_iff)
    with assms(4) Some show ?thesis
      by (auto simp: equal_policies_def list_all_iff policies_of_def zone_policies_equal_view split: option.splits)
  qed
qed

lemma map_equal_policies:
  assumes "map_wf m" "policies_of m = policies_of n"
  shows "equal_policies m n"
proof -
  have "case map_of n k of None \<Rightarrow> False | Some p \<Rightarrow> zone_policies_equal v p" if "(k, v) \<in> set m" for k v
  proof -
    have "map_of m k = Some v" using that assms(1) by (simp add: map_of_wf_iff)
    then have "map_option policy_view (map_of n k) = Some (policy_view v)"
      using fun_cong[OF assms(2), of k] by (simp add: policies_of_def)
    then show ?thesis by (auto simp: zone_policies_equal_view)
  qed
  then show ?thesis by (auto simp: equal_policies_def list_all_iff)
qed

lemma policies_same_length:
  assumes "map_wf m" "map_wf n" "policies_of m = policies_of n"
  shows "length m = length n"
proof -
  have "map_of m k = None \<longleftrightarrow> map_of n k = None" for k
    using fun_cong[OF assms(3), of k] by (auto simp: policies_of_def)
  then have "fst ` set m = fst ` set n" by (auto simp: map_of_eq_None_iff)
  moreover have "length m = card (fst ` set m)" "length n = card (fst ` set n)"
    using assms(1,2)[THEN map_wf_distinct] distinct_card[of "map fst m"] distinct_card[of "map fst n"]
    by simp_all
  ultimately show ?thesis by simp
qed

lemma policies_of_eq_iff:
  "map_wf m \<Longrightarrow> map_wf n \<Longrightarrow> length m = length n \<and> equal_policies m n \<longleftrightarrow> policies_of m = policies_of n"
  using equal_policies_map map_equal_policies policies_same_length by blast

lemma runtime_matches_permanent_view:
  "map_wf (runtime_zones st) \<Longrightarrow> map_wf (permanent_zones st) \<Longrightarrow>
     runtime_matches_permanent st \<longleftrightarrow>
       runtime_zones_status st = Available \<and> permanent_zones_status st = Available \<and>
       policies_of (runtime_zones st) = policies_of (permanent_zones st)"
  by (auto simp: runtime_matches_permanent_def observation_available_def
      policies_of_eq_iff[symmetric] equal_policies_def)

section \<open>Properties\<close>

text \<open>C5: \<open>ffc --readiness\<close> exits with 0 exactly for a defensible host: every observation the
  checks need was made, and none of them calls for a review in the mode in force.\<close>

theorem readiness_zero_iff_defensible: "readiness_exit_code st = 0 \<longleftrightarrow> defensible st"
  by (simp add: exit_code_zero_iff defensible_iff)


text \<open>C24: Hostile-network criteria are never laxer: on one snapshot the exit code of either
  mode is at most the exit code of hostile mode.\<close>

theorem hostile_mode_never_laxer:
  "readiness_exit_code (st\<lparr>fw_operating_mode := m\<rparr>)
     \<le> readiness_exit_code (st\<lparr>fw_operating_mode := HostileNetwork\<rparr>)"
  using exit_code_range[of "in_mode m st"] exit_code_range[of "in_mode HostileNetwork st"]
    exit_code_two_iff[of "in_mode m st"] exit_code_two_iff[of "in_mode HostileNetwork st"]
    exit_code_zero_iff[of "in_mode m st"] exit_code_zero_iff[of "in_mode HostileNetwork st"]
    defensible_hostile[of st m] blocked_hostile[of m st]
  unfolding blocked_iff defensible_iff by auto

text \<open>C23: The alignment check holds exactly when both zone lists were collected and every
  zone name has the same policy in both, up to the order inside the unordered collections.\<close>

theorem alignment_is_policy_equality:
  "map_wf (runtime_zones st) \<Longrightarrow> map_wf (permanent_zones st) \<Longrightarrow>
     runtime_matches_permanent st \<longleftrightarrow>
       runtime_zones_status st = Available \<and> permanent_zones_status st = Available \<and>
       (\<forall>name. policies_of (runtime_zones st) name = policies_of (permanent_zones st) name)"
  using runtime_matches_permanent_view[of st] by (simp add: fun_eq_iff)

definition aligned_example :: firewall_state where
  "aligned_example = default_firewall_state
     \<lparr>runtime_zones_status := Available, permanent_zones_status := Available,
      runtime_zones := [(''public'', default_zone_state\<lparr>zone_ports := [''80/tcp'', ''22/tcp'']\<rparr>)],
      permanent_zones := [(''public'', default_zone_state\<lparr>zone_ports := [''22/tcp'', ''80/tcp'']\<rparr>)]\<rparr>"

lemma alignment_witness:
  "runtime_matches_permanent aligned_example \<and>
   (\<forall>name. policies_of (runtime_zones aligned_example) name =
           policies_of (permanent_zones aligned_example) name)"
proof -
  have m: "runtime_matches_permanent aligned_example"
    by (simp add: aligned_example_def runtime_matches_permanent_def observation_available_def
        zone_policies_equal_view policy_view_def add_mset_commute)
  with alignment_is_policy_equality[of aligned_example] show ?thesis
    by (simp add: aligned_example_def map_wf_def)
qed

end
