(* ===== verification/DashboardState.thy ===== *)
theory DashboardState
  imports Readiness Calendar "HOL-Library.Word"
begin

text \<open>
  \<open>src/ui/dashboard_state.cpp\<close>: the dashboard snapshot made of a posture, with its
  blockers, review items, coverage gaps, prioritised recommendations and risk levels.

  Time points are counts of nanoseconds since the epoch of their clock.  The host name
  (\<open>gethostname\<close>), the two clocks and the version macro of the build are arguments.
\<close>

section \<open>Data\<close>

datatype dashboard_risk = RiskReady | RiskReview | RiskBlocked

datatype defcon_readiness = NotEvaluated | DefconReady | NotReady

datatype finding_severity = Critical | High | Medium | Low | Information

datatype finding_category =
  Isolation | FirewallFinding | ExposureFinding | ListenerFinding | Change | EvidenceGap | Hygiene

datatype menu_destination =
  ToReadiness | ToSignals | ToFirewall | ToNetwork | ToEvidence | ToSettings | ToEmergency

record dashboard_finding =
  df_severity :: finding_severity
  df_category :: finding_category
  df_id :: string
  df_summary :: string
  df_destination :: menu_destination

record dashboard_recommendation =
  dr_severity :: finding_severity
  dr_category :: finding_category
  dr_finding_id :: string
  dr_summary :: string
  dr_destination :: menu_destination

record component_evidence =
  ce_component :: string
  ce_status :: observation_status
  ce_detail :: string

record dashboard_snapshot =
  snapshot_id :: "64 word"
  collected_at :: int
  collected_monotonic :: int
  ds_hostname :: string
  application_version :: string
  ds_firewall :: firewall_state
  risk :: dashboard_risk
  defcon_readiness :: defcon_readiness
  overall_evidence :: observation_status
  blockers :: "dashboard_finding list"
  review_items :: "dashboard_finding list"
  coverage_gaps :: "dashboard_finding list"
  recommendations :: "dashboard_recommendation list"
  evidence_components :: "component_evidence list"
  continuous_monitor_available :: bool
  response_actions_available :: bool

section \<open>Exposure of the applicable zones\<close>

record active_exposure =
  ae_ports :: nat
  ae_protocols :: nat
  ae_rich_rules :: nat
  ae_forwarding :: bool
  ae_masquerading :: bool
  ae_accept_target :: bool

definition no_exposure :: active_exposure where
  "no_exposure = \<lparr>ae_ports = 0, ae_protocols = 0, ae_rich_rules = 0, ae_forwarding = False,
     ae_masquerading = False, ae_accept_target = False\<rparr>"

definition exposure_step :: "firewall_state \<Rightarrow> string \<times> zone_state \<Rightarrow> active_exposure \<Rightarrow> active_exposure" where
  "exposure_step st = (\<lambda>(zone_name, zone) e.
     if \<not> is_zone_applicable st zone_name then e
     else \<lparr>ae_ports = ae_ports e + length (zone_ports zone),
           ae_protocols = ae_protocols e + length (zone_protocols zone),
           ae_rich_rules = ae_rich_rules e + length (zone_rich_rules zone),
           ae_forwarding = ae_forwarding e \<or> zone_forward zone,
           ae_masquerading = ae_masquerading e \<or> zone_masquerade zone,
           ae_accept_target = ae_accept_target e \<or> zone_target zone = ''ACCEPT''\<rparr>)"

definition active_exposure :: "firewall_state \<Rightarrow> active_exposure" where
  "active_exposure st = fold (exposure_step st) (runtime_zones st) no_exposure"

section \<open>Evidence components and gaps\<close>

definition component :: "string \<Rightarrow> observation_status \<Rightarrow> string \<Rightarrow> component_evidence" where
  "component name st detail = \<lparr>ce_component = name, ce_status = st, ce_detail = detail\<rparr>"

definition status_from :: "bool \<Rightarrow> observation_status" where
  "status_from b = (if b then Available else Unavailable)"

definition collect_components :: "firewall_state \<Rightarrow> component_evidence list" where
  "collect_components st =
     (let nm = network_manager st; socks = sockets st; sigs = security_signals st in
     [component ''firewalld runtime policy'' (runtime_zones_status st)
        (if observation_available (runtime_zones_status st) then ''collected'' else ''unavailable''),
      component ''firewalld permanent policy'' (permanent_zones_status st)
        (if observation_available (permanent_zones_status st) then ''collected'' else ''unavailable''),
      component ''NetworkManager device inventory'' (status_from (nm_available nm))
        (if nm_available nm then ''collected'' else nm_diagnostic nm),
      component ''NetworkManager profile and autoconnect inventory'' Unavailable
        ''not collected by this read-only snapshot'',
      component ''TCP/UDP listener inventory'' (status_from (sockets_available socks))
        (if sockets_available socks then ''collected'' else sockets_diagnostic socks),
      component ''kernel denied-packet journal'' (status_from (kernel_journal_available sigs))
        (if kernel_journal_available sigs then ''collected'' else signals_diagnostic sigs),
      component ''firewalld service journal'' (status_from (firewalld_journal_available sigs))
        (if firewalld_journal_available sigs then ''collected'' else signals_diagnostic sigs),
      component ''VPN route, DNS, and kill-switch verification'' Unavailable
        ''not implemented in this read-only snapshot''])"

definition gap :: "string \<Rightarrow> string \<Rightarrow> menu_destination \<Rightarrow> dashboard_finding" where
  "gap fid summary dest = \<lparr>df_severity = Medium, df_category = EvidenceGap, df_id = fid,
     df_summary = summary, df_destination = dest\<rparr>"

definition component_gap :: "component_evidence \<Rightarrow> dashboard_finding" where
  "component_gap c =
     gap (''evidence.'' @ ce_component c)
       (ce_component c @ '' unavailable: '' @ ce_detail c)
       (if starts_with (ce_component c) ''NetworkManager'' \<or> starts_with (ce_component c) ''VPN''
        then ToNetwork else ToEvidence)"

definition component_gaps :: "component_evidence list \<Rightarrow> dashboard_finding list" where
  "component_gaps cs = map component_gap (filter (\<lambda>c. ce_status c \<noteq> Available) cs)"

definition policy_gaps :: "firewall_state \<Rightarrow> dashboard_finding list" where
  "policy_gaps st =
     (if applicable_zone_details_available st then []
      else [gap ''firewall.applicable-policy''
              ''Applicable firewall policy detail is unavailable.'' ToFirewall])"

section \<open>Blockers and review items\<close>

definition blocker :: "string \<Rightarrow> string \<Rightarrow> finding_category \<Rightarrow> dashboard_finding" where
  "blocker fid summary cat = \<lparr>df_severity = Critical, df_category = cat, df_id = fid,
     df_summary = summary, df_destination = ToReadiness\<rparr>"

definition collect_blockers :: "firewall_state \<Rightarrow> dashboard_finding list" where
  "collect_blockers st =
     (if \<not> fw_installed st
      then [blocker ''firewalld.missing'' ''Install firewalld before evaluating host policy.''
              FirewallFinding]
      else if \<not> observation_available (service_state st)
      then [blocker ''firewalld.state-unavailable''
              ''Restore firewalld state collection before relying on posture.'' FirewallFinding]
      else if \<not> fw_active st
      then [blocker ''firewalld.inactive''
              ''Start firewalld; current host policy is not being enforced.'' FirewallFinding]
      else []) @
     (if observation_available (panic_state st) \<and> fw_panic st
      then [blocker ''firewalld.panic'' ''Panic mode is active; all network traffic may be blocked.''
              Isolation]
      else [])"

definition review ::
  "string \<Rightarrow> string \<Rightarrow> finding_category \<Rightarrow> menu_destination \<Rightarrow> finding_severity \<Rightarrow> dashboard_finding" where
  "review fid summary cat dest sev = \<lparr>df_severity = sev, df_category = cat, df_id = fid,
     df_summary = summary, df_destination = dest\<rparr>"

text \<open>The separator of the summary: a blank after the colon, a comma afterwards.\<close>

definition separator_after :: "string \<Rightarrow> string" where
  "separator_after summary = (if summary \<noteq> [] \<and> last summary = colon_char then '' '' else '', '')"

definition append_part :: "bool \<Rightarrow> string \<Rightarrow> string \<Rightarrow> string" where
  "append_part b part summary = (if b then summary @ separator_after summary @ part else summary)"

definition exposure_summary :: "active_exposure \<Rightarrow> string" where
  "exposure_summary e =
     (let s0 = ''Review active inbound policy:'';
          s1 = (if ae_ports e \<noteq> 0 then s0 @ '' '' @ show_nat (ae_ports e) @ '' port rule(s)'' else s0);
          s2 = append_part (ae_protocols e \<noteq> 0) (show_nat (ae_protocols e) @ '' protocol rule(s)'') s1;
          s3 = append_part (ae_rich_rules e \<noteq> 0) (show_nat (ae_rich_rules e) @ '' rich rule(s)'') s2;
          s4 = append_part (ae_accept_target e) ''an ACCEPT zone target'' s3;
          s5 = append_part (ae_forwarding e) ''intra-zone forwarding'' s4
      in s5 @ ''.'')"

definition inbound_policy_open :: "active_exposure \<Rightarrow> bool" where
  "inbound_policy_open e \<longleftrightarrow>
     ae_ports e \<noteq> 0 \<or> ae_protocols e \<noteq> 0 \<or> ae_rich_rules e \<noteq> 0 \<or> ae_accept_target e"

definition policy_reviews :: "firewall_state \<Rightarrow> dashboard_finding list" where
  "policy_reviews st =
     (if applicable_zone_details_available st then
        let e = active_exposure st in
        (if inbound_policy_open e
         then [review ''firewall.active-inbound-policy'' (exposure_summary e) ExposureFinding
                 ToFirewall High]
         else []) @
        (if ae_forwarding e
         then [review ''firewall.intra-zone-forwarding''
                 ''Review intra-zone forwarding; it is enabled on an applicable zone.''
                 ExposureFinding ToFirewall High]
         else []) @
        (if ae_masquerading e
         then [review ''firewall.masquerading''
                 ''Review masquerading; it is enabled on an applicable zone.''
                 ExposureFinding ToFirewall High]
         else [])
      else [])"

definition listener_reviews :: "firewall_state \<Rightarrow> dashboard_finding list" where
  "listener_reviews st =
     (let n = logical_network_services (summarize_listener_exposure (sockets st)) in
      if sockets_available (sockets st) \<and> n \<noteq> 0
      then [review ''listeners.network-reachable''
              (''Review '' @ show_nat n @ '' network-reachable TCP/UDP listener(s).'')
              ListenerFinding ToFirewall Medium]
      else [])"

section \<open>Recommendations\<close>

fun category_priority :: "finding_category \<Rightarrow> int" where
  "category_priority Isolation = 800"
| "category_priority FirewallFinding = 750"
| "category_priority ExposureFinding = 700"
| "category_priority ListenerFinding = 600"
| "category_priority Change = 500"
| "category_priority EvidenceGap = 300"
| "category_priority Hygiene = 100"

definition recommendation_priority :: "dashboard_recommendation \<Rightarrow> int" where
  "recommendation_priority r = category_priority (dr_category r)"

definition recommendation_of :: "dashboard_finding \<Rightarrow> dashboard_recommendation" where
  "recommendation_of f = \<lparr>dr_severity = df_severity f, dr_category = df_category f,
     dr_finding_id = df_id f, dr_summary = df_summary f, dr_destination = df_destination f\<rparr>"

text \<open>\<open>std::stable_sort\<close> with a descending comparison of the priorities.\<close>

definition prioritise :: "dashboard_recommendation list \<Rightarrow> dashboard_recommendation list" where
  "prioritise rs = sort_key (\<lambda>r. - recommendation_priority r) rs"

section \<open>The snapshot\<close>

definition milliseconds_since_epoch :: "int \<Rightarrow> int" where
  "milliseconds_since_epoch t = t sdiv 1000000"

definition summarize_evidence :: "component_evidence list \<Rightarrow> observation_status" where
  "summarize_evidence cs =
     (let any_partial = fold (\<lambda>c b. b \<or> ce_status c \<noteq> Available) cs False;
          any_available = fold (\<lambda>c b. b \<or> ce_status c = Available) cs False
      in if \<not> any_partial then Available else if any_available then Partial else Unavailable)"

text \<open>\<open>gethostname\<close> on a buffer of 256 zero bytes, of which it may write 255; \<open>None\<close> is a failure.\<close>

definition local_hostname :: "string option \<Rightarrow> string" where
  "local_hostname answer =
     (case answer of
        None \<Rightarrow> ''unknown''
      | Some written \<Rightarrow> takeWhile (\<lambda>c. c \<noteq> CHR 0x00) (take 255 written))"

definition make_dashboard_snapshot ::
  "string \<Rightarrow> string \<Rightarrow> firewall_state \<Rightarrow> 64 word \<Rightarrow> int \<Rightarrow> int \<Rightarrow> dashboard_snapshot" where
  "make_dashboard_snapshot hostname version st sid at monotonic =
     (let components = collect_components st;
          bs = collect_blockers st;
          rs = policy_reviews st @ listener_reviews st;
          gs = component_gaps components @ policy_gaps st
      in \<lparr>snapshot_id = (if sid \<noteq> 0 then sid else word_of_int (milliseconds_since_epoch at)),
          collected_at = at, collected_monotonic = monotonic,
          ds_hostname = hostname, application_version = version, ds_firewall = st,
          risk = (if bs \<noteq> [] then RiskBlocked else if rs \<noteq> [] then RiskReview else RiskReady),
          defcon_readiness =
            (if fw_operating_mode st = HostileNetwork
             then (if bs = [] \<and> rs = [] then DefconReady else NotReady) else NotEvaluated),
          overall_evidence = summarize_evidence components,
          blockers = bs, review_items = rs, coverage_gaps = gs,
          recommendations =
            prioritise (map recommendation_of bs @ map recommendation_of rs @ map recommendation_of gs),
          evidence_components = components,
          continuous_monitor_available = False, response_actions_available = False\<rparr>)"

section \<open>Labels\<close>

fun risk_to_string :: "dashboard_risk \<Rightarrow> string" where
  "risk_to_string RiskReady = ''READY FOR REVIEW''"
| "risk_to_string RiskReview = ''REVIEW REQUIRED''"
| "risk_to_string RiskBlocked = ''READINESS BLOCKED''"

fun defcon_to_string :: "defcon_readiness \<Rightarrow> string" where
  "defcon_to_string NotEvaluated = ''NOT EVALUATED''"
| "defcon_to_string DefconReady = ''READY''"
| "defcon_to_string NotReady = ''NOT READY''"

fun destination_to_string :: "menu_destination \<Rightarrow> string" where
  "destination_to_string ToReadiness = ''Readiness''"
| "destination_to_string ToSignals = ''Signals''"
| "destination_to_string ToFirewall = ''Firewall''"
| "destination_to_string ToNetwork = ''Network and VPN''"
| "destination_to_string ToEvidence = ''Evidence''"
| "destination_to_string ToSettings = ''Settings''"
| "destination_to_string ToEmergency = ''Emergency''"

text \<open>The format \<open>%H:%M:%SZ\<close> of \<open>gmtime_r\<close>.\<close>

definition format_dashboard_timestamp :: "int \<Rightarrow> string" where
  "format_dashboard_timestamp t = time_of_day (to_time_t t) @ ''Z''"

definition stale_label :: string where
  "stale_label = ''STALE '' @ [CHR 0xE2, CHR 0x80, CHR 0xA2] @ '' last successful update ''"

definition format_dashboard_age :: "dashboard_snapshot \<Rightarrow> int \<Rightarrow> string" where
  "format_dashboard_age s now =
     (let elapsed = (if collected_monotonic s < now then now - collected_monotonic s else 0);
          seconds = elapsed sdiv 1000000000
      in if 30 \<le> seconds then stale_label @ show_nat (nat seconds) @ ''s ago''
         else show_nat (nat seconds) @ ''s old'')"

section \<open>The order of the recommendations\<close>

lemma prioritise_mset: "mset (prioritise rs) = mset rs"
  by (simp add: prioritise_def)

lemma prioritise_sorted:
  "sorted_wrt (\<lambda>r s. recommendation_priority s \<le> recommendation_priority r) (prioritise rs)"
proof -
  have "sorted (map (\<lambda>r. - recommendation_priority r) (prioritise rs))"
    by (simp add: prioritise_def)
  then show ?thesis by (simp add: sorted_map)
qed

lemma prioritise_stable:
  "filter (\<lambda>r. recommendation_priority r = p) (prioritise rs) =
     filter (\<lambda>r. recommendation_priority r = p) rs"
  using sort_key_stable[of "\<lambda>r. - recommendation_priority r" "- p" rs] by (simp add: prioritise_def)

definition all_findings :: "dashboard_snapshot \<Rightarrow> dashboard_finding list" where
  "all_findings s = blockers s @ review_items s @ coverage_gaps s"

lemma snapshot_recommendations:
  "recommendations (make_dashboard_snapshot h v st sid at m) =
     prioritise (map recommendation_of (all_findings (make_dashboard_snapshot h v st sid at m)))"
  by (simp add: make_dashboard_snapshot_def all_findings_def Let_def)

section \<open>The classification of risk\<close>

lemma fold_exposure_step:
  "fold (exposure_step st) zs e =
     (let app = filter (\<lambda>z. is_zone_applicable st (fst z)) zs
      in \<lparr>ae_ports = ae_ports e + sum_list (map (\<lambda>z. length (zone_ports (snd z))) app),
          ae_protocols = ae_protocols e + sum_list (map (\<lambda>z. length (zone_protocols (snd z))) app),
          ae_rich_rules = ae_rich_rules e + sum_list (map (\<lambda>z. length (zone_rich_rules (snd z))) app),
          ae_forwarding = ae_forwarding e \<or> list_ex (\<lambda>z. zone_forward (snd z)) app,
          ae_masquerading = ae_masquerading e \<or> list_ex (\<lambda>z. zone_masquerade (snd z)) app,
          ae_accept_target = ae_accept_target e \<or> list_ex (\<lambda>z. zone_target (snd z) = ''ACCEPT'') app\<rparr>)"
proof (induction zs arbitrary: e)
  case Nil
  then show ?case by simp
next
  case (Cons z zs)
  then show ?case by (auto simp: exposure_step_def split_def Let_def)
qed

lemma sum_lengths_zero: "sum_list (map (\<lambda>z. length (f z)) zs) = 0 \<longleftrightarrow> (\<forall>z\<in>set zs. f z = [])"
  by (induction zs) auto

definition inbound_zone :: "string \<times> zone_state \<Rightarrow> bool" where
  "inbound_zone e \<longleftrightarrow>
     zone_ports (snd e) \<noteq> [] \<or> zone_protocols (snd e) \<noteq> [] \<or> zone_rich_rules (snd e) \<noteq> [] \<or>
     zone_target (snd e) = ''ACCEPT''"

lemma active_exposure_eq:
  "inbound_policy_open (active_exposure st) \<longleftrightarrow> list_ex inbound_zone (applicable_configs st)"
  "ae_forwarding (active_exposure st) \<longleftrightarrow>
     list_ex (\<lambda>z. zone_forward (snd z)) (applicable_configs st)"
  "ae_masquerading (active_exposure st) \<longleftrightarrow>
     list_ex (\<lambda>z. zone_masquerade (snd z)) (applicable_configs st)"
proof -
  have [simp]: "active_exposure st =
      fold (exposure_step st) (runtime_zones st) no_exposure"
    by (simp add: active_exposure_def)
  show "ae_forwarding (active_exposure st) \<longleftrightarrow>
          list_ex (\<lambda>z. zone_forward (snd z)) (applicable_configs st)"
    "ae_masquerading (active_exposure st) \<longleftrightarrow>
          list_ex (\<lambda>z. zone_masquerade (snd z)) (applicable_configs st)"
    by (simp_all add: fold_exposure_step applicable_configs_def no_exposure_def Let_def)
  show "inbound_policy_open (active_exposure st) \<longleftrightarrow> list_ex inbound_zone (applicable_configs st)"
    unfolding inbound_policy_open_def
    by (simp add: fold_exposure_step applicable_configs_def no_exposure_def Let_def
        sum_lengths_zero list_ex_iff inbound_zone_def del: sum_list_eq_0_iff) blast
qed

text \<open>The specification of the risk level, over the posture alone.\<close>

definition enforcement_blocked :: "firewall_state \<Rightarrow> bool" where
  "enforcement_blocked st \<longleftrightarrow>
     \<not> fw_installed st \<or> service_state st \<noteq> Available \<or> \<not> fw_active st \<or>
     panic_state st = Available \<and> fw_panic st"

definition review_zone :: "string \<times> zone_state \<Rightarrow> bool" where
  "review_zone e \<longleftrightarrow> inbound_zone e \<or> zone_forward (snd e) \<or> zone_masquerade (snd e)"

definition needs_review :: "firewall_state \<Rightarrow> bool" where
  "needs_review st \<longleftrightarrow>
     applicable_zone_details_available st \<and> list_ex review_zone (applicable_configs st) \<or>
     sockets_available (sockets st) \<and>
       logical_network_services (summarize_listener_exposure (sockets st)) \<noteq> 0"

lemma collect_blockers_Nil: "collect_blockers st = [] \<longleftrightarrow> \<not> enforcement_blocked st"
  by (auto simp: collect_blockers_def enforcement_blocked_def observation_available_def)

lemma reviews_Nil: "policy_reviews st @ listener_reviews st = [] \<longleftrightarrow> \<not> needs_review st"
proof -
  have "list_ex review_zone es \<longleftrightarrow>
          list_ex inbound_zone es \<or> list_ex (\<lambda>z. zone_forward (snd z)) es \<or>
          list_ex (\<lambda>z. zone_masquerade (snd z)) es" for es
    by (auto simp: list_ex_iff review_zone_def)
  then show ?thesis
    by (auto simp: policy_reviews_def listener_reviews_def needs_review_def active_exposure_eq Let_def)
qed

lemma snapshot_risk:
  "risk (make_dashboard_snapshot h v st sid at m) =
     (if enforcement_blocked st then RiskBlocked
      else if needs_review st then RiskReview else RiskReady)"
  "defcon_readiness (make_dashboard_snapshot h v st sid at m) =
     (if hostile_mode st
      then (if enforcement_blocked st \<or> needs_review st then NotReady else DefconReady)
      else NotEvaluated)"
  using reviews_Nil[of st] collect_blockers_Nil[of st]
  by (simp_all add: make_dashboard_snapshot_def hostile_mode_def Let_def)

lemma ready_not_blocked:
  "defensible st \<Longrightarrow> \<not> enforcement_blocked st"
  by (auto simp: defensible_def service_defensible_def enforcement_blocked_def)

section \<open>Coverage\<close>

lemma summarize_evidence_eq:
  "summarize_evidence cs =
     (if list_all (\<lambda>c. ce_status c = Available) cs then Available
      else if list_ex (\<lambda>c. ce_status c = Available) cs then Partial else Unavailable)"
proof -
  have "fold (\<lambda>c b. b \<or> p c) cs b \<longleftrightarrow> b \<or> list_ex p cs" for p b and cs :: "component_evidence list"
    by (induction cs arbitrary: b) auto
  then show ?thesis
    by (auto simp: summarize_evidence_def list_ex_iff list_all_iff Let_def)
qed

lemma never_fully_covered: "summarize_evidence (collect_components st) \<noteq> Available"
  by (simp add: summarize_evidence_eq collect_components_def component_def Let_def)

section \<open>Properties\<close>

text \<open>The recommendations are exactly the findings, blockers before reviews before gaps,
  reordered by descending priority of their category; findings of one priority keep their
  order.\<close>

theorem recommendations_ranked:
  "let s = make_dashboard_snapshot h v st sid at m;
       rs = map recommendation_of (blockers s @ review_items s @ coverage_gaps s)
   in mset (recommendations s) = mset rs \<and>
      sorted_wrt (\<lambda>a b. recommendation_priority b \<le> recommendation_priority a)
        (recommendations s) \<and>
      (\<forall>p. filter (\<lambda>r. recommendation_priority r = p) (recommendations s) =
           filter (\<lambda>r. recommendation_priority r = p) rs)"
  by (simp only: Let_def snapshot_recommendations all_findings_def prioritise_mset
      prioritise_sorted prioritise_stable simp_thms)


text \<open>The overall evidence of a dashboard is never reported as complete, and every component
  without evidence has its coverage gap.\<close>

theorem dashboard_admits_gaps:
  "overall_evidence (make_dashboard_snapshot h v st sid at m) \<noteq> Available \<and>
   map component_gap (filter (\<lambda>c. ce_status c \<noteq> Available)
       (evidence_components (make_dashboard_snapshot h v st sid at m)))
     = take (length (filter (\<lambda>c. ce_status c \<noteq> Available)
         (evidence_components (make_dashboard_snapshot h v st sid at m))))
       (coverage_gaps (make_dashboard_snapshot h v st sid at m))"
  using never_fully_covered[of st]
  by (simp add: make_dashboard_snapshot_def component_gaps_def Let_def)

text \<open>C24: The dashboard's DEF CON level and the readiness report disagree: there is a posture in
  hostile mode that the dashboard shows as READY while \<open>ffc --readiness\<close> exits with 2, namely an
  applicable zone that admits services or source ports only.\<close>

theorem dashboard_misses_services:
  "\<exists>st. defcon_readiness (make_dashboard_snapshot h v st sid at m) = DefconReady \<and>
        readiness_exit_code st = 2"
proof -
  define st where "st = default_firewall_state
     \<lparr>fw_operating_mode := HostileNetwork, fw_installed := True, fw_active := True,
      service_state := Available, default_zone_status := Available, default_zone := ''public'',
      active_zones_status := Available, runtime_zones_status := Available,
      runtime_zones := [(''public'', default_zone_state\<lparr>zone_services := [''ssh''],
                                       zone_source_ports := [''67/udp'']\<rparr>)]\<rparr>"
  have b: "blocked st" unfolding st_def by code_simp
  have r: "readiness_exit_code st = 2" using b by (simp add: exit_code_two_iff blocked_iff)
  have "\<not> enforcement_blocked st" "\<not> needs_review st" "hostile_mode st" unfolding st_def by code_simp+
  then have "defcon_readiness (make_dashboard_snapshot h v st sid at m) = DefconReady"
    by (simp add: snapshot_risk)
  with r show ?thesis by blast
qed

end
