(* ===== verification/FirewalldBackend.thy ===== *)
theory FirewalldBackend
  imports FirewallState
begin

text \<open>
  \<open>src/firewall/firewalld_backend.cpp\<close>: the collection of the firewalld state.  Each query
  of \<open>inspect\<close> has its definition \<open>apply_...\<close>, the effect of the answer on the snapshot;
  \<open>backend_inspect\<close> starts the commands in the order of the code and returns early where the
  code does.
\<close>

section \<open>Interpreting the answers\<close>

datatype collection_depth = Landing | Complete

definition command_responded :: "command_result \<Rightarrow> bool" where
  "command_responded r \<longleftrightarrow> 0 \<le> exit_code r"

definition known_enablement_states :: "string list" where
  "known_enablement_states =
     [''enabled'', ''enabled-runtime'', ''disabled'', ''masked'', ''static'',
      ''indirect'', ''generated'', ''transient'', ''linked'', ''linked-runtime'']"

text \<open>The status and the value left in the reference parameter \<open>enabled\<close>.\<close>

definition parse_service_enablement :: "command_result \<Rightarrow> observation_status \<times> bool" where
  "parse_service_enablement r =
     (if \<not> command_responded r then (Unavailable, False)
      else case words (stdout_text r) of [] \<Rightarrow> (Partial, False)
        | w # _ \<Rightarrow>
          (if w \<notin> set known_enablement_states then (Partial, False)
           else (Available, w = ''enabled'' \<or> w = ''enabled-runtime'')))"

definition known_log_denied_value :: "string \<Rightarrow> bool" where
  "known_log_denied_value v \<longleftrightarrow>
     v \<in> set [''off'', ''all'', ''unicast'', ''broadcast'', ''multicast'']"

definition has_recognized_zone_details :: "zone_map \<Rightarrow> bool" where
  "has_recognized_zone_details zones =
     list_ex (\<lambda>e. zone_details_valid (snd e) \<and> zone_target (snd e) \<noteq> []) zones"

definition firewalld_cmd :: "'w runner \<Rightarrow> string list \<Rightarrow> ('w, command_result) state" where
  "firewalld_cmd R args = run R (''firewall-cmd'' # args)"

definition push_error :: "string \<Rightarrow> firewall_state \<Rightarrow> firewall_state" where
  "push_error e st = st\<lparr>fw_errors := fw_errors st @ [e]\<rparr>"

definition status_of :: "bool \<Rightarrow> observation_status" where
  "status_of b = (if b then Available else Unavailable)"

section \<open>The effect of each query\<close>

definition apply_version :: "command_result \<Rightarrow> firewall_state \<Rightarrow> firewall_state" where
  "apply_version version st =
     (let st1 = st\<lparr>fw_installed := success version,
                   installation_status := status_of (success version)\<rparr>
      in if \<not> success version
         then push_error (''firewall-cmd unavailable: '' @ stderr_text version) st1 else st1)"

definition apply_service ::
  "command_result \<Rightarrow> command_result \<Rightarrow> firewall_state \<Rightarrow> firewall_state" where
  "apply_service running enabled st =
     (let ws = words (stdout_text running);
          active = (success running \<and> ws = [''running'']);
          explicitly_inactive = (ws = [''not'', ''running'']);
          (enablement, is_enabled) = parse_service_enablement enabled;
          st1 = st\<lparr>fw_active := active,
                   service_state := status_of (active \<or> explicitly_inactive),
                   service_enablement := enablement, fw_enabled := is_enabled\<rparr>
      in if \<not> active
         then push_error
                (if observation_available (service_state st1) then ''firewalld is not active''
                 else ''could not determine whether firewalld is active: '' @ stderr_text running) st1
         else st1)"

definition apply_panic :: "command_result \<Rightarrow> firewall_state \<Rightarrow> firewall_state" where
  "apply_panic panic st =
     (let st1 = st\<lparr>panic_state := status_of (exit_code panic = 0 \<or> exit_code panic = 1),
                   fw_panic := (exit_code panic = 0)\<rparr>
      in if \<not> observation_available (panic_state st1)
         then push_error (''could not query panic mode: '' @ stderr_text panic) st1 else st1)"

definition apply_config_check :: "command_result \<Rightarrow> firewall_state \<Rightarrow> firewall_state" where
  "apply_config_check check st =
     (let st1 = st\<lparr>permanent_config_checked := command_responded check,
                   permanent_config := status_of (command_responded check),
                   permanent_config_valid := success check\<rparr>
      in if \<not> success check
         then push_error (''permanent configuration check failed: '' @ stderr_text check) st1
         else st1)"

definition apply_log_denied :: "command_result \<Rightarrow> firewall_state \<Rightarrow> firewall_state" where
  "apply_log_denied r st =
     (if success r then
        (case words (stdout_text r) of
           [v] \<Rightarrow>
             if known_log_denied_value v
             then st\<lparr>log_denied := v, denied_logging_status := Available\<rparr>
             else push_error ''denied-packet logging query returned no value''
                    (st\<lparr>denied_logging_status := Partial\<rparr>)
         | _ \<Rightarrow> push_error ''denied-packet logging query returned no value''
                 (st\<lparr>denied_logging_status := Partial\<rparr>))
      else push_error (''could not read denied-packet logging setting: '' @ stderr_text r) st)"

definition apply_default_zone :: "command_result \<Rightarrow> firewall_state \<Rightarrow> firewall_state" where
  "apply_default_zone r st =
     (if success r then
        (case words (stdout_text r) of
           [v] \<Rightarrow> st\<lparr>default_zone := v, default_zone_status := Available\<rparr>
         | _ \<Rightarrow> push_error ''default-zone query returned no value''
                 (st\<lparr>default_zone_status := Partial\<rparr>))
      else push_error (''could not determine default zone: '' @ stderr_text r) st)"

definition apply_active_zones :: "command_result \<Rightarrow> firewall_state \<Rightarrow> firewall_state" where
  "apply_active_zones r st =
     (if success r then
        let interfaces = parse_active_zones (stdout_text r);
            sources = parse_active_zone_sources (stdout_text r);
            st1 = st\<lparr>active_zone_interfaces := interfaces, active_zone_sources := sources,
                     active_zones_status :=
                       (if trim_copy (stdout_text r) = [] \<or> interfaces \<noteq> [] \<or> sources \<noteq> []
                        then Available else Partial)\<rparr>
        in if \<not> observation_available (active_zones_status st1)
           then push_error ''active-zone query returned unrecognized output'' st1 else st1
      else push_error (''could not list active zones: '' @ stderr_text r) st)"

definition apply_runtime_zones :: "command_result \<Rightarrow> firewall_state \<Rightarrow> firewall_state" where
  "apply_runtime_zones r st =
     (if success r then
        let zones = parse_all_zone_info (stdout_text r);
            st1 = st\<lparr>runtime_zones := zones,
                     runtime_zones_status :=
                       (if has_recognized_zone_details zones then Available else Partial)\<rparr>
        in if \<not> observation_available (runtime_zones_status st1)
           then push_error ''runtime-zone query returned no recognized zones'' st1 else st1
      else push_error (''could not inspect runtime zones: '' @ stderr_text r) st)"

definition apply_permanent_zones :: "command_result \<Rightarrow> firewall_state \<Rightarrow> firewall_state" where
  "apply_permanent_zones r st =
     (if success r then
        let zones = parse_all_zone_info (stdout_text r);
            st1 = st\<lparr>permanent_zones := zones,
                     permanent_zones_status :=
                       (if has_recognized_zone_details zones then Available else Partial)\<rparr>
        in if \<not> observation_available (permanent_zones_status st1)
           then push_error ''permanent-zone query returned no recognized zones'' st1 else st1
      else push_error (''could not inspect permanent zones: '' @ stderr_text r) st)"

definition apply_policies :: "command_result \<Rightarrow> firewall_state \<Rightarrow> firewall_state" where
  "apply_policies r st =
     (if success r then
        let policies = parse_active_policy_names (stdout_text r);
            st1 = st\<lparr>active_policies := policies,
                     active_policies_status :=
                       (if trim_copy (stdout_text r) = [] \<or> policies \<noteq> []
                        then Available else Partial)\<rparr>
        in if \<not> observation_available (active_policies_status st1)
           then push_error ''active-policy query returned unrecognized output'' st1 else st1
      else push_error (''could not list active policies: '' @ stderr_text r) st)"

definition check_default_zone :: "firewall_state \<Rightarrow> firewall_state" where
  "check_default_zone st =
     (if observation_available (default_zone_status st) \<and>
         observation_available (runtime_zones_status st) \<and>
         \<not> map_contains (runtime_zones st) (default_zone st)
      then push_error ''default zone is absent from runtime-zone output''
             (st\<lparr>default_zone_status := Partial\<rparr>)
      else st)"

section \<open>The collection\<close>

definition inspect_zones :: "'w runner \<Rightarrow> firewall_state \<Rightarrow> ('w, firewall_state) state" where
  "inspect_zones R st = do {
     panic \<leftarrow> firewalld_cmd R [''--query-panic''];
     config_check \<leftarrow> firewalld_cmd R [''--check-config''];
     denied \<leftarrow> firewalld_cmd R [''--get-log-denied''];
     def_zone \<leftarrow> firewalld_cmd R [''--get-default-zone''];
     active_zones \<leftarrow> firewalld_cmd R [''--get-active-zones''];
     runtime \<leftarrow> firewalld_cmd R [''--list-all-zones''];
     State_Monad.return
       (apply_runtime_zones runtime (apply_active_zones active_zones
         (apply_default_zone def_zone (apply_log_denied denied
           (apply_config_check config_check (apply_panic panic st))))))
   }"

definition inspect_permanent :: "'w runner \<Rightarrow> firewall_state \<Rightarrow> ('w, firewall_state) state" where
  "inspect_permanent R st = do {
     permanent \<leftarrow> firewalld_cmd R [''--permanent'', ''--list-all-zones''];
     policies \<leftarrow> firewalld_cmd R [''--get-active-policies''];
     State_Monad.return (apply_policies policies (apply_permanent_zones permanent st))
   }"

definition backend_inspect :: "'w runner \<Rightarrow> collection_depth \<Rightarrow> ('w, firewall_state) state" where
  "backend_inspect R depth = do {
     version \<leftarrow> firewalld_cmd R [''--version''];
     let st1 = apply_version version default_firewall_state;
     if \<not> fw_installed st1 then State_Monad.return st1
     else do {
       running \<leftarrow> firewalld_cmd R [''--state''];
       enabled \<leftarrow> run R [''systemctl'', ''is-enabled'', ''firewalld.service''];
       let st2 = apply_service running enabled st1;
       if \<not> fw_active st2 then State_Monad.return st2
       else do {
         st3 \<leftarrow> inspect_zones R st2;
         st4 \<leftarrow> (if depth = Complete then inspect_permanent R st3 else State_Monad.return st3);
         State_Monad.return (check_default_zone st4)
       }
     }
   }"

section \<open>What a snapshot guarantees\<close>

lemmas apply_defs = apply_version_def apply_service_def apply_panic_def apply_config_check_def
  apply_log_denied_def apply_default_zone_def apply_active_zones_def apply_runtime_zones_def
  apply_permanent_zones_def apply_policies_def check_default_zone_def

lemma fst_return [simp]: "fst (run_state (State_Monad.return x) w) = x"
  by simp

text \<open>
  The invariant of every step: the collections are maps, and a value that is marked
  available is one the code recognised.
\<close>

definition backend_wf :: "firewall_state \<Rightarrow> bool" where
  "backend_wf st \<longleftrightarrow>
     map_wf (active_zone_interfaces st) \<and> map_wf (active_zone_sources st) \<and>
     map_wf (runtime_zones st) \<and> map_wf (permanent_zones st) \<and>
     (default_zone_status st = Available \<longrightarrow> default_zone st \<noteq> []) \<and>
     (denied_logging_status st = Available \<longrightarrow> known_log_denied_value (log_denied st)) \<and>
     (runtime_zones_status st = Available \<longrightarrow> has_recognized_zone_details (runtime_zones st)) \<and>
     (permanent_zones_status st = Available \<longrightarrow> has_recognized_zone_details (permanent_zones st)) \<and>
     (fw_active st \<longrightarrow> fw_installed st \<and> service_state st = Available) \<and>
     (fw_panic st \<longrightarrow> panic_state st = Available)"

lemma words_singleton_nonempty: "words s = [w] \<Longrightarrow> w \<noteq> []"
  using words_elem[of w s] by simp

lemma backend_wf_default: "backend_wf default_firewall_state"
  by (simp add: backend_wf_def default_firewall_state_def)

lemma backend_wf_version:
  "backend_wf (apply_version r default_firewall_state)"
  by (simp add: backend_wf_def apply_version_def push_error_def default_firewall_state_def Let_def)

lemma backend_wf_service:
  "backend_wf st \<Longrightarrow> fw_installed st \<Longrightarrow> backend_wf (apply_service r e st)"
  by (simp add: backend_wf_def apply_service_def push_error_def status_of_def
      Let_def split_def)

lemma backend_wf_panic: "backend_wf st \<Longrightarrow> backend_wf (apply_panic r st)"
  by (simp add: backend_wf_def apply_panic_def push_error_def status_of_def Let_def)

lemma backend_wf_config_check: "backend_wf st \<Longrightarrow> backend_wf (apply_config_check r st)"
  by (simp add: backend_wf_def apply_config_check_def push_error_def Let_def)

lemma backend_wf_log_denied: "backend_wf st \<Longrightarrow> backend_wf (apply_log_denied r st)"
  by (auto simp: backend_wf_def apply_log_denied_def push_error_def split: list.splits)

lemma backend_wf_default_zone: "backend_wf st \<Longrightarrow> backend_wf (apply_default_zone r st)"
  by (auto simp: backend_wf_def apply_default_zone_def push_error_def words_singleton_nonempty
      split: list.splits)

lemma backend_wf_active_zones: "backend_wf st \<Longrightarrow> backend_wf (apply_active_zones r st)"
  by (simp add: backend_wf_def apply_active_zones_def push_error_def Let_def)

lemma backend_wf_runtime_zones: "backend_wf st \<Longrightarrow> backend_wf (apply_runtime_zones r st)"
  by (simp add: backend_wf_def apply_runtime_zones_def push_error_def Let_def)

lemma backend_wf_permanent_zones: "backend_wf st \<Longrightarrow> backend_wf (apply_permanent_zones r st)"
  by (simp add: backend_wf_def apply_permanent_zones_def push_error_def Let_def)

lemma backend_wf_policies: "backend_wf st \<Longrightarrow> backend_wf (apply_policies r st)"
  by (simp add: backend_wf_def apply_policies_def push_error_def Let_def)

lemma backend_wf_check_default_zone: "backend_wf st \<Longrightarrow> backend_wf (check_default_zone st)"
  by (simp add: backend_wf_def check_default_zone_def push_error_def)

lemmas backend_wf_steps = backend_wf_panic backend_wf_config_check backend_wf_log_denied
  backend_wf_default_zone backend_wf_active_zones backend_wf_runtime_zones
  backend_wf_permanent_zones backend_wf_policies backend_wf_check_default_zone

lemma inspect_zones_wf: "backend_wf st \<Longrightarrow> backend_wf (fst (run_state (inspect_zones R st) w))"
  by (simp add: inspect_zones_def split_def backend_wf_steps)

lemma inspect_permanent_wf:
  "backend_wf st \<Longrightarrow> backend_wf (fst (run_state (inspect_permanent R st) w))"
  by (simp add: inspect_permanent_def split_def backend_wf_steps)

text \<open>The rule by which a fact of the collected state follows from the steps.\<close>

lemma backend_inspect_cases:
  assumes "\<And>r. \<not> fw_installed (apply_version r default_firewall_state) \<Longrightarrow>
             P (apply_version r default_firewall_state)"
    and "\<And>r s e. \<lbrakk> fw_installed (apply_version r default_firewall_state);
           \<not> fw_active (apply_service s e (apply_version r default_firewall_state)) \<rbrakk> \<Longrightarrow>
             P (apply_service s e (apply_version r default_firewall_state))"
    and "\<And>r s e w. \<lbrakk> fw_installed (apply_version r default_firewall_state);
           fw_active (apply_service s e (apply_version r default_firewall_state));
           depth = Landing \<rbrakk> \<Longrightarrow>
             P (check_default_zone (fst (run_state (inspect_zones R
                  (apply_service s e (apply_version r default_firewall_state))) w)))"
    and "\<And>r s e w w'. \<lbrakk> fw_installed (apply_version r default_firewall_state);
           fw_active (apply_service s e (apply_version r default_firewall_state));
           depth = Complete \<rbrakk> \<Longrightarrow>
             P (check_default_zone (fst (run_state (inspect_permanent R
                  (fst (run_state (inspect_zones R
                     (apply_service s e (apply_version r default_firewall_state))) w))) w')))"
  shows "P (fst (run_state (backend_inspect R depth) w))"
  using assms by (cases depth) (simp_all add: backend_inspect_def split_def Let_def)

lemma backend_inspect_wf: "backend_wf (fst (run_state (backend_inspect R depth) w))"
  by (rule backend_inspect_cases)
    (intro backend_wf_check_default_zone inspect_permanent_wf inspect_zones_wf
      backend_wf_service backend_wf_version; assumption)+

section \<open>Evidence is not lost silently\<close>

text \<open>
  What an error-free snapshot must have observed.  Each step keeps the earlier
  observations and, if it adds no error, makes its own.
\<close>

definition zones_observed :: "firewall_state \<Rightarrow> bool" where
  "zones_observed st \<longleftrightarrow>
     panic_state st = Available \<and> permanent_config st = Available \<and> permanent_config_valid st \<and>
     denied_logging_status st = Available \<and> default_zone_status st = Available \<and>
     active_zones_status st = Available \<and> runtime_zones_status st = Available"

lemma quiet_panic:
  "fw_errors (apply_panic r st) = [] \<Longrightarrow>
     fw_errors st = [] \<and> panic_state (apply_panic r st) = Available"
  by (auto simp: apply_panic_def push_error_def observation_available_def Let_def split: if_splits)

lemma quiet_config_check:
  "fw_errors (apply_config_check r st) = [] \<Longrightarrow>
     fw_errors st = [] \<and> permanent_config (apply_config_check r st) = Available \<and>
     permanent_config_valid (apply_config_check r st)"
  by (auto simp: apply_config_check_def push_error_def success_def command_responded_def
      status_of_def Let_def split: if_splits)

lemma quiet_log_denied:
  "fw_errors (apply_log_denied r st) = [] \<Longrightarrow>
     fw_errors st = [] \<and> denied_logging_status (apply_log_denied r st) = Available"
  by (auto simp: apply_log_denied_def push_error_def split: if_splits list.splits)

lemma quiet_default_zone:
  "fw_errors (apply_default_zone r st) = [] \<Longrightarrow>
     fw_errors st = [] \<and> default_zone_status (apply_default_zone r st) = Available"
  by (auto simp: apply_default_zone_def push_error_def split: if_splits list.splits)

lemma quiet_active_zones:
  "fw_errors (apply_active_zones r st) = [] \<Longrightarrow>
     fw_errors st = [] \<and> active_zones_status (apply_active_zones r st) = Available"
  by (auto simp: apply_active_zones_def push_error_def observation_available_def Let_def
      split: if_splits)

lemma quiet_runtime_zones:
  "fw_errors (apply_runtime_zones r st) = [] \<Longrightarrow>
     fw_errors st = [] \<and> runtime_zones_status (apply_runtime_zones r st) = Available"
  by (auto simp: apply_runtime_zones_def push_error_def observation_available_def Let_def
      split: if_splits)

lemma quiet_permanent_zones:
  "fw_errors (apply_permanent_zones r st) = [] \<Longrightarrow>
     fw_errors st = [] \<and> permanent_zones_status (apply_permanent_zones r st) = Available"
  by (auto simp: apply_permanent_zones_def push_error_def observation_available_def Let_def
      split: if_splits)

lemma quiet_policies:
  "fw_errors (apply_policies r st) = [] \<Longrightarrow>
     fw_errors st = [] \<and> active_policies_status (apply_policies r st) = Available"
  by (auto simp: apply_policies_def push_error_def observation_available_def Let_def
      split: if_splits)

lemma quiet_check_default_zone:
  "fw_errors (check_default_zone st) = [] \<Longrightarrow>
     fw_errors st = [] \<and> check_default_zone st = st \<and>
     (default_zone_status st = Available \<and> runtime_zones_status st = Available \<longrightarrow>
        map_contains (runtime_zones st) (default_zone st))"
  by (auto simp: check_default_zone_def push_error_def observation_available_def split: if_splits)

text \<open>The later steps do not touch what the earlier ones observed.\<close>

lemma frame_config_check [simp]:
  "panic_state (apply_config_check r st) = panic_state st"
  by (simp add: apply_config_check_def push_error_def Let_def)

lemma frame_log_denied [simp]:
  "panic_state (apply_log_denied r st) = panic_state st"
  "permanent_config (apply_log_denied r st) = permanent_config st"
  "permanent_config_valid (apply_log_denied r st) = permanent_config_valid st"
  by (auto simp: apply_log_denied_def push_error_def split: list.split)

lemma frame_default_zone [simp]:
  "panic_state (apply_default_zone r st) = panic_state st"
  "permanent_config (apply_default_zone r st) = permanent_config st"
  "permanent_config_valid (apply_default_zone r st) = permanent_config_valid st"
  "denied_logging_status (apply_default_zone r st) = denied_logging_status st"
  by (auto simp: apply_default_zone_def push_error_def split: list.split)

lemma frame_active_zones [simp]:
  "panic_state (apply_active_zones r st) = panic_state st"
  "permanent_config (apply_active_zones r st) = permanent_config st"
  "permanent_config_valid (apply_active_zones r st) = permanent_config_valid st"
  "denied_logging_status (apply_active_zones r st) = denied_logging_status st"
  "default_zone_status (apply_active_zones r st) = default_zone_status st"
  by (simp_all add: apply_active_zones_def push_error_def Let_def)

lemma frame_runtime_zones [simp]:
  "panic_state (apply_runtime_zones r st) = panic_state st"
  "permanent_config (apply_runtime_zones r st) = permanent_config st"
  "permanent_config_valid (apply_runtime_zones r st) = permanent_config_valid st"
  "denied_logging_status (apply_runtime_zones r st) = denied_logging_status st"
  "default_zone_status (apply_runtime_zones r st) = default_zone_status st"
  "active_zones_status (apply_runtime_zones r st) = active_zones_status st"
  by (simp_all add: apply_runtime_zones_def push_error_def Let_def)

lemma frame_permanent_zones [simp]:
  "zones_observed (apply_permanent_zones r st) = zones_observed st"
  by (simp add: zones_observed_def apply_permanent_zones_def push_error_def Let_def)

lemma frame_policies [simp]:
  "zones_observed (apply_policies r st) = zones_observed st"
  "permanent_zones_status (apply_policies r st) = permanent_zones_status st"
  by (simp_all add: zones_observed_def apply_policies_def push_error_def Let_def)

lemma quiet_inspect_zones:
  assumes "fw_errors (fst (run_state (inspect_zones R st) w)) = []"
  shows "fw_errors st = [] \<and> zones_observed (fst (run_state (inspect_zones R st) w))"
  using assms unfolding inspect_zones_def zones_observed_def
  by (auto simp: split_def dest!: quiet_panic quiet_config_check quiet_log_denied
      quiet_default_zone quiet_active_zones quiet_runtime_zones)

lemma quiet_inspect_permanent:
  assumes "fw_errors (fst (run_state (inspect_permanent R st) w)) = []"
  shows "fw_errors st = [] \<and>
    zones_observed (fst (run_state (inspect_permanent R st) w)) = zones_observed st \<and>
    permanent_zones_status (fst (run_state (inspect_permanent R st) w)) = Available \<and>
    active_policies_status (fst (run_state (inspect_permanent R st) w)) = Available"
  using assms unfolding inspect_permanent_def
  by (auto simp: split_def dest!: quiet_permanent_zones quiet_policies)

definition fully_observed :: "collection_depth \<Rightarrow> firewall_state \<Rightarrow> bool" where
  "fully_observed depth st \<longleftrightarrow>
     zones_observed st \<and> map_contains (runtime_zones st) (default_zone st) \<and>
     (depth = Complete \<longrightarrow>
        permanent_zones_status st = Available \<and> active_policies_status st = Available)"

lemma inactive_errors:
  "\<not> fw_installed (apply_version r st) \<Longrightarrow> fw_errors (apply_version r st) \<noteq> []"
  "\<not> fw_active (apply_service s e st) \<Longrightarrow> fw_errors (apply_service s e st) \<noteq> []"
  by (auto simp: apply_version_def apply_service_def push_error_def Let_def split_def)

lemma quiet_final:
  assumes "fw_errors (check_default_zone st) = []"
    and "fw_errors st = [] \<Longrightarrow> zones_observed st \<and>
           (depth = Complete \<longrightarrow>
              permanent_zones_status st = Available \<and> active_policies_status st = Available)"
  shows "fully_observed depth (check_default_zone st)"
  using quiet_check_default_zone[OF assms(1)] assms(2)
  by (auto simp: fully_observed_def zones_observed_def)

lemma backend_inspect_quiet:
  "fw_errors (fst (run_state (backend_inspect R depth) w)) = [] \<Longrightarrow>
     fully_observed depth (fst (run_state (backend_inspect R depth) w))"
proof (rule backend_inspect_cases[where R = R and depth = depth and
      P = "\<lambda>st. fw_errors st = [] \<longrightarrow> fully_observed depth st", THEN mp], goal_cases)
  case (3 r s e w)
  then show ?case by (intro impI quiet_final) (auto dest: quiet_inspect_zones)
next
  case (4 r s e w w')
  then show ?case
    by (intro impI quiet_final) (auto dest!: quiet_inspect_permanent quiet_inspect_zones)
qed (simp_all add: inactive_errors)

section \<open>Commands\<close>

context landing_host
begin

lemma firewalld_cmd_keeps:
  "landing_query (firewalld_query options) \<Longrightarrow> keeps I (firewalld_cmd R options)"
  using landing_keeps by (simp add: firewalld_cmd_def firewalld_query_def)

lemma inspect_zones_keeps: "keeps I (inspect_zones R st)"
  unfolding inspect_zones_def
  by (intro keeps_intro firewalld_cmd_keeps) (simp_all add: query_defs)

lemma backend_landing_keeps: "keeps I (backend_inspect R Landing)"
  unfolding backend_inspect_def
  by (intro keeps_intro firewalld_cmd_keeps inspect_zones_keeps landing_keeps)
    (simp_all add: query_defs)

end

context local_host
begin

lemma inspect_permanent_keeps: "keeps I (inspect_permanent R st)"
  unfolding inspect_permanent_def firewalld_cmd_def
  by (intro keeps_intro complete_keeps) (simp_all add: query_defs)

lemma backend_inspect_keeps: "keeps I (backend_inspect R depth)"
  unfolding backend_inspect_def
  by (intro keeps_intro firewalld_cmd_keeps inspect_zones_keeps inspect_permanent_keeps
      landing_keeps) (simp_all add: query_defs)

end

end
