(* ===== verification/PostureInspector.thy ===== *)
theory PostureInspector
  imports FirewalldBackend
begin

text \<open>
  \<open>src/firewall/posture_inspector.cpp\<close>: the independent inspectors composed into one
  snapshot, with the notices on missing evidence.
\<close>

definition apply_mode :: "mode_load_result \<Rightarrow> firewall_state \<Rightarrow> firewall_state" where
  "apply_mode r st = st\<lparr>fw_operating_mode := loaded_mode r, operating_mode_status := load_status r,
     operating_mode_diagnostic := load_diagnostic r\<rparr>"

definition downgrade_signals :: "security_signals_state \<Rightarrow> security_signals_state" where
  "downgrade_signals s =
     (let s1 = (if kernel_journal_status s = JournalAvailable
                then s\<lparr>kernel_journal_status := JournalPartial, kernel_journal_available := False\<rparr>
                else s)
      in if firewalld_journal_status s1 = JournalAvailable
         then s1\<lparr>firewalld_journal_status := JournalPartial, firewalld_journal_available := False\<rparr>
         else s1)"

definition journald_notice :: string where
  "journald_notice = ''journald service availability is not confirmed; journal signals '' @
     ''are treated as partial evidence''"

definition apply_evidence :: "evidence_quality_state \<Rightarrow> firewall_state \<Rightarrow> firewall_state" where
  "apply_evidence e st =
     (let st1 = st\<lparr>evidence_quality := e\<rparr>
      in if \<not> journald_service_available e
         then push_error journald_notice
                (st1\<lparr>security_signals := downgrade_signals (security_signals st1)\<rparr>)
         else st1)"

text \<open>The notices at the end of \<open>inspect\<close>, in their order.\<close>

definition notice :: "bool \<Rightarrow> string \<Rightarrow> string list" where
  "notice b e = (if b then [e] else [])"

definition notices :: "collection_depth \<Rightarrow> firewall_state \<Rightarrow> string list" where
  "notices depth st =
     notice (\<not> nm_available (network_manager st))
       (''NetworkManager device inventory unavailable: '' @ nm_diagnostic (network_manager st)) @
     notice (\<not> interface_scan_available (vpn st))
       (''VPN tunnel scan unavailable: '' @ vpn_diagnostic (vpn st)) @
     notice (\<not> sockets_available (sockets st))
       (''listener scan unavailable: '' @ sockets_diagnostic (sockets st)) @
     notice (operating_mode_status st = LoadInvalid) (operating_mode_diagnostic st) @
     notice (\<not> kernel_journal_available (security_signals st) \<and>
             \<not> firewalld_journal_available (security_signals st))
       (''security journal signals unavailable: '' @ signals_diagnostic (security_signals st)) @
     notice (depth = Complete \<and> (\<not> time_sync_status_available (evidence_quality st) \<or>
                                 \<not> journald_service_available (evidence_quality st)))
       (''evidence-quality check incomplete: '' @ evidence_diagnostic (evidence_quality st))"

definition availability_notices :: "collection_depth \<Rightarrow> firewall_state \<Rightarrow> firewall_state" where
  "availability_notices depth st = st\<lparr>fw_errors := fw_errors st @ notices depth st\<rparr>"

definition posture_inspect ::
  "'w runner \<Rightarrow> 'w mode_storage \<Rightarrow> collection_depth \<Rightarrow> ('w, firewall_state) state" where
  "posture_inspect R S depth = do {
     st \<leftarrow> backend_inspect R depth;
     mode \<leftarrow> mode_load S;
     tunnels \<leftarrow> vpn_inspect R;
     socks \<leftarrow> sockets_inspect R;
     signals \<leftarrow> signals_inspect R;
     nm \<leftarrow> nm_inspect R;
     let st1 = (apply_mode mode st)
                 \<lparr>vpn := tunnels, sockets := socks, security_signals := signals,
                  network_manager := nm\<rparr>;
     st2 \<leftarrow> (if depth = Complete
            then do { e \<leftarrow> evidence_inspect R; State_Monad.return (apply_evidence e st1) }
            else State_Monad.return st1);
     State_Monad.return (availability_notices depth st2)
   }"

section \<open>Facts of the composed snapshot\<close>

lemma notice_Nil [simp]: "notice b e = [] \<longleftrightarrow> \<not> b"
  by (simp add: notice_def)

lemma availability_notices_quiet:
  "fw_errors (availability_notices depth st) = [] \<longleftrightarrow>
     fw_errors st = [] \<and> nm_available (network_manager st) \<and>
     interface_scan_available (vpn st) \<and> sockets_available (sockets st) \<and>
     operating_mode_status st \<noteq> LoadInvalid \<and>
     (kernel_journal_available (security_signals st) \<or>
      firewalld_journal_available (security_signals st)) \<and>
     (depth = Complete \<longrightarrow> time_sync_status_available (evidence_quality st) \<and>
        journald_service_available (evidence_quality st))"
  by (auto simp: availability_notices_def notices_def)

lemma downgrade_signals_never_available:
  "kernel_journal_status (downgrade_signals s) \<noteq> JournalAvailable \<and>
   firewalld_journal_status (downgrade_signals s) \<noteq> JournalAvailable"
  by (simp add: downgrade_signals_def Let_def)

text \<open>
  The cross-inspector invariant: journal evidence counts as available only when the journald
  service itself was confirmed in a complete collection, and every status agrees with its flag.
\<close>

definition posture_signals_ok :: "collection_depth \<Rightarrow> firewall_state \<Rightarrow> bool" where
  "posture_signals_ok depth st \<longleftrightarrow>
     kernel_journal_available (security_signals st) =
       (kernel_journal_status (security_signals st) = JournalAvailable) \<and>
     firewalld_journal_available (security_signals st) =
       (firewalld_journal_status (security_signals st) = JournalAvailable) \<and>
     (depth = Complete \<and> (kernel_journal_available (security_signals st) \<or>
                         firewalld_journal_available (security_signals st)) \<longrightarrow>
        journald_service_available (evidence_quality st))"

lemma apply_evidence_ok:
  "signals_wf (security_signals st) \<Longrightarrow> posture_signals_ok depth (apply_evidence e st)"
  by (simp add: posture_signals_ok_def apply_evidence_def downgrade_signals_def push_error_def
      signals_wf_def Let_def)

lemma landing_signals_ok:
  "signals_wf (security_signals st) \<Longrightarrow> posture_signals_ok Landing st"
  by (simp add: posture_signals_ok_def signals_wf_def)

lemma posture_inspect_cases:
  assumes "\<And>w1 w2 mode tunnels socks nm. \<lbrakk> load_wf mode; depth = Landing \<rbrakk> \<Longrightarrow>
      P (availability_notices depth
           ((apply_mode mode (fst (run_state (backend_inspect R depth) w1)))
              \<lparr>vpn := tunnels, sockets := socks,
               security_signals := fst (run_state (signals_inspect R) w2),
               network_manager := nm\<rparr>))"
    and "\<And>w1 w2 mode tunnels socks nm e. \<lbrakk> load_wf mode; depth = Complete \<rbrakk> \<Longrightarrow>
      P (availability_notices depth (apply_evidence e
           ((apply_mode mode (fst (run_state (backend_inspect R depth) w1)))
              \<lparr>vpn := tunnels, sockets := socks,
               security_signals := fst (run_state (signals_inspect R) w2),
               network_manager := nm\<rparr>)))"
  shows "P (fst (run_state (posture_inspect R S depth) w))"
  using assms by (cases depth) (simp_all add: posture_inspect_def split_def Let_def mode_load_wf)

lemma posture_signals_ok_notices:
  "posture_signals_ok depth (availability_notices depth' st) = posture_signals_ok depth st"
  by (simp add: availability_notices_def posture_signals_ok_def)

lemma backend_wf_notices: "backend_wf (availability_notices depth st) = backend_wf st"
  by (simp add: availability_notices_def backend_wf_def)

lemma backend_wf_update:
  "backend_wf (st\<lparr>vpn := a, sockets := b, security_signals := c, network_manager := d\<rparr>) =
     backend_wf st"
  "backend_wf (apply_mode mode st) = backend_wf st"
  "backend_wf (apply_evidence e st) = backend_wf st"
  by (simp_all add: backend_wf_def apply_mode_def apply_evidence_def push_error_def Let_def)

lemma posture_inspect_signals_ok:
  "posture_signals_ok depth (fst (run_state (posture_inspect R S depth) w))"
  by (rule posture_inspect_cases)
    (simp_all add: posture_signals_ok_notices landing_signals_ok apply_evidence_ok
      signals_inspect_wf)

lemma posture_inspect_wf: "backend_wf (fst (run_state (posture_inspect R S depth) w))"
  by (rule posture_inspect_cases)
    (simp_all only: backend_wf_notices backend_wf_update backend_inspect_wf)

text \<open>A snapshot without collection issues rests on every source of evidence.\<close>

definition posture_observed :: "collection_depth \<Rightarrow> firewall_state \<Rightarrow> bool" where
  "posture_observed depth st \<longleftrightarrow>
     fully_observed depth st \<and> nm_available (network_manager st) \<and>
     interface_scan_available (vpn st) \<and> sockets_available (sockets st) \<and>
     operating_mode_status st \<noteq> LoadInvalid \<and>
     (kernel_journal_available (security_signals st) \<or>
      firewalld_journal_available (security_signals st)) \<and>
     (depth = Complete \<longrightarrow> time_sync_status_available (evidence_quality st) \<and>
        journald_service_available (evidence_quality st))"

lemma fully_observed_update:
  "fully_observed depth (st\<lparr>vpn := a, sockets := b, security_signals := c, network_manager := d\<rparr>) =
     fully_observed depth st"
  "fully_observed depth (apply_mode mode st) = fully_observed depth st"
  "fully_observed depth (apply_evidence e st) = fully_observed depth st"
  "fully_observed depth (availability_notices depth' st) = fully_observed depth st"
  by (simp_all add: fully_observed_def zones_observed_def apply_mode_def apply_evidence_def
      push_error_def availability_notices_def Let_def)

lemma errors_update:
  "fw_errors (st\<lparr>vpn := a, sockets := b, security_signals := c, network_manager := d\<rparr>) =
     fw_errors st"
  "fw_errors (apply_mode mode st) = fw_errors st"
  "fw_errors (apply_evidence e st) = [] \<Longrightarrow> fw_errors st = []"
  by (simp_all add: apply_mode_def apply_evidence_def push_error_def Let_def split: if_splits)

lemma posture_observedI:
  assumes "fw_errors (availability_notices depth st) = []" "fw_errors st = [] \<Longrightarrow> fully_observed depth st"
  shows "posture_observed depth (availability_notices depth st)"
proof -
  have q: "fw_errors st = []" and m: "posture_observed depth (st\<lparr>fw_errors := fw_errors st @ ns\<rparr>) = posture_observed depth st" for ns
    using assms(1)[unfolded availability_notices_quiet]
    by (simp_all add: posture_observed_def fully_observed_def zones_observed_def)
  have "posture_observed depth st"
    using assms(1)[unfolded availability_notices_quiet] assms(2)[OF q]
    by (simp add: posture_observed_def)
  then show ?thesis by (simp only: availability_notices_def m)
qed

lemma posture_inspect_quiet:
  "fw_errors (fst (run_state (posture_inspect R S depth) w)) = [] \<Longrightarrow>
     posture_observed depth (fst (run_state (posture_inspect R S depth) w))"
proof (rule posture_inspect_cases[where R = R and S = S and depth = depth and
      P = "\<lambda>st. fw_errors st = [] \<longrightarrow> posture_observed depth st", THEN mp], goal_cases)
  case 1
  show ?case
    by (intro impI posture_observedI)
      (simp_all only: fully_observed_update errors_update backend_inspect_quiet)
next
  case 2
  show ?case
    by (intro impI posture_observedI)
      (auto simp only: fully_observed_update errors_update(1,2) dest!: errors_update(3)
        intro!: backend_inspect_quiet)
qed

section \<open>Commands\<close>

text \<open>A host whose mode storage keeps the invariant too.\<close>

locale posture_host = landing_host +
  fixes S :: "'a mode_storage"
  assumes mode_load_keeps: "keeps I (mode_load S)"
begin

lemmas landing_parts_keep = vpn_inspect_keeps sockets_inspect_keeps signals_inspect_keeps
  nm_inspect_keeps mode_load_keeps

lemma posture_landing_keeps: "keeps I (posture_inspect R S Landing)"
  unfolding posture_inspect_def
  by (intro keeps_intro backend_landing_keeps landing_parts_keep) simp_all

end

locale complete_posture_host = posture_host + local_host
begin

lemma posture_inspect_keeps: "keeps I (posture_inspect R S depth)"
  unfolding posture_inspect_def
  by (intro keeps_intro backend_inspect_keeps landing_parts_keep evidence_inspect_keeps)

end

section \<open>Properties\<close>


definition replied :: "string \<Rightarrow> command_result" where
  "replied out = \<lparr>exit_code = 0, stdout_text = out, stderr_text = []\<rparr>"

definition example_answer :: "string list \<Rightarrow> command_result" where
  "example_answer args =
     (if args = [''firewall-cmd'', ''--state''] then replied ''running''
      else if args = [''systemctl'', ''is-enabled'', ''firewalld.service''] then replied ''enabled''
      else if args = [''firewall-cmd'', ''--get-log-denied''] then replied ''all''
      else if args = [''firewall-cmd'', ''--get-default-zone''] then replied ''drop''
      else if args = [''firewall-cmd'', ''--list-all-zones'']
      then replied (unlines [''drop'', ''  target: DROP''])
      else replied [])"

definition example_runner :: "unit runner" where
  "example_runner = \<lparr>run = (\<lambda>args. State_Monad.return (example_answer args)),
     run_with_input = (\<lambda>args input. State_Monad.return (example_answer args))\<rparr>"

definition example_storage :: "unit mode_storage" where
  "example_storage = \<lparr>secure_path = (\<lambda>create. State_Monad.return (''mode'', [])),
     path_exists = (\<lambda>p. State_Monad.return (Inr False)),
     read_private = (\<lambda>p. State_Monad.return (Inl ''unreadable'')),
     write_private = (\<lambda>p v. State_Monad.return (Inl ''read-only''))\<rparr>"


text \<open>Journal evidence counts as available only as far as it is complete: the flags agree
  with the query status, and in a complete collection neither journal is available unless
  the journald service was confirmed.\<close>

theorem posture_journal_evidence:
  "posture_signals_ok depth (fst (run_state (posture_inspect R S depth) w))"
  by (rule posture_inspect_signals_ok)

text \<open>Every snapshot is well formed: the zone collections are maps, and an observation that
  is marked available carries a value the collector recognised.\<close>

theorem posture_snapshot_wf:
  "backend_wf (fst (run_state (posture_inspect R S depth) w))"
  by (rule posture_inspect_wf)

end
