(* ===== verification/Services.thy ===== *)
theory Services
  imports NetworkDiagnostics NetworkHistory SecurityAdvisories LogAnalysis DashboardState PostureInspector
begin

text \<open>
  The objects that \<open>src/main.cpp\<close> constructs and hands by reference to the interactive
  session and the command executor: the collectors, the stores, the logger and the display.  A
  service is a computation on a state \<open>'s\<close> that stands for everything outside the program.

  The display is modelled by what it is asked to show, in order: \<open>display\<close> has one constructor for
  each method of \<open>OperationsDashboard\<close> and one for text written directly to the streams.
\<close>

section \<open>The display\<close>

datatype dashboard_menu =
    MainMenu | ReadinessMenu | MonitorMenu | FirewallMenu | NetworkMenu | EvidenceMenu
  | SettingsMenu | EmergencyMenu

datatype zone_view =
  AllView | InterfacesView | ServicesView | PortsView | RichRulesView | RoutingView | DriftView

datatype zone_scope = ActiveAndDefault | AllZones

datatype display =
    ShowStatus firewall_state
  | ShowOverview firewall_state
  | ShowListeners firewall_state
  | ShowThreatAssessment firewall_state
  | ShowNetworkMetadata network_metadata string
  | ShowNetworkHistory "string list" string
  | ShowNetworkDiagnostics network_diagnostics
  | ShowSecurityAdvisories security_advisory_report
  | ShowLogAnalysis log_analysis
  | ShowZones firewall_state string zone_view zone_scope
  | ShowReadiness firewall_state
  | ShowMenu dashboard_snapshot dashboard_menu bool
  | ShowDetailHeader dashboard_menu string string
  | ShowNavigationHelp dashboard_menu
  | ShowInvalidSelection
  | ShowUnavailable string
  | ShowGoodbye
  | PrintOut string
  | PrintError string

section \<open>The services\<close>

record 's services =
  svc_posture :: "collection_depth \<Rightarrow> ('s, firewall_state) state"
  svc_snapshot :: "firewall_state \<Rightarrow> 64 word \<Rightarrow> ('s, dashboard_snapshot) state"
  svc_capture :: "bool \<Rightarrow> bool \<Rightarrow> ('s, network_capture) state"
  svc_history :: "('s, saved_network_history) state"
  svc_diagnostics :: "bool \<Rightarrow> bool \<Rightarrow> ('s, network_diagnostics) state"
  svc_advisories :: "('s, security_advisory_report) state"
  svc_logs :: "('s, log_analysis) state"
  svc_record :: "log_event \<Rightarrow> ('s, bool) state"
  svc_display :: "display \<Rightarrow> ('s, unit) state"

text \<open>The events of the services, and services that write down each event before it happens.\<close>

datatype tool_event =
    VpnQuery | SocketQuery | KeySave string | ModeLoad | ModeSave operating_mode
  | TerminalQuery | TerminalChange | KeyRead

datatype event =
    PostureEvent collection_depth
  | CaptureEvent bool
  | HistoryEvent
  | DiagnosticsEvent bool bool
  | AdvisoriesEvent
  | LogsEvent
  | RecordEvent log_event
  | DisplayEvent display
  | ToolEvent tool_event

record 's observed =
  trace :: "event list"
  observed :: 's

definition observe :: "event list \<Rightarrow> ('s, 'a) state \<Rightarrow> ('s observed, 'a) state" where
  "observe es m = State (\<lambda>s.
     map_prod (\<lambda>x. x) (\<lambda>i. \<lparr>trace = trace s @ es, observed = i\<rparr>) (run_state m (observed s)))"

definition observing :: "'s services \<Rightarrow> 's observed services" where
  "observing S =
     \<lparr>svc_posture = (\<lambda>d. observe [PostureEvent d] (svc_posture S d)),
      svc_snapshot = (\<lambda>st i. observe [] (svc_snapshot S st i)),
      svc_capture = (\<lambda>e v. observe [CaptureEvent e] (svc_capture S e v)),
      svc_history = observe [HistoryEvent] (svc_history S),
      svc_diagnostics = (\<lambda>e a. observe [DiagnosticsEvent e a] (svc_diagnostics S e a)),
      svc_advisories = observe [AdvisoriesEvent] (svc_advisories S),
      svc_logs = observe [LogsEvent] (svc_logs S),
      svc_record = (\<lambda>ev. observe [RecordEvent ev] (svc_record S ev)),
      svc_display = (\<lambda>d. observe [DisplayEvent d] (svc_display S d))\<rparr>"

text \<open>The events that send traffic to other hosts.\<close>

fun external :: "event \<Rightarrow> bool" where
  "external (CaptureEvent e) = True"
| "external (DiagnosticsEvent e a) = True"
| "external AdvisoriesEvent = True"
| "external (PostureEvent d) = False"
| "external HistoryEvent = False"
| "external LogsEvent = False"
| "external (RecordEvent ev) = False"
| "external (DisplayEvent d) = False"
| "external (ToolEvent t) = False"

definition external_events :: "'s observed \<Rightarrow> event list" where
  "external_events s = filter external (trace s)"

section \<open>Computations that preserve a view of the state\<close>

definition preserves :: "('s \<Rightarrow> 'v) \<Rightarrow> ('s, 'a) state \<Rightarrow> bool" where
  "preserves f m \<longleftrightarrow> (\<forall>s. f (snd (run_state m s)) = f s)"

named_theorems preserves_intro \<open>computations that preserve a view of the state\<close>

lemma preserves_return [preserves_intro]: "preserves f (State_Monad.return x)"
  by (simp add: preserves_def)

lemma preserves_bind [preserves_intro]:
  "preserves f m \<Longrightarrow> (\<And>x. preserves f (g x)) \<Longrightarrow> preserves f (State_Monad.bind m g)"
  by (simp add: preserves_def split_def)

lemma preserves_if [preserves_intro]:
  "(b \<Longrightarrow> preserves f m) \<Longrightarrow> (\<not> b \<Longrightarrow> preserves f n) \<Longrightarrow> preserves f (if b then m else n)"
  by simp

lemma preserves_let [preserves_intro]: "(\<And>x. preserves f (g x)) \<Longrightarrow> preserves f (let x = t in g x)"
  by simp

lemma preservesD: "preserves f m \<Longrightarrow> f (snd (run_state m s)) = f s"
  by (simp add: preserves_def)

end
