(* ===== verification/CommandLine.thy ===== *)
theory CommandLine
  imports OperatingMode
begin

text \<open>\<open>src/app/command_line.cpp\<close>: the supported command lines and the names of their actions.\<close>

datatype command_action =
    Interactive | Help | Status | SnapshotJson | SnapshotJsonV2 | ReadinessAction | Listeners
  | ThreatAssessmentAction | NetworkDiagnosticsAction | SecurityAdvisoriesAction
  | NetworkMetadataAction | NetworkHistoryAction | LogAnalysisAction | ConfigureIpifyKey | Mode
  | Invalid

record command_line =
  cl_action :: command_action
  cl_enrich_metadata :: bool
  extended_diagnostics :: bool
  advanced_diagnostics :: bool
  mode_to_set :: "operating_mode option"

definition make_command :: "command_action \<Rightarrow> command_line" where
  "make_command a = \<lparr>cl_action = a, cl_enrich_metadata = False, extended_diagnostics = False,
     advanced_diagnostics = False, mode_to_set = None\<rparr>"

fun command_action_name :: "command_action \<Rightarrow> string" where
  "command_action_name Interactive = ''interactive''"
| "command_action_name Help = ''help''"
| "command_action_name Status = ''status''"
| "command_action_name SnapshotJson = ''snapshot-json''"
| "command_action_name SnapshotJsonV2 = ''snapshot-json-v2''"
| "command_action_name ReadinessAction = ''readiness''"
| "command_action_name Listeners = ''listeners''"
| "command_action_name ThreatAssessmentAction = ''threat-assessment''"
| "command_action_name NetworkDiagnosticsAction = ''network-diagnostics''"
| "command_action_name SecurityAdvisoriesAction = ''security-advisories''"
| "command_action_name NetworkMetadataAction = ''network-metadata''"
| "command_action_name NetworkHistoryAction = ''network-history''"
| "command_action_name LogAnalysisAction = ''log-analysis''"
| "command_action_name ConfigureIpifyKey = ''configure-ipify-key''"
| "command_action_name Mode = ''mode''"
| "command_action_name Invalid = ''invalid''"

definition parse_option :: "string \<Rightarrow> command_action" where
  "parse_option argument =
     (if argument = ''--help'' then Help
      else if argument = ''--status'' then Status
      else if argument = ''--snapshot-json'' then SnapshotJson
      else if argument = ''--snapshot-json-v2'' then SnapshotJsonV2
      else if argument = ''--readiness'' then ReadinessAction
      else if argument = ''--listeners'' then Listeners
      else if argument = ''--threat-assessment'' then ThreatAssessmentAction
      else if argument = ''--network-diagnostics'' then NetworkDiagnosticsAction
      else if argument = ''--security-advisories'' then SecurityAdvisoriesAction
      else if argument = ''--network-metadata'' then NetworkMetadataAction
      else if argument = ''--network-history'' then NetworkHistoryAction
      else if argument = ''--log-analysis'' then LogAnalysisAction
      else if argument = ''--configure-ipify-key'' then ConfigureIpifyKey
      else if argument = ''--mode'' then Mode
      else Invalid)"

definition parse_two :: "string \<Rightarrow> string \<Rightarrow> command_line" where
  "parse_two a b =
     (if a = ''--network-metadata'' \<and> b = ''--enrich''
      then (make_command NetworkMetadataAction)\<lparr>cl_enrich_metadata := True\<rparr>
      else if a = ''--network-diagnostics'' \<and> b = ''--extended''
      then (make_command NetworkDiagnosticsAction)\<lparr>extended_diagnostics := True\<rparr>
      else if a = ''--network-diagnostics'' \<and> b = ''--advanced''
      then (make_command NetworkDiagnosticsAction)
             \<lparr>extended_diagnostics := True, advanced_diagnostics := True\<rparr>
      else if a = ''--mode''
      then (case parse_operating_mode b of
              None \<Rightarrow> make_command Invalid
            | Some m \<Rightarrow> (make_command Mode)\<lparr>mode_to_set := Some m\<rparr>)
      else make_command Invalid)"

fun parse_command_line :: "string list \<Rightarrow> command_line" where
  "parse_command_line [] = make_command Interactive"
| "parse_command_line [a] = make_command (parse_option a)"
| "parse_command_line [a, b] = parse_two a b"
| "parse_command_line (a # b # c # rest) = make_command Invalid"

section \<open>Reading a command line back\<close>

text \<open>The arguments of a command; an invalid one has none.\<close>

definition option_of :: "command_action \<Rightarrow> string" where
  "option_of a = ''--'' @ command_action_name a"

definition command_arguments :: "command_line \<Rightarrow> string list option" where
  "command_arguments c =
     (if cl_action c = Invalid then None
      else if cl_action c = Interactive then Some []
      else Some (option_of (cl_action c) #
        (if cl_enrich_metadata c then [''--enrich'']
         else if advanced_diagnostics c then [''--advanced'']
         else if extended_diagnostics c then [''--extended'']
         else case mode_to_set c of None \<Rightarrow> [] | Some m \<Rightarrow> [mode_file_value m])))"

text \<open>A modifier belongs to its action only, and advanced diagnostics are extended ones.\<close>

definition command_wf :: "command_line \<Rightarrow> bool" where
  "command_wf c \<longleftrightarrow>
     (cl_enrich_metadata c \<longrightarrow> cl_action c = NetworkMetadataAction) \<and>
     (extended_diagnostics c \<longrightarrow> cl_action c = NetworkDiagnosticsAction) \<and>
     (advanced_diagnostics c \<longrightarrow> extended_diagnostics c) \<and>
     (mode_to_set c \<noteq> None \<longrightarrow> cl_action c = Mode)"

lemma parse_option_of: "a \<noteq> Interactive \<Longrightarrow> parse_option (option_of a) = a"
  by (cases a) (simp_all add: parse_option_def option_of_def)

lemma parse_option_not_interactive: "parse_option s \<noteq> Interactive"
  by (simp add: parse_option_def)

lemma option_of_parse: "parse_option s \<noteq> Invalid \<Longrightarrow> option_of (parse_option s) = s"
  by (auto simp: parse_option_def option_of_def split: if_splits)

lemma parse_two_wf: "command_wf (parse_two a b) \<and> cl_action (parse_two a b) \<noteq> Interactive"
  by (simp add: command_wf_def parse_two_def make_command_def split: option.split)

lemma parse_command_line_wf: "command_wf (parse_command_line args)"
  using parse_two_wf
  by (cases args rule: parse_command_line.cases) (simp_all add: command_wf_def make_command_def)

lemma parse_two_arguments:
  "cl_action (parse_two a b) \<noteq> Invalid \<Longrightarrow> command_arguments (parse_two a b) = Some [a, b]"
  by (auto simp: parse_two_def make_command_def command_arguments_def option_of_def
      parse_operating_mode_def mode_file_value_def split: option.splits if_splits)

lemma arguments_parse:
  assumes "cl_action (parse_command_line args) \<noteq> Invalid"
  shows "command_arguments (parse_command_line args) = Some args"
  using assms option_of_parse parse_option_not_interactive parse_two_arguments
  by (cases args rule: parse_command_line.cases) (auto simp: make_command_def command_arguments_def)

lemma parse_modifier:
  "parse_two (option_of NetworkMetadataAction) ''--enrich'' = (make_command NetworkMetadataAction)\<lparr>cl_enrich_metadata := True\<rparr>"
  "parse_two (option_of NetworkDiagnosticsAction) ''--extended'' =
     (make_command NetworkDiagnosticsAction)\<lparr>extended_diagnostics := True\<rparr>"
  "parse_two (option_of NetworkDiagnosticsAction) ''--advanced'' =
     (make_command NetworkDiagnosticsAction)\<lparr>extended_diagnostics := True, advanced_diagnostics := True\<rparr>"
  "parse_two (option_of Mode) (mode_file_value m) = (make_command Mode)\<lparr>mode_to_set := Some m\<rparr>"
  by (simp_all add: parse_two_def option_of_def)

lemma parse_arguments:
  assumes "command_wf c" "command_arguments c = Some args"
  shows "parse_command_line args = c"
proof -
  obtain a e x v m where c: "c = \<lparr>cl_action = a, cl_enrich_metadata = e, extended_diagnostics = x,
      advanced_diagnostics = v, mode_to_set = m\<rparr>" by (cases c)
  consider "a = Interactive" | "a \<noteq> Interactive" "\<not> e" "\<not> x" "\<not> v" "m = None"
    | "e" | "\<not> e" "x" "v" | "\<not> e" "x" "\<not> v" | k where "m = Some k" "\<not> e" "\<not> x" "\<not> v"
    using assms(1) by (auto simp: c command_wf_def)
  then show ?thesis
    using assms parse_option_of[of a]
    by cases (auto simp: c command_arguments_def command_wf_def make_command_def parse_modifier
        split: if_splits)
qed

section \<open>Properties\<close>

text \<open>C37: Command lines are unambiguous: a command line is accepted and read as a command exactly when
  it is the arguments of that command, with a modifier only where it belongs, so nothing on
  an accepted line is ignored and every well-formed command can be given.\<close>

theorem command_line_round_trip:
  "parse_command_line args = c \<and> cl_action c \<noteq> Invalid \<longleftrightarrow>
   command_wf c \<and> command_arguments c = Some args"
  using parse_command_line_wf[of args] arguments_parse[of args] parse_arguments[of c args]
  by (auto simp: command_arguments_def)

end
