(* ===== verification/DashboardJson.thy ===== *)
theory DashboardJson
  imports DashboardState Json
begin

text \<open>
  \<open>src/ui/dashboard_json.cpp\<close> and the labels of \<open>src/ui/dashboard_json_support.hpp\<close>: the
  serializer of the first JSON contract, piece by piece in the order in which it writes, and
  the document it writes.
\<close>

abbreviation nl :: string where
  "nl \<equiv> [newline_char]"

section \<open>Labels\<close>

fun evidence_status :: "observation_status \<Rightarrow> string" where
  "evidence_status Available = ''available''"
| "evidence_status Partial = ''partial''"
| "evidence_status Unavailable = ''unavailable''"

fun risk_level :: "dashboard_risk \<Rightarrow> string" where
  "risk_level RiskReady = ''ready''"
| "risk_level RiskReview = ''review_required''"
| "risk_level RiskBlocked = ''blocked''"

fun readiness_name :: "defcon_readiness \<Rightarrow> string" where
  "readiness_name NotEvaluated = ''not_evaluated''"
| "readiness_name DefconReady = ''ready''"
| "readiness_name NotReady = ''not_ready''"

fun severity_name :: "finding_severity \<Rightarrow> string" where
  "severity_name Critical = ''critical''"
| "severity_name High = ''high''"
| "severity_name Medium = ''medium''"
| "severity_name Low = ''low''"
| "severity_name Information = ''information''"

fun category_name :: "finding_category \<Rightarrow> string" where
  "category_name Isolation = ''isolation''"
| "category_name FirewallFinding = ''firewall_failure''"
| "category_name ExposureFinding = ''firewall_exposure''"
| "category_name ListenerFinding = ''listener_exposure''"
| "category_name Change = ''configuration_change''"
| "category_name EvidenceGap = ''evidence_gap''"
| "category_name Hygiene = ''hygiene''"

fun destination_name :: "menu_destination \<Rightarrow> string" where
  "destination_name ToReadiness = ''readiness''"
| "destination_name ToSignals = ''signals''"
| "destination_name ToFirewall = ''firewall.active_openings''"
| "destination_name ToNetwork = ''network''"
| "destination_name ToEvidence = ''evidence''"
| "destination_name ToSettings = ''settings''"
| "destination_name ToEmergency = ''emergency''"

section \<open>Values\<close>

definition json_observation :: "observation_status \<Rightarrow> string" where
  "json_observation st = ''\"'' @ evidence_status st @ ''\"''"

definition json_bool :: "bool \<Rightarrow> observation_status \<Rightarrow> string" where
  "json_bool b st = (if st = Available then (if b then ''true'' else ''false'') else ''null'')"

definition json_count :: "nat \<Rightarrow> observation_status \<Rightarrow> string" where
  "json_count n st = (if st = Available then show_nat n else ''null'')"

definition json_string :: "string \<Rightarrow> observation_status \<Rightarrow> string" where
  "json_string v st = (if st = Available then ''\"'' @ escape v @ ''\"'' else ''null'')"

fun first_member :: "member_map \<Rightarrow> (string \<times> string) option" where
  "first_member [] = None"
| "first_member (e # m) =
     (case snd e of i # _ \<Rightarrow> Some (fst e, i) | [] \<Rightarrow> first_member m)"

definition active_interface :: "firewall_state \<Rightarrow> string" where
  "active_interface st =
     (case first_member (active_zone_interfaces st) of Some (zone, i) \<Rightarrow> i | None \<Rightarrow> [])"

definition active_zone :: "firewall_state \<Rightarrow> string" where
  "active_zone st =
     (case first_member (active_zone_interfaces st) of Some (zone, i) \<Rightarrow> zone
      | None \<Rightarrow> default_zone st)"

definition inventory_diagnostic :: "firewall_state \<Rightarrow> string" where
  "inventory_diagnostic st =
     (if nm_available (network_manager st)
      then ''profile and autoconnect inventory are not collected by this read-only snapshot''
      else nm_diagnostic (network_manager st))"

definition first_tunnel :: "firewall_state \<Rightarrow> string" where
  "first_tunnel st = (case active_tunnel_interfaces (vpn st) of [] \<Rightarrow> [] | t # _ \<Rightarrow> t)"

definition default_recommendation :: dashboard_recommendation where
  "default_recommendation = \<lparr>dr_severity = Information, dr_category = Hygiene,
     dr_finding_id = [], dr_summary = [], dr_destination = ToReadiness\<rparr>"

definition primary_recommendation :: "dashboard_snapshot \<Rightarrow> dashboard_recommendation" where
  "primary_recommendation s =
     (case recommendations s of [] \<Rightarrow> default_recommendation | r # _ \<Rightarrow> r)"

text \<open>The age in milliseconds at the time \<open>now\<close> of the steady clock.\<close>

definition snapshot_age :: "dashboard_snapshot \<Rightarrow> int \<Rightarrow> int" where
  "snapshot_age s now = (now - collected_monotonic s) sdiv 1000000"

section \<open>The text\<close>

definition v1_header :: "dashboard_snapshot \<Rightarrow> int \<Rightarrow> string" where
  "v1_header s now =
    (let st = ds_firewall s; age = snapshot_age s now in
     ''{'' @ nl @
     ''  \"schema\": \"ffc.dashboard.v1\",'' @ nl @
     ''  \"schema_version\": '' @ show_nat 1 @ '','' @ nl @
     ''  \"snapshot_id\": '' @ show_nat (unat (snapshot_id s)) @ '','' @ nl @
     ''  \"hostname\": \"'' @ escape (ds_hostname s) @ ''\",'' @ nl @
     ''  \"application_version\": \"'' @ escape (application_version s) @ ''\",'' @ nl @
     ''  \"collected_at\": \"'' @ iso_timestamp (collected_at s) @ ''\",'' @ nl @
     ''  \"age_ms\": '' @ show_nat (nat (if age < 0 then 0 else age)) @ '','' @ nl @
     ''  \"stale\": '' @ (if 30000 \<le> age then ''true'' else ''false'') @ '','' @ nl @
     ''  \"status\": '' @ json_observation (overall_evidence s) @ '','' @ nl @
     ''  \"assessment\": {\"mode\": \"'' @
     (if fw_operating_mode st = HostileNetwork then ''hostile'' else ''normal'') @
     ''\", \"defcon_readiness\": \"'' @ readiness_name (defcon_readiness s) @ ''\"},'' @ nl @
     ''  \"risk\": {\"level\": \"'' @ risk_level (risk s) @ ''\", \"blockers\": '' @
     show_nat (length (blockers s)) @ '', \"review_items\": '' @
     show_nat (length (review_items s)) @ '', \"coverage_gaps\": '' @
     show_nat (length (coverage_gaps s)) @ ''},'' @ nl)"

definition v1_firewall :: "firewall_state \<Rightarrow> string" where
  "v1_firewall st =
    (let e = active_exposure st in
     ''  \"firewall\": {\"active_status\": '' @ json_observation (service_state st) @
     '', \"active\": '' @ json_bool (fw_active st) (service_state st) @
     '', \"enabled_status\": '' @ json_observation (service_enablement st) @
     '', \"enabled\": '' @ json_bool (fw_enabled st) (service_enablement st) @
     '', \"default_zone_status\": '' @ json_observation (default_zone_status st) @
     '', \"default_zone\": '' @ json_string (default_zone st) (default_zone_status st) @
     '', \"policy_status\": '' @ json_observation (runtime_zones_status st) @
     '', \"inbound_port_rules\": '' @ json_count (ae_ports e) (runtime_zones_status st) @
     '', \"protocol_rules\": '' @ json_count (ae_protocols e) (runtime_zones_status st) @
     '', \"rich_rules\": '' @ json_count (ae_rich_rules e) (runtime_zones_status st) @
     '', \"intra_zone_forwarding\": '' @ json_bool (ae_forwarding e) (runtime_zones_status st) @
     ''},'' @ nl)"

definition v1_listeners :: "firewall_state \<Rightarrow> string" where
  "v1_listeners st =
     ''  \"listeners\": {\"status\": '' @
     json_observation (status_from (sockets_available (sockets st))) @
     '', \"tcp_udp_listeners\": '' @
     json_count (logical_network_services (summarize_listener_exposure (sockets st))) (status_from (sockets_available (sockets st))) @
     '', \"reachable_bindings\": '' @
     json_count (network_reachable_bindings (summarize_listener_exposure (sockets st))) (status_from (sockets_available (sockets st))) @
     ''},'' @ nl"

definition v1_network :: "firewall_state \<Rightarrow> string" where
  "v1_network st =
     ''  \"network\": {\"physical_interface\": '' @
     json_string (active_interface st) (active_zones_status st) @ '', \"zone\": '' @
     json_string (active_zone st) (active_zones_status st) @
     '', \"network_manager\": {\"device_inventory_status\": '' @
     json_observation (status_from (nm_available (network_manager st))) @
     '', \"profile_inventory_status\": \"unavailable\", \"profile\": null, \"autoconnect\": null, '' @
     ''\"diagnostic\": \"'' @ escape (inventory_diagnostic st) @ ''\"}'' @
     '', \"tunnel_detection\": {\"status\": '' @
     json_observation (status_from (interface_scan_available (vpn st))) @
     '', \"tunnel_interface\": '' @
     json_string (first_tunnel st) (status_from (interface_scan_available (vpn st))) @ ''}'' @
     '', \"vpn_route\": {\"status\": \"unavailable\", \"uses_tunnel\": null, \"diagnostic\": \"route '' @
     ''verification is not implemented\"}'' @
     '', \"dns_path\": {\"status\": \"unavailable\", \"uses_tunnel\": null, \"diagnostic\": \"DNS path '' @
     ''verification is not implemented\"}'' @
     '', \"kill_switch\": {\"status\": \"unavailable\", \"enabled\": null, \"diagnostic\": \"kill-switch '' @
     ''verification is not implemented\"}},'' @ nl"

definition v1_component :: "component_evidence \<Rightarrow> string" where
  "v1_component c =
     ''{\"component\":\"'' @ escape (ce_component c) @ ''\",\"status\":\"'' @
     evidence_status (ce_status c) @ ''\",\"detail\":\"'' @ escape (ce_detail c) @ ''\"}''"

definition v1_evidence :: "dashboard_snapshot \<Rightarrow> string" where
  "v1_evidence s =
     ''  \"evidence\": {\"status\": \"'' @ evidence_status (overall_evidence s) @
     ''\", \"components\": ['' @
     sep_join '','' (map v1_component (evidence_components s))"

definition v1_recommendation :: "dashboard_recommendation \<Rightarrow> string" where
  "v1_recommendation r =
     '']},'' @ nl @
     ''  \"recommendation\": {\"id\": \"'' @ escape (dr_finding_id r) @
     ''\", \"severity\": \"'' @ severity_name (dr_severity r) @ ''\", \"category\": \"'' @
     category_name (dr_category r) @ ''\", \"summary\": \"'' @ escape (dr_summary r) @
     ''\", \"destination\": \"'' @ destination_name (dr_destination r) @ ''\"}'' @ nl @
     ''}'' @ nl"

definition serialize_dashboard_snapshot_json :: "dashboard_snapshot \<Rightarrow> int \<Rightarrow> string" where
  "serialize_dashboard_snapshot_json s now =
     v1_header s now @ v1_firewall (ds_firewall s) @ v1_listeners (ds_firewall s) @
     v1_network (ds_firewall s) @ v1_evidence s @ v1_recommendation (primary_recommendation s)"

section \<open>The document of the contract\<close>

text \<open>What the first contract says: a value whose evidence is not available is \<open>null\<close>.\<close>

definition nullable :: "observation_status \<Rightarrow> jdoc \<Rightarrow> jdoc" where
  "nullable st d = (if st = Available then d else DNull)"

definition v1_firewall_doc :: "firewall_state \<Rightarrow> jdoc" where
  "v1_firewall_doc st =
     (let e = active_exposure st in DObject SpacedLayout
       [(''active_status'', DString (evidence_status (service_state st))),
        (''active'', nullable (service_state st) (DBool (fw_active st))),
        (''enabled_status'', DString (evidence_status (service_enablement st))),
        (''enabled'', nullable (service_enablement st) (DBool (fw_enabled st))),
        (''default_zone_status'', DString (evidence_status (default_zone_status st))),
        (''default_zone'', nullable (default_zone_status st) (DString (default_zone st))),
        (''policy_status'', DString (evidence_status (runtime_zones_status st))),
        (''inbound_port_rules'', nullable (runtime_zones_status st) (DNumber (ae_ports e))),
        (''protocol_rules'', nullable (runtime_zones_status st) (DNumber (ae_protocols e))),
        (''rich_rules'', nullable (runtime_zones_status st) (DNumber (ae_rich_rules e))),
        (''intra_zone_forwarding'', nullable (runtime_zones_status st) (DBool (ae_forwarding e)))])"

definition v1_listeners_doc :: "firewall_state \<Rightarrow> jdoc" where
  "v1_listeners_doc st =
     (let av = status_from (sockets_available (sockets st));
          e = summarize_listener_exposure (sockets st) in DObject SpacedLayout
       [(''status'', DString (evidence_status av)),
        (''tcp_udp_listeners'', nullable av (DNumber (logical_network_services e))),
        (''reachable_bindings'', nullable av (DNumber (network_reachable_bindings e)))])"

definition unverified_doc :: "layout \<Rightarrow> string \<Rightarrow> string \<Rightarrow> jdoc" where
  "unverified_doc l key diagnostic = DObject l
     [(''status'', DString ''unavailable''), (key, DNull), (''diagnostic'', DString diagnostic)]"

definition v1_network_doc :: "firewall_state \<Rightarrow> jdoc" where
  "v1_network_doc st =
     (let tunnels = status_from (interface_scan_available (vpn st)) in DObject SpacedLayout
       [(''physical_interface'', nullable (active_zones_status st) (DString (active_interface st))),
        (''zone'', nullable (active_zones_status st) (DString (active_zone st))),
        (''network_manager'', DObject SpacedLayout
           [(''device_inventory_status'',
               DString (evidence_status (status_from (nm_available (network_manager st))))),
            (''profile_inventory_status'', DString ''unavailable''),
            (''profile'', DNull), (''autoconnect'', DNull),
            (''diagnostic'', DString (inventory_diagnostic st))]),
        (''tunnel_detection'', DObject SpacedLayout
           [(''status'', DString (evidence_status tunnels)),
            (''tunnel_interface'', nullable tunnels (DString (first_tunnel st)))]),
        (''vpn_route'', unverified_doc SpacedLayout ''uses_tunnel''
           ''route verification is not implemented''),
        (''dns_path'', unverified_doc SpacedLayout ''uses_tunnel''
           ''DNS path verification is not implemented''),
        (''kill_switch'', unverified_doc SpacedLayout ''enabled''
           ''kill-switch verification is not implemented'')])"

definition component_doc :: "component_evidence \<Rightarrow> jdoc" where
  "component_doc c = DObject CompactLayout
     [(''component'', DString (ce_component c)),
      (''status'', DString (evidence_status (ce_status c))),
      (''detail'', DString (ce_detail c))]"

definition recommendation_doc :: "layout \<Rightarrow> dashboard_recommendation \<Rightarrow> jdoc" where
  "recommendation_doc l r = DObject l
     [(''id'', DString (dr_finding_id r)),
      (''severity'', DString (severity_name (dr_severity r))),
      (''category'', DString (category_name (dr_category r))),
      (''summary'', DString (dr_summary r)),
      (''destination'', DString (destination_name (dr_destination r)))]"

definition v1_document :: "dashboard_snapshot \<Rightarrow> int \<Rightarrow> jdoc" where
  "v1_document s now =
     (let st = ds_firewall s; age = snapshot_age s now in DObject OuterLayout
       [(''schema'', DString ''ffc.dashboard.v1''),
        (''schema_version'', DNumber 1),
        (''snapshot_id'', DNumber (unat (snapshot_id s))),
        (''hostname'', DString (ds_hostname s)),
        (''application_version'', DString (application_version s)),
        (''collected_at'', DString (iso_timestamp (collected_at s))),
        (''age_ms'', DNumber (nat age)),
        (''stale'', DBool (30000 \<le> age)),
        (''status'', DString (evidence_status (overall_evidence s))),
        (''assessment'', DObject SpacedLayout
           [(''mode'', DString (mode_file_value (fw_operating_mode st))),
            (''defcon_readiness'', DString (readiness_name (defcon_readiness s)))]),
        (''risk'', DObject SpacedLayout
           [(''level'', DString (risk_level (risk s))),
            (''blockers'', DNumber (length (blockers s))),
            (''review_items'', DNumber (length (review_items s))),
            (''coverage_gaps'', DNumber (length (coverage_gaps s)))]),
        (''firewall'', v1_firewall_doc st),
        (''listeners'', v1_listeners_doc st),
        (''network'', v1_network_doc st),
        (''evidence'', DObject SpacedLayout
           [(''status'', DString (evidence_status (overall_evidence s))),
            (''components'', DArray (map component_doc (evidence_components s)))]),
        (''recommendation'', recommendation_doc SpacedLayout (primary_recommendation s))])"

section \<open>The text is the document\<close>

lemma escape_simps [simp]:
  "escape [] = []"
  "escape (c # s) = escape_char c @ escape s"
  by (simp_all add: escape_def)

lemma quote_text: "CHR 0x22 # escape s @ CHR 0x22 # t = quote s @ t"
  by (simp add: quote_def quote_char_def)

lemmas layout_simps = escape_char_def quote_char_def backslash_def mode_file_value_def

text \<open>The labels need no escapes.\<close>

lemma escape_evidence_status [simp]: "escape (evidence_status st) = evidence_status st"
  by (cases st) (simp_all add: layout_simps)

lemma escape_risk_level [simp]: "escape (risk_level r) = risk_level r"
  by (cases r) (simp_all add: layout_simps)

lemma escape_readiness_name [simp]: "escape (readiness_name d) = readiness_name d"
  by (cases d) (simp_all add: layout_simps)

lemma escape_severity_name [simp]: "escape (severity_name v) = severity_name v"
  by (cases v) (simp_all add: layout_simps)

lemma escape_category_name [simp]: "escape (category_name c) = category_name c"
  by (cases c) (simp_all add: layout_simps)

lemma escape_destination_name [simp]: "escape (destination_name t) = destination_name t"
  by (cases t) (simp_all add: layout_simps)

lemma escape_mode_file_value [simp]: "escape (mode_file_value m) = mode_file_value m"
  by (cases m) (simp_all add: layout_simps)

lemma escape_timestamp [simp]: "escape (iso_timestamp t) = iso_timestamp t"
proof (rule escape_plain, rule ballI)
  fix c assume "c \<in> set (iso_timestamp t)"
  then have "is_stamp_char c" using iso_timestamp_chars by blast
  then show "32 \<le> byte c \<and> c \<noteq> quote_char \<and> c \<noteq> backslash"
    by (auto simp: is_stamp_char_def is_digit_def quote_char_def backslash_def)
qed

lemma render_nullable [simp]:
  "json_bool b st = render (nullable st (DBool b))"
  "json_count n st = render (nullable st (DNumber n))"
  "json_string v st = render (nullable st (DString v))"
  "json_observation st = render (DString (evidence_status st))"
  by (simp_all add: json_bool_def json_count_def json_string_def json_observation_def nullable_def
      quote_def quote_char_def)

lemma v1_firewall_text:
  "v1_firewall st = ''  \"firewall\": '' @ render (v1_firewall_doc st) @ '','' @ nl"
  by (simp add: v1_firewall_def v1_firewall_doc_def quote_def layout_simps Let_def)

lemma v1_listeners_text:
  "v1_listeners st = ''  \"listeners\": '' @ render (v1_listeners_doc st) @ '','' @ nl"
  by (simp add: v1_listeners_def v1_listeners_doc_def quote_def layout_simps Let_def)

lemma v1_network_text:
  "v1_network st = ''  \"network\": '' @ render (v1_network_doc st) @ '','' @ nl"
  by (simp add: v1_network_def v1_network_doc_def unverified_doc_def quote_def layout_simps Let_def)

lemma v1_component_text: "v1_component c = render (component_doc c)"
  by (simp add: v1_component_def component_doc_def quote_def layout_simps)

lemma v1_recommendation_text:
  "v1_recommendation r = '']},'' @ nl @ ''  \"recommendation\": '' @
     render (recommendation_doc SpacedLayout r) @ nl @ ''}'' @ nl"
  by (simp add: v1_recommendation_def recommendation_doc_def quote_def layout_simps)

lemma serialize_v1_text: "serialize_dashboard_snapshot_json s now = render (v1_document s now)"
  by (simp add: serialize_dashboard_snapshot_json_def v1_header_def v1_firewall_text
      v1_listeners_text v1_network_text v1_evidence_def v1_component_text[abs_def]
      v1_recommendation_text v1_document_def quote_def layout_simps Let_def comp_def)

section \<open>Properties\<close>

text \<open>The output of \<open>--snapshot-json\<close> is a JSON text for every snapshot, and its value is the
  document of the contract: whatever bytes the host reports, they stay inside the strings they
  belong to, and a value without evidence is null.\<close>

theorem snapshot_json_is_json:
  "json_text (json_of (v1_document s now)) (serialize_dashboard_snapshot_json s now)"
  unfolding serialize_v1_text by (rule render_is_json)

end
