(* ===== verification/DashboardJsonV2.thy ===== *)
theory DashboardJsonV2
  imports DashboardJson
begin

text \<open>
  \<open>src/ui/dashboard_json_v2.cpp\<close>: the serializer of the second JSON contract, with the zones,
  the drift between runtime and permanent policy, the listeners and the findings.
\<close>

section \<open>Pieces\<close>

definition bool_text :: "bool \<Rightarrow> string" where
  "bool_text b = (if b then ''true'' else ''false'')"

definition string_array :: "string list \<Rightarrow> string" where
  "string_array vs = ''['' @ sep_join '','' (map quote vs) @ '']''"

definition v2_zone :: "firewall_state \<Rightarrow> string \<Rightarrow> zone_state \<Rightarrow> string" where
  "v2_zone st name zone =
     ''{\"name\":'' @ quote name @ '',\"applicable\":'' @
     bool_text (is_zone_applicable st name) @ '',\"active\":'' @
     bool_text (is_zone_active st name) @ '',\"target\":'' @ quote (zone_target zone) @
     '',\"interfaces\":'' @ string_array (zone_interfaces zone) @ '',\"sources\":'' @
     string_array (zone_sources zone) @ '',\"services\":'' @ string_array (zone_services zone) @
     '',\"ports\":'' @ string_array (zone_ports zone) @ '',\"protocols\":'' @
     string_array (zone_protocols zone) @ '',\"source_ports\":'' @
     string_array (zone_source_ports zone) @ '',\"rich_rules\":'' @
     string_array (zone_rich_rules zone) @ '',\"forward_ports\":'' @
     string_array (zone_forward_ports zone) @ '',\"masquerade\":'' @
     bool_text (zone_masquerade zone) @ '',\"forward\":'' @ bool_text (zone_forward zone) @
     '',\"details_valid\":'' @ bool_text (zone_details_valid zone) @ ''}''"

definition v2_zones :: "firewall_state \<Rightarrow> zone_map \<Rightarrow> observation_status \<Rightarrow> string" where
  "v2_zones st zones status =
     (if \<not> observation_available status then ''null''
      else ''['' @ sep_join '','' (map (\<lambda>(name, zone). v2_zone st name zone) zones) @ '']'')"

definition changed :: "bool \<Rightarrow> string \<Rightarrow> string list" where
  "changed differs name = (if differs then [name] else [])"

definition drift_dimensions :: "zone_state \<Rightarrow> zone_state \<Rightarrow> string list" where
  "drift_dimensions runtime permanent =
     changed (zone_target runtime \<noteq> zone_target permanent) ''target'' @
     changed (zone_sources runtime \<noteq> zone_sources permanent) ''sources'' @
     changed (zone_services runtime \<noteq> zone_services permanent) ''services'' @
     changed (zone_ports runtime \<noteq> zone_ports permanent) ''ports'' @
     changed (zone_protocols runtime \<noteq> zone_protocols permanent) ''protocols'' @
     changed (zone_source_ports runtime \<noteq> zone_source_ports permanent) ''source_ports'' @
     changed (zone_rich_rules runtime \<noteq> zone_rich_rules permanent) ''rich_rules'' @
     changed (zone_forward_ports runtime \<noteq> zone_forward_ports permanent) ''forward_ports'' @
     changed (zone_masquerade runtime \<noteq> zone_masquerade permanent) ''masquerade'' @
     changed (zone_forward runtime \<noteq> zone_forward permanent) ''forward'' @
     changed (zone_details_valid runtime \<noteq> zone_details_valid permanent) ''details_valid''"

definition zone_drift :: "firewall_state \<Rightarrow> string \<Rightarrow> string list" where
  "zone_drift st name =
     (case map_of (runtime_zones st) name of
        None \<Rightarrow> [''runtime_missing'']
      | Some runtime \<Rightarrow>
         (case map_of (permanent_zones st) name of
            None \<Rightarrow> [''permanent_missing'']
          | Some permanent \<Rightarrow> drift_dimensions runtime permanent))"

definition zone_names :: "firewall_state \<Rightarrow> string list" where
  "zone_names st = fold sset_insert (map fst (permanent_zones st))
     (fold sset_insert (map fst (runtime_zones st)) [])"

definition v2_drift_entry :: "firewall_state \<Rightarrow> string \<Rightarrow> string" where
  "v2_drift_entry st name =
     ''{\"zone\":'' @ quote name @
     '',\"runtime_present\":'' @ bool_text (map_contains (runtime_zones st) name) @
     '',\"permanent_present\":'' @ bool_text (map_contains (permanent_zones st) name) @
     '',\"dimensions\":'' @ string_array (zone_drift st name) @ ''}''"

definition drifting_zones :: "firewall_state \<Rightarrow> string list" where
  "drifting_zones st = filter (\<lambda>name. zone_drift st name \<noteq> []) (zone_names st)"

definition v2_drift :: "firewall_state \<Rightarrow> string" where
  "v2_drift st =
     (if \<not> observation_available (runtime_zones_status st) \<or>
         \<not> observation_available (permanent_zones_status st) then ''null''
      else ''['' @ sep_join '','' (map (v2_drift_entry st) (drifting_zones st)) @ '']'')"

definition listener_scope :: "listening_socket \<Rightarrow> string" where
  "listener_scope l =
     (if loopback_only l then ''loopback'' else if multicast_only l then ''multicast''
      else ''network_reachable'')"

definition v2_listener :: "listening_socket \<Rightarrow> string" where
  "v2_listener l =
     ''{\"protocol\":'' @ quote (ls_protocol l) @ '',\"endpoint\":'' @ quote (ls_endpoint l) @
     '',\"scope\":'' @ quote (listener_scope l) @ '',\"process_name\":'' @
     (if process_name l = [] then ''null'' else quote (process_name l)) @ ''}''"

definition v2_listeners :: "socket_state \<Rightarrow> string" where
  "v2_listeners socks =
     (if \<not> sockets_available socks then ''null''
      else ''['' @ sep_join '','' (map v2_listener (listeners socks)) @ '']'')"

definition v2_finding :: "dashboard_finding \<Rightarrow> string" where
  "v2_finding f =
     ''{\"id\":'' @ quote (df_id f) @ '',\"severity\":'' @
     quote (severity_name (df_severity f)) @ '',\"category\":'' @
     quote (category_name (df_category f)) @ '',\"summary\":'' @ quote (df_summary f) @
     '',\"destination\":'' @ quote (destination_name (df_destination f)) @ ''}''"

definition v2_findings :: "dashboard_finding list \<Rightarrow> string" where
  "v2_findings fs = ''['' @ sep_join '','' (map v2_finding fs) @ '']''"

definition v2_recommendation :: "dashboard_recommendation \<Rightarrow> string" where
  "v2_recommendation r =
     ''{\"id\":'' @ quote (dr_finding_id r) @ '',\"severity\":'' @
     quote (severity_name (dr_severity r)) @ '',\"category\":'' @
     quote (category_name (dr_category r)) @ '',\"summary\":'' @ quote (dr_summary r) @
     '',\"destination\":'' @ quote (destination_name (dr_destination r)) @ ''}''"

definition active_interface_v2 :: "firewall_state \<Rightarrow> string" where
  "active_interface_v2 st =
     (case List.find (\<lambda>(zone, interfaces). interfaces \<noteq> []) (active_zone_interfaces st) of
        Some (zone, interfaces) \<Rightarrow> hd interfaces | None \<Rightarrow> [])"

lemma active_interface_v2 [simp]: "active_interface_v2 st = active_interface st"
proof -
  have "(case List.find (\<lambda>(zone, interfaces). interfaces \<noteq> []) m of
      Some (zone, interfaces) \<Rightarrow> hd interfaces | None \<Rightarrow> []) =
    (case first_member m of Some (zone, i) \<Rightarrow> i | None \<Rightarrow> [])" for m
    by (induction m) (auto split: list.split)
  then show ?thesis by (simp add: active_interface_v2_def active_interface_def)
qed

fun first_source_zone :: "member_map \<Rightarrow> string option" where
  "first_source_zone [] = None"
| "first_source_zone (e # m) = (if snd e \<noteq> [] then Some (fst e) else first_source_zone m)"

definition active_zone_v2 :: "firewall_state \<Rightarrow> string" where
  "active_zone_v2 st =
     (case first_member (active_zone_interfaces st) of
        Some (zone, i) \<Rightarrow> zone
      | None \<Rightarrow> (case first_source_zone (active_zone_sources st) of
          Some zone \<Rightarrow> zone | None \<Rightarrow> default_zone st))"

definition nullable_string :: "string \<Rightarrow> observation_status \<Rightarrow> string" where
  "nullable_string v st = (if observation_available st then quote v else ''null'')"

definition nullable_bool :: "bool \<Rightarrow> observation_status \<Rightarrow> string" where
  "nullable_bool b st = (if observation_available st then bool_text b else ''null'')"

definition nullable_count :: "nat \<Rightarrow> observation_status \<Rightarrow> string" where
  "nullable_count n st = (if observation_available st then show_nat n else ''null'')"

section \<open>The text\<close>

definition v2_header :: "dashboard_snapshot \<Rightarrow> int \<Rightarrow> string" where
  "v2_header s now =
    (let st = ds_firewall s; age = snapshot_age s now in
     ''{'' @ nl @
     ''  \"schema\": \"ffc.dashboard.v2\",'' @ nl @
     ''  \"schema_version\": 2,'' @ nl @
     ''  \"snapshot_id\": '' @ show_nat (unat (snapshot_id s)) @ '','' @ nl @
     ''  \"hostname\": '' @ quote (ds_hostname s) @ '','' @ nl @
     ''  \"application_version\": '' @ quote (application_version s) @ '','' @ nl @
     ''  \"collected_at\": '' @ quote (iso_timestamp (collected_at s)) @ '','' @ nl @
     ''  \"age_ms\": '' @ show_nat (nat (if age < 0 then 0 else age)) @ '','' @ nl @
     ''  \"stale\": '' @ (if 30000 \<le> age then ''true'' else ''false'') @ '','' @ nl @
     ''  \"status\": '' @ quote (evidence_status (overall_evidence s)) @ '','' @ nl @
     ''  \"assessment\": {\"mode\":'' @
     quote (if fw_operating_mode st = HostileNetwork then ''hostile'' else ''normal'') @
     '',\"defcon_readiness\":'' @ quote (readiness_name (defcon_readiness s)) @ ''},'' @ nl @
     ''  \"risk\": {\"level\":'' @ quote (risk_level (risk s)) @ '',\"blockers\":'' @
     show_nat (length (blockers s)) @ '',\"review_items\":'' @
     show_nat (length (review_items s)) @ '',\"coverage_gaps\":'' @
     show_nat (length (coverage_gaps s)) @ ''},'' @ nl)"

definition v2_firewall :: "firewall_state \<Rightarrow> string" where
  "v2_firewall st =
    (let e = active_exposure st in
     ''  \"firewall\": {\"active_status\":'' @ quote (evidence_status (service_state st)) @
     '',\"active\":'' @ nullable_bool (fw_active st) (service_state st) @
     '',\"enabled_status\":'' @ quote (evidence_status (service_enablement st)) @
     '',\"enabled\":'' @ nullable_bool (fw_enabled st) (service_enablement st) @
     '',\"default_zone_status\":'' @ quote (evidence_status (default_zone_status st)) @
     '',\"default_zone\":'' @ nullable_string (default_zone st) (default_zone_status st) @
     '',\"runtime_zones_status\":'' @ quote (evidence_status (runtime_zones_status st)) @
     '',\"permanent_zones_status\":'' @ quote (evidence_status (permanent_zones_status st)) @
     '',\"active_policies_status\":'' @ quote (evidence_status (active_policies_status st)) @
     '',\"inbound_port_rules\":'' @ nullable_count (ae_ports e) (runtime_zones_status st) @
     '',\"protocol_rules\":'' @ nullable_count (ae_protocols e) (runtime_zones_status st) @
     '',\"rich_rules\":'' @ nullable_count (ae_rich_rules e) (runtime_zones_status st) @
     '',\"intra_zone_forwarding\":'' @
     nullable_bool (ae_forwarding e) (runtime_zones_status st) @ '',\"runtime_zones\":'' @
     v2_zones st (runtime_zones st) (runtime_zones_status st) @
     '',\"permanent_zones\":'' @ v2_zones st (permanent_zones st) (permanent_zones_status st) @
     '',\"active_policies\":'' @
     (if observation_available (active_policies_status st) then string_array (active_policies st)
      else ''null'') @
     '',\"runtime_permanent_drift\":'' @ v2_drift st)"

definition v2_listener_section :: "firewall_state \<Rightarrow> string" where
  "v2_listener_section st =
     ''},'' @ nl @
     ''  \"listeners\": {\"status\":'' @
     quote (evidence_status (status_from (sockets_available (sockets st)))) @
     '',\"tcp_udp_listeners\":'' @
     nullable_count (logical_network_services (summarize_listener_exposure (sockets st)))
       (status_from (sockets_available (sockets st))) @
     '',\"reachable_bindings\":'' @
     nullable_count (network_reachable_bindings (summarize_listener_exposure (sockets st)))
       (status_from (sockets_available (sockets st))) @
     '',\"process_metadata_requested\":'' @
     (if process_metadata_requested (sockets st) then ''true'' else ''false'') @
     '',\"bindings\":'' @
     v2_listeners (sockets st)"

definition v2_network :: "firewall_state \<Rightarrow> string" where
  "v2_network st =
     ''},'' @ nl @
     ''  \"network\": {\"physical_interface\":'' @
     nullable_string (active_interface_v2 st) (active_zones_status st) @ '',\"zone\":'' @
     nullable_string (active_zone_v2 st) (active_zones_status st) @
     '',\"network_manager\":{\"device_inventory_status\":'' @
     quote (evidence_status (status_from (nm_available (network_manager st)))) @
     '',\"profile_inventory_status\":\"unavailable\",\"profile\":null,\"autoconnect\":null,\"diagnostic\"'' @
     '':'' @ quote (inventory_diagnostic st) @ ''},\"tunnel_detection\":{\"status\":'' @
     quote (evidence_status (status_from (interface_scan_available (vpn st)))) @
     '',\"tunnel_interface\":'' @
     nullable_string (first_tunnel st) (status_from (interface_scan_available (vpn st))) @
     ''},\"vpn_route\":{\"status\":\"unavailable\",\"uses_tunnel\":null,\"diagnostic\":\"route '' @
     ''verification is not implemented\"}'' @
     '',\"dns_path\":{\"status\":\"unavailable\",\"uses_tunnel\":null,\"diagnostic\":\"DNS path '' @
     ''verification is not implemented\"}'' @
     '',\"kill_switch\":{\"status\":\"unavailable\",\"enabled\":null,\"diagnostic\":\"kill-switch '' @
     ''verification is not implemented\"}},'' @ nl"

definition v2_finding_section :: "dashboard_snapshot \<Rightarrow> string" where
  "v2_finding_section s =
     ''  \"findings\": {\"blockers\":'' @ v2_findings (blockers s) @
     '',\"review_items\":'' @ v2_findings (review_items s) @
     '',\"coverage_gaps\":'' @ v2_findings (coverage_gaps s) @
     ''},'' @ nl @
     ''  \"recommendations\": ['' @
     sep_join '','' (map v2_recommendation (recommendations s)) @
     ''],'' @ nl @
     ''  \"recommendation\": '' @ v2_recommendation (primary_recommendation s)"

definition v2_component :: "component_evidence \<Rightarrow> string" where
  "v2_component c =
     ''{\"component\":'' @ quote (ce_component c) @ '',\"status\":'' @
     quote (evidence_status (ce_status c)) @ '',\"detail\":'' @ quote (ce_detail c) @ ''}''"

definition v2_evidence :: "dashboard_snapshot \<Rightarrow> string" where
  "v2_evidence s =
     '','' @ nl @
     ''  \"evidence\": {\"status\":'' @ quote (evidence_status (overall_evidence s)) @
     '',\"components\":['' @
     sep_join '','' (map v2_component (evidence_components s)) @
     '']}'' @ nl @
     ''}'' @ nl"

definition serialize_dashboard_snapshot_json_v2 :: "dashboard_snapshot \<Rightarrow> int \<Rightarrow> string" where
  "serialize_dashboard_snapshot_json_v2 s now =
     v2_header s now @ v2_firewall (ds_firewall s) @ v2_listener_section (ds_firewall s) @
     v2_network (ds_firewall s) @ v2_finding_section s @ v2_evidence s"

section \<open>The document of the contract\<close>

definition strings_doc :: "string list \<Rightarrow> jdoc" where
  "strings_doc vs = DArray (map DString vs)"

definition v2_zone_doc :: "firewall_state \<Rightarrow> string \<times> zone_state \<Rightarrow> jdoc" where
  "v2_zone_doc st e = (let zone = snd e in DObject CompactLayout
     [(''name'', DString (fst e)),
      (''applicable'', DBool (is_zone_applicable st (fst e))),
      (''active'', DBool (is_zone_active st (fst e))),
      (''target'', DString (zone_target zone)),
      (''interfaces'', strings_doc (zone_interfaces zone)),
      (''sources'', strings_doc (zone_sources zone)),
      (''services'', strings_doc (zone_services zone)),
      (''ports'', strings_doc (zone_ports zone)),
      (''protocols'', strings_doc (zone_protocols zone)),
      (''source_ports'', strings_doc (zone_source_ports zone)),
      (''rich_rules'', strings_doc (zone_rich_rules zone)),
      (''forward_ports'', strings_doc (zone_forward_ports zone)),
      (''masquerade'', DBool (zone_masquerade zone)),
      (''forward'', DBool (zone_forward zone)),
      (''details_valid'', DBool (zone_details_valid zone))])"

definition v2_zones_doc :: "firewall_state \<Rightarrow> zone_map \<Rightarrow> observation_status \<Rightarrow> jdoc" where
  "v2_zones_doc st zones status = nullable status (DArray (map (v2_zone_doc st) zones))"

definition v2_drift_entry_doc :: "firewall_state \<Rightarrow> string \<Rightarrow> jdoc" where
  "v2_drift_entry_doc st name = DObject CompactLayout
     [(''zone'', DString name),
      (''runtime_present'', DBool (map_contains (runtime_zones st) name)),
      (''permanent_present'', DBool (map_contains (permanent_zones st) name)),
      (''dimensions'', strings_doc (zone_drift st name))]"

definition v2_drift_doc :: "firewall_state \<Rightarrow> jdoc" where
  "v2_drift_doc st =
     nullable (runtime_zones_status st) (nullable (permanent_zones_status st)
       (DArray (map (v2_drift_entry_doc st) (drifting_zones st))))"

definition v2_firewall_doc :: "firewall_state \<Rightarrow> jdoc" where
  "v2_firewall_doc st =
     (let e = active_exposure st in DObject CompactLayout
       [(''active_status'', DString (evidence_status (service_state st))),
        (''active'', nullable (service_state st) (DBool (fw_active st))),
        (''enabled_status'', DString (evidence_status (service_enablement st))),
        (''enabled'', nullable (service_enablement st) (DBool (fw_enabled st))),
        (''default_zone_status'', DString (evidence_status (default_zone_status st))),
        (''default_zone'', nullable (default_zone_status st) (DString (default_zone st))),
        (''runtime_zones_status'', DString (evidence_status (runtime_zones_status st))),
        (''permanent_zones_status'', DString (evidence_status (permanent_zones_status st))),
        (''active_policies_status'', DString (evidence_status (active_policies_status st))),
        (''inbound_port_rules'', nullable (runtime_zones_status st) (DNumber (ae_ports e))),
        (''protocol_rules'', nullable (runtime_zones_status st) (DNumber (ae_protocols e))),
        (''rich_rules'', nullable (runtime_zones_status st) (DNumber (ae_rich_rules e))),
        (''intra_zone_forwarding'', nullable (runtime_zones_status st) (DBool (ae_forwarding e))),
        (''runtime_zones'', v2_zones_doc st (runtime_zones st) (runtime_zones_status st)),
        (''permanent_zones'', v2_zones_doc st (permanent_zones st) (permanent_zones_status st)),
        (''active_policies'', nullable (active_policies_status st) (strings_doc (active_policies st))),
        (''runtime_permanent_drift'', v2_drift_doc st)])"

definition v2_listener_doc :: "listening_socket \<Rightarrow> jdoc" where
  "v2_listener_doc l = DObject CompactLayout
     [(''protocol'', DString (ls_protocol l)), (''endpoint'', DString (ls_endpoint l)),
      (''scope'', DString (listener_scope l)),
      (''process_name'', if process_name l = [] then DNull else DString (process_name l))]"

definition v2_listeners_doc :: "firewall_state \<Rightarrow> jdoc" where
  "v2_listeners_doc st =
     (let av = status_from (sockets_available (sockets st));
          e = summarize_listener_exposure (sockets st) in DObject CompactLayout
       [(''status'', DString (evidence_status av)),
        (''tcp_udp_listeners'', nullable av (DNumber (logical_network_services e))),
        (''reachable_bindings'', nullable av (DNumber (network_reachable_bindings e))),
        (''process_metadata_requested'', DBool (process_metadata_requested (sockets st))),
        (''bindings'', nullable av (DArray (map v2_listener_doc (listeners (sockets st)))))])"

definition v2_network_doc :: "firewall_state \<Rightarrow> jdoc" where
  "v2_network_doc st =
     (let tunnels = status_from (interface_scan_available (vpn st)) in DObject CompactLayout
       [(''physical_interface'', nullable (active_zones_status st) (DString (active_interface st))),
        (''zone'', nullable (active_zones_status st) (DString (active_zone_v2 st))),
        (''network_manager'', DObject CompactLayout
           [(''device_inventory_status'',
               DString (evidence_status (status_from (nm_available (network_manager st))))),
            (''profile_inventory_status'', DString ''unavailable''),
            (''profile'', DNull), (''autoconnect'', DNull),
            (''diagnostic'', DString (inventory_diagnostic st))]),
        (''tunnel_detection'', DObject CompactLayout
           [(''status'', DString (evidence_status tunnels)),
            (''tunnel_interface'', nullable tunnels (DString (first_tunnel st)))]),
        (''vpn_route'', unverified_doc CompactLayout ''uses_tunnel''
           ''route verification is not implemented''),
        (''dns_path'', unverified_doc CompactLayout ''uses_tunnel''
           ''DNS path verification is not implemented''),
        (''kill_switch'', unverified_doc CompactLayout ''enabled''
           ''kill-switch verification is not implemented'')])"

definition finding_doc :: "dashboard_finding \<Rightarrow> jdoc" where
  "finding_doc f = recommendation_doc CompactLayout (recommendation_of f)"

definition findings_doc :: "dashboard_finding list \<Rightarrow> jdoc" where
  "findings_doc fs = DArray (map finding_doc fs)"

definition v2_document :: "dashboard_snapshot \<Rightarrow> int \<Rightarrow> jdoc" where
  "v2_document s now =
     (let st = ds_firewall s; age = snapshot_age s now in DObject OuterLayout
       [(''schema'', DString ''ffc.dashboard.v2''),
        (''schema_version'', DNumber 2),
        (''snapshot_id'', DNumber (unat (snapshot_id s))),
        (''hostname'', DString (ds_hostname s)),
        (''application_version'', DString (application_version s)),
        (''collected_at'', DString (iso_timestamp (collected_at s))),
        (''age_ms'', DNumber (nat age)),
        (''stale'', DBool (30000 \<le> age)),
        (''status'', DString (evidence_status (overall_evidence s))),
        (''assessment'', DObject CompactLayout
           [(''mode'', DString (mode_file_value (fw_operating_mode st))),
            (''defcon_readiness'', DString (readiness_name (defcon_readiness s)))]),
        (''risk'', DObject CompactLayout
           [(''level'', DString (risk_level (risk s))),
            (''blockers'', DNumber (length (blockers s))),
            (''review_items'', DNumber (length (review_items s))),
            (''coverage_gaps'', DNumber (length (coverage_gaps s)))]),
        (''firewall'', v2_firewall_doc st),
        (''listeners'', v2_listeners_doc st),
        (''network'', v2_network_doc st),
        (''findings'', DObject CompactLayout
           [(''blockers'', findings_doc (blockers s)),
            (''review_items'', findings_doc (review_items s)),
            (''coverage_gaps'', findings_doc (coverage_gaps s))]),
        (''recommendations'', DArray (map (recommendation_doc CompactLayout) (recommendations s))),
        (''recommendation'', recommendation_doc CompactLayout (primary_recommendation s)),
        (''evidence'', DObject CompactLayout
           [(''status'', DString (evidence_status (overall_evidence s))),
            (''components'', DArray (map component_doc (evidence_components s)))])])"

section \<open>The text is the document\<close>

lemma nullable_text [simp]:
  "nullable_bool b st = render (nullable st (DBool b))"
  "nullable_count n st = render (nullable st (DNumber n))"
  "nullable_string v st = render (nullable st (DString v))"
  by (simp_all add: nullable_bool_def nullable_count_def nullable_string_def nullable_def
      bool_text_def observation_available_def)

lemma string_array_text [simp]: "string_array vs = render (strings_doc vs)"
  by (simp add: string_array_def strings_doc_def comp_def)

lemma v2_zone_text: "v2_zone st name zone = render (v2_zone_doc st (name, zone))"
  by (simp add: v2_zone_def v2_zone_doc_def bool_text_def quote_def layout_simps Let_def)

lemma v2_zones_text [simp]: "v2_zones st zones status = render (v2_zones_doc st zones status)"
  by (simp add: v2_zones_def v2_zones_doc_def nullable_def observation_available_def v2_zone_text
      split_def comp_def)

lemma v2_drift_text [simp]: "v2_drift st = render (v2_drift_doc st)"
proof -
  have e: "v2_drift_entry st name = render (v2_drift_entry_doc st name)" for name
    by (simp add: v2_drift_entry_def v2_drift_entry_doc_def bool_text_def quote_def layout_simps)
  show ?thesis
    by (simp add: v2_drift_def v2_drift_doc_def nullable_def observation_available_def e[abs_def]
        comp_def)
qed

lemma v2_firewall_text:
  "v2_firewall st @ CHR ''}'' # t = ''  \"firewall\": '' @ render (v2_firewall_doc st) @ t"
  by (simp add: v2_firewall_def v2_firewall_doc_def quote_def layout_simps Let_def nullable_def
      observation_available_def)

lemma v2_listeners_text [simp]:
  "v2_listeners socks = render (nullable (status_from (sockets_available socks))
     (DArray (map v2_listener_doc (listeners socks))))"
proof -
  have "v2_listener l = render (v2_listener_doc l)" for l
    by (simp add: v2_listener_def v2_listener_doc_def listener_scope_def quote_def layout_simps)
  then have "v2_listener = render \<circ> v2_listener_doc" by (simp add: fun_eq_iff)
  then show ?thesis by (simp add: v2_listeners_def nullable_def status_from_def comp_def)
qed

lemma v2_listener_section_text:
  "v2_listener_section st @ CHR ''}'' # t =
     ''},'' @ nl @ ''  \"listeners\": '' @ render (v2_listeners_doc st) @ t"
  by (simp add: v2_listener_section_def v2_listeners_doc_def quote_def layout_simps Let_def)

lemma v2_network_text:
  "v2_network st = ''},'' @ nl @ ''  \"network\": '' @ render (v2_network_doc st) @ '','' @ nl"
  by (simp add: v2_network_def v2_network_doc_def unverified_doc_def quote_def layout_simps Let_def)

lemma v2_recommendation_text: "v2_recommendation r = render (recommendation_doc CompactLayout r)"
  by (simp add: v2_recommendation_def recommendation_doc_def quote_def layout_simps)

lemma v2_finding_text: "v2_finding f = render (finding_doc f)"
  by (simp add: v2_finding_def finding_doc_def recommendation_doc_def recommendation_of_def quote_def
      layout_simps)

lemma v2_findings_text [simp]: "v2_findings fs = render (findings_doc fs)"
  by (simp add: v2_findings_def findings_doc_def v2_finding_text[abs_def] comp_def)

lemma v2_component_text: "v2_component c = render (component_doc c)"
  by (simp add: v2_component_def component_doc_def quote_def layout_simps)

lemma show_nat_2: "show_nat 2 = ''2''"
  by code_simp

lemma serialize_v2_text: "serialize_dashboard_snapshot_json_v2 s now = render (v2_document s now)"
  by (simp add: serialize_dashboard_snapshot_json_v2_def v2_header_def v2_firewall_text
      v2_listener_section_text v2_network_text v2_finding_section_def v2_evidence_def
      v2_component_text[abs_def] v2_recommendation_text[abs_def] v2_document_def
      mode_file_value_def quote_def layout_simps Let_def comp_def show_nat_2)

section \<open>Drift\<close>

lemma changed_Nil [simp]: "changed b n = [] \<longleftrightarrow> \<not> b"
  by (simp add: changed_def)

lemma no_drift_same_policy: "drift_dimensions r p = [] \<Longrightarrow> zone_policies_equal r p"
  by (simp add: drift_dimensions_def zone_policies_equal_def zone_policy_values_equal_def
      unordered_values_equal_def)

lemma zone_names_set: "set (zone_names st) = fst ` set (runtime_zones st) \<union> fst ` set (permanent_zones st)"
  by (auto simp: zone_names_def fold_sset_insert)

lemma drifting_zones_Nil:
  "drifting_zones st = [] \<longleftrightarrow>
     (\<forall>n\<in>fst ` set (runtime_zones st) \<union> fst ` set (permanent_zones st). zone_drift st n = [])"
  by (simp only: drifting_zones_def filter_empty_conv zone_names_set) blast

lemma no_drift_policies_of:
  assumes "drifting_zones st = []"
  shows "policies_of (runtime_zones st) = policies_of (permanent_zones st)"
proof
  fix n
  show "policies_of (runtime_zones st) n = policies_of (permanent_zones st) n"
  proof (cases "n \<in> fst ` set (runtime_zones st) \<union> fst ` set (permanent_zones st)")
    case True
    then have "zone_drift st n = []" using assms drifting_zones_Nil by blast
    then show ?thesis
      by (auto simp: zone_drift_def policies_of_def zone_policies_equal_view[symmetric]
          no_drift_same_policy split: option.splits)
  next
    case False
    then have "map_of (runtime_zones st) n = None" "map_of (permanent_zones st) n = None"
      by (auto simp: map_of_eq_None_iff)
    then show ?thesis by (simp add: policies_of_def)
  qed
qed

section \<open>Properties\<close>

text \<open>The output of \<open>--snapshot-json-v2\<close> is a JSON text for every snapshot, and its value is
  the document of the contract: whatever bytes the host reports, they stay inside the strings
  they belong to, and a value without evidence is null.\<close>

theorem snapshot_json_v2_is_json:
  "json_text (json_of (v2_document s now)) (serialize_dashboard_snapshot_json_v2 s now)"
  unfolding serialize_v2_text by (rule render_is_json)

text \<open>A snapshot in which the second contract reports no drifting zone passes the alignment
  check of the readiness report.\<close>

theorem no_reported_drift_is_aligned:
  "map_wf (runtime_zones st) \<Longrightarrow> map_wf (permanent_zones st) \<Longrightarrow>
   runtime_zones_status st = Available \<Longrightarrow> permanent_zones_status st = Available \<Longrightarrow>
   drifting_zones st = [] \<Longrightarrow> runtime_matches_permanent st"
  using no_drift_policies_of[of st] runtime_matches_permanent_view[of st] by simp

definition steady_example :: firewall_state where
  "steady_example = default_firewall_state
     \<lparr>runtime_zones_status := Available, permanent_zones_status := Available,
      runtime_zones := [(''public'', default_zone_state\<lparr>zone_services := [''ssh'']\<rparr>)],
      permanent_zones := [(''public'', default_zone_state\<lparr>zone_services := [''ssh'']\<rparr>)]\<rparr>"

lemma no_reported_drift_witness: "runtime_matches_permanent steady_example"
  by (rule no_reported_drift_is_aligned; code_simp)

text \<open>C27: The converse fails: the drift of the second contract compares firewalld's unordered
  collections as sequences, so a mere reordering of ports is reported as drift while the
  readiness check, which ignores that order, passes.\<close>

theorem drift_reports_reordering:
  "\<exists>st. runtime_matches_permanent st \<and> drifting_zones st = [''public''] \<and>
        zone_drift st ''public'' = [''ports'']"
proof (intro exI conjI)
  let ?st = "default_firewall_state
     \<lparr>runtime_zones_status := Available, permanent_zones_status := Available,
      runtime_zones := [(''public'', default_zone_state\<lparr>zone_ports := [''80/tcp'', ''22/tcp'']\<rparr>)],
      permanent_zones := [(''public'', default_zone_state\<lparr>zone_ports := [''22/tcp'', ''80/tcp'']\<rparr>)]\<rparr>"
  show "runtime_matches_permanent ?st" by code_simp
  show "drifting_zones ?st = [''public'']" by code_simp
  show "zone_drift ?st ''public'' = [''ports'']" by code_simp
qed

end
