(* ===== verification/CommandExecutor.thy ===== *)
theory CommandExecutor
  imports Services CommandLine Readiness DashboardJson DashboardJsonV2
begin

text \<open>
  \<open>src/app/command_executor.cpp\<close>: the non-interactive commands and their exit codes, over the
  services that the session uses too and over the tools that only commands use: the tunnel and
  socket inspectors, the stores of the key and of the mode, and the settings of the terminal.
\<close>

section \<open>The tools\<close>

text \<open>The settings of a terminal, of which only the local flags matter here.\<close>

record termios =
  c_lflag :: "32 word"
  c_other :: "32 word list"

definition echo_flag :: "32 word" where
  "echo_flag = 8"

record 's tools =
  tool_vpn :: "('s, vpn_state) state"
  tool_sockets :: "('s, socket_state) state"
  tool_save_key :: "string \<Rightarrow> ('s, bool \<times> string) state"
  tool_load_mode :: "('s, mode_load_result) state"
  tool_save_mode :: "operating_mode \<Rightarrow> ('s, bool \<times> string) state"
  tool_is_terminal :: "('s, bool) state"
  tool_get_settings :: "('s, termios option) state"
  tool_set_settings :: "termios \<Rightarrow> ('s, bool) state"
  tool_read_line :: "('s, string option) state"
  tool_clock :: "('s, int) state"

definition observing_tools :: "'s tools \<Rightarrow> 's observed tools" where
  "observing_tools T =
     \<lparr>tool_vpn = observe [ToolEvent VpnQuery] (tool_vpn T),
      tool_sockets = observe [ToolEvent SocketQuery] (tool_sockets T),
      tool_save_key = (\<lambda>k. observe [ToolEvent (KeySave k)] (tool_save_key T k)),
      tool_load_mode = observe [ToolEvent ModeLoad] (tool_load_mode T),
      tool_save_mode = (\<lambda>m. observe [ToolEvent (ModeSave m)] (tool_save_mode T m)),
      tool_is_terminal = observe [ToolEvent TerminalQuery] (tool_is_terminal T),
      tool_get_settings = observe [ToolEvent TerminalQuery] (tool_get_settings T),
      tool_set_settings = (\<lambda>t. observe [ToolEvent TerminalChange] (tool_set_settings T t)),
      tool_read_line = observe [ToolEvent KeyRead] (tool_read_line T),
      tool_clock = observe [] (tool_clock T)\<rparr>"

section \<open>Texts\<close>

definition usage_options :: "string list" where
  "usage_options =
     [''Usage: ffc [--status | --snapshot-json | --snapshot-json-v2 | --readiness | --listeners | --threat-assessment | --network-diagnostics [--extended|--advanced] | --security-advisories | --network-metadata [--enrich] | --network-history | --log-analysis | --configure-ipify-key | --mode [normal|hostile] | --help]'',
      [],
      ''Without an option, opens the interactive read-only dashboard.'',
      ''  --status     Print firewall posture and exposure summary.'',
      ''  --snapshot-json  Print a versioned read-only dashboard snapshot as JSON.'',
      ''  --snapshot-json-v2  Print the parallel structured dashboard-v2 snapshot.'',
      ''  --readiness  Print readiness checks (exit: 0 pass, 1 warning, 2 fail).'',
      ''  --listeners  Print non-loopback local listening sockets.'',
      ''  --threat-assessment  Review local evidence, exposure, and telemetry gaps; no attack verdicts.'',
      ''  --network-diagnostics [--extended|--advanced]  Run bounded external tests; extended compares four routes, advanced also adds MTR and direct DNS checks.'',
      ''  --security-advisories  Query available DNF5 security advisories and CVE references.'',
      ''  --network-metadata [--enrich]  Query public-IP and save route metadata; enrichment uses one ipify credit.'',
      ''  --network-history   Print locally saved public-IP and route metadata.'',
      ''  --log-analysis      Summarize retained local ffc log activity and repeated errors.'',
      ''  --configure-ipify-key  Prompt for and securely save a Geo ipify API key.'',
      ''  --mode [normal|hostile]  Show or set assessment-only operating mode.'',
      ''  --help       Show this help.'',
      [],
      ''Owner-only application logs are stored under $XDG_STATE_HOME/fedora-firewall-control/'',
      ''(or ~/.local/state/fedora-firewall-control/): operations.log, audit.log, security.log, and error.log.'']"

definition usage_text :: string where
  "usage_text = unlines usage_options"

section \<open>The commands\<close>

definition emit :: "'s services \<Rightarrow> string \<Rightarrow> ('s, unit) state" where
  "emit S s = svc_display S (PrintOut s)"

definition fail_with :: "'s services \<Rightarrow> string \<Rightarrow> ('s, int) state" where
  "fail_with S s = do { _ \<leftarrow> svc_display S (PrintError (s @ [newline_char])); State_Monad.return 2 }"

definition print_usage :: "'s services \<Rightarrow> ('s, unit) state" where
  "print_usage S = emit S usage_text"

definition hide_echo :: "termios \<Rightarrow> termios" where
  "hide_echo t = t\<lparr>c_lflag := c_lflag t AND NOT echo_flag\<rparr>"

definition prompt_hidden :: "'s services \<Rightarrow> 's tools \<Rightarrow> termios \<Rightarrow> ('s, string + string) state" where
  "prompt_hidden S T original = do {
     _ \<leftarrow> emit S ''Geo ipify API key (input hidden): '';
     hidden \<leftarrow> tool_set_settings T (hide_echo original);
     if \<not> hidden then State_Monad.return (Inl ''could not hide terminal input'')
     else do {
       key \<leftarrow> tool_read_line T;
       restored \<leftarrow> tool_set_settings T original;
       _ \<leftarrow> emit S [newline_char];
       State_Monad.return
         (if \<not> restored then Inl ''could not restore terminal input''
          else case key of None \<Rightarrow> Inl ''could not read API key'' | Some k \<Rightarrow> Inr k)
     }
   }"

definition prompt_for_ipify_key :: "'s services \<Rightarrow> 's tools \<Rightarrow> ('s, string + string) state" where
  "prompt_for_ipify_key S T = do {
     terminal \<leftarrow> tool_is_terminal T;
     if \<not> terminal
     then State_Monad.return
            (Inl ''standard input is not a terminal; run this command interactively'')
     else do {
       settings \<leftarrow> tool_get_settings T;
       case settings of
         None \<Rightarrow> State_Monad.return (Inl ''could not read terminal settings'')
       | Some original \<Rightarrow> prompt_hidden S T original
     }
   }"

definition configure_key :: "'s services \<Rightarrow> 's tools \<Rightarrow> ('s, int) state" where
  "configure_key S T = do {
     answer \<leftarrow> prompt_for_ipify_key S T;
     case answer of
       Inl error \<Rightarrow> fail_with S (''Could not configure Geo ipify key: '' @ error)
     | Inr key \<Rightarrow> do {
         (saved, result) \<leftarrow> tool_save_key T key;
         if \<not> saved then fail_with S (''Could not save Geo ipify key: '' @ result)
         else do {
           _ \<leftarrow> emit S (''Geo ipify API key saved to '' @ result @ '' with owner-only permissions.'' @
                  [newline_char]);
           State_Monad.return 0
         }
       }
   }"

definition show_mode :: "'s services \<Rightarrow> 's tools \<Rightarrow> ('s, int) state" where
  "show_mode S T = do {
     mode \<leftarrow> tool_load_mode T;
     _ \<leftarrow> emit S (''Assessment mode: '' @ mode_to_string (loaded_mode mode) @
            (if load_status mode = LoadInvalid
             then '' (safe fallback; '' @ load_diagnostic mode @ '')'' else []) @ [newline_char]);
     State_Monad.return (if load_status mode = LoadInvalid then 2 else 0)
   }"

definition set_mode :: "'s services \<Rightarrow> 's tools \<Rightarrow> operating_mode \<Rightarrow> ('s, int) state" where
  "set_mode S T m = do {
     (saved, result) \<leftarrow> tool_save_mode T m;
     if \<not> saved then fail_with S (''Could not save mode: '' @ result)
     else do {
       _ \<leftarrow> emit S (''Assessment mode set to '' @ mode_to_string m @
              ''. Firewall settings were not changed.'' @ [newline_char]);
       State_Monad.return 0
     }
   }"

definition exit_status :: "bool \<Rightarrow> int" where
  "exit_status ok = (if ok then 0 else 2)"

definition diagnostics_complete :: "network_diagnostics \<Rightarrow> bool" where
  "diagnostics_complete d \<longleftrightarrow>
     (list_all tr_command_available (traceroutes d) \<and> list_all rp_command_available (probes d)) \<and>
     ((case path_stability d of None \<Rightarrow> True | Some p \<Rightarrow> ps_command_available p) \<and>
      list_all rv_command_available (resolver_probes d))"

definition execute_diagnostics :: "'s services \<Rightarrow> command_line \<Rightarrow> ('s, int) state" where
  "execute_diagnostics S c = do {
     diagnostics \<leftarrow> svc_diagnostics S (extended_diagnostics c) (advanced_diagnostics c);
     _ \<leftarrow> svc_display S (ShowNetworkDiagnostics diagnostics);
     State_Monad.return (exit_status (diagnostics_complete diagnostics))
   }"

definition execute_listeners :: "'s services \<Rightarrow> 's tools \<Rightarrow> ('s, int) state" where
  "execute_listeners S T = do {
     inventory \<leftarrow> tool_sockets T;
     _ \<leftarrow> svc_display S (ShowListeners (default_firewall_state\<lparr>sockets := inventory\<rparr>));
     State_Monad.return (exit_status (sockets_available inventory))
   }"

definition execute_metadata :: "'s services \<Rightarrow> 's tools \<Rightarrow> bool \<Rightarrow> ('s, int) state" where
  "execute_metadata S T enrich = do {
     tunnels \<leftarrow> tool_vpn T;
     capture \<leftarrow> svc_capture S enrich (active_tunnel_interfaces tunnels \<noteq> []);
     _ \<leftarrow> svc_display S (ShowNetworkMetadata (nc_metadata capture) (history_status capture));
     State_Monad.return (exit_status (capture_successful capture))
   }"

definition execute_history :: "'s services \<Rightarrow> ('s, int) state" where
  "execute_history S = do {
     h \<leftarrow> svc_history S;
     _ \<leftarrow> svc_display S (ShowNetworkHistory (sh_records h) (display_status h));
     State_Monad.return (exit_status (sh_available h))
   }"

definition print_snapshot ::
  "'s services \<Rightarrow> 's tools \<Rightarrow> (dashboard_snapshot \<Rightarrow> int \<Rightarrow> string) \<Rightarrow> firewall_state \<Rightarrow> ('s, int) state" where
  "print_snapshot S T serialize st = do {
     snapshot \<leftarrow> svc_snapshot S st 0;
     now \<leftarrow> tool_clock T;
     _ \<leftarrow> emit S (serialize snapshot now);
     State_Monad.return 0
   }"

text \<open>The actions that show the state of the firewall, collected at full depth.\<close>

definition execute_posture :: "'s services \<Rightarrow> 's tools \<Rightarrow> command_action \<Rightarrow> ('s, int) state" where
  "execute_posture S T a = do {
     st \<leftarrow> svc_posture S Complete;
     if a = SnapshotJson then print_snapshot S T serialize_dashboard_snapshot_json st
     else if a = SnapshotJsonV2 then print_snapshot S T serialize_dashboard_snapshot_json_v2 st
     else if a = Status
     then do {
       _ \<leftarrow> svc_display S (ShowStatus st);
       _ \<leftarrow> svc_display S (ShowOverview st);
       State_Monad.return (exit_status (fw_installed st))
     }
     else if a = ReadinessAction
     then do {
       _ \<leftarrow> svc_display S (ShowReadiness st);
       State_Monad.return (readiness_exit_code st)
     }
     else if a = ThreatAssessmentAction
     then do {
       _ \<leftarrow> svc_display S (ShowThreatAssessment st);
       State_Monad.return 0
     }
     else State_Monad.return 2
   }"

definition execute :: "'s services \<Rightarrow> 's tools \<Rightarrow> command_line \<Rightarrow> ('s, int) state" where
  "execute S T c =
     (if cl_action c = Invalid then do { _ \<leftarrow> print_usage S; State_Monad.return 2 }
      else if cl_action c = Help then do { _ \<leftarrow> print_usage S; State_Monad.return 0 }
      else if cl_action c = ConfigureIpifyKey then configure_key S T
      else if cl_action c = Mode
      then (case mode_to_set c of None \<Rightarrow> show_mode S T | Some m \<Rightarrow> set_mode S T m)
      else if cl_action c = NetworkDiagnosticsAction then execute_diagnostics S c
      else if cl_action c = SecurityAdvisoriesAction
      then do {
        report \<leftarrow> svc_advisories S;
        _ \<leftarrow> svc_display S (ShowSecurityAdvisories report);
        State_Monad.return (exit_status (query_succeeded report))
      }
      else if cl_action c = LogAnalysisAction
      then do {
        analysis \<leftarrow> svc_logs S;
        _ \<leftarrow> svc_display S (ShowLogAnalysis analysis);
        State_Monad.return (exit_status (logs_available analysis))
      }
      else if cl_action c = NetworkHistoryAction then execute_history S
      else if cl_action c = Listeners then execute_listeners S T
      else if cl_action c = NetworkMetadataAction then execute_metadata S T (cl_enrich_metadata c)
      else execute_posture S T (cl_action c))"

end
