(* ===== verification/InteractiveSession.thy ===== *)
theory InteractiveSession
  imports Services TextUtils
begin

text \<open>
  \<open>src/app/interactive_session.cpp\<close>: the keyboard loop of the terminal dashboard.  The text on
  standard input is the list of its lines, so the loop ends when they end.  A session keeps the
  open menu, whether a detail view covers it, whether the home view is expanded, the last snapshot,
  the identifier of the next one and whether a logging failure was reported; the state of the
  services it uses is its field \<open>outer\<close>.
\<close>

section \<open>The session\<close>

record 's session =
  menu :: dashboard_menu
  detail_open :: bool
  expanded_home :: bool
  dashboard_state :: dashboard_snapshot
  next_snapshot_id :: "64 word"
  logging_failure_reported :: bool
  outer :: 's

definition default_snapshot :: dashboard_snapshot where
  "default_snapshot = \<lparr>snapshot_id = 0, collected_at = 0, collected_monotonic = 0, ds_hostname = [],
     application_version = [], ds_firewall = default_firewall_state, risk = RiskReview,
     defcon_readiness = NotEvaluated, overall_evidence = Partial, blockers = [], review_items = [],
     coverage_gaps = [], recommendations = [], evidence_components = [],
     continuous_monitor_available = False, response_actions_available = False\<rparr>"

definition new_session :: "'s \<Rightarrow> 's session" where
  "new_session w = \<lparr>menu = MainMenu, detail_open = False, expanded_home = False,
     dashboard_state = default_snapshot, next_snapshot_id = 1, logging_failure_reported = False,
     outer = w\<rparr>"

definition service :: "('s, 'a) state \<Rightarrow> ('s session, 'a) state" where
  "service m = State (\<lambda>s. map_prod (\<lambda>x. x) (\<lambda>w. s\<lparr>outer := w\<rparr>) (run_state m (outer s)))"

definition show_view :: "'s services \<Rightarrow> display \<Rightarrow> ('s session, unit) state" where
  "show_view S d = service (svc_display S d)"

definition current :: "('s session, dashboard_snapshot) state" where
  "current = State (\<lambda>s. (dashboard_state s, s))"

definition logging_warning :: string where
  "logging_warning =
     ''Warning: local audit logging is unavailable; continuing without persistent audit records.'' @
     [newline_char]"

definition report_once :: "'s services \<Rightarrow> ('s session, unit) state" where
  "report_once S = do {
     reported \<leftarrow> State (\<lambda>s. (logging_failure_reported s, s\<lparr>logging_failure_reported := True\<rparr>));
     if reported then State_Monad.return () else show_view S (PrintError logging_warning)
   }"

definition record_event :: "'s services \<Rightarrow> log_event \<Rightarrow> ('s session, unit) state" where
  "record_event S ev = do {
     recorded \<leftarrow> service (svc_record S ev);
     if \<not> recorded then report_once S else State_Monad.return ()
   }"

definition session_event :: "log_channel \<Rightarrow> log_level \<Rightarrow> string \<Rightarrow> log_event" where
  "session_event c l name = \<lparr>le_channel = c, le_level = l, le_event = name, le_detail = []\<rparr>"

definition action_event :: "string \<Rightarrow> log_channel \<Rightarrow> log_event" where
  "action_event action c = \<lparr>le_channel = c, le_level = InfoLevel, le_event = ''interactive-action'',
     le_detail = ''action='' @ action\<rparr>"

definition record_action :: "'s services \<Rightarrow> string \<Rightarrow> log_channel \<Rightarrow> ('s session, unit) state" where
  "record_action S action c = record_event S (action_event action c)"

definition refresh_event :: "collection_depth \<Rightarrow> log_event" where
  "refresh_event depth = \<lparr>le_channel = Operations, le_level = InfoLevel, le_event = ''posture-refresh'',
     le_detail = (if depth = Landing then ''source=interactive depth=landing''
                  else ''source=interactive depth=complete'')\<rparr>"

definition refresh :: "'s services \<Rightarrow> collection_depth \<Rightarrow> ('s session, unit) state" where
  "refresh S depth = do {
     _ \<leftarrow> record_event S (refresh_event depth);
     st \<leftarrow> service (svc_posture S depth);
     sid \<leftarrow> State (\<lambda>s. (next_snapshot_id s, s\<lparr>next_snapshot_id := next_snapshot_id s + 1\<rparr>));
     snapshot \<leftarrow> service (svc_snapshot S st sid);
     State (\<lambda>s. ((), s\<lparr>dashboard_state := snapshot\<rparr>))
   }"

definition report_invalid_selection :: "'s services \<Rightarrow> ('s session, unit) state" where
  "report_invalid_selection S = do {
     _ \<leftarrow> record_event S (session_event Audit WarningLevel ''invalid-interactive-selection'');
     show_view S ShowInvalidSelection
   }"

text \<open>The common shape of a selection: the action is logged, an optional refresh runs, the header is
  shown and then the view of the snapshot.\<close>

definition open_view ::
  "'s services \<Rightarrow> string \<Rightarrow> log_channel \<Rightarrow> bool \<Rightarrow> display \<Rightarrow> (firewall_state \<Rightarrow> display) \<Rightarrow>
     ('s session, bool) state" where
  "open_view S action channel anew header view = do {
     _ \<leftarrow> record_action S action channel;
     _ \<leftarrow> (if anew then refresh S Complete else State_Monad.return ());
     _ \<leftarrow> show_view S header;
     snapshot \<leftarrow> current;
     _ \<leftarrow> show_view S (view (ds_firewall snapshot));
     State_Monad.return True
   }"

definition not_handled :: "('s session, bool) state" where
  "not_handled = State_Monad.return False"

definition record_when :: "'s services \<Rightarrow> bool \<Rightarrow> string \<Rightarrow> ('s session, unit) state" where
  "record_when S b name =
     (if b then record_event S (session_event ErrorChannel ErrorLevel name) else State_Monad.return ())"

section \<open>Selections\<close>

definition handle_firewall_selection :: "'s services \<Rightarrow> string \<Rightarrow> ('s session, bool) state" where
  "handle_firewall_selection S choice =
     (let header = (\<lambda>title. ShowDetailHeader FirewallMenu title []);
          zones = (\<lambda>title view st. ShowZones st title view ActiveAndDefault) in
      if choice = ''1''
      then open_view S ''status'' Audit False (header ''Firewall service state'') ShowStatus
      else if choice = ''2''
      then open_view S ''zones'' Audit False (header ''Default and active zones'') (zones ''Zones'' AllView)
      else if choice = ''3''
      then open_view S ''interfaces'' Audit False (header ''Interfaces and zone assignments'')
             (zones ''Interfaces and zone assignments'' InterfacesView)
      else if choice = ''4''
      then open_view S ''services'' Audit False (header ''Allowed services'')
             (zones ''Allowed services'' ServicesView)
      else if choice = ''5''
      then open_view S ''ports'' Audit False (header ''Explicit open ports'')
             (zones ''Explicit open ports'' PortsView)
      else if choice = ''6''
      then open_view S ''rich-rules'' Audit False (header ''Rich rules'') (zones ''Rich rules'' RichRulesView)
      else if choice = ''7''
      then open_view S ''routing'' Audit False (header ''Intra-zone forwarding and NAT'')
             (zones ''Intra-zone forwarding and masquerading'' RoutingView)
      else if choice = ''8''
      then open_view S ''configuration-drift'' Security True (header ''Runtime and permanent differences'')
             (zones ''Runtime/permanent differences'' DriftView)
      else if choice = ''a'' \<or> choice = ''all''
      then open_view S ''all-zone-policies'' Audit False
             (ShowDetailHeader FirewallMenu ''All configured zone policies'' ''VERBOSE VIEW'')
             (\<lambda>st. ShowZones st ''All zone policies'' AllView AllZones)
      else not_handled)"

definition run_diagnostics :: "'s services \<Rightarrow> ('s session, bool) state" where
  "run_diagnostics S = do {
     _ \<leftarrow> record_action S ''network-diagnostics'' Audit;
     _ \<leftarrow> show_view S (ShowDetailHeader NetworkMenu ''Ping and traceroute diagnostics'' ''EXTERNAL TRAFFIC'');
     diagnostics \<leftarrow> service (svc_diagnostics S False False);
     _ \<leftarrow> record_when S (has_unavailable_tools diagnostics) ''network-diagnostic-tool-unavailable'';
     _ \<leftarrow> show_view S (ShowNetworkDiagnostics diagnostics);
     State_Monad.return True
   }"

definition run_capture :: "'s services \<Rightarrow> ('s session, bool) state" where
  "run_capture S = do {
     _ \<leftarrow> record_action S ''network-metadata'' Audit;
     _ \<leftarrow> show_view S (ShowDetailHeader NetworkMenu ''Public IP metadata'' ''EXTERNAL REQUEST'');
     snapshot \<leftarrow> current;
     capture \<leftarrow> service (svc_capture S False (active_tunnel_interfaces (vpn (ds_firewall snapshot)) \<noteq> []));
     _ \<leftarrow> record_when S (\<not> capture_successful capture) ''network-metadata-failed'';
     _ \<leftarrow> show_view S (ShowNetworkMetadata (nc_metadata capture) (history_status capture));
     State_Monad.return True
   }"

definition run_history :: "'s services \<Rightarrow> ('s session, bool) state" where
  "run_history S = do {
     _ \<leftarrow> record_action S ''network-history'' Audit;
     _ \<leftarrow> show_view S (ShowDetailHeader NetworkMenu ''Saved network metadata'' []);
     h \<leftarrow> service (svc_history S);
     _ \<leftarrow> record_when S (\<not> sh_available h) ''network-history-unavailable'';
     _ \<leftarrow> show_view S (ShowNetworkHistory (sh_records h) (display_status h));
     State_Monad.return True
   }"

definition handle_network_selection :: "'s services \<Rightarrow> string \<Rightarrow> ('s session, bool) state" where
  "handle_network_selection S choice =
     (if choice = ''1''
      then open_view S ''listeners'' Security False
             (ShowDetailHeader NetworkMenu ''Network-reachable listeners'' []) ShowListeners
      else if choice = ''2'' then run_diagnostics S
      else if choice = ''3'' then run_capture S
      else if choice = ''4'' then run_history S
      else not_handled)"

definition handle_readiness_selection :: "'s services \<Rightarrow> string \<Rightarrow> ('s session, bool) state" where
  "handle_readiness_selection S choice =
     (if choice = ''1''
      then open_view S ''readiness'' Security True
             (ShowDetailHeader ReadinessMenu ''Readiness report and blockers'' []) ShowReadiness
      else if choice = ''2''
      then open_view S ''threat-assessment'' Security True
             (ShowDetailHeader ReadinessMenu ''Threat evidence assessment'' []) ShowThreatAssessment
      else not_handled)"

definition run_log_analysis ::
  "'s services \<Rightarrow> string \<Rightarrow> dashboard_menu \<Rightarrow> ('s session, bool) state" where
  "run_log_analysis S action from_menu = do {
     _ \<leftarrow> record_action S action Audit;
     _ \<leftarrow> show_view S (ShowDetailHeader from_menu ''Local ffc log analysis'' []);
     analysis \<leftarrow> service (svc_logs S);
     _ \<leftarrow> record_when S (\<not> logs_available analysis) ''log-analysis-unavailable'';
     _ \<leftarrow> show_view S (ShowLogAnalysis analysis);
     State_Monad.return True
   }"

definition handle_monitor_selection :: "'s services \<Rightarrow> string \<Rightarrow> ('s session, bool) state" where
  "handle_monitor_selection S choice =
     (if choice = ''1''
      then open_view S ''monitor-current-evidence'' Security True
             (ShowDetailHeader MonitorMenu ''Current threat evidence'' ''POINT-IN-TIME ONLY'')
             ShowThreatAssessment
      else if choice = ''2'' then run_log_analysis S ''monitor-log-analysis'' MonitorMenu
      else not_handled)"

definition run_advisories :: "'s services \<Rightarrow> ('s session, bool) state" where
  "run_advisories S = do {
     _ \<leftarrow> record_action S ''security-advisories'' Security;
     _ \<leftarrow> show_view S (ShowDetailHeader EvidenceMenu ''Security advisories and CVEs''
            ''EXTERNAL PACKAGE METADATA'');
     report \<leftarrow> service (svc_advisories S);
     _ \<leftarrow> record_when S (\<not> query_succeeded report) ''security-advisory-query-failed'';
     _ \<leftarrow> show_view S (ShowSecurityAdvisories report);
     State_Monad.return True
   }"

definition handle_evidence_selection :: "'s services \<Rightarrow> string \<Rightarrow> ('s session, bool) state" where
  "handle_evidence_selection S choice =
     (if choice = ''1''
      then open_view S ''threat-assessment'' Security True
             (ShowDetailHeader EvidenceMenu ''Threat evidence assessment'' []) ShowThreatAssessment
      else if choice = ''2''
      then open_view S ''readiness'' Security True
             (ShowDetailHeader EvidenceMenu ''DEF CON readiness report'' []) ShowReadiness
      else if choice = ''3'' then run_advisories S
      else if choice = ''4'' then run_log_analysis S ''log-analysis'' EvidenceMenu
      else not_handled)"

definition show_boundary ::
  "'s services \<Rightarrow> string \<Rightarrow> string \<Rightarrow> string \<Rightarrow> string \<Rightarrow> ('s session, bool) state" where
  "show_boundary S action title capability note_text = do {
     _ \<leftarrow> record_action S action Audit;
     _ \<leftarrow> show_view S (ShowDetailHeader SettingsMenu title []);
     _ \<leftarrow> show_view S (ShowUnavailable capability);
     _ \<leftarrow> show_view S (PrintOut (note_text @ [newline_char]));
     State_Monad.return True
   }"

definition handle_settings_selection :: "'s services \<Rightarrow> string \<Rightarrow> ('s session, bool) state" where
  "handle_settings_selection S choice =
     (if choice = ''1''
      then show_boundary S ''assessment-boundaries'' ''Assessment and enforcement boundaries''
             ''Configuration and enforcement controls''
             ''  Assessment mode affects readiness criteria only. Firewall, NetworkManager, and VPN settings are never changed.''
      else if choice = ''2''
      then show_boundary S ''web-dashboard-status'' ''Web dashboard availability''
             ''The loopback web dashboard''
             ''  A future dashboard will consume cached read-only state; this console does not listen on a network port.''
      else not_handled)"

definition handle_emergency_selection :: "'s services \<Rightarrow> string \<Rightarrow> ('s session, bool) state" where
  "handle_emergency_selection S choice =
     (if length choice = 1 \<and> CHR ''1'' \<le> hd choice \<and> hd choice \<le> CHR ''7''
      then do {
        _ \<leftarrow> record_action S ''emergency-control-request'' Security;
        _ \<leftarrow> show_view S (ShowUnavailable ''Emergency isolation controls'');
        State_Monad.return True
      }
      else not_handled)"

section \<open>The keyboard loop\<close>

definition set_navigation :: "('s session \<Rightarrow> 's session) \<Rightarrow> ('s session, unit) state" where
  "set_navigation f = State (\<lambda>s. ((), f s))"

fun handle_selection :: "'s services \<Rightarrow> dashboard_menu \<Rightarrow> string \<Rightarrow> ('s session, bool) state" where
  "handle_selection S ReadinessMenu choice = handle_readiness_selection S choice"
| "handle_selection S MonitorMenu choice = handle_monitor_selection S choice"
| "handle_selection S FirewallMenu choice = handle_firewall_selection S choice"
| "handle_selection S NetworkMenu choice = handle_network_selection S choice"
| "handle_selection S EvidenceMenu choice = handle_evidence_selection S choice"
| "handle_selection S SettingsMenu choice = handle_settings_selection S choice"
| "handle_selection S EmergencyMenu choice = handle_emergency_selection S choice"
| "handle_selection S MainMenu choice = not_handled"

definition main_selection :: "string \<Rightarrow> dashboard_menu option" where
  "main_selection choice =
     (if choice = ''1'' \<or> choice = ''readiness'' then Some ReadinessMenu
      else if choice = ''2'' \<or> choice = ''monitor'' then Some MonitorMenu
      else if choice = ''3'' \<or> choice = ''firewall'' then Some FirewallMenu
      else if choice = ''4'' \<or> choice = ''network'' then Some NetworkMenu
      else if choice = ''5'' \<or> choice = ''evidence'' then Some EvidenceMenu
      else if choice = ''6'' \<or> choice = ''settings'' then Some SettingsMenu
      else if choice = ''9'' \<or> choice = ''emergency'' then Some EmergencyMenu
      else None)"

definition is_quit :: "string \<Rightarrow> bool" where
  "is_quit choice \<longleftrightarrow> choice = ''0'' \<or> choice = ''q'' \<or> choice = ''quit'' \<or> choice = ''exit''"

definition is_back :: "string \<Rightarrow> bool" where
  "is_back choice \<longleftrightarrow> choice = ''b'' \<or> choice = ''back''"

definition select_in_menu :: "'s services \<Rightarrow> string \<Rightarrow> ('s session, unit) state" where
  "select_in_menu S choice = do {
     open_menu \<leftarrow> State (\<lambda>s. (menu s, s));
     handled \<leftarrow> handle_selection S open_menu choice;
     _ \<leftarrow> (if \<not> handled then report_invalid_selection S else State_Monad.return ());
     set_navigation (\<lambda>s. s\<lparr>detail_open := handled\<rparr>)
   }"

text \<open>One line of input; the result says whether the loop goes on.\<close>

definition session_step :: "'s services \<Rightarrow> string \<Rightarrow> ('s session, bool) state" where
  "session_step S choice =
     (if is_quit choice then State_Monad.return False
      else do {
        here \<leftarrow> State (\<lambda>s. (s, s));
        _ \<leftarrow> (if choice = ''!''
              then set_navigation (\<lambda>s. s\<lparr>menu := EmergencyMenu, detail_open := False\<rparr>)
              else if choice = ''h'' \<or> choice = ''help''
              then do {
                _ \<leftarrow> show_view S (ShowNavigationHelp (menu here));
                set_navigation (\<lambda>s. s\<lparr>detail_open := True\<rparr>)
              }
              else if choice = ''r'' \<or> choice = ''refresh''
              then do {
                _ \<leftarrow> record_action S ''refresh'' Audit;
                _ \<leftarrow> refresh S Landing;
                set_navigation (\<lambda>s. s\<lparr>detail_open := False\<rparr>)
              }
              else if \<not> detail_open here \<and> menu here = MainMenu \<and> (choice = ''?'' \<or> choice = ''more'')
              then set_navigation (\<lambda>s. s\<lparr>expanded_home := \<not> expanded_home s\<rparr>)
              else if detail_open here
              then (if is_back choice then set_navigation (\<lambda>s. s\<lparr>detail_open := False\<rparr>)
                    else report_invalid_selection S)
              else if menu here = MainMenu
              then (case main_selection choice of
                      Some m \<Rightarrow> set_navigation (\<lambda>s. s\<lparr>menu := m\<rparr>)
                    | None \<Rightarrow> report_invalid_selection S)
              else if is_back choice then set_navigation (\<lambda>s. s\<lparr>menu := MainMenu\<rparr>)
              else select_in_menu S choice);
        State_Monad.return True
      })"

definition detail_prompt :: string where
  "detail_prompt =
     [newline_char] @ ''  [B] Back  [R] Refresh menu  [H] Help  [!] Emergency  [0/Q] Exit'' @
     [newline_char] @ ''VIEW > ''"

definition session_prompt :: "'s services \<Rightarrow> ('s session, unit) state" where
  "session_prompt S = do {
     s \<leftarrow> State (\<lambda>s. (s, s));
     show_view S (if \<not> detail_open s then ShowMenu (dashboard_state s) (menu s) (expanded_home s)
                  else PrintOut detail_prompt)
   }"

fun session_loop :: "'s services \<Rightarrow> string list \<Rightarrow> ('s session, unit) state" where
  "session_loop S [] = session_prompt S"
| "session_loop S (line # lines) = do {
     _ \<leftarrow> session_prompt S;
     continues \<leftarrow> session_step S (normalize_command line);
     if continues then session_loop S lines else State_Monad.return ()
   }"

definition interactive_run :: "'s services \<Rightarrow> string list \<Rightarrow> ('s session, int) state" where
  "interactive_run S lines = do {
     _ \<leftarrow> record_event S (session_event Audit InfoLevel ''interactive-session-start'');
     _ \<leftarrow> refresh S Landing;
     _ \<leftarrow> session_loop S lines;
     _ \<leftarrow> record_event S (session_event Audit InfoLevel ''interactive-session-end'');
     _ \<leftarrow> show_view S ShowGoodbye;
     State_Monad.return 0
   }"

end
