(* ===== verification/SessionSpec.thy ===== *)
theory SessionSpec
  imports InteractiveSession
begin

text \<open>
  What the interactive session promises: an abstract machine of its screens, given by rules, that
  the session implements whatever its services answer, and the events that the services see.
\<close>

section \<open>The machine of the screens\<close>

record navigation =
  nav_menu :: dashboard_menu
  nav_detail :: bool
  nav_expanded :: bool

definition nav_of :: "'s session \<Rightarrow> navigation" where
  "nav_of s = \<lparr>nav_menu = menu s, nav_detail = detail_open s, nav_expanded = expanded_home s\<rparr>"

definition start_navigation :: navigation where
  "start_navigation = \<lparr>nav_menu = MainMenu, nav_detail = False, nav_expanded = False\<rparr>"

fun selects :: "dashboard_menu \<Rightarrow> string \<Rightarrow> bool" where
  "selects MainMenu c \<longleftrightarrow> False"
| "selects ReadinessMenu c \<longleftrightarrow> c \<in> {''1'', ''2''}"
| "selects MonitorMenu c \<longleftrightarrow> c \<in> {''1'', ''2''}"
| "selects FirewallMenu c \<longleftrightarrow>
     c \<in> {''1'', ''2'', ''3'', ''4'', ''5'', ''6'', ''7'', ''8'', ''a'', ''all''}"
| "selects NetworkMenu c \<longleftrightarrow> c \<in> {''1'', ''2'', ''3'', ''4''}"
| "selects EvidenceMenu c \<longleftrightarrow> c \<in> {''1'', ''2'', ''3'', ''4''}"
| "selects SettingsMenu c \<longleftrightarrow> c \<in> {''1'', ''2''}"
| "selects EmergencyMenu c \<longleftrightarrow> length c = 1 \<and> CHR ''1'' \<le> hd c \<and> hd c \<le> CHR ''7''"

text \<open>Commands that mean the same on every screen.\<close>

definition is_global :: "string \<Rightarrow> bool" where
  "is_global c \<longleftrightarrow> is_quit c \<or> c \<in> {''!'', ''h'', ''help'', ''r'', ''refresh''}"

definition is_toggle :: "string \<Rightarrow> bool" where
  "is_toggle c \<longleftrightarrow> c \<in> {''?'', ''more''}"

inductive navigates :: "navigation \<Rightarrow> string \<Rightarrow> navigation \<Rightarrow> bool" where
  emergency: "navigates n ''!'' (n\<lparr>nav_menu := EmergencyMenu, nav_detail := False\<rparr>)"
| show_help: "c \<in> {''h'', ''help''} \<Longrightarrow> navigates n c (n\<lparr>nav_detail := True\<rparr>)"
| refreshed: "c \<in> {''r'', ''refresh''} \<Longrightarrow> navigates n c (n\<lparr>nav_detail := False\<rparr>)"
| toggle: "\<lbrakk> nav_menu n = MainMenu; \<not> nav_detail n; is_toggle c \<rbrakk> \<Longrightarrow>
     navigates n c (n\<lparr>nav_expanded := \<not> nav_expanded n\<rparr>)"
| leave_detail: "\<lbrakk> nav_detail n; is_back c \<rbrakk> \<Longrightarrow> navigates n c (n\<lparr>nav_detail := False\<rparr>)"
| stay_in_detail: "\<lbrakk> nav_detail n; \<not> is_global c; \<not> is_back c \<rbrakk> \<Longrightarrow> navigates n c n"
| enter_menu: "\<lbrakk> nav_menu n = MainMenu; \<not> nav_detail n; main_selection c = Some m \<rbrakk> \<Longrightarrow>
     navigates n c (n\<lparr>nav_menu := m\<rparr>)"
| stay_at_home: "\<lbrakk> nav_menu n = MainMenu; \<not> nav_detail n; main_selection c = None; \<not> is_global c;
     \<not> is_toggle c \<rbrakk> \<Longrightarrow> navigates n c n"
| leave_menu: "\<lbrakk> nav_menu n \<noteq> MainMenu; \<not> nav_detail n; is_back c \<rbrakk> \<Longrightarrow>
     navigates n c (n\<lparr>nav_menu := MainMenu\<rparr>)"
| select_view: "\<lbrakk> nav_menu n \<noteq> MainMenu; \<not> nav_detail n; selects (nav_menu n) c \<rbrakk> \<Longrightarrow>
     navigates n c (n\<lparr>nav_detail := True\<rparr>)"
| stay_in_menu: "\<lbrakk> nav_menu n \<noteq> MainMenu; \<not> nav_detail n; \<not> selects (nav_menu n) c; \<not> is_global c;
     \<not> is_back c \<rbrakk> \<Longrightarrow> navigates n c n"

inductive_cases navigates_detailE: "navigates \<lparr>nav_menu = m, nav_detail = True, nav_expanded = x\<rparr> c n"

text \<open>The same machine as a function.\<close>

definition nav_step :: "string \<Rightarrow> navigation \<Rightarrow> navigation" where
  "nav_step c n =
     (if c = ''!'' then n\<lparr>nav_menu := EmergencyMenu, nav_detail := False\<rparr>
      else if c = ''h'' \<or> c = ''help'' then n\<lparr>nav_detail := True\<rparr>
      else if c = ''r'' \<or> c = ''refresh'' then n\<lparr>nav_detail := False\<rparr>
      else if \<not> nav_detail n \<and> nav_menu n = MainMenu \<and> is_toggle c
      then n\<lparr>nav_expanded := \<not> nav_expanded n\<rparr>
      else if nav_detail n then (if is_back c then n\<lparr>nav_detail := False\<rparr> else n)
      else if nav_menu n = MainMenu
      then (case main_selection c of Some m \<Rightarrow> n\<lparr>nav_menu := m\<rparr> | None \<Rightarrow> n)
      else if is_back c then n\<lparr>nav_menu := MainMenu\<rparr>
      else n\<lparr>nav_detail := selects (nav_menu n) c\<rparr>)"

lemma nav_detail_False: "\<not> nav_detail n \<Longrightarrow> n\<lparr>nav_detail := False\<rparr> = n"
  by (cases n) simp

lemma global_not_main: "is_global c \<or> is_toggle c \<Longrightarrow> main_selection c = None"
  unfolding is_global_def is_toggle_def is_quit_def
  by (simp only: insert_iff empty_iff, elim disjE) (simp_all add: main_selection_def)

lemma main_selection_plain: "main_selection c \<noteq> None \<Longrightarrow> \<not> is_global c \<and> \<not> is_toggle c"
  using global_not_main[of c] by metis

lemma selects_plain: "selects m c \<Longrightarrow> \<not> is_global c \<and> \<not> is_back c"
proof (cases "m = EmergencyMenu")
  case True
  moreover assume "selects m c"
  ultimately obtain d where d: "c = [d]" "CHR ''1'' \<le> d" "d \<le> CHR ''7''" by (cases c) auto
  then have "49 \<le> byte d" "byte d \<le> 55" by (simp_all add: less_eq_char_def)
  then have "d \<noteq> CHR ''0''" "d \<noteq> CHR ''q''" "d \<noteq> CHR ''!''" "d \<noteq> CHR ''h''" "d \<noteq> CHR ''r''" "d \<noteq> CHR ''b''"
    by auto
  then show ?thesis by (simp add: d(1) is_global_def is_quit_def is_back_def)
next
  case False
  moreover assume "selects m c"
  ultimately have "c \<in> {''1'', ''2'', ''3'', ''4'', ''5'', ''6'', ''7'', ''8'', ''a'', ''all''}"
    by (cases m) (simp_all only: selects.simps insert_iff empty_iff simp_thms, blast+)
  then show ?thesis
    by (simp only: insert_iff empty_iff, elim disjE) (simp_all add: is_global_def is_quit_def is_back_def)
qed

lemma nav_step_global:
  "nav_step ''!'' n = n\<lparr>nav_menu := EmergencyMenu, nav_detail := False\<rparr>"
  "c \<in> {''h'', ''help''} \<Longrightarrow> nav_step c n = n\<lparr>nav_detail := True\<rparr>"
  "c \<in> {''r'', ''refresh''} \<Longrightarrow> nav_step c n = n\<lparr>nav_detail := False\<rparr>"
  by (auto simp: nav_step_def)

lemma nav_step_local:
  "\<not> is_global c \<Longrightarrow> nav_step c n =
     (if nav_detail n then (if is_back c then n\<lparr>nav_detail := False\<rparr> else n)
      else if nav_menu n = MainMenu
      then (if is_toggle c then n\<lparr>nav_expanded := \<not> nav_expanded n\<rparr>
            else case main_selection c of Some m \<Rightarrow> n\<lparr>nav_menu := m\<rparr> | None \<Rightarrow> n)
      else if is_back c then n\<lparr>nav_menu := MainMenu\<rparr>
      else n\<lparr>nav_detail := selects (nav_menu n) c\<rparr>)"
  by (simp add: nav_step_def is_global_def)

lemma navigates_nav_step:
  assumes "\<not> is_quit c"
  shows "navigates n c (nav_step c n)"
proof (cases "is_global c")
  case True
  then consider "c = ''!''" | "c \<in> {''h'', ''help''}" | "c \<in> {''r'', ''refresh''}"
    using assms by (auto simp: is_global_def)
  then show ?thesis
    by cases (simp_all only: nav_step_global emergency show_help refreshed)
next
  case g: False
  show ?thesis
  proof (cases "nav_detail n")
    case True
    then show ?thesis using g by (simp add: nav_step_local leave_detail stay_in_detail)
  next
    case d: False
    show ?thesis
    proof (cases "nav_menu n = MainMenu")
      case True
      then show ?thesis
        using g d by (simp add: nav_step_local toggle enter_menu stay_at_home split: option.split)
    next
      case m: False
      have "navigates n c (n\<lparr>nav_detail := selects (nav_menu n) c\<rparr>)" if "\<not> is_back c"
      proof (cases "selects (nav_menu n) c")
        case True
        then show ?thesis using select_view[OF m d] by simp
      next
        case False
        then show ?thesis using stay_in_menu[OF m d False g that] nav_detail_False[OF d] by simp
      qed
      then show ?thesis using g d m leave_menu[OF m d] by (simp add: nav_step_local)
    qed
  qed
qed

lemma nav_step_navigates: "navigates n c n' \<Longrightarrow> n' = nav_step c n"
proof (induction rule: navigates.induct)
  case (select_view n c)
  then show ?case using selects_plain[of "nav_menu n" c] by (simp add: nav_step_local)
next
  case (enter_menu n c m)
  then show ?case using main_selection_plain[of c] by (simp add: nav_step_local)
next
  case (toggle n c)
  moreover have "\<not> is_global c" using toggle(3) by (auto simp: is_toggle_def is_global_def is_quit_def)
  ultimately show ?case by (simp add: nav_step_local)
next
  case (leave_detail n c)
  moreover have "\<not> is_global c" using leave_detail(2) by (auto simp: is_back_def is_global_def is_quit_def)
  ultimately show ?case by (simp add: nav_step_local)
next
  case (leave_menu n c)
  moreover have "\<not> is_global c" using leave_menu(3) by (auto simp: is_back_def is_global_def is_quit_def)
  ultimately show ?case by (simp add: nav_step_local)
qed (simp_all add: nav_step_global nav_step_local nav_detail_False)

lemma navigates_iff: "\<not> is_quit c \<Longrightarrow> navigates n c n' \<longleftrightarrow> n' = nav_step c n"
  using navigates_nav_step nav_step_navigates by blast

section \<open>What the operations of a session preserve\<close>

lemma nav_of_simps [simp]:
  "nav_of (s\<lparr>outer := w\<rparr>) = nav_of s" "nav_of (s\<lparr>dashboard_state := d\<rparr>) = nav_of s"
  "nav_of (s\<lparr>next_snapshot_id := i\<rparr>) = nav_of s" "nav_of (s\<lparr>logging_failure_reported := b\<rparr>) = nav_of s"
  by (simp_all add: nav_of_def)

lemma service_nav [preserves_intro]: "preserves nav_of (service m)"
  by (simp add: preserves_def service_def split_def)

lemma state_preserves: "(\<And>s. f (h s) = f s) \<Longrightarrow> preserves f (State (\<lambda>s. (g s, h s)))"
  by (simp add: preserves_def)

lemmas session_defs = record_action_def record_event_def report_once_def refresh_def open_view_def
  current_def show_view_def record_when_def report_invalid_selection_def not_handled_def

lemmas selection_defs = handle_firewall_selection_def handle_network_selection_def
  handle_readiness_selection_def handle_monitor_selection_def handle_evidence_selection_def
  handle_settings_selection_def handle_emergency_selection_def run_diagnostics_def run_capture_def
  run_history_def run_log_analysis_def run_advisories_def show_boundary_def

lemma session_nav [preserves_intro]:
  "preserves nav_of (record_event S ev)" "preserves nav_of (refresh S d)"
  "preserves nav_of (report_invalid_selection S)" "preserves nav_of (show_view S v)"
  "preserves nav_of (open_view S a c b hdr vw)" "preserves nav_of (record_when S b nm)"
  unfolding session_defs by (intro preserves_intro state_preserves; simp)+

lemma selection_nav: "preserves nav_of (handle_selection S m c)"
  by (cases m; simp only: handle_selection.simps;
      unfold selection_defs Let_def record_action_def not_handled_def current_def;
      intro preserves_intro state_preserves; simp)

lemma selection_result: "fst (run_state (handle_selection S m c) s) = selects m c"
  by (cases m) (auto simp: selection_defs session_defs split_def Let_def)

section \<open>The session implements the machine\<close>

lemma nav_of_updates [simp]:
  "nav_of (s\<lparr>menu := m\<rparr>) = (nav_of s)\<lparr>nav_menu := m\<rparr>"
  "nav_of (s\<lparr>detail_open := b\<rparr>) = (nav_of s)\<lparr>nav_detail := b\<rparr>"
  "nav_of (s\<lparr>expanded_home := x\<rparr>) = (nav_of s)\<lparr>nav_expanded := x\<rparr>"
  "nav_menu (nav_of s) = menu s" "nav_detail (nav_of s) = detail_open s"
  "nav_expanded (nav_of s) = expanded_home s"
  by (simp_all add: nav_of_def)

lemmas session_nav_eqs = session_nav[THEN preservesD] selection_nav[THEN preservesD]

lemma record_action_nav: "nav_of (snd (run_state (record_action S a c) s)) = nav_of s"
  by (simp add: record_action_def session_nav_eqs)

lemma report_if_nav:
  "nav_of (snd (run_state (if b then report_invalid_selection S else State_Monad.return ()) s)) = nav_of s"
  by (simp add: session_nav_eqs)

lemma select_in_menu_nav:
  "nav_of (snd (run_state (select_in_menu S c) s)) = (nav_of s)\<lparr>nav_detail := selects (menu s) c\<rparr>"
  by (simp add: select_in_menu_def set_navigation_def split_def selection_result session_nav_eqs)

lemma session_step_nav:
  assumes "\<not> is_quit c"
  shows "fst (run_state (session_step S c) s) \<and>
    nav_of (snd (run_state (session_step S c) s)) = nav_step c (nav_of s)"
  using assms
  by (simp add: session_step_def nav_step_def set_navigation_def split_def is_toggle_def session_nav_eqs
      record_action_nav select_in_menu_nav split: option.split)

lemma session_quits: "is_quit c \<Longrightarrow> run_state (session_step S c) s = (False, s)"
  by (simp add: session_step_def)

section \<open>The traffic of a session\<close>

definition traffic :: "'s observed session \<Rightarrow> event list" where
  "traffic s = external_events (outer s)"

definition emits :: "event list \<Rightarrow> ('s observed session, 'a) state \<Rightarrow> bool" where
  "emits es m \<longleftrightarrow> (\<forall>s. traffic (snd (run_state m s)) = traffic s @ es)"

lemma emits_Nil: "emits [] m \<longleftrightarrow> preserves traffic m"
  by (simp add: emits_def preserves_def)

lemma emits_bind: "emits es m \<Longrightarrow> (\<And>x. emits fs (f x)) \<Longrightarrow> emits (es @ fs) (State_Monad.bind m f)"
  by (simp add: emits_def split_def)

lemma emits_then: "emits es m \<Longrightarrow> (\<And>x. preserves traffic (f x)) \<Longrightarrow> emits es (State_Monad.bind m f)"
  by (simp add: emits_def preserves_def split_def)

lemma emits_after: "preserves traffic m \<Longrightarrow> (\<And>x. emits es (f x)) \<Longrightarrow> emits es (State_Monad.bind m f)"
  by (simp add: emits_def preserves_def split_def)

lemma traffic_simps [simp]:
  "traffic (s\<lparr>menu := m\<rparr>) = traffic s" "traffic (s\<lparr>detail_open := b\<rparr>) = traffic s"
  "traffic (s\<lparr>expanded_home := b\<rparr>) = traffic s" "traffic (s\<lparr>dashboard_state := d\<rparr>) = traffic s"
  "traffic (s\<lparr>next_snapshot_id := i\<rparr>) = traffic s" "traffic (s\<lparr>logging_failure_reported := b\<rparr>) = traffic s"
  by (simp_all add: traffic_def)

lemma service_emits: "emits (filter external es) (service (observe es m))"
  by (simp add: emits_def service_def observe_def traffic_def external_events_def split_def)

lemma observed_traffic [preserves_intro]:
  "preserves traffic (service (svc_posture (observing S) d))"
  "preserves traffic (service (svc_snapshot (observing S) st i))"
  "preserves traffic (service (svc_history (observing S)))"
  "preserves traffic (service (svc_logs (observing S)))"
  "preserves traffic (service (svc_record (observing S) ev))"
  "preserves traffic (service (svc_display (observing S) v))"
  unfolding emits_Nil[symmetric] observing_def services.simps
  using service_emits[of "[PostureEvent d]"] service_emits[of "[]"] service_emits[of "[HistoryEvent]"]
    service_emits[of "[LogsEvent]"] service_emits[of "[RecordEvent ev]"] service_emits[of "[DisplayEvent v]"]
  by simp_all

lemma external_emits:
  "emits [DiagnosticsEvent e a] (service (svc_diagnostics (observing S) e a))"
  "emits [CaptureEvent e] (service (svc_capture (observing S) e v))"
  "emits [AdvisoriesEvent] (service (svc_advisories (observing S)))"
  unfolding observing_def services.simps
  using service_emits[of "[DiagnosticsEvent e a]"] service_emits[of "[CaptureEvent e]"]
    service_emits[of "[AdvisoriesEvent]"] by simp_all

lemma session_traffic [preserves_intro]:
  "preserves traffic (record_event (observing S) ev)" "preserves traffic (refresh (observing S) d)"
  "preserves traffic (report_invalid_selection (observing S))" "preserves traffic (show_view (observing S) v)"
  "preserves traffic (open_view (observing S) a c b hdr vw)" "preserves traffic (record_when (observing S) b nm)"
  "preserves traffic (current :: ('s observed session, _) state)"
  unfolding session_defs by (intro preserves_intro state_preserves; simp)+

fun requested :: "dashboard_menu \<Rightarrow> string \<Rightarrow> event list" where
  "requested NetworkMenu c =
     (if c = ''2'' then [DiagnosticsEvent False False] else if c = ''3'' then [CaptureEvent False] else [])"
| "requested EvidenceMenu c = (if c = ''3'' then [AdvisoriesEvent] else [])"
| "requested _ c = []"

lemma emits_if: "(b \<Longrightarrow> emits es m) \<Longrightarrow> (\<not> b \<Longrightarrow> emits fs n) \<Longrightarrow> emits (if b then es else fs) (if b then m else n)"
  by simp

lemma run_emits:
  "emits [DiagnosticsEvent False False] (run_diagnostics (observing S))"
  "emits [CaptureEvent False] (run_capture (observing S))"
  "emits [AdvisoriesEvent] (run_advisories (observing S))"
  unfolding run_diagnostics_def run_capture_def run_advisories_def record_action_def
  by (rule emits_after emits_then external_emits | intro preserves_intro)+

lemma quiet_selections [preserves_intro]:
  "preserves traffic (run_history (observing S))" "preserves traffic (run_log_analysis (observing S) a m)"
  "preserves traffic (show_boundary (observing S) a t c n)"
  "preserves traffic (not_handled :: ('s observed session, _) state)"
  unfolding run_history_def run_log_analysis_def show_boundary_def record_action_def not_handled_def
  by (intro preserves_intro)+

lemma selection_emits: "emits (requested m c) (handle_selection (observing S) m c)"
proof (cases m)
  case NetworkMenu
  then show ?thesis
    by (simp add: handle_network_selection_def run_emits emits_Nil preserves_intro)
next
  case EvidenceMenu
  then show ?thesis
    by (simp add: handle_evidence_selection_def run_emits emits_Nil preserves_intro)
qed (simp_all add: emits_Nil selection_defs record_action_def Let_def preserves_intro)

definition step_requests :: "string \<Rightarrow> navigation \<Rightarrow> event list" where
  "step_requests c n =
     (if is_global c \<or> nav_detail n \<or> nav_menu n = MainMenu \<or> is_back c then []
      else requested (nav_menu n) c)"

fun session_requests :: "navigation \<Rightarrow> string list \<Rightarrow> event list" where
  "session_requests n [] = []"
| "session_requests n (c # cs) =
     (if is_quit c then [] else step_requests c n @ session_requests (nav_step c n) cs)"

lemmas session_traffic_eqs = session_traffic[THEN preservesD]

lemma emitsD: "emits es m \<Longrightarrow> traffic (snd (run_state m s)) = traffic s @ es"
  by (simp add: emits_def)

lemma select_in_menu_traffic:
  "traffic (snd (run_state (select_in_menu (observing S) c) s)) = traffic s @ requested (menu s) c"
  by (simp add: select_in_menu_def set_navigation_def split_def session_traffic_eqs
      emitsD[OF selection_emits])

lemma session_step_traffic:
  "\<not> is_quit c \<Longrightarrow> traffic (snd (run_state (session_step (observing S) c) s)) =
     traffic s @ step_requests c (nav_of s)"
  by (simp add: session_step_def step_requests_def is_global_def set_navigation_def split_def
      session_traffic_eqs record_action_def select_in_menu_traffic split: option.split)

lemma session_prompt_views:
  "nav_of (snd (run_state (session_prompt S) s)) = nav_of s"
  "traffic (snd (run_state (session_prompt (observing S)) t)) = traffic t"
  by (simp_all add: session_prompt_def session_nav_eqs session_traffic_eqs)

lemma session_loop_traffic:
  "traffic (snd (run_state (session_loop (observing S) ls) s)) =
     traffic s @ session_requests (nav_of s) (map normalize_command ls)"
proof (induction ls arbitrary: s)
  case Nil
  then show ?case by (simp add: session_prompt_views)
next
  case (Cons l ls)
  let ?s = "snd (run_state (session_prompt (observing S)) s)"
  show ?case
  proof (cases "is_quit (normalize_command l)")
    case True
    then show ?thesis by (simp add: session_quits split_def session_prompt_views)
  next
    case False
    note n = session_step_nav[OF False, of "observing S" ?s]
    show ?thesis
      using n False
      by (simp add: split_def Cons.IH session_step_traffic session_prompt_views)
  qed
qed

fun nav_run :: "navigation \<Rightarrow> string list \<Rightarrow> navigation" where
  "nav_run n [] = n"
| "nav_run n (c # cs) = (if is_quit c then n else nav_run (nav_step c n) cs)"

lemma session_loop_nav:
  "nav_of (snd (run_state (session_loop S ls) s)) = nav_run (nav_of s) (map normalize_command ls)"
proof (induction ls arbitrary: s)
  case Nil
  then show ?case by (simp add: session_prompt_views)
next
  case (Cons l ls)
  let ?s = "snd (run_state (session_prompt S) s)"
  show ?case
  proof (cases "is_quit (normalize_command l)")
    case True
    then show ?thesis by (simp add: session_quits split_def session_prompt_views)
  next
    case False
    note n = session_step_nav[OF False, of S ?s]
    show ?thesis using n False by (simp add: split_def Cons.IH session_prompt_views)
  qed
qed

section \<open>Announcements\<close>

text \<open>What the operator sees and the log holds right before external traffic: the audit record of
  the request, then the header of the view with its warning; the one-time notice that logging
  failed may stand between them.\<close>

fun request_log :: "event \<Rightarrow> log_event" where
  "request_log (DiagnosticsEvent e a) = action_event ''network-diagnostics'' Audit"
| "request_log (CaptureEvent e) = action_event ''network-metadata'' Audit"
| "request_log _ = action_event ''security-advisories'' Security"

fun request_header :: "event \<Rightarrow> display" where
  "request_header (DiagnosticsEvent e a) =
     ShowDetailHeader NetworkMenu ''Ping and traceroute diagnostics'' ''EXTERNAL TRAFFIC''"
| "request_header (CaptureEvent e) = ShowDetailHeader NetworkMenu ''Public IP metadata'' ''EXTERNAL REQUEST''"
| "request_header _ =
     ShowDetailHeader EvidenceMenu ''Security advisories and CVEs'' ''EXTERNAL PACKAGE METADATA''"

definition announces :: "event list \<Rightarrow> event \<Rightarrow> bool" where
  "announces older e \<longleftrightarrow>
     take 2 older = [DisplayEvent (request_header e), RecordEvent (request_log e)] \<or>
     take 3 older = [DisplayEvent (request_header e), DisplayEvent (PrintError logging_warning),
       RecordEvent (request_log e)]"

fun announced_newest :: "event list \<Rightarrow> bool" where
  "announced_newest [] = True"
| "announced_newest (e # older) \<longleftrightarrow> (external e \<longrightarrow> announces older e) \<and> announced_newest older"

definition announced :: "event list \<Rightarrow> bool" where
  "announced es = announced_newest (rev es)"

definition all_announced :: "'s observed session \<Rightarrow> bool" where
  "all_announced s \<longleftrightarrow> announced (trace (outer s))"

lemma announced_snoc: "announced (es @ [e]) \<longleftrightarrow> (external e \<longrightarrow> announces (rev es) e) \<and> announced es"
  by (simp add: announced_def)

lemma announced_Nil [simp]: "announced []"
  by (simp add: announced_def)

lemma quiet_announced:
  "list_all (\<lambda>e. \<not> external e) es \<Longrightarrow> keeps all_announced (service (observe es m))"
proof -
  have "announced tr \<Longrightarrow> list_all (\<lambda>e. \<not> external e) es \<Longrightarrow> announced (tr @ es)" for tr
    by (induction es rule: rev_induct) (simp_all add: announced_snoc flip: append_assoc)
  then show "list_all (\<lambda>e. \<not> external e) es \<Longrightarrow> ?thesis"
    by (simp add: keeps_def all_announced_def service_def observe_def split_def)
qed

lemma observed_announced:
  "keeps all_announced (service (svc_posture (observing S) d))"
  "keeps all_announced (service (svc_snapshot (observing S) st i))"
  "keeps all_announced (service (svc_history (observing S)))"
  "keeps all_announced (service (svc_logs (observing S)))"
  "keeps all_announced (service (svc_record (observing S) ev))"
  "keeps all_announced (service (svc_display (observing S) v))"
  unfolding observing_def services.simps by (rule quiet_announced; simp)+

lemma state_keeps: "(\<And>s. I s \<Longrightarrow> I (h s)) \<Longrightarrow> keeps I (State (\<lambda>s. (g s, h s)))"
  by (simp add: keeps_def)

lemma all_announced_simps [simp]:
  "all_announced (s\<lparr>menu := m\<rparr>) = all_announced s" "all_announced (s\<lparr>detail_open := b\<rparr>) = all_announced s"
  "all_announced (s\<lparr>expanded_home := b\<rparr>) = all_announced s"
  "all_announced (s\<lparr>dashboard_state := d\<rparr>) = all_announced s"
  "all_announced (s\<lparr>next_snapshot_id := i\<rparr>) = all_announced s"
  "all_announced (s\<lparr>logging_failure_reported := b\<rparr>) = all_announced s"
  by (simp_all add: all_announced_def)

lemma session_announced:
  "keeps all_announced (record_event (observing S) ev)" "keeps all_announced (refresh (observing S) d)"
  "keeps all_announced (report_invalid_selection (observing S))"
  "keeps all_announced (show_view (observing S) v)"
  "keeps all_announced (open_view (observing S) a c b hdr vw)"
  "keeps all_announced (record_when (observing S) b nm)"
  "keeps all_announced (record_action (observing S) a c)"
  "keeps all_announced (current :: ('s observed session, _) state)"
  "keeps all_announced (not_handled :: ('s observed session, _) state)"
  unfolding session_defs by (intro keeps_intro observed_announced state_keeps; simp)+

text \<open>A request that is logged and announced before it is made.\<close>

lemma recorded_trace:
  "trace (outer (snd (run_state (record_event (observing S) ev) s))) =
     trace (outer s) @ [RecordEvent ev] \<or>
   trace (outer (snd (run_state (record_event (observing S) ev) s))) =
     trace (outer s) @ [RecordEvent ev, DisplayEvent (PrintError logging_warning)]"
  by (simp add: record_event_def report_once_def show_view_def observing_def service_def observe_def split_def)

lemma shown_trace:
  "trace (outer (snd (run_state (show_view (observing S) v) s))) = trace (outer s) @ [DisplayEvent v]"
  by (simp add: show_view_def observing_def service_def observe_def split_def)

lemma announced_request:
  fixes S :: "'s services"
  assumes "\<And>s. trace (outer (snd (run_state (request (observing S)) s))) = trace (outer s) @ [e]"
    and "external e" and rest: "\<And>x. keeps all_announced (f x)"
  shows "keeps all_announced (do {
    _ \<leftarrow> record_event (observing S) (request_log e);
    _ \<leftarrow> show_view (observing S) (request_header e);
    x \<leftarrow> request (observing S);
    f x })"
  unfolding keeps_def
proof (intro allI impI)
  fix s :: "'s observed session" assume s: "all_announced s"
  let ?s1 = "snd (run_state (record_event (observing S) (request_log e)) s)"
  let ?s2 = "snd (run_state (show_view (observing S) (request_header e)) ?s1)"
  let ?r = "run_state (request (observing S)) ?s2"
  have "announced (trace (outer ?s2))"
    using keepsD[OF session_announced(4)] keepsD[OF session_announced(1) s]
    by (fastforce simp: all_announced_def)
  moreover have "announces (rev (trace (outer ?s2))) e"
    using recorded_trace[of S "request_log e" s] by (auto simp: shown_trace announces_def)
  ultimately have "all_announced (snd ?r)"
    using assms(1)[of ?s2] by (simp add: all_announced_def announced_snoc)
  then show "all_announced (snd (run_state (do {
      _ \<leftarrow> record_event (observing S) (request_log e);
      _ \<leftarrow> show_view (observing S) (request_header e);
      x \<leftarrow> request (observing S);
      f x }) s))"
    using keepsD[OF rest] by (simp add: split_def)
qed

lemma service_trace:
  "trace (outer (snd (run_state (service (observe es m)) s))) = trace (outer s) @ es"
  by (simp add: service_def observe_def split_def)

lemma external_trace:
  "trace (outer (snd (run_state (service (svc_diagnostics (observing S) e a)) s))) =
     trace (outer s) @ [DiagnosticsEvent e a]"
  "trace (outer (snd (run_state (service (svc_capture (observing S) e v)) s))) =
     trace (outer s) @ [CaptureEvent e]"
  "trace (outer (snd (run_state (service (svc_advisories (observing S))) s))) =
     trace (outer s) @ [AdvisoriesEvent]"
  by (simp_all add: observing_def service_trace)

lemma announced_runs:
  "keeps all_announced (run_diagnostics (observing S))"
  "keeps all_announced (run_capture (observing S))"
  "keeps all_announced (run_advisories (observing S))"
proof -
  note parts = keeps_intro session_announced
  show "keeps all_announced (run_diagnostics (observing S))"
    unfolding run_diagnostics_def record_action_def
    by (rule announced_request[where e = "DiagnosticsEvent False False"
          and request = "\<lambda>S. service (svc_diagnostics S False False)", simplified request_log.simps request_header.simps])
      (simp add: external_trace, simp, intro parts)
  show "keeps all_announced (run_advisories (observing S))"
    unfolding run_advisories_def record_action_def
    by (rule announced_request[where e = AdvisoriesEvent
          and request = "\<lambda>S. service (svc_advisories S)", simplified request_log.simps request_header.simps])
      (simp add: external_trace, simp, intro parts)
  let ?request = "\<lambda>S. do {
      snapshot \<leftarrow> current;
      service (svc_capture S False (active_tunnel_interfaces (vpn (ds_firewall snapshot)) \<noteq> [])) }"
  let ?rest = "\<lambda>capture. do {
      _ \<leftarrow> record_when (observing S) (\<not> capture_successful capture) ''network-metadata-failed'';
      _ \<leftarrow> show_view (observing S) (ShowNetworkMetadata (nc_metadata capture) (history_status capture));
      State_Monad.return True }"
  have r: "keeps all_announced (?rest c)" for c by (intro parts)
  have "keeps all_announced (do {
      _ \<leftarrow> record_event (observing S) (request_log (CaptureEvent False));
      _ \<leftarrow> show_view (observing S) (request_header (CaptureEvent False));
      x \<leftarrow> ?request (observing S);
      ?rest x })"
    by (rule announced_request[where request = ?request])
      (simp_all add: external_trace current_def r)
  then show "keeps all_announced (run_capture (observing S))"
    by (simp add: run_capture_def record_action_def)
qed

lemma quiet_runs:
  "keeps all_announced (run_history (observing S))"
  "keeps all_announced (run_log_analysis (observing S) a m)"
  "keeps all_announced (show_boundary (observing S) a t c n)"
  unfolding run_history_def run_log_analysis_def show_boundary_def
  by (intro keeps_intro session_announced observed_announced)+

lemma selection_announced: "keeps all_announced (handle_selection (observing S) m c)"
  by (cases m)
    (auto simp: handle_firewall_selection_def handle_network_selection_def handle_readiness_selection_def
      handle_monitor_selection_def handle_evidence_selection_def handle_settings_selection_def
      handle_emergency_selection_def Let_def
      intro!: keeps_if announced_runs quiet_runs session_announced keeps_bind keeps_return)

lemma navigation_announced:
  "(\<And>s. outer (f s) = outer s) \<Longrightarrow> keeps all_announced (set_navigation f)"
  by (simp add: keeps_def set_navigation_def all_announced_def)

lemma reading_keeps: "keeps I (State (\<lambda>s. (g s, s)))"
  by (simp add: keeps_def)

lemma keeps_option_case: "keeps I m \<Longrightarrow> (\<And>y. keeps I (n y)) \<Longrightarrow> keeps I (case x of None \<Rightarrow> m | Some y \<Rightarrow> n y)"
  by (cases x) simp_all

lemma session_step_announced: "keeps all_announced (session_step (observing S) c)"
  unfolding session_step_def select_in_menu_def
  by (intro keeps_intro session_announced selection_announced navigation_announced reading_keeps
      keeps_option_case; simp)

lemma session_prompt_announced: "keeps all_announced (session_prompt (observing S))"
  unfolding session_prompt_def by (intro keeps_intro session_announced reading_keeps)

lemma session_loop_announced: "keeps all_announced (session_loop (observing S) ls)"
  by (induction ls) (auto intro!: keeps_intro session_prompt_announced session_step_announced)

lemma interactive_run_announced: "keeps all_announced (interactive_run (observing S) ls)"
  unfolding interactive_run_def by (intro keeps_intro session_announced session_loop_announced)

section \<open>Snapshot identifiers\<close>

definition is_posture :: "event \<Rightarrow> bool" where
  "is_posture e \<longleftrightarrow> (case e of PostureEvent d \<Rightarrow> True | _ \<Rightarrow> False)"

definition collections :: "'s observed session \<Rightarrow> nat" where
  "collections s = length (filter is_posture (trace (outer s)))"

definition identifiers :: "'s observed session \<Rightarrow> 64 word \<times> nat" where
  "identifiers s = (next_snapshot_id s, collections s)"

definition numbered :: "'s observed session \<Rightarrow> bool" where
  "numbered s \<longleftrightarrow> next_snapshot_id s = 1 + of_nat (collections s)"

lemma identifiers_numbered: "preserves identifiers m \<Longrightarrow> keeps numbered m"
  by (simp add: preserves_def keeps_def numbered_def identifiers_def)

lemma identifiers_simps [simp]:
  "identifiers (s\<lparr>menu := m\<rparr>) = identifiers s" "identifiers (s\<lparr>detail_open := b\<rparr>) = identifiers s"
  "identifiers (s\<lparr>expanded_home := b\<rparr>) = identifiers s"
  "identifiers (s\<lparr>dashboard_state := d\<rparr>) = identifiers s"
  "identifiers (s\<lparr>logging_failure_reported := b\<rparr>) = identifiers s"
  by (simp_all add: identifiers_def collections_def)

lemma service_identifiers:
  "list_all (\<lambda>e. \<not> is_posture e) es \<Longrightarrow> preserves identifiers (service (observe es m))"
  by (simp add: preserves_def identifiers_def collections_def service_def observe_def split_def
      list_all_iff filter_False)

lemma observed_identifiers [preserves_intro]:
  "preserves identifiers (service (svc_snapshot (observing S) st i))"
  "preserves identifiers (service (svc_history (observing S)))"
  "preserves identifiers (service (svc_logs (observing S)))"
  "preserves identifiers (service (svc_record (observing S) ev))"
  "preserves identifiers (service (svc_display (observing S) v))"
  "preserves identifiers (service (svc_diagnostics (observing S) e a))"
  "preserves identifiers (service (svc_capture (observing S) e b))"
  "preserves identifiers (service (svc_advisories (observing S)))"
  unfolding observing_def services.simps by (rule service_identifiers; simp add: is_posture_def)+

lemma session_identifiers [preserves_intro]:
  "preserves identifiers (record_event (observing S) ev)"
  "preserves identifiers (report_invalid_selection (observing S))"
  "preserves identifiers (show_view (observing S) v)"
  "preserves identifiers (record_when (observing S) b nm)"
  "preserves identifiers (record_action (observing S) a c)"
  "preserves identifiers (current :: ('s observed session, _) state)"
  "preserves identifiers (not_handled :: ('s observed session, _) state)"
  unfolding session_defs by (intro preserves_intro state_preserves; simp)+

lemma refresh_numbered: "keeps numbered (refresh (observing S) d)"
proof -
  have p: "collections (snd (run_state (service (svc_posture (observing S) d)) s)) = Suc (collections s)"
    "next_snapshot_id (snd (run_state (service (svc_posture (observing S) d)) s)) = next_snapshot_id s" for s
    by (simp_all add: collections_def observing_def service_def observe_def split_def is_posture_def)
  have step: "keeps numbered (do {
      st \<leftarrow> service (svc_posture (observing S) d);
      sid \<leftarrow> State (\<lambda>s. (next_snapshot_id s, s\<lparr>next_snapshot_id := next_snapshot_id s + 1\<rparr>));
      f st sid })" if "\<And>st sid. keeps numbered (f st sid)" for f :: "_ \<Rightarrow> _ \<Rightarrow> (_, unit) state"
    using keepsD[OF that] p
    by (auto simp: keeps_def split_def numbered_def collections_def)
  show ?thesis
    unfolding refresh_def
    by (intro keeps_bind[OF identifiers_numbered[OF session_identifiers(1)]] step keeps_intro
        identifiers_numbered observed_identifiers state_preserves) simp
qed

lemma open_view_numbered: "keeps numbered (open_view (observing S) a c b hdr vw)"
  unfolding open_view_def
  by (intro keeps_intro refresh_numbered session_identifiers[THEN identifiers_numbered])

lemma runs_numbered:
  "keeps numbered (run_diagnostics (observing S))" "keeps numbered (run_capture (observing S))"
  "keeps numbered (run_advisories (observing S))" "keeps numbered (run_history (observing S))"
  "keeps numbered (run_log_analysis (observing S) a m)" "keeps numbered (show_boundary (observing S) a t c n)"
  unfolding run_diagnostics_def run_capture_def run_advisories_def run_history_def run_log_analysis_def
    show_boundary_def
  by (rule identifiers_numbered, intro preserves_intro)+

lemma selection_numbered: "keeps numbered (handle_selection (observing S) m c)"
  by (cases m)
    (auto simp: handle_firewall_selection_def handle_network_selection_def handle_readiness_selection_def
      handle_monitor_selection_def handle_evidence_selection_def handle_settings_selection_def
      handle_emergency_selection_def Let_def
      intro!: keeps_if runs_numbered open_view_numbered keeps_bind keeps_return
        session_identifiers[THEN identifiers_numbered])

lemma session_step_numbered: "keeps numbered (session_step (observing S) c)"
  unfolding session_step_def select_in_menu_def set_navigation_def
  by (intro keeps_intro session_identifiers[THEN identifiers_numbered] refresh_numbered
      selection_numbered reading_keeps keeps_option_case identifiers_numbered[OF state_preserves]; simp)

lemma session_loop_numbered: "keeps numbered (session_loop (observing S) ls)"
  by (induction ls)
    (auto simp: session_prompt_def intro!: keeps_intro session_step_numbered reading_keeps
      session_identifiers[THEN identifiers_numbered])

lemma interactive_run_numbered: "keeps numbered (interactive_run (observing S) ls)"
  unfolding interactive_run_def
  by (intro keeps_intro session_loop_numbered refresh_numbered session_identifiers[THEN identifiers_numbered])

definition start_observed :: "'s \<Rightarrow> 's observed session" where
  "start_observed w = new_session \<lparr>trace = [], observed = w\<rparr>"

lemma start_facts:
  "nav_of (start_observed w) = start_navigation" "traffic (start_observed w) = []"
  "all_announced (start_observed w)" "numbered (start_observed w)"
  by (simp_all add: start_observed_def new_session_def nav_of_def start_navigation_def traffic_def
      external_events_def all_announced_def numbered_def collections_def)

lemma interactive_run_traffic:
  "traffic (snd (run_state (interactive_run (observing S) ls) s)) =
     traffic s @ session_requests (nav_of s) (map normalize_command ls)"
  by (simp add: interactive_run_def split_def session_traffic_eqs session_loop_traffic session_nav_eqs)

section \<open>Properties\<close>


text \<open>Traffic to other hosts is opt-in: in every session the external requests are exactly those
  that the lines typed by the operator select, in their order: diagnostics and the public address
  from the network menu, the advisories from the evidence menu.  No refresh, no other view, no
  failure and no emergency command causes one.\<close>

theorem external_traffic_is_requested:
  "external_events (outer (snd (run_state (interactive_run (observing S) lines) (start_observed w)))) =
     session_requests start_navigation (map normalize_command lines)"
  using interactive_run_traffic[of S lines "start_observed w"] unfolding start_facts
  by (simp add: traffic_def)

text \<open>C21: Traffic to other hosts is announced: in every session each external request comes right after
  the audit record of the request and the header that warns of it.\<close>

theorem external_traffic_is_announced:
  "announced (trace (outer (snd (run_state (interactive_run (observing S) lines) (start_observed w)))))"
  using keepsD[OF interactive_run_announced start_facts(3)] by (simp add: all_announced_def)

text \<open>Snapshots are numbered without gaps: the next identifier is one more than the number of
  collections made so far, modulo \<open>2 ^ 64\<close>, in every session.\<close>

theorem snapshots_are_numbered:
  "(let s = snd (run_state (interactive_run (observing S) lines) (start_observed w))
    in next_snapshot_id s = 1 + of_nat (collections s))"
  using keepsD[OF interactive_run_numbered start_facts(4)] by (simp add: numbered_def Let_def)

text \<open>No screen is a trap: from every state of a session, going back twice shows the main menu, and
  an exclamation mark shows the emergency screen at once.\<close>

theorem home_is_reachable:
  "menu (snd (run_state (session_loop S [''b'', '' BACK '']) s)) = MainMenu \<and>
   \<not> detail_open (snd (run_state (session_loop S [''b'', '' BACK '']) s)) \<and>
   menu (snd (run_state (session_loop S [''!'']) s)) = EmergencyMenu"
proof -
  have n: "normalize_command ''b'' = ''b''" "normalize_command '' BACK '' = ''back''"
    "normalize_command ''!'' = ''!''" by code_simp+
  have q: "\<not> is_quit ''b''" "\<not> is_quit ''back''" "\<not> is_quit ''!''" by (simp_all add: is_quit_def)
  have nav: "nav_of (snd (run_state (session_loop S [''b'', '' BACK '']) s)) =
      nav_step ''back'' (nav_step ''b'' (nav_of s))"
    "nav_of (snd (run_state (session_loop S [''!'']) s)) = nav_step ''!'' (nav_of s)"
    by (simp_all only: session_loop_nav list.map n nav_run.simps q if_False)
  have "nav_menu (nav_step ''back'' (nav_step ''b'' m)) = MainMenu \<and>
      \<not> nav_detail (nav_step ''back'' (nav_step ''b'' m))" for m
    by (simp add: nav_step_def is_back_def is_toggle_def main_selection_def)
  moreover have "nav_menu (nav_step ''!'' m) = EmergencyMenu" for m by (simp add: nav_step_def)
  ultimately show ?thesis using nav by (metis nav_of_updates(4,5))
qed

end
