(* ===== verification/Application.thy ===== *)
theory Application
  imports CommandExecutor SessionSpec
begin

text \<open>
  \<open>src/app/application.cpp\<close>: \<open>OperationsConsole::run\<close>, from the arguments to the exit code, and the
  audit records around every command.  The state is the one of the services and whether a logging
  failure was reported.
\<close>

section \<open>The console\<close>

record 's console =
  failure_reported :: bool
  world :: 's

definition in_world :: "('s, 'a) state \<Rightarrow> ('s console, 'a) state" where
  "in_world m = State (\<lambda>s. map_prod (\<lambda>x. x) (\<lambda>w. s\<lparr>world := w\<rparr>) (run_state m (world s)))"

definition console_report_once :: "'s services \<Rightarrow> ('s console, unit) state" where
  "console_report_once S = do {
     reported \<leftarrow> State (\<lambda>s. (failure_reported s, s\<lparr>failure_reported := True\<rparr>));
     if reported then State_Monad.return ()
     else in_world (svc_display S (PrintError logging_warning))
   }"

definition console_record_event :: "'s services \<Rightarrow> log_event \<Rightarrow> ('s console, unit) state" where
  "console_record_event S ev = do {
     recorded \<leftarrow> in_world (svc_record S ev);
     if \<not> recorded then console_report_once S else State_Monad.return ()
   }"

definition action_channel :: "command_action \<Rightarrow> log_channel" where
  "action_channel a =
     (if a = ReadinessAction \<or> a = Listeners \<or> a = ThreatAssessmentAction \<or>
         a = SecurityAdvisoriesAction
      then Security else Audit)"

definition int_to_string :: "int \<Rightarrow> string" where
  "int_to_string i = (if i < 0 then CHR ''-'' # show_nat (nat (- i)) else show_nat (nat i))"

definition start_event :: "command_action \<Rightarrow> log_event" where
  "start_event a = \<lparr>le_channel = Operations, le_level = InfoLevel, le_event = ''application-start'',
     le_detail = ''action='' @ command_action_name a\<rparr>"

definition requested_event :: "command_action \<Rightarrow> log_event" where
  "requested_event a = \<lparr>le_channel = action_channel a, le_level = InfoLevel,
     le_event = ''action-requested'', le_detail = ''action='' @ command_action_name a\<rparr>"

definition result_detail :: "command_action \<Rightarrow> int \<Rightarrow> string" where
  "result_detail a result = ''action='' @ command_action_name a @ '' exit_code='' @ int_to_string result"

definition exit_event :: "command_action \<Rightarrow> int \<Rightarrow> log_event" where
  "exit_event a result = \<lparr>le_channel = Operations,
     le_level = (if result = 0 then InfoLevel else WarningLevel), le_event = ''application-exit'',
     le_detail = result_detail a result\<rparr>"

definition failed_event :: "command_action \<Rightarrow> log_channel \<Rightarrow> log_level \<Rightarrow> int \<Rightarrow> log_event" where
  "failed_event a c l result = \<lparr>le_channel = c, le_level = l, le_event = ''action-failed'',
     le_detail = result_detail a result\<rparr>"

definition run_session :: "'s services \<Rightarrow> string list \<Rightarrow> ('s, int) state" where
  "run_session S lines =
     State (\<lambda>w. map_prod (\<lambda>r. r) outer (run_state (interactive_run S lines) (new_session w)))"

definition dispatch :: "'s services \<Rightarrow> 's tools \<Rightarrow> command_line \<Rightarrow> string list \<Rightarrow> ('s, int) state" where
  "dispatch S T c lines =
     (if cl_action c = Interactive then run_session S lines else execute S T c)"

definition console_run ::
  "'s services \<Rightarrow> 's tools \<Rightarrow> string list \<Rightarrow> string list \<Rightarrow> ('s console, int) state" where
  "console_run S T args lines =
     (let c = parse_command_line args; a = cl_action c
      in do {
        _ \<leftarrow> console_record_event S (start_event a);
        _ \<leftarrow> console_record_event S (requested_event a);
        result \<leftarrow> in_world (dispatch S T c lines);
        _ \<leftarrow> console_record_event S (exit_event a result);
        _ \<leftarrow> (if result \<noteq> 0
             then do {
               _ \<leftarrow> console_record_event S (failed_event a (action_channel a) WarningLevel result);
               console_record_event S (failed_event a ErrorChannel ErrorLevel result)
             }
             else State_Monad.return ());
        State_Monad.return result
      })"

definition start_console :: "'s \<Rightarrow> 's console" where
  "start_console w = \<lparr>failure_reported = False, world = w\<rparr>"

end
