(* ===== verification/ApplicationSpec.thy ===== *)
theory ApplicationSpec
  imports Application
begin

text \<open>
  What every run of the program guarantees.  The locale \<open>service_host\<close> is the contract between the
  program and the objects that \<open>src/main.cpp\<close> hands to it: when every operation of the services and of
  the tools keeps an invariant, so does every session, every command and every run.
\<close>

section \<open>The contract of the services\<close>

locale collector_host =
  fixes S :: "'s services"
    and I :: "'s \<Rightarrow> bool"
  assumes posture_keeps: "keeps I (svc_posture S d)"
    and snapshot_keeps: "keeps I (svc_snapshot S st i)"
    and capture_keeps: "keeps I (svc_capture S e v)"
    and history_keeps: "keeps I (svc_history S)"
    and diagnostics_keeps: "keeps I (svc_diagnostics S e a)"
    and advisories_keeps: "keeps I (svc_advisories S)"
    and logs_keeps: "keeps I (svc_logs S)"
    and display_keeps: "keeps I (svc_display S dv)"
begin

lemmas collectors_keep = posture_keeps snapshot_keeps capture_keeps history_keeps diagnostics_keeps
  advisories_keeps logs_keeps display_keeps

end

locale session_host = collector_host +
  assumes log_keeps: "keeps I (svc_record S ev)"
begin

lemmas services_keep = collectors_keep log_keeps

definition inside :: "'a session \<Rightarrow> bool" where
  "inside s \<longleftrightarrow> I (outer s)"

lemma inside_simps:
  "inside (s\<lparr>menu := m\<rparr>) = inside s" "inside (s\<lparr>detail_open := b\<rparr>) = inside s"
  "inside (s\<lparr>expanded_home := b\<rparr>) = inside s" "inside (s\<lparr>dashboard_state := d\<rparr>) = inside s"
  "inside (s\<lparr>next_snapshot_id := i\<rparr>) = inside s" "inside (s\<lparr>logging_failure_reported := b\<rparr>) = inside s"
  by (simp_all add: inside_def)

lemma service_inside: "keeps I m \<Longrightarrow> keeps inside (service m)"
  by (simp add: keeps_def service_def inside_def split_def)

lemma navigation_inside:
  "keeps inside (set_navigation (\<lambda>s. s\<lparr>menu := m\<rparr>))"
  "keeps inside (set_navigation (\<lambda>s. s\<lparr>detail_open := b\<rparr>))"
  "keeps inside (set_navigation (\<lambda>s. s\<lparr>menu := m, detail_open := b\<rparr>))"
  "keeps inside (set_navigation (\<lambda>s. s\<lparr>expanded_home := \<not> expanded_home s\<rparr>))"
  by (simp_all add: set_navigation_def keeps_def inside_simps)

lemma session_inside:
  "keeps inside (record_event S ev)" "keeps inside (refresh S d)"
  "keeps inside (report_invalid_selection S)" "keeps inside (show_view S v)"
  "keeps inside (open_view S a c b hdr vw)" "keeps inside (record_when S b nm)"
  "keeps inside (record_action S a c)" "keeps inside (current :: ('a session, _) state)"
  "keeps inside (not_handled :: ('a session, _) state)"
  unfolding session_defs
  by (intro keeps_intro service_inside services_keep state_keeps; simp add: inside_simps)+

lemma runs_inside:
  "keeps inside (run_diagnostics S)" "keeps inside (run_capture S)" "keeps inside (run_advisories S)"
  "keeps inside (run_history S)" "keeps inside (run_log_analysis S a m)"
  "keeps inside (show_boundary S a t c n)"
  unfolding run_diagnostics_def run_capture_def run_advisories_def run_history_def run_log_analysis_def
    show_boundary_def
  by (intro keeps_intro session_inside service_inside services_keep)+

lemma selection_inside: "keeps inside (handle_selection S m c)"
  by (cases m; simp only: handle_selection.simps handle_firewall_selection_def
      handle_network_selection_def handle_readiness_selection_def handle_monitor_selection_def
      handle_evidence_selection_def handle_settings_selection_def handle_emergency_selection_def Let_def;
      intro keeps_intro session_inside runs_inside)

lemma read_inside: "keeps inside (State (\<lambda>s. (f s, s)))"
  by (simp add: keeps_def)

lemma step_inside: "keeps inside (session_step S c)"
  unfolding session_step_def select_in_menu_def
  by (intro keeps_intro read_inside navigation_inside session_inside selection_inside)
    (simp add: navigation_inside session_inside split: option.split)

lemma loop_inside: "keeps inside (session_loop S ls)"
  by (induction ls)
    (auto intro!: keeps_intro read_inside session_inside step_inside simp: session_prompt_def)

lemma run_session_keeps: "keeps I (run_session S ls)"
proof -
  have "keeps inside (interactive_run S ls)"
    unfolding interactive_run_def by (intro keeps_intro session_inside loop_inside)
  then show ?thesis
    by (auto simp: keeps_def run_session_def inside_def new_session_def split_def)
qed

end

locale tool_host = collector_host +
  fixes T :: "'a tools"
  assumes vpn_keeps: "keeps I (tool_vpn T)"
    and sockets_keeps: "keeps I (tool_sockets T)"
    and save_key_keeps: "keeps I (tool_save_key T k)"
    and load_mode_keeps: "keeps I (tool_load_mode T)"
    and save_mode_keeps: "keeps I (tool_save_mode T m)"
    and is_terminal_keeps: "keeps I (tool_is_terminal T)"
    and get_settings_keeps: "keeps I (tool_get_settings T)"
    and set_settings_keeps: "keeps I (tool_set_settings T t)"
    and read_line_keeps: "keeps I (tool_read_line T)"
    and clock_keeps: "keeps I (tool_clock T)"
begin

lemmas tools_keep = vpn_keeps sockets_keeps save_key_keeps load_mode_keeps save_mode_keeps
  is_terminal_keeps get_settings_keeps set_settings_keeps read_line_keeps clock_keeps

lemma prompt_keeps: "keeps I (prompt_for_ipify_key S T)"
  unfolding prompt_for_ipify_key_def prompt_hidden_def emit_def
  by (intro keeps_intro keeps_option collectors_keep tools_keep)

lemma commands_keep:
  "keeps I (configure_key S T)" "keeps I (show_mode S T)" "keeps I (set_mode S T m)"
  "keeps I (execute_diagnostics S c)" "keeps I (execute_listeners S T)"
  "keeps I (execute_metadata S T b)" "keeps I (execute_history S)" "keeps I (execute_posture S T a)"
  unfolding configure_key_def show_mode_def set_mode_def execute_diagnostics_def execute_listeners_def
    execute_metadata_def execute_history_def execute_posture_def print_snapshot_def fail_with_def emit_def
  by (intro keeps_intro keeps_option keeps_sum keeps_pair collectors_keep tools_keep prompt_keeps)+

lemma execute_keeps: "keeps I (execute S T c)"
  unfolding execute_def print_usage_def emit_def
  by (intro keeps_intro keeps_option commands_keep collectors_keep)

end

locale service_host = session_host S I + tool_host S I T
  for S :: "'s services" and I and T
begin

lemma dispatch_keeps: "keeps I (dispatch S T c lines)"
  by (simp add: dispatch_def execute_keeps run_session_keeps)

definition on_console :: "'s console \<Rightarrow> bool" where
  "on_console s \<longleftrightarrow> I (world s)"

lemma in_world_console: "keeps I m \<Longrightarrow> keeps on_console (in_world m)"
  by (simp add: keeps_def in_world_def on_console_def split_def)

lemma event_console: "keeps on_console (console_record_event S ev)"
  unfolding console_record_event_def console_report_once_def
  by (intro keeps_intro in_world_console services_keep state_keeps) (simp add: on_console_def)

lemma console_keeps: "keeps on_console (console_run S T args lines)"
  unfolding console_run_def
  by (intro keeps_intro event_console in_world_console dispatch_keeps)

lemma run_keeps_invariant: "I w \<Longrightarrow> I (world (snd (run_state (console_run S T args lines) (start_console w))))"
  using keepsD[OF console_keeps] by (simp add: on_console_def start_console_def)

end

section \<open>The audit trail\<close>

definition logged :: "'s observed \<Rightarrow> log_event list" where
  "logged s = List.map_filter (\<lambda>e. case e of RecordEvent ev \<Rightarrow> Some ev | _ \<Rightarrow> None) (trace s)"

lemma logged_observe:
  "logged (snd (run_state (observe es m) s)) =
     logged s @ List.map_filter (\<lambda>e. case e of RecordEvent ev \<Rightarrow> Some ev | _ \<Rightarrow> None) es"
  by (simp add: logged_def observe_def split_def List.map_filter_def)

text \<open>Everything only appends to the log.\<close>

definition log_extends :: "log_event list \<Rightarrow> 's observed \<Rightarrow> bool" where
  "log_extends older s \<longleftrightarrow> (\<exists>es. logged s = older @ es)"

lemma observe_extends: "keeps (log_extends older) (observe es m)"
  by (auto simp: keeps_def log_extends_def logged_observe)

interpretation audited: service_host "observing S" "log_extends older" "observing_tools T" for S older T
  by unfold_locales (simp_all add: observing_def observing_tools_def observe_extends)

text \<open>A command makes no record of its own.\<close>

definition unlogged :: "log_event list \<Rightarrow> 's observed \<Rightarrow> bool" where
  "unlogged older s \<longleftrightarrow> logged s = older"

lemma observe_unlogged:
  "list_all (\<lambda>e. case e of RecordEvent ev \<Rightarrow> False | _ \<Rightarrow> True) es \<Longrightarrow> keeps (unlogged older) (observe es m)"
proof -
  assume "list_all (\<lambda>e. case e of RecordEvent ev \<Rightarrow> False | _ \<Rightarrow> True) es"
  then have "List.map_filter (\<lambda>e. case e of RecordEvent ev \<Rightarrow> Some ev | _ \<Rightarrow> None) es = []"
    by (induction es) (auto split: event.splits)
  then show ?thesis by (simp add: keeps_def unlogged_def logged_observe)
qed

interpretation silent: tool_host "observing S" "unlogged older" "observing_tools T" for S older T
  by unfold_locales (simp_all add: observing_def observing_tools_def observe_unlogged)

definition fresh :: "'s \<Rightarrow> 's observed" where
  "fresh w = \<lparr>trace = [], observed = w\<rparr>"

definition run_console ::
  "'s services \<Rightarrow> 's tools \<Rightarrow> string list \<Rightarrow> string list \<Rightarrow> 's \<Rightarrow> int \<times> 's observed console" where
  "run_console S T args lines w =
     run_state (console_run (observing S) (observing_tools T) args lines) (start_console (fresh w))"

lemma fresh_simps [simp]:
  "logged (fresh w) = []" "external_events (fresh w) = []" "trace (fresh w) = []"
  "world (start_console v) = v"
  by (simp_all add: fresh_def logged_def external_events_def start_console_def List.map_filter_def)

lemma record_logged:
  "logged (world (snd (run_state (console_record_event (observing S) ev) s))) = logged (world s) @ [ev]"
  by (simp add: console_record_event_def console_report_once_def in_world_def observing_def
      logged_observe split_def List.map_filter_def)

lemma record_unseen:
  "external_events (world (snd (run_state (console_record_event (observing S) ev) s))) =
     external_events (world s)"
  by (simp add: console_record_event_def console_report_once_def in_world_def observing_def
      external_events_def observe_def split_def)

lemma dispatch_logged:
  "\<exists>middle. logged (snd (run_state (dispatch (observing S) (observing_tools T) c lines) s)) = logged s @ middle \<and>
     (cl_action c = Interactive \<or> middle = [])"
proof (cases "cl_action c = Interactive")
  case True
  have "log_extends (logged s) s" by (simp add: log_extends_def)
  from keepsD[OF audited.run_session_keeps this, of S lines] show ?thesis
    by (auto simp: dispatch_def True log_extends_def)
next
  case False
  have "unlogged (logged s) s" by (simp add: unlogged_def)
  from keepsD[OF silent.execute_keeps this, of S T c] show ?thesis
    using False by (simp add: dispatch_def unlogged_def)
qed

section \<open>The traffic of a run\<close>

fun command_requests :: "command_line \<Rightarrow> string list \<Rightarrow> event list" where
  "command_requests c lines = (case cl_action c of
       Interactive \<Rightarrow> session_requests start_navigation (map normalize_command lines)
     | NetworkDiagnosticsAction \<Rightarrow> [DiagnosticsEvent (extended_diagnostics c) (advanced_diagnostics c)]
     | SecurityAdvisoriesAction \<Rightarrow> [AdvisoriesEvent]
     | NetworkMetadataAction \<Rightarrow> [CaptureEvent (cl_enrich_metadata c)]
     | _ \<Rightarrow> [])"

lemma observe_external:
  "external_events (snd (run_state (observe es m) s)) = external_events s @ filter external es"
  by (simp add: external_events_def observe_def split_def)

lemma quiet_observe: "filter external es = [] \<Longrightarrow> preserves external_events (observe es m)"
  by (simp add: preserves_def observe_external)

lemma quiet_services [preserves_intro]:
  "preserves external_events (svc_posture (observing S) d)"
  "preserves external_events (svc_snapshot (observing S) st i)"
  "preserves external_events (svc_history (observing S))"
  "preserves external_events (svc_logs (observing S))"
  "preserves external_events (svc_display (observing S) v)"
  by (simp_all add: observing_def quiet_observe)

lemma quiet_tools [preserves_intro]:
  "preserves external_events (tool_vpn (observing_tools T))"
  "preserves external_events (tool_sockets (observing_tools T))"
  "preserves external_events (tool_save_key (observing_tools T) k)"
  "preserves external_events (tool_load_mode (observing_tools T))"
  "preserves external_events (tool_save_mode (observing_tools T) m)"
  "preserves external_events (tool_is_terminal (observing_tools T))"
  "preserves external_events (tool_get_settings (observing_tools T))"
  "preserves external_events (tool_set_settings (observing_tools T) t)"
  "preserves external_events (tool_read_line (observing_tools T))"
  "preserves external_events (tool_clock (observing_tools T))"
  by (simp_all add: observing_tools_def quiet_observe)

lemma preserves_option [preserves_intro]:
  "preserves f m \<Longrightarrow> (\<And>y. preserves f (n y)) \<Longrightarrow>
     preserves f (case x of None \<Rightarrow> m | Some y \<Rightarrow> n y)"
  by (cases x) simp_all

lemma preserves_sum [preserves_intro]:
  "(\<And>a. preserves f (m a)) \<Longrightarrow> (\<And>b. preserves f (n b)) \<Longrightarrow>
     preserves f (case x of Inl a \<Rightarrow> m a | Inr b \<Rightarrow> n b)"
  by (cases x) simp_all

lemma preserves_pair [preserves_intro]:
  "(\<And>a b. preserves f (m a b)) \<Longrightarrow> preserves f (case x of (a, b) \<Rightarrow> m a b)"
  by (cases x) simp

lemma quiet_commands:
  "preserves external_events (configure_key (observing S) (observing_tools T))"
  "preserves external_events (show_mode (observing S) (observing_tools T))"
  "preserves external_events (set_mode (observing S) (observing_tools T) m)"
  "preserves external_events (execute_listeners (observing S) (observing_tools T))"
  "preserves external_events (execute_history (observing S))"
  "preserves external_events (execute_posture (observing S) (observing_tools T) a)"
  unfolding configure_key_def show_mode_def set_mode_def execute_listeners_def
    execute_history_def execute_posture_def print_snapshot_def fail_with_def emit_def
    prompt_for_ipify_key_def prompt_hidden_def
  by (intro preserves_intro)+

lemma execute_external:
  assumes "cl_action c \<noteq> Interactive"
  shows "external_events (snd (run_state (execute (observing S) (observing_tools T) c) s)) =
    external_events s @ command_requests c lines"
proof -
  note eqs = quiet_commands[THEN preservesD] quiet_services[THEN preservesD] quiet_tools[THEN preservesD]
  have requests:
    "external_events (snd (run_state (svc_diagnostics (observing S) e a) t)) = external_events t @ [DiagnosticsEvent e a]"
    "external_events (snd (run_state (svc_capture (observing S) e v) t)) = external_events t @ [CaptureEvent e]"
    "external_events (snd (run_state (svc_advisories (observing S)) t)) = external_events t @ [AdvisoriesEvent]"
    for e a v t by (simp_all add: observing_def observe_external)
  show ?thesis
    using assms by (cases "cl_action c")
      (simp_all add: execute_def eqs requests execute_diagnostics_def execute_metadata_def emit_def
        print_usage_def split_def split: option.split)
qed

lemma session_start [simp]:
  "traffic (new_session v) = external_events v" "outer (new_session v) = v" "nav_of (new_session v) = start_navigation"
  by (simp_all add: traffic_def new_session_def nav_of_def start_navigation_def)

lemma dispatch_external:
  "external_events (snd (run_state (dispatch (observing S) (observing_tools T) c lines) s)) =
     external_events s @ command_requests c lines"
proof (cases "cl_action c = Interactive")
  case True
  then show ?thesis
    using interactive_run_traffic[of S lines "new_session s"]
    by (simp add: dispatch_def run_session_def traffic_def split_def)
next
  case False
  then show ?thesis using execute_external[OF False, of S T s lines] by (simp add: dispatch_def)
qed

section \<open>Exit codes\<close>

definition returns :: "('a \<Rightarrow> bool) \<Rightarrow> ('s, 'a) state \<Rightarrow> bool" where
  "returns P m \<longleftrightarrow> (\<forall>s. P (fst (run_state m s)))"

lemma returns_return: "P x \<Longrightarrow> returns P (State_Monad.return x)"
  by (simp add: returns_def)

lemma returns_bind: "(\<And>x. returns P (f x)) \<Longrightarrow> returns P (State_Monad.bind m f)"
  by (simp add: returns_def split_def)

lemma returns_cases:
  "returns P m \<Longrightarrow> returns P n \<Longrightarrow> returns P (if b then m else n)"
  "(\<And>x. returns P (f x)) \<Longrightarrow> (\<And>y. returns P (g y)) \<Longrightarrow>
     returns P (case s of Inl x \<Rightarrow> f x | Inr y \<Rightarrow> g y)"
  "(\<And>x y. returns P (h x y)) \<Longrightarrow> returns P (case p of (x, y) \<Rightarrow> h x y)"
  "returns P m \<Longrightarrow> (\<And>x. returns P (f x)) \<Longrightarrow> returns P (case z of None \<Rightarrow> m | Some x \<Rightarrow> f x)"
  by (auto split: sum.split prod.split option.split)

lemmas returns_rules = returns_return returns_bind returns_cases

definition status_ok :: "command_action \<Rightarrow> int \<Rightarrow> bool" where
  "status_ok a r \<longleftrightarrow>
     (if a = Help \<or> a = Interactive \<or> a = SnapshotJson \<or> a = SnapshotJsonV2 \<or> a = ThreatAssessmentAction
      then r = 0
      else if a = Invalid then r = 2
      else if a = ReadinessAction then r \<in> {0, 1, 2} else r \<in> {0, 2})"

lemma exit_status_ok [simp]: "exit_status b = 0 \<or> exit_status b = 2"
  by (simp add: exit_status_def)

lemma exit_code_loop_range: "exit_code_loop b cs = 0 \<or> exit_code_loop b cs = 1 \<or> exit_code_loop b cs = 2"
  by (induction b cs rule: exit_code_loop.induct) auto

lemma commands_return:
  "returns (\<lambda>r. r \<in> {0, 2}) (configure_key S T)" "returns (\<lambda>r. r \<in> {0, 2}) (show_mode S T)"
  "returns (\<lambda>r. r \<in> {0, 2}) (set_mode S T m)" "returns (\<lambda>r. r \<in> {0, 2}) (execute_diagnostics S c)"
  "returns (\<lambda>r. r \<in> {0, 2}) (execute_listeners S T)" "returns (\<lambda>r. r \<in> {0, 2}) (execute_metadata S T b)"
  "returns (\<lambda>r. r \<in> {0, 2}) (execute_history S)"
  unfolding configure_key_def show_mode_def set_mode_def execute_diagnostics_def execute_listeners_def
    execute_metadata_def execute_history_def fail_with_def
  by (intro returns_rules; simp)+

lemma posture_status:
  assumes "a \<in> {SnapshotJson, SnapshotJsonV2, Status, ReadinessAction, ThreatAssessmentAction}"
  shows "status_ok a (fst (run_state (execute_posture S T a) s))"
  using assms exit_code_loop_range[of False] exit_status_ok
  by (cases a) (auto simp: execute_posture_def print_snapshot_def split_def status_ok_def readiness_exit_code_def)

lemma returnsD: "returns P m \<Longrightarrow> P (fst (run_state m s))"
  by (simp add: returns_def)

lemma session_exit: "fst (run_state (run_session S lines) s) = 0"
  by (simp add: run_session_def interactive_run_def split_def)

lemma dispatch_status: "status_ok (cl_action c) (fst (run_state (dispatch S T c lines) s))"
proof (cases "cl_action c")
  case Interactive
  then show ?thesis by (simp add: dispatch_def session_exit status_ok_def)
next
  case Mode
  then show ?thesis
    using commands_return(2,3)[THEN returnsD, of S T] by (cases "mode_to_set c") (simp_all add: dispatch_def execute_def status_ok_def)
next
  case ConfigureIpifyKey
  then show ?thesis
    using commands_return(1)[THEN returnsD, of S T] by (simp add: dispatch_def execute_def status_ok_def)
next
  case NetworkDiagnosticsAction
  then show ?thesis
    using commands_return(4)[THEN returnsD, of S c] by (simp add: dispatch_def execute_def status_ok_def)
next
  case Listeners
  then show ?thesis
    using commands_return(5)[THEN returnsD, of S T] by (simp add: dispatch_def execute_def status_ok_def)
next
  case NetworkMetadataAction
  then show ?thesis
    using commands_return(6)[THEN returnsD, of S T] by (simp add: dispatch_def execute_def status_ok_def)
next
  case NetworkHistoryAction
  then show ?thesis
    using commands_return(7)[THEN returnsD, of S] by (simp add: dispatch_def execute_def status_ok_def)
qed (simp_all add: dispatch_def execute_def posture_status, simp_all add: status_ok_def print_usage_def split_def)

text \<open>A rejected command line starts nothing.\<close>

lemma rejected_trace:
  "cl_action c = Invalid \<Longrightarrow>
     trace (snd (run_state (dispatch (observing S) (observing_tools T) c lines) s)) =
     trace s @ [DisplayEvent (PrintOut usage_text)]"
  by (simp add: dispatch_def execute_def print_usage_def emit_def observing_def observe_def split_def)

text \<open>The events of a run without the audit trail and the notice that it failed.\<close>

fun deliberate :: "event \<Rightarrow> bool" where
  "deliberate (RecordEvent ev) = False"
| "deliberate (DisplayEvent d) \<longleftrightarrow> d \<noteq> PrintError logging_warning"
| "deliberate e = True"

lemma record_deliberate:
  "filter deliberate (trace (world (snd (run_state (console_record_event (observing S) ev) s)))) =
     filter deliberate (trace (world s))"
  by (simp add: console_record_event_def console_report_once_def in_world_def observing_def
      observe_def split_def)

lemma external_traffic:
  "external_events (world (snd (run_console S T args lines w))) =
     command_requests (parse_command_line args) lines"
  by (simp add: run_console_def console_run_def Let_def split_def record_unseen in_world_def
      dispatch_external del: command_requests.simps)

section \<open>Properties\<close>

text \<open>C20: Every run leaves its audit trail: the first two records name the action, the last ones its exit
  code, a failure is recorded in the channel of the action and in the error log, and between them
  stand the records of the session, or nothing.  This holds whatever the services answer, so also
  after records that could not be written.\<close>

theorem every_run_is_audited:
  "\<exists>middle. logged (world (snd (run_console S T args lines w))) =
     [start_event (cl_action (parse_command_line args)), requested_event (cl_action (parse_command_line args))] @
     middle @ [exit_event (cl_action (parse_command_line args)) (fst (run_console S T args lines w))] @
     (if fst (run_console S T args lines w) = 0 then []
      else [failed_event (cl_action (parse_command_line args)) (action_channel (cl_action (parse_command_line args)))
              WarningLevel (fst (run_console S T args lines w)),
            failed_event (cl_action (parse_command_line args)) ErrorChannel ErrorLevel
              (fst (run_console S T args lines w))]) \<and>
     (cl_action (parse_command_line args) = Interactive \<or> middle = [])"
proof -
  let ?c = "parse_command_line args"
  let ?rec = "\<lambda>ev s. snd (run_state (console_record_event (observing S) ev) s)"
  define s where "s = world (?rec (requested_event (cl_action ?c)) (?rec (start_event (cl_action ?c)) (start_console (fresh w))))"
  have s: "logged s = [start_event (cl_action ?c), requested_event (cl_action ?c)]"
    by (simp add: s_def record_logged)
  obtain middle where
    "logged (snd (run_state (dispatch (observing S) (observing_tools T) ?c lines) s)) = logged s @ middle"
    "cl_action ?c = Interactive \<or> middle = []"
    using dispatch_logged by blast
  with s show ?thesis
    by (intro exI[of _ middle])
      (simp add: run_console_def console_run_def Let_def split_def record_logged in_world_def flip: s_def)
qed

text \<open>C6: Traffic to other hosts is opt-in: the requests that leave the host in a run are exactly the
  ones that the command line names, or that the lines typed in the session select, in their
  order.\<close>

theorem requested_traffic_only:
  "external_events (world (snd (run_console S T args lines w))) =
     command_requests (parse_command_line args) lines"
  by (rule external_traffic)


end
