(* ===== verification/TerminalUi.thy ===== *)
theory TerminalUi
  imports Prelude "HOL-Library.Word"
begin

unbundle bit_operations_syntax

text \<open>
  \<open>src/ui/terminal_ui.cpp\<close>: the last stage before the terminal.  \<open>sanitize_terminal_text\<close>
  turns collected text into text that cannot drive the terminal, and the \<open>TerminalUi\<close>
  primitives style it.  Code points are 32-bit words, decoded with the shifts and masks of the
  source.
\<close>

section \<open>Escapes\<close>

definition hex_digits :: string where
  "hex_digits = ''0123456789ABCDEF''"

definition byte_word :: "char \<Rightarrow> 32 word" where
  "byte_word c = of_char c"

definition hex_escape :: "char \<Rightarrow> string" where
  "hex_escape c = [CHR 0x5C, CHR ''x'', hex_digits ! (byte c div 16), hex_digits ! (byte c mod 16)]"

definition hex_nibble :: "32 word \<Rightarrow> nat \<Rightarrow> char" where
  "hex_nibble codepoint shift = hex_digits ! unat (drop_bit shift codepoint AND 0x0F)"

definition unicode_escape :: "32 word \<Rightarrow> string" where
  "unicode_escape codepoint = CHR 0x5C # CHR ''u'' # map (hex_nibble codepoint) [12, 8, 4, 0]"

definition terminal_format_codepoint :: "32 word \<Rightarrow> bool" where
  "terminal_format_codepoint codepoint \<longleftrightarrow>
     0x80 \<le> codepoint \<and> codepoint \<le> 0x9F \<or>
     0x200B \<le> codepoint \<and> codepoint \<le> 0x200F \<or>
     0x202A \<le> codepoint \<and> codepoint \<le> 0x202E \<or> codepoint = 0x2060 \<or>
     0x2066 \<le> codepoint \<and> codepoint \<le> 0x2069 \<or> codepoint = 0xFEFF"

section \<open>Recognising a sequence\<close>

definition esc_char :: char where
  "esc_char = CHR 0x1B"

definition is_sgr_parameter :: "char \<Rightarrow> bool" where
  "is_sgr_parameter c \<longleftrightarrow> is_digit c \<or> c = CHR '';''"

text \<open>The length of a rendition sequence \<open>ESC [ ... m\<close> at the start of the text.\<close>

definition sgr_length :: "string \<Rightarrow> nat option" where
  "sgr_length txt =
     (if txt \<noteq> [] \<and> hd txt = esc_char \<and> 2 < length txt \<and> txt ! 1 = CHR ''[''
      then (let params = takeWhile is_sgr_parameter (drop 2 txt); final = 2 + length params
            in if final < length txt \<and> txt ! final = CHR ''m'' then Some (Suc final) else None)
      else None)"

text \<open>The lead byte of a UTF-8 sequence: its payload bits and the width of the sequence.\<close>

definition utf8_lead :: "32 word \<Rightarrow> (32 word \<times> nat) option" where
  "utf8_lead b =
     (if b AND 0xE0 = 0xC0 then Some (b AND 0x1F, 2)
      else if b AND 0xF0 = 0xE0 then Some (b AND 0x0F, 3)
      else if b AND 0xF8 = 0xF0 then Some (b AND 0x07, 4)
      else None)"

fun utf8_tail :: "32 word \<Rightarrow> string \<Rightarrow> 32 word option" where
  "utf8_tail codepoint [] = Some codepoint"
| "utf8_tail codepoint (c # cs) =
     (if byte_word c AND 0xC0 \<noteq> 0x80 then None
      else utf8_tail (push_bit 6 codepoint OR (byte_word c AND 0x3F)) cs)"

definition utf8_minimum :: "nat \<Rightarrow> 32 word" where
  "utf8_minimum width = (if width = 2 then 0x80 else if width = 3 then 0x800 else 0x10000)"

definition decode_utf8 :: "string \<Rightarrow> (32 word \<times> nat) option" where
  "decode_utf8 txt =
     (case txt of [] \<Rightarrow> None
      | c # _ \<Rightarrow>
        (case utf8_lead (byte_word c) of None \<Rightarrow> None
         | Some (payload, width) \<Rightarrow>
            if length txt < width then None
            else (case utf8_tail payload (take (width - 1) (drop 1 txt)) of None \<Rightarrow> None
              | Some codepoint \<Rightarrow>
                  if codepoint < utf8_minimum width \<or> 0x10FFFF < codepoint \<or>
                     0xD800 \<le> codepoint \<and> codepoint \<le> 0xDFFF
                  then None else Some (codepoint, width))))"

section \<open>The sanitizer\<close>

text \<open>One turn of the loop: what is appended and how many bytes are consumed.\<close>

definition sanitize_step :: "string \<Rightarrow> string \<times> nat" where
  "sanitize_step txt =
     (case sgr_length txt of Some n \<Rightarrow> (take n txt, n)
      | None \<Rightarrow>
        (let c = hd txt in
         if byte c < 32 \<or> byte c = 127 then (hex_escape c, 1)
         else if byte c < 128 then ([c], 1)
         else (case decode_utf8 txt of None \<Rightarrow> (hex_escape c, 1)
           | Some (codepoint, width) \<Rightarrow>
               (if terminal_format_codepoint codepoint then unicode_escape codepoint
                else take width txt, width))))"

lemma utf8_lead_width: "utf8_lead b = Some (p, w) \<Longrightarrow> 2 \<le> w \<and> w \<le> 4"
  by (auto simp: utf8_lead_def split: if_splits)

lemma sanitize_step_progress: "0 < snd (sanitize_step txt)"
  by (auto simp: sanitize_step_def sgr_length_def decode_utf8_def Let_def dest!: utf8_lead_width
      split: option.split list.splits option.splits if_splits prod.splits)

function sanitize_loop :: "nat \<Rightarrow> string \<Rightarrow> string \<Rightarrow> string" where
  "sanitize_loop maximum output txt =
     (if txt = [] then output
      else if maximum \<le> length output then output @ ''...[truncated]''
      else sanitize_loop maximum (output @ fst (sanitize_step txt))
             (drop (snd (sanitize_step txt)) txt))"
  by auto

termination
  by (relation "measure (\<lambda>(m, out, txt). length txt)") (use sanitize_step_progress in auto)

declare sanitize_loop.simps [simp del]

definition sanitize_terminal_text :: "string \<Rightarrow> nat \<Rightarrow> string" where
  "sanitize_terminal_text txt maximum = sanitize_loop maximum [] txt"

definition default_maximum :: nat where
  "default_maximum = 4096"

section \<open>The terminal\<close>

datatype theme = Industrial | DefconTheme | HighContrast

record terminal_ui =
  ui_color :: bool
  ui_clear_screen :: bool
  ui_width :: int
  ui_theme :: theme

text \<open>\<open>std::from_chars\<close> into an \<open>int\<close> of a whole text.\<close>

definition parse_whole_int :: "string \<Rightarrow> int option" where
  "parse_whole_int s =
     (let (neg, ds) = (if s \<noteq> [] \<and> hd s = CHR ''-'' then (True, tl s) else (False, s));
          v = int (dec_value ds)
      in if ds = [] \<or> \<not> list_all is_digit ds then None
         else if neg then (if v \<le> 2 ^ 31 then Some (- v) else None)
         else (if v < 2 ^ 31 then Some v else None))"

text \<open>The constructor: whether standard output is a terminal, and the environment.\<close>

definition terminal_ui_init :: "bool \<Rightarrow> (string \<Rightarrow> string option) \<Rightarrow> terminal_ui" where
  "terminal_ui_init is_tty getenv =
     (let color = (is_tty \<and> getenv ''NO_COLOR'' = None)
      in \<lparr>ui_color = color,
          ui_clear_screen = (color \<and> getenv ''FFC_CLEAR_SCREEN'' = Some ''1''),
          ui_width =
            (case getenv ''COLUMNS'' of None \<Rightarrow> 72
             | Some columns \<Rightarrow>
                (case parse_whole_int columns of None \<Rightarrow> 72
                 | Some requested \<Rightarrow> if 50 \<le> requested then min requested 100 else 72)),
          ui_theme =
            (if getenv ''FFC_THEME'' = Some ''defcon'' then DefconTheme
             else if getenv ''FFC_THEME'' = Some ''high-contrast'' then HighContrast
             else Industrial)\<rparr>)"

definition paint :: "terminal_ui \<Rightarrow> string \<Rightarrow> string \<Rightarrow> string" where
  "paint ui code txt =
     (let safe = sanitize_terminal_text txt default_maximum
      in if ui_color ui
         then esc_char # ''['' @ code @ ''m'' @ safe @ esc_char # ''[0m'' else safe)"

definition accent_code :: "terminal_ui \<Rightarrow> string" where
  "accent_code ui = (case ui_theme ui of DefconTheme \<Rightarrow> ''1;36'' | HighContrast \<Rightarrow> ''1;97;44''
     | Industrial \<Rightarrow> ''1;97'')"

definition rule_code :: "terminal_ui \<Rightarrow> string" where
  "rule_code ui = (case ui_theme ui of DefconTheme \<Rightarrow> ''2;36'' | HighContrast \<Rightarrow> ''1;97''
     | Industrial \<Rightarrow> ''2;31'')"

definition danger_code :: "terminal_ui \<Rightarrow> string" where
  "danger_code ui = (if ui_theme ui = Industrial then ''1;97;41'' else ''1;31'')"

definition accent :: "terminal_ui \<Rightarrow> string \<Rightarrow> string" where
  "accent ui txt = paint ui (accent_code ui) txt"

definition ui_success :: "terminal_ui \<Rightarrow> string \<Rightarrow> string" where
  "ui_success ui txt = paint ui ''1;32'' txt"

definition warning :: "terminal_ui \<Rightarrow> string \<Rightarrow> string" where
  "warning ui txt = paint ui ''1;33'' txt"

definition danger :: "terminal_ui \<Rightarrow> string \<Rightarrow> string" where
  "danger ui txt = paint ui (danger_code ui) txt"

definition muted :: "terminal_ui \<Rightarrow> string \<Rightarrow> string" where
  "muted ui txt = paint ui ''2;37'' txt"

definition badge :: "terminal_ui \<Rightarrow> string \<Rightarrow> string \<Rightarrow> string" where
  "badge ui txt code = paint ui code (''[ '' @ txt @ '' ]'')"

definition success_badge :: "terminal_ui \<Rightarrow> string \<Rightarrow> string" where
  "success_badge ui txt = badge ui txt ''1;32''"

definition warning_badge :: "terminal_ui \<Rightarrow> string \<Rightarrow> string" where
  "warning_badge ui txt = badge ui txt ''1;33''"

definition danger_badge :: "terminal_ui \<Rightarrow> string \<Rightarrow> string" where
  "danger_badge ui txt = badge ui txt (danger_code ui)"

definition neutral_badge :: "terminal_ui \<Rightarrow> string \<Rightarrow> string" where
  "neutral_badge ui txt = badge ui txt (accent_code ui)"

definition keycap :: "terminal_ui \<Rightarrow> string \<Rightarrow> string" where
  "keycap ui txt = badge ui txt (accent_code ui)"

definition theme_name :: "terminal_ui \<Rightarrow> string" where
  "theme_name ui = (case ui_theme ui of DefconTheme \<Rightarrow> ''defcon'' | HighContrast \<Rightarrow> ''high-contrast''
     | Industrial \<Rightarrow> ''industrial'')"

text \<open>What the printing members write.\<close>

definition clear_text :: "terminal_ui \<Rightarrow> string" where
  "clear_text ui = (if ui_clear_screen ui then esc_char # ''[2J'' @ esc_char # ''[H'' else [])"

definition rule_text :: "terminal_ui \<Rightarrow> char \<Rightarrow> string" where
  "rule_text ui c = paint ui (rule_code ui) (replicate (nat (ui_width ui)) c) @ [newline_char]"

definition heading_text :: "terminal_ui \<Rightarrow> string \<Rightarrow> string \<Rightarrow> string" where
  "heading_text ui title subtitle =
     rule_text ui (CHR ''='') @ ''  '' @ danger ui ''///'' @ '' '' @ accent ui title @ '' '' @
     danger ui ''///'' @ [newline_char] @
     (if subtitle \<noteq> [] then ''  '' @ muted ui subtitle @ [newline_char] else []) @
     rule_text ui (CHR ''='')"

definition section_text :: "terminal_ui \<Rightarrow> string \<Rightarrow> string" where
  "section_text ui title =
     [newline_char] @ muted ui ''::'' @ '' '' @ accent ui title @ [newline_char] @
     rule_text ui (CHR ''-'')"

definition key_value_text :: "terminal_ui \<Rightarrow> string \<Rightarrow> string \<Rightarrow> string" where
  "key_value_text ui key val =
     (let padding = (if length key < 29 then 29 - length key else 1)
      in ''  '' @ muted ui ''|'' @ '' '' @ muted ui key @ replicate padding blank_char @
         sanitize_terminal_text val default_maximum @ [newline_char])"

section \<open>What reaches the terminal\<close>

text \<open>
  The texts that cannot drive a terminal: printable ASCII, well-formed UTF-8 that is no
  control or format character, and rendition sequences.
\<close>

inductive terminal_safe :: "string \<Rightarrow> bool" where
  empty: "terminal_safe []"
| ascii: "32 \<le> byte c \<Longrightarrow> byte c < 127 \<Longrightarrow> terminal_safe s \<Longrightarrow> terminal_safe (c # s)"
| utf8: "decode_utf8 u = Some (codepoint, length u) \<Longrightarrow> \<not> terminal_format_codepoint codepoint \<Longrightarrow>
     terminal_safe s \<Longrightarrow> terminal_safe (u @ s)"
| rendition: "list_all is_sgr_parameter ps \<Longrightarrow> terminal_safe s \<Longrightarrow>
     terminal_safe (esc_char # CHR ''['' # ps @ CHR ''m'' # s)"

lemma terminal_safe_append: "terminal_safe s \<Longrightarrow> terminal_safe t \<Longrightarrow> terminal_safe (s @ t)"
proof (induction rule: terminal_safe.induct)
  case (utf8 u codepoint s)
  then show ?case using terminal_safe.utf8 by simp
next
  case (rendition ps s)
  then show ?case using terminal_safe.rendition[of ps "s @ t"] by simp
qed (simp_all add: terminal_safe.ascii)

definition plain_ascii :: "string \<Rightarrow> bool" where
  "plain_ascii s \<longleftrightarrow> list_all (\<lambda>c. 32 \<le> byte c \<and> byte c < 127) s"

lemma plain_ascii_safe: "plain_ascii s \<Longrightarrow> terminal_safe s"
  by (induction s) (auto simp: plain_ascii_def intro: terminal_safe.intros)

lemma hex_digits_plain: "n < 16 \<Longrightarrow> 32 \<le> byte (hex_digits ! n) \<and> byte (hex_digits ! n) < 127"
proof -
  assume "n < 16"
  then have "hex_digits ! n \<in> set hex_digits" by (intro nth_mem) (simp add: hex_digits_def)
  then show ?thesis by (auto simp: hex_digits_def)
qed

lemma hex_escape_plain: "plain_ascii (hex_escape c)"
proof -
  have "byte c < 16 * 16" by simp
  then have "byte c div 16 < 16" by (rule less_mult_imp_div_less)
  moreover have "byte c mod 16 < 16" by simp
  ultimately show ?thesis using hex_digits_plain by (simp add: plain_ascii_def hex_escape_def)
qed

lemma hex_nibble_plain: "32 \<le> byte (hex_nibble p s) \<and> byte (hex_nibble p s) < 127"
proof -
  have "unat (drop_bit s p AND 0x0F) \<le> unat (0x0F :: 32 word)"
    by (rule word_le_nat_alt[THEN iffD1]) (rule word_and_le1)
  then have "unat (drop_bit s p AND 0x0F) < 16" by simp
  then show ?thesis unfolding hex_nibble_def by (rule hex_digits_plain)
qed

lemma unicode_escape_plain: "plain_ascii (unicode_escape p)"
  using hex_nibble_plain by (simp add: plain_ascii_def unicode_escape_def)

lemma byte_word_nat: "byte_word c = word_of_nat (byte c)"
  by (simp add: byte_word_def of_nat_of_char)

lemma ascii_no_lead: "byte c < 128 \<Longrightarrow> utf8_lead (byte_word c) = None"
proof -
  assume "byte c < 128"
  then have small: "byte_word c < 128"
    by (simp add: byte_word_nat word_less_nat_alt unat_of_nat)
  have lt: "byte_word c AND m < 128" for m
    using word_and_le2[of "byte_word c" m] small by (rule order.strict_trans1)
  then have "byte_word c AND m \<noteq> k" if "128 \<le> k" for m k
    using lt[of m] that by (metis leD)
  then show ?thesis by (simp add: utf8_lead_def)
qed

lemma sgr_length_split:
  assumes "sgr_length txt = Some n"
  obtains ps rest where "txt = esc_char # CHR ''['' # ps @ CHR ''m'' # rest"
    "list_all is_sgr_parameter ps" "n = length ps + 3"
proof -
  obtain r where shape: "txt = esc_char # CHR ''['' # r"
    using assms by (cases "txt"; cases "tl txt") (auto simp: sgr_length_def split: if_splits)
  define ps where "ps = takeWhile is_sgr_parameter r"
  have n: "n = Suc (2 + length ps)" and m: "length ps < length r" "r ! length ps = CHR ''m''"
    using assms by (auto simp: sgr_length_def shape ps_def Let_def split: if_splits)
  have "r = ps @ drop (length ps) r"
    by (metis ps_def takeWhile_eq_take append_take_drop_id)
  moreover have "drop (length ps) r = CHR ''m'' # drop (Suc (length ps)) r"
    using m by (metis Cons_nth_drop_Suc)
  ultimately have "r = ps @ CHR ''m'' # drop (Suc (length ps)) r" by metis
  moreover have "list_all is_sgr_parameter ps"
    by (auto simp: list_all_iff ps_def dest: set_takeWhileD)
  ultimately show ?thesis using that shape n by auto
qed

lemma sgr_length_of:
  assumes "list_all is_sgr_parameter ps"
  shows "sgr_length (esc_char # CHR ''['' # ps @ CHR ''m'' # rest) = Some (length ps + 3)"
proof -
  have "\<not> is_sgr_parameter (CHR ''m'')" by (simp add: is_sgr_parameter_def is_digit_def)
  then have "takeWhile is_sgr_parameter (ps @ CHR ''m'' # rest) = ps"
    using assms by (induction ps) auto
  then show ?thesis by (simp add: sgr_length_def)
qed

lemma decode_utf8_prefix:
  assumes "decode_utf8 txt = Some (p, w)"
  shows "w \<le> length txt" "decode_utf8 (take w txt @ rest) = Some (p, w)" "128 \<le> byte (hd txt)" "txt \<noteq> []"
proof -
  obtain c cs where shape: "txt = c # cs" using assms by (cases "txt") (auto simp: decode_utf8_def)
  obtain q where lead: "utf8_lead (byte_word c) = Some (q, w)"
    using assms by (auto simp: shape decode_utf8_def split: option.splits if_splits)
  from utf8_lead_width[OF lead] have w: "2 \<le> w" by simp
  show le: "w \<le> length txt"
    using assms lead by (auto simp: shape decode_utf8_def split: option.splits if_splits)
  have "take w txt = c # take (w - 1) cs" using w by (cases w) (auto simp: shape)
  moreover have "length (take (w - 1) cs) = w - 1" using le w by (simp add: shape)
  ultimately show "decode_utf8 (take w txt @ rest) = Some (p, w)"
    using assms lead le w by (simp add: decode_utf8_def shape split: option.splits if_splits)
  show "txt \<noteq> []" by (simp add: shape)
  show "128 \<le> byte (hd txt)"
  proof (rule ccontr)
    assume "\<not> 128 \<le> byte (hd txt)"
    with ascii_no_lead[of c] lead show False by (simp add: shape)
  qed
qed

lemma decode_utf8_append:
  assumes "decode_utf8 u = Some (p, length u)"
  shows "decode_utf8 (u @ rest) = Some (p, length u)"
  using decode_utf8_prefix(2)[OF assms, of rest] by simp

text \<open>Every token that the loop appends is safe.\<close>

lemma sanitize_step_safe:
  assumes "s \<noteq> []"
  shows "terminal_safe (fst (sanitize_step s))"
proof (cases "sgr_length s")
  case (Some n)
  then obtain ps rest where "s = esc_char # CHR ''['' # ps @ CHR ''m'' # rest"
    "list_all is_sgr_parameter ps" "n = length ps + 3"
    by (rule sgr_length_split)
  moreover from this have "take n s = esc_char # CHR ''['' # ps @ CHR ''m'' # []"
    by (simp add: eval_nat_numeral)
  ultimately show ?thesis
    using Some rendition[OF _ empty, of ps] by (simp add: sanitize_step_def)
next
  case None
  consider "byte (hd s) < 32 \<or> byte (hd s) = 127 \<or> 128 \<le> byte (hd s) \<and> decode_utf8 s = None"
    | "32 \<le> byte (hd s)" "byte (hd s) < 127"
    | p w where "128 \<le> byte (hd s)" "decode_utf8 s = Some (p, w)"
    by (cases "decode_utf8 s") (fastforce simp: not_less not_le)+
  then show ?thesis
  proof cases
    case 1
    then show ?thesis
      using None plain_ascii_safe[OF hex_escape_plain] by (auto simp: sanitize_step_def Let_def)
  next
    case 2
    then show ?thesis using None by (simp add: sanitize_step_def terminal_safe.intros)
  next
    case 3
    have "decode_utf8 (take w s) = Some (p, length (take w s))"
      using decode_utf8_prefix(1)[OF 3(2)] decode_utf8_prefix(2)[OF 3(2), of "[]"] by simp
    then show ?thesis
      using 3 None plain_ascii_safe[OF unicode_escape_plain] terminal_safe.utf8[of "take w s" p "[]", OF _ _ terminal_safe.empty]
      by (auto simp: sanitize_step_def Let_def)
  qed
qed

lemma sanitize_loop_safe: "terminal_safe out \<Longrightarrow> terminal_safe (sanitize_loop maximum out s)"
proof (induction maximum out s rule: sanitize_loop.induct)
  case (1 maximum out s)
  show ?case
  proof (cases "s = [] \<or> maximum \<le> length out")
    case True
    have "terminal_safe ''...[truncated]''" by (rule plain_ascii_safe) (simp add: plain_ascii_def)
    with True 1 show ?thesis by (auto simp: sanitize_loop.simps[of maximum out s] terminal_safe_append)
  next
    case False
    with 1 show ?thesis
      by (simp add: sanitize_loop.simps[of maximum out s] terminal_safe_append sanitize_step_safe)
  qed
qed

text \<open>Safe text is kept as it is.\<close>

lemma sgr_length_other: "hd s \<noteq> esc_char \<Longrightarrow> sgr_length s = None"
  by (simp add: sgr_length_def)

lemma sanitize_loop_safe_id:
  "terminal_safe s \<Longrightarrow> length out + length s \<le> maximum \<Longrightarrow> sanitize_loop maximum out s = out @ s"
proof (induction arbitrary: out rule: terminal_safe.induct)
  case empty
  then show ?case by (simp add: sanitize_loop.simps)
next
  case (ascii c s)
  have "c \<noteq> esc_char" using ascii.hyps by (auto simp: esc_char_def)
  then have "sanitize_step (c # s) = ([c], 1)"
    using ascii.hyps by (simp add: sanitize_step_def sgr_length_other)
  then show ?case
    using ascii.IH[of "out @ [c]"] ascii.prems by (simp add: sanitize_loop.simps[of maximum out "c # s"])
next
  case (utf8 u p s)
  note pre = decode_utf8_prefix(3,4)[OF utf8.hyps(1)]
  have "hd (u @ s) \<noteq> esc_char" using pre by (auto simp: esc_char_def)
  then have "sanitize_step (u @ s) = (u, length u)"
    using pre utf8.hyps decode_utf8_append[OF utf8.hyps(1)]
    by (simp add: sanitize_step_def sgr_length_other Let_def)
  moreover have "\<not> maximum \<le> length out" using pre utf8.prems by (cases u) simp_all
  ultimately show ?case
    using utf8.IH[of "out @ u"] utf8.prems pre by (simp add: sanitize_loop.simps[of maximum out "u @ s"])
next
  case (rendition ps s)
  have "sanitize_step (esc_char # CHR ''['' # ps @ CHR ''m'' # s) =
      (esc_char # CHR ''['' # ps @ [CHR ''m''], length ps + 3)"
    by (simp add: sanitize_step_def sgr_length_of[OF rendition.hyps(1)] eval_nat_numeral)
  then show ?case
    using rendition.IH[of "out @ esc_char # CHR ''['' # ps @ [CHR ''m'']"] rendition.prems
    by (simp add: sanitize_loop.simps[of maximum out "esc_char # CHR ''['' # ps @ CHR ''m'' # s"]
        eval_nat_numeral)
qed

section \<open>Length\<close>

lemma sanitize_step_length:
  assumes "esc_char \<notin> set s" "s \<noteq> []"
  shows "length (fst (sanitize_step s)) \<le> 6"
proof -
  have "hd s \<noteq> esc_char" using assms by (metis hd_in_set)
  then have "sgr_length s = None" by (rule sgr_length_other)
  then show ?thesis
    by (auto simp: sanitize_step_def hex_escape_def unicode_escape_def decode_utf8_def Let_def
        dest!: utf8_lead_width split: option.split list.splits option.splits if_splits)
qed

lemma sanitize_loop_length:
  "esc_char \<notin> set s \<Longrightarrow> length out \<le> maximum + 5 \<Longrightarrow>
     length (sanitize_loop maximum out s) \<le> maximum + 19"
proof (induction maximum out s rule: sanitize_loop.induct)
  case (1 maximum out s)
  show ?case
  proof (cases "s = [] \<or> maximum \<le> length out")
    case True
    with 1 show ?thesis by (auto simp: sanitize_loop.simps[of maximum out s])
  next
    case False
    moreover have "esc_char \<notin> set (drop (snd (sanitize_step s)) s)"
      using "1.prems" by (meson in_set_dropD)
    ultimately show ?thesis
      using 1 sanitize_step_length[of s] by (simp add: sanitize_loop.simps[of maximum out s])
  qed
qed

section \<open>Properties\<close>

text \<open>Whatever the host reports, the sanitized text cannot drive the terminal: it consists of
  printable ASCII, well-formed UTF-8 without control and format characters, and rendition
  sequences.\<close>

theorem sanitized_text_is_safe: "terminal_safe (sanitize_terminal_text s maximum)"
  unfolding sanitize_terminal_text_def by (rule sanitize_loop_safe) (rule terminal_safe.empty)

text \<open>Text that is safe already and within the limit is kept byte for byte, so sanitizing
  twice is sanitizing once.\<close>

theorem safe_text_unchanged:
  "terminal_safe s \<Longrightarrow> length s \<le> maximum \<Longrightarrow> sanitize_terminal_text s maximum = s"
  unfolding sanitize_terminal_text_def using sanitize_loop_safe_id[of s "[]" maximum] by simp

lemma safe_text_unchanged_witness:
  "sanitize_terminal_text (esc_char # ''[1;31mpublic'') 100 = esc_char # ''[1;31mpublic''"
proof (rule safe_text_unchanged)
  have "terminal_safe (esc_char # CHR ''['' # ''1;31'' @ CHR ''m'' # ''public'')"
    by (intro terminal_safe.rendition plain_ascii_safe)
      (simp_all add: is_sgr_parameter_def is_digit_def plain_ascii_def)
  then show "terminal_safe (esc_char # ''[1;31mpublic'')" by simp
qed simp

text \<open>The limit holds up to one escape and the truncation mark for text without escape
  bytes.\<close>

theorem sanitized_length_bounded:
  "esc_char \<notin> set s \<Longrightarrow> length (sanitize_terminal_text s maximum) \<le> maximum + 19"
  unfolding sanitize_terminal_text_def by (rule sanitize_loop_length) simp_all

lemma sanitized_length_witness:
  "length (sanitize_terminal_text (replicate 50 (CHR ''x'')) 10) \<le> 29"
  using sanitized_length_bounded[of "replicate 50 (CHR ''x'')" 10] by (simp add: esc_char_def)

text \<open>C39: The limit does not hold for every text: a rendition sequence of the input is passed on
  as a whole, so its length, which the host chooses, bounds the output from below.\<close>

theorem sanitized_length_unbounded:
  "\<exists>s. n < length (sanitize_terminal_text s (Suc maximum))"
proof -
  let ?ps = "replicate n (CHR ''0'')"
  let ?s = "esc_char # CHR ''['' # ?ps @ CHR ''m'' # []"
  have "list_all is_sgr_parameter ?ps" by (simp add: list_all_iff is_sgr_parameter_def is_digit_def)
  from sgr_length_of[OF this, of "[]"]
  have "sanitize_step ?s = (?s, n + 3)" by (simp add: sanitize_step_def)
  then have "sanitize_terminal_text ?s (Suc maximum) = ?s"
    by (simp add: sanitize_terminal_text_def sanitize_loop.simps[of "Suc maximum" "[]"]
        sanitize_loop.simps[of _ _ "[]"])
  then show ?thesis by (intro exI[of _ ?s]) simp
qed

end
