(* ===== verification/Views.thy ===== *)
theory Views
  imports TerminalUi NetworkDiagnostics NetworkMetadata SecurityAdvisories LogAnalysis
begin

text \<open>
  The text that the views print: \<open>src/ui/network_renderer.cpp\<close>,
  \<open>src/ui/network_diagnostics_renderer.cpp\<close>, \<open>src/ui/log_renderer.cpp\<close> and
  \<open>src/ui/security_advisory_renderer.cpp\<close>.  A view is a function from the settings of the terminal
  and the data to the bytes written to standard output.  The first section says which bytes a
  screen may hold and has a rule for every widget.
\<close>

section \<open>Safe screens\<close>

text \<open>Lines of text that cannot drive the terminal.\<close>

inductive screen_safe :: "string \<Rightarrow> bool" where
  blank: "screen_safe []"
| line_feed: "screen_safe s \<Longrightarrow> screen_safe (newline_char # s)"
| chunk: "terminal_safe t \<Longrightarrow> screen_safe s \<Longrightarrow> screen_safe (t @ s)"

named_theorems screen_intro \<open>rules for text that may be printed\<close>

lemma screen_append [screen_intro]: "screen_safe s \<Longrightarrow> screen_safe t \<Longrightarrow> screen_safe (s @ t)"
  by (induction rule: screen_safe.induct) (simp_all add: screen_safe.intros)

lemma terminal_screen: "terminal_safe t \<Longrightarrow> screen_safe t"
  using chunk[OF _ blank, of t] by simp

lemma screen_newline [screen_intro]: "screen_safe [newline_char]"
  by (rule line_feed[OF blank])

lemma screen_nil [screen_intro]: "screen_safe []"
  by (rule blank)

lemma screen_if [screen_intro]:
  "(b \<Longrightarrow> screen_safe s) \<Longrightarrow> (\<not> b \<Longrightarrow> screen_safe t) \<Longrightarrow> screen_safe (if b then s else t)"
  by simp

lemma screen_option [screen_intro]:
  "(x = None \<Longrightarrow> screen_safe s) \<Longrightarrow> (\<And>y. x = Some y \<Longrightarrow> screen_safe (f y)) \<Longrightarrow>
     screen_safe (case x of None \<Rightarrow> s | Some y \<Rightarrow> f y)"
  by (cases x) simp_all

lemma screen_cases [screen_intro]:
  "(\<And>a b. p = (a, b) \<Longrightarrow> screen_safe (g a b)) \<Longrightarrow> screen_safe (case p of (a, b) \<Rightarrow> g a b)"
  "(xs = [] \<Longrightarrow> screen_safe s) \<Longrightarrow> (\<And>y ys. xs = y # ys \<Longrightarrow> screen_safe (h y ys)) \<Longrightarrow>
     screen_safe (case xs of [] \<Rightarrow> s | y # ys \<Rightarrow> h y ys)"
  by (cases p; simp) (cases xs; simp)

lemma screen_concat [screen_intro]: "(\<And>x. x \<in> set xs \<Longrightarrow> screen_safe (f x)) \<Longrightarrow> screen_safe (concat (map f xs))"
  by (induction xs) (simp_all add: screen_intro)

definition printable :: "string \<Rightarrow> bool" where
  "printable s \<longleftrightarrow> list_all (\<lambda>c. c = newline_char \<or> 32 \<le> byte c \<and> byte c < 127) s"

lemma printable_screen: "printable s \<Longrightarrow> screen_safe s"
proof (induction s)
  case (Cons c s)
  then have "screen_safe [c]"
    using terminal_screen[OF terminal_safe.ascii[OF _ _ terminal_safe.empty], of c] screen_newline
    by (auto simp: printable_def)
  with Cons show ?case using screen_append[of "[c]" s] by (simp add: printable_def)
qed (simp add: blank)

text \<open>The glyphs that the program prints.\<close>

definition bullet_glyph :: string where
  "bullet_glyph = [CHR 0xE2, CHR 0x80, CHR 0xA2]"

definition dash_glyph :: string where
  "dash_glyph = [CHR 0xE2, CHR 0x80, CHR 0x94]"

definition arrow_glyph :: string where
  "arrow_glyph = [CHR 0xE2, CHR 0x86, CHR 0x92]"

definition ellipsis_glyph :: string where
  "ellipsis_glyph = [CHR 0xE2, CHR 0x80, CHR 0xA6]"

definition spaced :: "string \<Rightarrow> string" where
  "spaced glyph = blank_char # glyph @ [blank_char]"

lemma glyph_safe:
  "terminal_safe bullet_glyph" "terminal_safe dash_glyph" "terminal_safe arrow_glyph"
  "terminal_safe ellipsis_glyph"
proof -
  have glyph: "terminal_safe g" if "decode_utf8 g = Some (p, length g)" "\<not> terminal_format_codepoint p" for g p
    using terminal_safe.utf8[OF that terminal_safe.empty] by simp
  show "terminal_safe bullet_glyph"
    by (rule glyph[of _ "0x2022"]; code_simp)
  show "terminal_safe dash_glyph"
    by (rule glyph[of _ "0x2014"]; code_simp)
  show "terminal_safe arrow_glyph"
    by (rule glyph[of _ "0x2192"]; code_simp)
  show "terminal_safe ellipsis_glyph"
    by (rule glyph[of _ "0x2026"]; code_simp)
qed

lemmas glyph_screen [screen_intro] = glyph_safe[THEN terminal_screen]

lemmas bullet_glyph_screen = glyph_screen(1)

lemma spaced_screen [screen_intro]: "screen_safe g \<Longrightarrow> screen_safe (spaced g)"
proof -
  assume "screen_safe g"
  moreover have "screen_safe [blank_char]" by (rule printable_screen) (simp add: printable_def)
  ultimately show ?thesis
    using screen_append[of "[blank_char]" "g @ [blank_char]"] screen_append[of g "[blank_char]"]
    by (simp add: spaced_def)
qed

text \<open>Sanitized and painted text, and the widgets.\<close>

lemma sanitized_screen [screen_intro]: "screen_safe (sanitize_terminal_text s n)"
  unfolding sanitize_terminal_text_def
  by (rule terminal_screen, rule sanitize_loop_safe, rule terminal_safe.empty)

lemma rendition_screen:
  "list_all is_sgr_parameter ps \<Longrightarrow> screen_safe (esc_char # CHR ''['' # ps @ [CHR ''m''])"
  using terminal_screen[OF terminal_safe.rendition[OF _ terminal_safe.empty], of ps] by simp

lemma paint_screen: "list_all is_sgr_parameter code \<Longrightarrow> screen_safe (paint ui code s)"
proof -
  assume c: "list_all is_sgr_parameter code"
  have "screen_safe (esc_char # ''[0m'')"
    using rendition_screen[of "''0''"] by (simp add: is_sgr_parameter_def is_digit_def)
  from screen_append[OF rendition_screen[OF c] screen_append[OF sanitized_screen this]]
  have "screen_safe (esc_char # ''['' @ code @ ''m'' @ sanitize_terminal_text s default_maximum @ esc_char # ''[0m'')"
    by simp
  then show ?thesis by (simp add: paint_def Let_def sanitized_screen)
qed

lemmas style_defs = accent_def ui_success_def warning_def danger_def muted_def success_badge_def
  warning_badge_def danger_badge_def neutral_badge_def keycap_def badge_def

lemma codes_sgr:
  "list_all is_sgr_parameter (accent_code ui)" "list_all is_sgr_parameter (rule_code ui)"
  "list_all is_sgr_parameter (danger_code ui)"
  by (simp_all add: accent_code_def rule_code_def danger_code_def is_sgr_parameter_def is_digit_def
      split: theme.split)

lemma styles_screen [screen_intro]:
  "screen_safe (accent ui s)" "screen_safe (ui_success ui s)" "screen_safe (warning ui s)"
  "screen_safe (danger ui s)" "screen_safe (muted ui s)" "screen_safe (success_badge ui s)"
  "screen_safe (warning_badge ui s)" "screen_safe (danger_badge ui s)"
  "screen_safe (neutral_badge ui s)" "screen_safe (keycap ui s)"
  unfolding style_defs
  by (intro paint_screen codes_sgr; simp add: is_sgr_parameter_def is_digit_def)+

lemma literal_screen [screen_intro]:
  "screen_safe ''  ''" "screen_safe '' ''" "screen_safe ''    ''" "screen_safe ''      ''"
  by (rule printable_screen; simp add: printable_def)+

lemma rule_screen [screen_intro]: "screen_safe (rule_text ui c)"
  unfolding rule_text_def by (intro screen_intro paint_screen codes_sgr)

lemma widgets_screen [screen_intro]:
  "screen_safe (heading_text ui title subtitle)" "screen_safe (section_text ui title)"
  "screen_safe (key_value_text ui key val)"
proof -
  show "screen_safe (heading_text ui title subtitle)" "screen_safe (section_text ui title)"
    unfolding heading_text_def section_text_def by (intro screen_intro)+
  have "screen_safe (replicate n blank_char)" for n
    by (rule printable_screen) (simp add: printable_def list_all_iff)
  moreover have "screen_safe ''|''" by (rule printable_screen) (simp add: printable_def)
  ultimately show "screen_safe (key_value_text ui key val)"
    unfolding key_value_text_def Let_def by (intro screen_intro)
qed

section \<open>Text helpers\<close>

definition sanitized :: "string \<Rightarrow> string" where
  "sanitized s = sanitize_terminal_text s default_maximum"

lemma sanitized_text_screen [screen_intro]: "screen_safe (sanitized s)"
  unfolding sanitized_def by (rule sanitized_screen)

definition line_text :: "string \<Rightarrow> string" where
  "line_text s = ''  '' @ s @ [newline_char]"

lemma line_text_screen [screen_intro]: "screen_safe s \<Longrightarrow> screen_safe (line_text s)"
  unfolding line_text_def by (intro screen_intro)

definition or_unknown :: "string \<Rightarrow> string" where
  "or_unknown s = (if s = [] then ''unknown'' else s)"

definition optional_value :: "terminal_ui \<Rightarrow> string \<Rightarrow> string \<Rightarrow> string" where
  "optional_value ui key val = (if val = [] then [] else key_value_text ui key val)"

lemma optional_value_screen [screen_intro]: "screen_safe (optional_value ui k v)"
  unfolding optional_value_def by (intro screen_intro)

text \<open>The idiom of the views for multi-line output: a newline is added when the text has none at its
  end.\<close>

definition closing_newline :: "string \<Rightarrow> string" where
  "closing_newline output = (if last output \<noteq> newline_char then [newline_char] else [])"

lemma closing_newline_screen [screen_intro]: "screen_safe (closing_newline s)"
  unfolding closing_newline_def by (intro screen_intro)

text \<open>\<open>std::to_string\<close> of a double: six decimals, rounded half to even.\<close>

definition round_half_even :: "rat \<Rightarrow> int" where
  "round_half_even r =
     (let f = \<lfloor>r\<rfloor>; d = r - of_int f
      in if d < 1 / 2 \<or> d = 1 / 2 \<and> even f then f else f + 1)"

definition pad_zeros :: "nat \<Rightarrow> string \<Rightarrow> string" where
  "pad_zeros n s = replicate (n - length s) (CHR ''0'') @ s"

definition double_to_string :: "rat \<Rightarrow> string" where
  "double_to_string r =
     (let n = nat (round_half_even (\<bar>r\<bar> * 1000000))
      in (if r < 0 then ''-'' else []) @ show_nat (n div 1000000) @ ''.'' @ pad_zeros 6 (show_nat (n mod 1000000)))"

section \<open>Network metadata and history\<close>

definition show_metadata :: "terminal_ui \<Rightarrow> network_metadata \<Rightarrow> string \<Rightarrow> string" where
  "show_metadata ui m location =
     section_text ui ''Public network metadata'' @
     key_value_text ui ''Observed at'' (or_unknown (observed_at_utc m)) @
     key_value_text ui ''Public IP''
       (if public_ip_lookup_succeeded m then accent ui (public_ip m) else warning ui ''lookup failed'') @
     key_value_text ui ''Default interface'' (or_unknown (default_interface m)) @
     key_value_text ui ''Default gateway'' (or_unknown (default_gateway m)) @
     key_value_text ui ''Connection profile'' (or_unknown (connection_profile m)) @
     (if wifi_ssid m \<noteq> []
      then key_value_text ui ''Wi-Fi SSID'' (wifi_ssid m) @
           key_value_text ui ''Wi-Fi BSSID'' (or_unknown (wifi_bssid m)) @
           key_value_text ui ''Wi-Fi security'' (or_unknown (wifi_security m))
      else []) @
     optional_value ui ''Country'' (country m) @
     optional_value ui ''Timezone'' (timezone m) @
     optional_value ui ''ISP'' (isp m) @
     optional_value ui ''Autonomous system'' (autonomous_system m) @
     key_value_text ui ''History'' location @
     (if nm_diagnostic_text m \<noteq> []
      then key_value_text ui ''Notice'' (warning ui (nm_diagnostic_text m)) else []) @
     [newline_char] @
     line_text (muted ui ''The public-IP provider received this lookup request.'')"

definition show_history :: "terminal_ui \<Rightarrow> string list \<Rightarrow> string \<Rightarrow> string" where
  "show_history ui records location =
     section_text ui ''Saved public network metadata'' @
     key_value_text ui ''History'' location @
     (if records = [] then line_text (muted ui ''No saved observations.'')
      else line_text (muted ui
             ''timestamp (UTC)  public IP  interface  gateway  profile  SSID  BSSID  security  country  timezone  ISP  ASN  VPN'') @
           concat (map (\<lambda>record_text. line_text (sanitized record_text)) records))"

lemma metadata_views_screen:
  "screen_safe (show_metadata ui m location)" "screen_safe (show_history ui records location)"
  unfolding show_metadata_def show_history_def by (intro screen_intro)+

section \<open>Network diagnostics\<close>

definition probe_text :: "terminal_ui \<Rightarrow> reachability_probe \<Rightarrow> string" where
  "probe_text ui p =
     ''  '' @ (if \<not> rp_command_available p then danger ui ''PING UNAVAILABLE''
       else if reachable p then ui_success ui ''REACHABLE'' else warning ui ''NO REPLY'') @
     ''  '' @ accent ui (rp_destination p) @ [newline_char] @
     (if rp_output p \<noteq> [] then ''    '' @ sanitized (rp_output p) @ closing_newline (rp_output p) else [])"

definition hop_text :: "terminal_ui \<Rightarrow> traceroute_hop \<Rightarrow> string" where
  "hop_text ui h =
     line_text (accent ui (''hop '' @ show_nat (unat (th_number h))) @ ''  '' @ sanitized (th_address h) @
       muted ui (spaced dash_glyph @ network_address_scope_label (th_scope h)))"

definition route_text :: "terminal_ui \<Rightarrow> traceroute_result \<Rightarrow> string" where
  "route_text ui t =
     section_text ui (''Traceroute to '' @ tr_destination t) @
     line_text (muted ui ''Numeric addresses only; one query per hop; maximum 8 hops.'') @
     (if \<not> tr_command_available t
      then line_text (danger ui
             ''traceroute is not installed. Run scripts/setup-firewall-dev.sh to install it.'')
      else if tr_output t = [] then line_text (warning ui ''Traceroute produced no output.'')
      else sanitized (tr_output t) @ closing_newline (tr_output t) @
           (if tr_hops t \<noteq> []
            then section_text ui ''Route scope interpretation'' @ concat (map (hop_text ui) (tr_hops t))
            else []) @
           (if \<not> completed t
            then line_text (muted ui
              ''Target not observed before the 8-hop cap; this can be normal routing or probe filtering.'')
            else []))"

definition destination_hop :: "path_stability_report \<Rightarrow> path_stability_hop option" where
  "destination_hop r = find (\<lambda>h. ph_address h = ps_destination r) (ps_hops r)"

definition intermediate_loss :: "path_stability_report \<Rightarrow> bool" where
  "intermediate_loss r =
     list_ex (\<lambda>h. ph_address h \<noteq> ps_destination r \<and>
       (case response_loss_percent h of None \<Rightarrow> False | Some loss \<Rightarrow> 0 < loss)) (ps_hops r)"

definition endpoint_text :: "terminal_ui \<Rightarrow> path_stability_report \<Rightarrow> string" where
  "endpoint_text ui r =
     (case (if \<not> destination_observed r then None else destination_hop r) of
        None \<Rightarrow> line_text (muted ui
          ''Destination did not appear in the MTR report; endpoint loss cannot be assessed from this run.'')
      | Some d \<Rightarrow>
          (case response_loss_percent d of
             None \<Rightarrow> []
           | Some loss \<Rightarrow>
               if loss = 0 \<and> intermediate_loss r
               then line_text (ui_success ui ''ENDPOINT 0% LOSS'' @ ''  '' @ muted ui
                 ''Intermediate reply loss is likely ICMP rate limiting/de-prioritization, not end-to-end loss.'')
               else line_text (accent ui (''Endpoint response loss: '' @ double_to_string loss @ ''%'')) @
                    line_text (muted ui
                 ''Repeat from the same network and correlate with application failures before treating this as path loss.'')))"

definition stability_text :: "terminal_ui \<Rightarrow> path_stability_report \<Rightarrow> string" where
  "stability_text ui r =
     section_text ui (''Path stability to '' @ ps_destination r) @
     line_text (muted ui
       ''Five MTR samples; this measures router replies, not an attack or venue identity.'') @
     (if \<not> ps_command_available r
      then line_text (danger ui
        ''mtr is not installed. Install the optional diagnostics tools to enable this check.'')
      else if ps_output r = [] then line_text (warning ui ''MTR produced no output.'')
      else sanitized (ps_output r) @ closing_newline (ps_output r) @ endpoint_text ui r)"

definition resolver_text :: "terminal_ui \<Rightarrow> resolver_probe \<Rightarrow> string" where
  "resolver_text ui p =
     ''  '' @ (if \<not> rv_command_available p then danger ui ''DIG UNAVAILABLE''
       else if answered p then ui_success ui ''ANSWERED'' else warning ui ''NO USABLE ANSWER'') @
     ''  '' @ accent ui (resolver p) @ [newline_char] @
     (if rv_output p \<noteq> [] then ''    '' @ sanitized (rv_output p) @ closing_newline (rv_output p) else [])"

definition render_network_diagnostics :: "terminal_ui \<Rightarrow> network_diagnostics \<Rightarrow> string" where
  "render_network_diagnostics ui d =
     section_text ui ''Network reachability probes'' @
     line_text (muted ui ''Two ICMP echo requests are sent to each public resolver.'') @
     concat (map (probe_text ui) (probes d)) @
     concat (map (route_text ui) (traceroutes d)) @
     (case path_stability d of None \<Rightarrow> [] | Some r \<Rightarrow> stability_text ui r) @
     (if resolver_probes d \<noteq> []
      then section_text ui ''Direct DNS resolver checks'' @
           line_text (muted ui
             ''One UDP DNS query for example.com is sent to each resolver; resolvers receive the query and source address.'') @
           concat (map (resolver_text ui) (resolver_probes d))
      else []) @
     [newline_char] @
     line_text (muted ui
       ''Run only when you intend to generate diagnostic traffic; results do not identify an attacker or network type.'')"

lemma diagnostics_parts_screen [screen_intro]:
  "screen_safe (probe_text ui p)" "screen_safe (hop_text ui h)" "screen_safe (route_text ui t)"
  "screen_safe (endpoint_text ui r)" "screen_safe (stability_text ui r)" "screen_safe (resolver_text ui v)"
proof -
  show hop: "screen_safe (hop_text ui h)" for h unfolding hop_text_def by (intro screen_intro)
  show endpoint: "screen_safe (endpoint_text ui r)"
    unfolding endpoint_text_def by (intro screen_intro)
  show "screen_safe (probe_text ui p)" "screen_safe (resolver_text ui v)" "screen_safe (route_text ui t)"
    "screen_safe (stability_text ui r)"
    unfolding probe_text_def resolver_text_def route_text_def stability_text_def
    by (intro screen_intro hop endpoint)+
qed

lemma diagnostics_screen: "screen_safe (render_network_diagnostics ui d)"
  unfolding render_network_diagnostics_def
  by (intro screen_intro)

section \<open>Logs\<close>

definition frequency_name :: "log_event_frequency \<Rightarrow> string" where
  "frequency_name e = channel_to_string (lf_channel e) @ '': '' @ lf_event e"

definition show_analysis :: "terminal_ui \<Rightarrow> log_analysis \<Rightarrow> string" where
  "show_analysis ui a =
     section_text ui ''Local log analysis'' @
     line_text (muted ui ''Explainable summary of retained ffc logs; not an attack verdict.'') @
     (if \<not> logs_available a then key_value_text ui ''Log status'' (warning ui (la_diagnostic a))
      else
        key_value_text ui ''Retained entries'' (show_nat (la_entries a)) @
        key_value_text ui ''Most recent event'' (or_unknown (most_recent_utc a)) @
        key_value_text ui ''Warnings'' (if la_warnings a = 0 then success_badge ui ''NONE''
          else warning_badge ui (show_nat (la_warnings a))) @
        key_value_text ui ''Errors'' (if la_errors a = 0 then success_badge ui ''NONE''
          else danger_badge ui (show_nat (la_errors a))) @
        key_value_text ui ''Assessment'' (if la_diagnostic a = [] then muted ui ''review recent activity''
          else muted ui (la_diagnostic a)) @
        (if recurring_failures a \<noteq> []
         then section_text ui ''Repeated error events'' @
              concat (map (\<lambda>e. key_value_text ui (frequency_name e) (danger_badge ui (show_nat (lf_count e))))
                (recurring_failures a))
         else []) @
        (if frequent_events a \<noteq> []
         then section_text ui ''Most frequent retained events'' @
              concat (map (\<lambda>e. key_value_text ui (frequency_name e) (show_nat (lf_count e))) (frequent_events a))
         else []))"

lemma analysis_screen: "screen_safe (show_analysis ui a)"
  unfolding show_analysis_def by (intro screen_intro)

section \<open>Security advisories\<close>

definition display_safe_detail :: "string \<Rightarrow> string" where
  "display_safe_detail detail =
     take 240 (map (\<lambda>c. if byte c < 32 \<or> byte c = 127 then blank_char else c) detail)"

definition comma_separated :: "string list \<Rightarrow> string" where
  "comma_separated items =
     foldl (\<lambda>result item. result @ (if result = [] then [] else '', '') @ item) [] items"

definition cve_limit :: nat where
  "cve_limit = 20"

definition visible_cves :: "string list \<Rightarrow> string" where
  "visible_cves identifiers =
     comma_separated (take cve_limit identifiers) @
     (if cve_limit < length identifiers
      then spaced ellipsis_glyph @ ''('' @ show_nat (length identifiers - cve_limit) @ '' more)'' else [])"

definition show_advisories :: "terminal_ui \<Rightarrow> security_advisory_report \<Rightarrow> string" where
  "show_advisories ui r =
     section_text ui ''Available security advisories'' @
     line_text (muted ui
       ''Explicit DNF5 query only; no packages, repositories, or firewall settings are changed.'') @
     (if \<not> dnf_available r
      then line_text (danger_badge ui ''DNF5 UNAVAILABLE'' @ '' '' @ warning ui (advisory_diagnostic r))
      else if \<not> query_succeeded r
      then line_text (warning_badge ui ''QUERY FAILED'' @ '' '' @
             warning ui (display_safe_detail (advisory_diagnostic r)))
      else
        key_value_text ui ''Available security advisories''
          (if advisory_count r = 0 then success_badge ui ''NONE''
           else warning_badge ui (show_nat (advisory_count r))) @
        (if cves r = []
         then key_value_text ui ''Referenced CVEs'' (muted ui ''none reported by available advisories'')
         else key_value_text ui ''Referenced CVEs'' (warning ui (visible_cves (cves r))) @
              [newline_char] @
              line_text (muted ui
                ''Review the advisory and affected package before updating; a CVE reference is not proof of local exploitability.'')))"

lemma advisories_screen: "screen_safe (show_advisories ui r)"
  unfolding show_advisories_def by (intro screen_intro)

section \<open>Line ends of a view\<close>

text \<open>Sanitized text is one line: the newlines of the collected output are escaped with the rest.\<close>

lemma continuation_high: "byte_word c AND 0xC0 = 0x80 \<Longrightarrow> 128 \<le> byte c"
proof (rule ccontr)
  assume "byte_word c AND 0xC0 = 0x80" "\<not> 128 \<le> byte c"
  moreover from this(2) have "byte_word c < 128"
    by (simp add: byte_word_nat word_less_nat_alt unat_of_nat)
  ultimately show False using word_and_le2[of "byte_word c" "0xC0"] by simp
qed

lemma utf8_tail_high: "utf8_tail p cs = Some q \<Longrightarrow> c \<in> set cs \<Longrightarrow> 128 \<le> byte c"
  by (induction cs arbitrary: p) (auto simp: continuation_high split: if_splits)

lemma decoded_high:
  assumes "decode_utf8 u = Some (p, length u)" "c \<in> set u"
  shows "128 \<le> byte c"
proof -
  obtain d ds where u: "u = d # ds" using decode_utf8_prefix(4)[OF assms(1)] by (cases u) auto
  obtain q where "utf8_tail q (take (length u - 1) ds) = Some p"
    using assms by (auto simp: decode_utf8_def u split: option.splits if_splits)
  then have "utf8_tail q ds = Some p" by (simp add: u)
  then show ?thesis
    using assms(2) decode_utf8_prefix(3)[OF assms(1)] utf8_tail_high by (auto simp: u)
qed

lemma terminal_safe_newline: "terminal_safe s \<Longrightarrow> newline_char \<notin> set s"
proof (induction rule: terminal_safe.induct)
  case (utf8 u p s)
  then show ?case using decoded_high[OF utf8.hyps(1), of newline_char] by auto
next
  case (rendition ps s)
  moreover have "\<not> is_sgr_parameter newline_char" by (simp add: is_sgr_parameter_def is_digit_def)
  ultimately show ?case by (auto simp: list_all_iff esc_char_def)
qed auto

lemma sanitized_newline: "newline_char \<notin> set (sanitize_terminal_text s n)"
  unfolding sanitize_terminal_text_def
  by (rule terminal_safe_newline, rule sanitize_loop_safe, rule terminal_safe.empty)

lemma codes_newline: "list_all is_sgr_parameter code \<Longrightarrow> newline_char \<notin> set code"
proof -
  have "\<not> is_sgr_parameter newline_char" by (simp add: is_sgr_parameter_def is_digit_def)
  then show "list_all is_sgr_parameter code \<Longrightarrow> ?thesis" by (auto simp: list_all_iff)
qed

lemma paint_newline: "list_all is_sgr_parameter code \<Longrightarrow> newline_char \<notin> set (paint ui code s)"
  using sanitized_newline codes_newline by (simp add: paint_def Let_def esc_char_def)

lemma styles_newline:
  "newline_char \<notin> set (accent ui s)" "newline_char \<notin> set (ui_success ui s)"
  "newline_char \<notin> set (warning ui s)" "newline_char \<notin> set (danger ui s)"
  unfolding style_defs by (intro paint_newline codes_sgr; simp add: is_sgr_parameter_def is_digit_def)+

section \<open>Properties\<close>

text \<open>C40: The output of a probe is printed without its line ends: they are escaped with the other
  control bytes, and the newline that should end it is left out exactly when the output has one, so
  the next line of the view continues on the line of the output.\<close>

theorem probe_output_runs_on:
  "count_list (probe_text ui p) newline_char =
     (if rp_output p = [] \<or> last (rp_output p) = newline_char then 1 else 2)"
  using sanitized_newline styles_newline
  by (simp add: probe_text_def closing_newline_def sanitized_def count_list_0_iff)

end
