(* ===== verification/PortIntelligence.thy ===== *)
theory PortIntelligence
  imports PortCatalog TextUtils
begin

text \<open>
  \<open>src/firewall/port_intelligence.cpp\<close>: what a port or a port specification conventionally
  stands for.  The local services database, \<open>getservbyport\<close>, is the parameter \<open>svc\<close>: the
  name it gives a port and a protocol, if it has one.
\<close>

section \<open>Data\<close>

datatype port_range = WellKnown | Registered | DynamicPrivate | UnknownRange

datatype port_knowledge_source = Curated | SystemServiceDatabase | RangeOnly

record port_intel =
  intel_port :: "16 word option"
  intel_range_end :: "16 word option"
  intel_protocol :: string
  intel_range :: port_range
  likely_service :: string
  intel_source :: port_knowledge_source

type_synonym service_database = "16 word \<Rightarrow> string \<Rightarrow> string option"

definition unknown_port :: port_intel where
  "unknown_port = \<lparr>intel_port = None, intel_range_end = None, intel_protocol = [],
     intel_range = UnknownRange, likely_service = [], intel_source = RangeOnly\<rparr>"

section \<open>Identification\<close>

definition parse_port :: "string \<Rightarrow> 16 word option" where
  "parse_port s =
     (case parse_whole_u32 s of None \<Rightarrow> None
      | Some parsed \<Rightarrow> if parsed \<le> 65535 then Some (word_of_nat parsed) else None)"

definition port_class :: "16 word \<Rightarrow> port_range" where
  "port_class port =
     (if port \<le> 1023 then WellKnown else if port \<le> 49151 then Registered else DynamicPrivate)"

definition normalized_protocol :: "string \<Rightarrow> string" where
  [simp]: "normalized_protocol protocol = lowercase_copy protocol"

definition identify_port :: "service_database \<Rightarrow> 16 word \<Rightarrow> string \<Rightarrow> port_intel" where
  "identify_port svc port protocol =
     (let normalized = normalized_protocol protocol;
          intel = \<lparr>intel_port = Some port, intel_range_end = None, intel_protocol = normalized,
                   intel_range = port_class port, likely_service = [], intel_source = RangeOnly\<rparr>
      in case map_of service_names (normalized @ ''/'' @ show_nat (unat port)) of
           Some label \<Rightarrow> intel\<lparr>likely_service := label, intel_source := Curated\<rparr>
         | None \<Rightarrow>
      (case find_service normalized port of
           Some label \<Rightarrow> intel\<lparr>likely_service := label, intel_source := Curated\<rparr>
         | None \<Rightarrow>
      (case find_service_range normalized port of
           Some label \<Rightarrow> intel\<lparr>likely_service := label, intel_source := Curated\<rparr>
         | None \<Rightarrow>
      (case svc port normalized of
           Some name \<Rightarrow> intel\<lparr>likely_service := name @ '' (local service database)'',
                              intel_source := SystemServiceDatabase\<rparr>
         | None \<Rightarrow> intel))))"

definition identify_port_spec :: "service_database \<Rightarrow> string \<Rightarrow> port_intel" where
  "identify_port_spec svc spec =
     (case find_char (CHR ''/'') spec of None \<Rightarrow> unknown_port
      | Some separator \<Rightarrow>
        (let port_part = take separator spec; protocol = drop (Suc separator) spec in
         case find_char (CHR ''-'') port_part of
           None \<Rightarrow>
             (case parse_port port_part of None \<Rightarrow> unknown_port
              | Some port \<Rightarrow> identify_port svc port protocol)
         | Some range_separator \<Rightarrow>
             (case (parse_port (take range_separator port_part),
                    parse_port (drop (Suc range_separator) port_part)) of
                (Some first, Some final) \<Rightarrow>
                  (if final < first then unknown_port
                   else (identify_port svc first protocol)
                          \<lparr>intel_range_end := Some final,
                           likely_service := ''port range (individual services vary)'',
                           intel_source := RangeOnly\<rparr>)
              | _ \<Rightarrow> unknown_port)))"

definition identify_endpoint :: "service_database \<Rightarrow> string \<Rightarrow> string \<Rightarrow> port_intel" where
  "identify_endpoint svc endpoint protocol =
     (case rfind_char colon_char endpoint of None \<Rightarrow> unknown_port
      | Some separator \<Rightarrow>
        (case parse_port (drop (Suc separator) endpoint) of None \<Rightarrow> unknown_port
         | Some port \<Rightarrow> identify_port svc port protocol))"

section \<open>Labels\<close>

fun port_range_label :: "port_range \<Rightarrow> string" where
  "port_range_label WellKnown = ''well-known 0-1023''"
| "port_range_label Registered = ''registered 1024-49151''"
| "port_range_label DynamicPrivate = ''dynamic/private 49152-65535''"
| "port_range_label UnknownRange = ''unrecognized port''"

fun port_knowledge_source_label :: "port_knowledge_source \<Rightarrow> string" where
  "port_knowledge_source_label Curated = ''defensive catalogue''"
| "port_knowledge_source_label SystemServiceDatabase = ''local service database''"
| "port_knowledge_source_label RangeOnly = ''range classification''"

text \<open>A bullet between two blanks, in UTF-8.\<close>

definition bullet :: string where
  "bullet = [CHR 0x20, CHR 0xE2, CHR 0x80, CHR 0xA2, CHR 0x20]"

definition port_intel_label :: "port_intel \<Rightarrow> string" where
  "port_intel_label intel =
     (case intel_port intel of None \<Rightarrow> ''port unavailable''
      | Some _ \<Rightarrow>
        (let label = (if likely_service intel = [] then ''unmapped service'' else likely_service intel)
         in case intel_range_end intel of
              None \<Rightarrow> label @ bullet @ port_range_label (intel_range intel)
            | Some final \<Rightarrow>
                (let final_range = (if final \<le> 1023 then intel_range intel
                                    else if final \<le> 49151 then Registered else DynamicPrivate)
                 in if final_range = intel_range intel
                    then label @ bullet @ port_range_label (intel_range intel)
                    else label @ bullet @ ''spans '' @ port_range_label (intel_range intel) @
                         '' to '' @ port_range_label final_range)))"

section \<open>Facts\<close>

lemma parse_port_show [simp]: "parse_port (show_nat (unat (p :: 16 word))) = Some p"
proof -
  have "unat p < 2 ^ 16" using unsigned_less[of p] by simp
  then show ?thesis by (simp add: parse_port_def parse_whole_show_nat)
qed

lemma identify_port_simps [simp]:
  "intel_port (identify_port svc p proto) = Some p"
  "intel_range_end (identify_port svc p proto) = None"
  "intel_protocol (identify_port svc p proto) = lowercase_copy proto"
  "intel_range (identify_port svc p proto) = port_class p"
  by (simp_all add: identify_port_def Let_def split: option.split)

lemma find_char_show_nat:
  assumes "\<not> is_digit c"
  shows "find_char c (show_nat n @ c # s) = Some (length (show_nat n))"
    and "find_char c (show_nat n) = None"
proof -
  have "\<forall>x\<in>set (show_nat n). \<not> x = c" using show_nat_digits[of n] assms by auto
  then show "find_char c (show_nat n @ c # s) = Some (length (show_nat n))"
    and "find_char c (show_nat n) = None"
    by (simp_all add: find_index_append find_index_None_iff)
qed

definition port_spec :: "16 word \<Rightarrow> string \<Rightarrow> string" where
  "port_spec p proto = show_nat (unat p) @ ''/'' @ proto"

definition port_range_spec :: "16 word \<Rightarrow> 16 word \<Rightarrow> string \<Rightarrow> string" where
  "port_range_spec a b proto = show_nat (unat a) @ ''-'' @ show_nat (unat b) @ ''/'' @ proto"

lemma separators_not_digits [simp]: "\<not> is_digit (CHR ''/'')" "\<not> is_digit (CHR ''-'')"
  by (simp_all add: is_digit_def)

lemma identify_port_spec_single:
  "identify_port_spec svc (port_spec p proto) = identify_port svc p proto"
  by (simp add: identify_port_spec_def port_spec_def find_char_show_nat)

lemma find_slash_in_range:
  "find_char (CHR ''/'') (port_range_spec a b proto) =
     Some (length (show_nat (unat a)) + 1 + length (show_nat (unat b)))"
proof -
  have "\<forall>x\<in>set (show_nat (unat a) @ ''-'' @ show_nat (unat b)). \<not> x = CHR ''/''"
    using show_nat_digits[of "unat a"] show_nat_digits[of "unat b"] by auto
  from find_index_append[OF this, of "CHR ''/''" proto] show ?thesis
    by (simp add: port_range_spec_def)
qed

lemma identify_port_spec_ranged:
  "identify_port_spec svc (port_range_spec a b proto) =
     (if b < a then unknown_port
      else (identify_port svc a proto)
             \<lparr>intel_range_end := Some b,
              likely_service := ''port range (individual services vary)'',
              intel_source := RangeOnly\<rparr>)"
proof -
  let ?n = "length (show_nat (unat a)) + 1 + length (show_nat (unat b))"
  have part: "take ?n (port_range_spec a b proto) = show_nat (unat a) @ CHR ''-'' # show_nat (unat b)"
    and rest: "drop (Suc ?n) (port_range_spec a b proto) = proto"
    by (simp_all add: port_range_spec_def)
  show ?thesis
    unfolding identify_port_spec_def find_slash_in_range option.case Let_def part rest
    by (simp add: find_char_show_nat)
qed

text \<open>A range end is never below its port: the width of a range does not wrap around.\<close>

lemma range_end_above:
  "intel_range_end (identify_port_spec svc spec) = Some b \<Longrightarrow>
     \<exists>a. intel_port (identify_port_spec svc spec) = Some a \<and> a \<le> b"
  by (auto simp: identify_port_spec_def unknown_port_def Let_def
      split: option.splits if_splits)

lemma port_class_cases:
  "port_class p = (if unat p < 1024 then WellKnown else if unat p < 49152 then Registered
                   else DynamicPrivate)"
  by (simp add: port_class_def word_le_nat_alt less_Suc_eq_le)

section \<open>Properties\<close>

text \<open>C39: A port specification is read back for every pair of 16-bit ports: a single port is
  identified as itself, an ascending range keeps both ends, and a descending range is
  rejected.\<close>

theorem port_spec_round_trip:
  "identify_port_spec svc (port_spec a proto) = identify_port svc a proto \<and>
   intel_port (identify_port_spec svc (port_range_spec a b proto)) =
     (if b < a then None else Some a) \<and>
   intel_range_end (identify_port_spec svc (port_range_spec a b proto)) =
     (if b < a then None else Some b)"
  by (simp add: identify_port_spec_single identify_port_spec_ranged unknown_port_def)

text \<open>For every input text, a range end that was recognised is at least its port, so the
  unsigned width of a range never wraps around.\<close>

theorem port_range_never_wraps:
  "case intel_range_end (identify_port_spec svc spec) of
     None \<Rightarrow> True
   | Some b \<Rightarrow> (case intel_port (identify_port_spec svc spec) of
        None \<Rightarrow> False
      | Some a \<Rightarrow> unat (ucast b - ucast a :: 32 word) = unat b - unat a \<and> a \<le> b)"
proof (cases "intel_range_end (identify_port_spec svc spec)")
  case None
  then show ?thesis by simp
next
  case (Some b)
  then obtain a where a: "intel_port (identify_port_spec svc spec) = Some a" "a \<le> b"
    using range_end_above by blast
  have u: "unat (ucast p :: 32 word) = unat p" for p :: "16 word"
  proof -
    have "unat p < 2 ^ LENGTH(16)" by (rule unsigned_less)
    then show ?thesis by (simp add: unsigned_ucast_eq take_bit_nat_eq_self)
  qed
  have "(ucast a :: 32 word) \<le> ucast b"
    using a(2) by (simp add: word_le_nat_alt u)
  then show ?thesis
    using Some a by (simp add: unat_sub u)
qed

end
