(* ===== verification/ThreatAssessment.thy ===== *)
theory ThreatAssessment
  imports Readiness PortIntelligence
begin

text \<open>
  \<open>src/security/threat_assessment.cpp\<close>: the evidence-oriented review of a snapshot.  The
  findings are built in the groups in which \<open>assess_threat_evidence\<close> appends them.
\<close>

section \<open>Data\<close>

datatype threat_finding_kind = CandidateAlert | Exposure | CoverageGap | ScopeLimit | NoAlert

record threat_finding =
  tf_kind :: threat_finding_kind
  tf_title :: string
  tf_detail :: string
  tf_context :: string
  tf_validation :: string

record threat_assessment =
  findings :: "threat_finding list"
  verdict_rules :: "string list"

definition finding ::
  "threat_finding_kind \<Rightarrow> string \<Rightarrow> string \<Rightarrow> string \<Rightarrow> string \<Rightarrow> threat_finding" where
  "finding kind title detail context_note validation =
     \<lparr>tf_kind = kind, tf_title = title, tf_detail = detail, tf_context = context_note,
      tf_validation = validation\<rparr>"

fun finding_kind_to_string :: "threat_finding_kind \<Rightarrow> string" where
  "finding_kind_to_string CandidateAlert = ''CANDIDATE ALERT''"
| "finding_kind_to_string Exposure = ''EXPOSURE''"
| "finding_kind_to_string CoverageGap = ''COVERAGE GAP''"
| "finding_kind_to_string ScopeLimit = ''SCOPE LIMIT''"
| "finding_kind_to_string NoAlert = ''NO ALERT''"

section \<open>What is read from the snapshot\<close>

definition network_listener_count :: "firewall_state \<Rightarrow> nat" where
  "network_listener_count st = logical_network_services (summarize_listener_exposure (sockets st))"

definition attributed_network_listener_count :: "firewall_state \<Rightarrow> nat" where
  "attributed_network_listener_count st =
     process_attributed_network_bindings (summarize_listener_exposure (sockets st))"

definition runtime_differs_from_permanent :: "firewall_state \<Rightarrow> bool" where
  "runtime_differs_from_permanent st =
     (if \<not> observation_available (runtime_zones_status st) \<or>
         \<not> observation_available (permanent_zones_status st) \<or>
         length (runtime_zones st) \<noteq> length (permanent_zones st) then True
      else list_ex (\<lambda>(name, zone).
             case map_of (permanent_zones st) name of None \<Rightarrow> True
             | Some permanent \<Rightarrow> \<not> zone_policies_equal zone permanent) (runtime_zones st))"

definition is_broad_range :: "service_database \<Rightarrow> string \<Rightarrow> bool" where
  "is_broad_range svc spec =
     (let intel = identify_port_spec svc spec
      in case (intel_port intel, intel_range_end intel) of
           (Some port, Some range_end) \<Rightarrow> \<not> ((ucast range_end - ucast port :: 32 word) < 1024)
         | _ \<Rightarrow> False)"

definition broad_active_port_ranges :: "service_database \<Rightarrow> firewall_state \<Rightarrow> string list" where
  "broad_active_port_ranges svc st =
     concat (map (\<lambda>(zone_name, zone).
       if \<not> is_zone_applicable st zone_name then []
       else map (\<lambda>spec. zone_name @ '': '' @ spec) (filter (is_broad_range svc) (zone_ports zone)))
       (runtime_zones st))"

definition active_zone_forwarding_enabled :: "firewall_state \<Rightarrow> bool" where
  "active_zone_forwarding_enabled st =
     list_ex (\<lambda>(name, zone). is_zone_applicable st name \<and> zone_forward zone) (runtime_zones st)"

definition active_zone_forwarding_has_path :: "firewall_state \<Rightarrow> bool" where
  "active_zone_forwarding_has_path st =
     list_ex (\<lambda>(name, zone). is_zone_applicable st name \<and> zone_forward zone \<and>
                             1 < active_zone_member_count st name) (runtime_zones st)"

definition joined :: "string list \<Rightarrow> string" where
  "joined items = join_with '', '' items"

definition active_protocol_or_source_port_rules :: "firewall_state \<Rightarrow> string list" where
  "active_protocol_or_source_port_rules st =
     (if \<not> applicable_zone_details_available st then []
      else concat (map (\<lambda>(zone_name, zone).
        if \<not> is_zone_applicable st zone_name then []
        else (if zone_protocols zone \<noteq> []
              then [zone_name @ '' protocol='' @ joined (zone_protocols zone)] else []) @
             (if zone_source_ports zone \<noteq> []
              then [zone_name @ '' source-port='' @ joined (zone_source_ports zone)] else []))
        (runtime_zones st)))"

definition applicable_rich_rule_count :: "firewall_state \<Rightarrow> nat" where
  "applicable_rich_rule_count st =
     (if \<not> applicable_zone_details_available st then 0
      else fold (\<lambda>(zone, config) count.
             if is_zone_applicable st zone then count + length (zone_rich_rules config) else count)
        (runtime_zones st) 0)"

section \<open>The findings\<close>

definition standard_verdict_rules :: "string list" where
  "standard_verdict_rules =
     [''True positive: a candidate alert corroborated as malicious by independent evidence.'',
      ''False positive: a candidate alert explained by expected or benign activity.'',
      ''True negative: no alert plus independent evidence that no relevant incident occurred.'',
      ''False negative: no alert followed by later confirmation of a relevant incident.'']"

definition service_findings :: "firewall_state \<Rightarrow> threat_finding list" where
  "service_findings st =
     (if \<not> fw_installed st
      then [finding CoverageGap ''firewall-cmd unavailable''
              ''The firewalld command interface could not be queried.''
              ''A missing firewall view can hide both permissive and restrictive policy.''
              ''Restore firewalld tooling, then collect a fresh posture snapshot.'']
      else if \<not> fw_active st
      then [finding CoverageGap ''firewalld runtime policy unavailable''
              ''The firewall service was not confirmed running.''
              (''A dashboard cannot infer active filtering policy while the service state '' @
               ''is unavailable or inactive.'')
              ''Verify firewalld service state and its intended host firewall policy.'']
      else [])"

definition zone_findings :: "firewall_state \<Rightarrow> threat_finding list" where
  "zone_findings st =
     (if \<not> observation_available (active_zones_status st)
      then [finding CoverageGap ''Active-zone collection unavailable''
              ''The active firewalld zone query did not return a usable result.''
              ''Interface and source bindings can change which policy applies to traffic.''
              (''Restore firewall query access and compare active zones with '' @
               ''NetworkManager.'')]
      else []) @
     (if \<not> observation_available (runtime_zones_status st)
      then [finding CoverageGap ''Runtime-zone collection unavailable''
              ''Runtime firewalld zone policy was not collected.''
              (''A quiet exposure summary can be a false negative without runtime policy '' @
               ''evidence.'')
              (''Restore firewall query access before drawing firewall exposure '' @
               ''conclusions.'')]
      else []) @
     (if \<not> observation_available (permanent_zones_status st)
      then [finding CoverageGap ''Permanent-zone collection unavailable''
              ''Permanent firewalld zone policy was not collected.''
              ''Drift cannot be assessed without both runtime and permanent policy views.''
              ''Run a complete posture collection after restoring firewall query access.'']
      else [])"

definition policy_inventory_findings :: "firewall_state \<Rightarrow> threat_finding list" where
  "policy_inventory_findings st =
     (if \<not> observation_available (active_policies_status st)
      then [finding CoverageGap ''Active policy inventory unavailable''
              ''Active firewalld policy names were not collected.''
              (''Policies can create host-bound or forwarding exposure outside zone '' @
               ''settings.'')
              (''Collect policy inventory and inspect policy details before relying on '' @
               ''readiness.'')]
      else if active_policies st \<noteq> []
      then [finding CoverageGap ''Active policy details not assessed''
              (show_nat (length (active_policies st)) @
               '' active firewalld policy name(s) were found.'')
              (''A named policy can allow services, ports, forwarding, or masquerading '' @
               ''without proving hostile activity.'')
              (''Inspect each policy's ingress, egress, target, services, ports, and rich '' @
               ''rules.'')]
      else []) @
     (if \<not> observation_available (panic_state st)
      then [finding CoverageGap ''Panic-mode state unavailable''
              ''The panic-mode query did not return a usable result.''
              ''An unavailable query must not be interpreted as panic mode being off.''
              ''Restore firewall query access and verify the state directly.'']
      else [])"

definition denial_findings :: "firewall_state \<Rightarrow> threat_finding list" where
  "denial_findings st =
     (if kernel_journal_status (security_signals st) = JournalPartial
      then [finding CoverageGap ''Kernel denial telemetry truncated''
              (''At least '' @
               show_nat (kernel_drop_or_reject_events (security_signals st)) @
               '' retained event(s) reached the bounded journal query limit.'')
              (''Additional events may be absent from this view, so an apparent count or '' @
               ''source mix is not complete.'')
              (''Collect a narrower time window or export retained journal evidence before '' @
               ''drawing conclusions.'')]
      else if \<not> kernel_journal_available (security_signals st)
      then [finding CoverageGap ''Kernel denial telemetry unavailable''
              ''The journal query did not return a usable retained view.''
              (''A quiet dashboard can be a false negative when this telemetry source is '' @
               ''unavailable.'')
              (''Restore journal access, then compare firewall logs with host and network '' @
               ''telemetry.'')]
      else if 0 < kernel_drop_or_reject_events (security_signals st)
      then [finding CandidateAlert ''Denied-packet activity observed''
              (show_nat (kernel_drop_or_reject_events (security_signals st)) @
               '' retained event(s); '' @
               show_nat (kernel_denial_unique_sources (security_signals st)) @
               '' distinct source value(s); '' @
               show_nat (kernel_denial_unique_destination_ports (security_signals st)) @
               '' destination port value(s).'')
              (''Blocked scans, multicast discovery, return traffic, and local '' @
               ''misconfiguration can all be false positives for hostile activity.'')
              (''Correlate timestamps, source/destination tuples, owning process, and '' @
               ''packet capture before calling this a true positive.'')]
      else if \<not> observation_available (denied_logging_status st)
      then [finding CoverageGap ''Denied-packet logging state unavailable''
              ''The firewall did not return a usable LogDenied setting.''
              (''No retained deny events cannot be interpreted without knowing whether the '' @
               ''firewall was configured to log them.'')
              ''Restore firewall query access and collect a new denial-telemetry window.'']
      else if log_denied st = ''off''
      then [finding CoverageGap ''Denied-packet logging is off''
              (''The firewall reports LogDenied=off, so denied-traffic counts are '' @
               ''incomplete by design.'')
              (''No denied events is not a true negative while packet-denial logging is '' @
               ''disabled; separately logged events remain candidates to investigate.'')
              (''Use a reviewed, rate-limited firewalld log, NFLOG, or audit rule for the '' @
               ''traffic under investigation.'')]
      else [finding NoAlert ''No retained kernel deny/reject events''
              ''No matching events were found in the bounded 24-hour journal view.''
              (''Normal background noise, logging gaps, and evasion can all produce no '' @
               ''alert.'')
              (''Do not classify this as a true negative without independent host, '' @
               ''network, and time-window evidence.'')])"

definition listener_findings :: "firewall_state \<Rightarrow> threat_finding list" where
  "listener_findings st =
     (if \<not> sockets_available (sockets st)
      then [finding CoverageGap ''Listener inventory unavailable''
              ''The local socket query failed or was unavailable.''
              (''A missing inventory can hide a network-reachable service and create a '' @
               ''false-negative exposure assessment.'')
              (''Restore socket visibility and validate listeners with their owning '' @
               ''process and active-zone rules.'')]
      else if 0 < network_listener_count st
      then [finding Exposure ''TCP/UDP non-multicast local listeners''
              (show_nat (network_listener_count st) @
               '' logical TCP/UDP protocol/port service(s) across '' @
               show_nat (network_reachable_bindings (summarize_listener_exposure (sockets st))) @
               '' non-multicast binding(s); '' @
               show_nat (attributed_network_listener_count st) @
               '' binding(s) have a locally reported process name.'')
              (''A listening socket is not evidence of compromise; it may be an expected '' @
               ''service, discovery responder, or VPN component.'')
              (''Verify owner, intended interface, firewall reachability, authentication, '' @
               ''and whether the service is needed on this network.'')] @
        (if attributed_network_listener_count st
              < network_reachable_bindings (summarize_listener_exposure (sockets st))
         then [finding CoverageGap ''Listener process attribution is incomplete''
                 (show_nat (network_reachable_bindings (summarize_listener_exposure (sockets st)) - attributed_network_listener_count st) @
                  '' non-multicast network binding(s) had no process name in the local `ss` '' @
                  ''view.'')
                 (''Missing process metadata can prevent benign attribution or hide a '' @
                  ''suspicious owner, creating false-positive and false-negative risk.'')
                 (''Re-run with the necessary local privileges and compare with '' @
                  ''service-manager and process telemetry.'')]
         else [])
      else [finding NoAlert ''No TCP/UDP non-multicast listeners observed''
              (''The current socket snapshot found no TCP/UDP listener beyond loopback or '' @
               ''multicast.'')
              (''This is a point-in-time observation, not proof that no service can appear '' @
               ''later or that outbound abuse is absent.'')
              (''Refresh after network changes and combine with process and egress '' @
               ''monitoring when needed.'')])"

definition correlation_findings :: "firewall_state \<Rightarrow> threat_finding list" where
  "correlation_findings st =
     (if \<not> time_sync_status_available (evidence_quality st)
      then [finding CoverageGap ''Time synchronization status unavailable''
              ''The host could not report whether NTP synchronization is active.''
              (''Unreliable timestamps make correlation harder and can cause events to be '' @
               ''misattributed or missed across sources.'')
              (''Restore access to time status and verify the host clock before '' @
               ''correlating local and network evidence.'')]
      else if \<not> time_synchronized (evidence_quality st)
      then [finding CoverageGap ''Host time is not synchronized''
              ''The operating system reports that NTP synchronization is not established.''
              (''Cross-source event timelines can be wrong when clocks diverge, weakening '' @
               ''both positive and negative conclusions.'')
              (''Restore approved time synchronization, then record a fresh assessment '' @
               ''window.'')]
      else []) @
     (if \<not> journald_service_available (evidence_quality st)
      then [finding CoverageGap ''systemd-journald is not active''
              ''The local journal service was not reported active.''
              (''Event retention and correlation may be incomplete, producing '' @
               ''false-negative risk.'')
              (''Restore journald according to the host's approved logging policy before '' @
               ''relying on journal-based findings.'')]
      else []) @
     [finding ScopeLimit ''Outbound discovery behavior is outside this snapshot''
        (''This console snapshots local listeners and bounded logs; it does not '' @
         ''retain process execution, connection-flow, or packet-capture telemetry '' @
         ''over time.'')
        (''A quiet listener or denial view cannot rule out outbound or lateral '' @
         ''service discovery, including port scanning.'')
        (''Where authorized, correlate process execution with connection/flow '' @
         ''telemetry or packet capture in a defined time window.'')]"

definition inbound_findings :: "service_database \<Rightarrow> firewall_state \<Rightarrow> threat_finding list" where
  "inbound_findings svc st =
     (let broad_ranges = broad_active_port_ranges svc st in
      if broad_ranges \<noteq> []
      then [finding Exposure ''Broad inbound port range configured''
              (''Active-zone range(s): '' @
               joined (broad_ranges) @
               ''. This policy can permit many services if they bind beyond loopback.'')
              (''A broad range can be intentional for a lab, game, or temporary workflow; '' @
               ''it does not prove any of those ports have a listening process today.'')
              (''Confirm the business need, scope it to the smallest required ports and '' @
               ''interfaces, and review it as a deliberate firewall change.'')]
      else []) @
     (let selectors = active_protocol_or_source_port_rules st in
      if selectors \<noteq> []
      then [finding Exposure ''Active-zone protocol or source-port rules''
              (''Active-zone selector(s): '' @
               joined (selectors) @
               ''.'')
              (''Protocol and source-port selectors can be deliberate policy constraints; '' @
               ''they do not prove that a matching service is listening or that traffic is '' @
               ''hostile.'')
              (''Review the matching zone target, services, ports, rich rules, and '' @
               ''intended traffic direction.'')]
      else []) @
     (if 0 < applicable_rich_rule_count st
      then [finding Exposure ''Applicable-zone rich rules''
              (show_nat (applicable_rich_rule_count st) @
               '' rich rule(s) are configured in zones applicable to current or fallback '' @
               ''traffic.'')
              (''A rich rule can restrict, log, forward, reject, drop, or permit traffic; '' @
               ''a count alone does not establish which effect applies to a specific flow.'')
              (''Review each rule's action, family, source, destination, service, port, '' @
               ''protocol, and priority before relying on a clean exposure conclusion.'')]
      else [])"

definition forwarding_findings :: "firewall_state \<Rightarrow> threat_finding list" where
  "forwarding_findings st =
     (if active_zone_forwarding_enabled st
      then if active_zone_forwarding_has_path st
        then [finding Exposure ''Intra-zone forwarding has an active path''
                (''At least one active firewalld zone permits forwarding between multiple '' @
                 ''interfaces or sources assigned to that same zone.'')
                (''This can be a legitimate multi-interface, virtual-machine, or container '' @
                 ''arrangement; it does not by itself prove IP routing or unauthorized '' @
                 ''transit.'')
                (''Verify which interfaces and sources share the zone, and whether they are '' @
                 ''intended to communicate through this host.'')]
        else [finding ScopeLimit ''Intra-zone forwarding topology not established''
                (''Forwarding is configured, but the collected bindings did not establish a '' @
                 ''multi-member interface/source pair.'')
                (''Selector count is not verified route topology; a source selector can '' @
                 ''represent multiple hosts and routing may change outside this snapshot.'')
                (''Verify routes, interface membership, and intended same-zone traffic '' @
                 ''before treating forwarding as inactive.'')]
      else [])"

definition drift_findings :: "firewall_state \<Rightarrow> threat_finding list" where
  "drift_findings st =
     (if observation_available (runtime_zones_status st) \<and>
         observation_available (permanent_zones_status st) \<and> runtime_differs_from_permanent st
      then [finding CandidateAlert ''Firewall runtime/permanent drift''
              ''At least one runtime zone differs from its permanent configuration.''
              (''An administrator may have made a legitimate temporary change; drift alone '' @
               ''is not malicious.'')
              (''Review the change timestamp, author, firewalld journal, and intended '' @
               ''change record before classifying it.'')]
      else [])"

definition firewalld_journal_findings :: "firewall_state \<Rightarrow> threat_finding list" where
  "firewalld_journal_findings st =
     (if firewalld_journal_status (security_signals st) = JournalPartial
      then [finding CoverageGap ''firewalld journal telemetry truncated''
              (''At least '' @
               show_nat (firewalld_service_events (security_signals st)) @
               '' service event(s) reached the bounded journal query limit.'')
              (''The returned event count is a lower bound and is not a complete activity '' @
               ''history.'')
              ''Inspect a narrower time window when investigating a candidate finding.'']
      else if firewalld_journal_available (security_signals st) \<and>
              0 < firewalld_service_events (security_signals st)
      then [finding NoAlert ''Routine firewalld journal activity retained''
              (show_nat (firewalld_service_events (security_signals st)) @
               '' service journal event(s) in the bounded view; this count alone is not a '' @
               ''threat signal.'')
              (''Starts, reloads, package updates, and network changes commonly produce '' @
               ''these entries.'')
              (''Use the timestamp and event content only when investigating a separate '' @
               ''candidate finding.'')]
      else [])"

definition assess_threat_evidence :: "service_database \<Rightarrow> firewall_state \<Rightarrow> threat_assessment" where
  "assess_threat_evidence svc st =
     \<lparr>findings = service_findings st @ zone_findings st @ policy_inventory_findings st @
        denial_findings st @ listener_findings st @ correlation_findings st @
        inbound_findings svc st @ forwarding_findings st @ drift_findings st @
        firewalld_journal_findings st,
      verdict_rules = standard_verdict_rules\<rparr>"

section \<open>What the assessment says\<close>

abbreviation has_kind :: "threat_finding_kind \<Rightarrow> threat_finding list \<Rightarrow> bool" where
  "has_kind k fs \<equiv> list_ex (\<lambda>f. tf_kind f = k) fs"

lemma finding_simps [simp]:
  "tf_kind (finding k t d c v) = k"
  "tf_title (finding k t d c v) = t"
  by (simp_all add: finding_def)

lemma runtime_differs_iff: "runtime_differs_from_permanent st \<longleftrightarrow> \<not> runtime_matches_permanent st"
proof -
  have "list_ex (\<lambda>(name, zone). case map_of m name of None \<Rightarrow> True
                  | Some permanent \<Rightarrow> \<not> zone_policies_equal zone permanent) zs \<longleftrightarrow>
        \<not> list_all (\<lambda>(name, zone). case map_of m name of None \<Rightarrow> False
                  | Some permanent \<Rightarrow> zone_policies_equal zone permanent) zs" for m zs
    by (induction zs) (auto split: option.split)
  then show ?thesis
    by (auto simp: runtime_differs_from_permanent_def runtime_matches_permanent_def)
qed

lemma not_available_iff: "\<not> observation_available s \<longleftrightarrow> s \<noteq> Available"
  by (simp add: observation_available_def)

text \<open>The findings of each kind, group by group.\<close>

lemmas policy_group_defs = service_findings_def zone_findings_def policy_inventory_findings_def

lemmas other_group_defs = correlation_findings_def inbound_findings_def forwarding_findings_def
  drift_findings_def firewalld_journal_findings_def

lemma service_gap: "has_kind CoverageGap (service_findings st) \<longleftrightarrow> \<not> (fw_installed st \<and> fw_active st)"
  by (simp add: service_findings_def)

lemma zone_gap:
  "has_kind CoverageGap (zone_findings st) \<longleftrightarrow>
     \<not> (active_zones_status st = Available \<and> runtime_zones_status st = Available \<and>
        permanent_zones_status st = Available)"
  by (simp add: zone_findings_def not_available_iff)

lemma inventory_gap:
  "has_kind CoverageGap (policy_inventory_findings st) \<longleftrightarrow>
     \<not> (active_policies_status st = Available \<and> active_policies st = [] \<and>
        panic_state st = Available)"
  by (simp add: policy_inventory_findings_def not_available_iff)

definition denials_observed :: "firewall_state \<Rightarrow> bool" where
  "denials_observed st \<longleftrightarrow>
     kernel_journal_status (security_signals st) \<noteq> JournalPartial \<and>
     kernel_journal_available (security_signals st) \<and>
     (kernel_drop_or_reject_events (security_signals st) = 0 \<longrightarrow>
        denied_logging_status st = Available \<and> log_denied st \<noteq> ''off'')"

lemma denial_gap: "has_kind CoverageGap (denial_findings st) \<longleftrightarrow> \<not> denials_observed st"
  by (auto simp: denial_findings_def denials_observed_def not_available_iff)

definition listeners_attributed :: "firewall_state \<Rightarrow> bool" where
  "listeners_attributed st \<longleftrightarrow>
     sockets_available (sockets st) \<and>
     (network_listener_count st = 0 \<or>
      attributed_network_listener_count st =
        network_reachable_bindings (summarize_listener_exposure (sockets st)))"

lemma listener_gap: "has_kind CoverageGap (listener_findings st) \<longleftrightarrow> \<not> listeners_attributed st"
  using attributed_le_reachable[of "sockets st"]
  by (auto simp: listener_findings_def listeners_attributed_def attributed_network_listener_count_def)

lemma other_gap:
  "has_kind CoverageGap (correlation_findings st) \<longleftrightarrow>
     \<not> (time_sync_status_available (evidence_quality st) \<and> time_synchronized (evidence_quality st) \<and>
        journald_service_available (evidence_quality st))"
  "\<not> has_kind CoverageGap (inbound_findings svc st)"
  "\<not> has_kind CoverageGap (forwarding_findings st)"
  "\<not> has_kind CoverageGap (drift_findings st)"
  "has_kind CoverageGap (firewalld_journal_findings st) \<longleftrightarrow>
     firewalld_journal_status (security_signals st) = JournalPartial"
  by (simp_all add: other_group_defs Let_def)

text \<open>When the assessment reports no gap.\<close>

definition evidence_complete :: "firewall_state \<Rightarrow> bool" where
  "evidence_complete st \<longleftrightarrow>
     fw_installed st \<and> fw_active st \<and>
     active_zones_status st = Available \<and> runtime_zones_status st = Available \<and>
     permanent_zones_status st = Available \<and>
     active_policies_status st = Available \<and> active_policies st = [] \<and>
     panic_state st = Available \<and> denials_observed st \<and> listeners_attributed st \<and>
     time_sync_status_available (evidence_quality st) \<and> time_synchronized (evidence_quality st) \<and>
     journald_service_available (evidence_quality st) \<and>
     firewalld_journal_status (security_signals st) \<noteq> JournalPartial"

lemma threat_gap_iff:
  "has_kind CoverageGap (findings (assess_threat_evidence svc st)) \<longleftrightarrow> \<not> evidence_complete st"
  by (simp add: assess_threat_evidence_def service_gap zone_gap inventory_gap denial_gap
      listener_gap other_gap evidence_complete_def) blast

section \<open>Agreement with the readiness checks\<close>

definition alarming :: "threat_finding \<Rightarrow> bool" where
  "alarming f \<longleftrightarrow> tf_kind f = CandidateAlert \<or> tf_kind f = Exposure"

lemma alarming_finding [simp]:
  "alarming (finding k t d c v) \<longleftrightarrow> k = CandidateAlert \<or> k = Exposure"
  by (simp add: alarming_def)

lemma policy_groups_calm:
  "\<not> list_ex alarming (service_findings st)" "\<not> list_ex alarming (zone_findings st)"
  "\<not> list_ex alarming (policy_inventory_findings st)"
  "\<not> list_ex alarming (correlation_findings st)"
  "\<not> list_ex alarming (firewalld_journal_findings st)"
  by (simp_all add: policy_group_defs other_group_defs)

lemma denial_calm:
  "kernel_drop_or_reject_events (security_signals st) = 0 \<Longrightarrow> \<not> list_ex alarming (denial_findings st)"
  by (simp add: denial_findings_def)

lemma listener_calm: "network_listener_count st = 0 \<Longrightarrow> \<not> list_ex alarming (listener_findings st)"
  by (simp add: listener_findings_def)

lemma drift_calm: "runtime_matches_permanent st \<Longrightarrow> \<not> list_ex alarming (drift_findings st)"
  by (simp add: drift_findings_def runtime_differs_iff)

lemma applicable_configs_iff:
  "e \<in> set (applicable_configs st) \<longleftrightarrow>
     e \<in> set (runtime_zones st) \<and> is_zone_applicable st (fst e)"
  by (auto simp: applicable_configs_def)

lemma closed_zones_no_exposure:
  assumes "list_all (closed_zone st) (applicable_configs st)"
  shows "broad_active_port_ranges svc st = []"
    and "active_protocol_or_source_port_rules st = []"
    and "applicable_rich_rule_count st = 0"
    and "\<not> active_zone_forwarding_has_path st"
proof -
  have closed: "zone_ports (snd e) = [] \<and> zone_protocols (snd e) = [] \<and>
      zone_source_ports (snd e) = [] \<and> zone_rich_rules (snd e) = [] \<and> \<not> forwards st e"
    if "e \<in> set (runtime_zones st)" "is_zone_applicable st (fst e)" for e
    using assms that
    by (auto simp: list_all_iff applicable_configs_iff closed_zone_def zone_exposure_def)
  show "broad_active_port_ranges svc st = []"
    using closed by (fastforce simp: broad_active_port_ranges_def)
  show "active_protocol_or_source_port_rules st = []"
    using closed by (fastforce simp: active_protocol_or_source_port_rules_def)
  show "\<not> active_zone_forwarding_has_path st"
    using closed by (fastforce simp: active_zone_forwarding_has_path_def list_ex_iff forwards_def)
  have "applicable_rich_rules st = 0"
    using closed by (auto simp: applicable_rich_rules_eq applicable_configs_iff)
  then show "applicable_rich_rule_count st = 0"
    by (simp add: applicable_rich_rule_count_def applicable_rich_rules_def)
qed

lemma inbound_calm:
  "list_all (closed_zone st) (applicable_configs st) \<Longrightarrow> \<not> list_ex alarming (inbound_findings svc st)"
  by (simp add: inbound_findings_def closed_zones_no_exposure)

lemma forwarding_calm:
  "list_all (closed_zone st) (applicable_configs st) \<Longrightarrow> \<not> list_ex alarming (forwarding_findings st)"
  by (simp add: forwarding_findings_def closed_zones_no_exposure)

lemma defensible_calm:
  "defensible st \<Longrightarrow> \<not> list_ex alarming (findings (assess_threat_evidence svc st))"
  by (auto simp: assess_threat_evidence_def policy_groups_calm denial_calm listener_calm drift_calm
      inbound_calm forwarding_calm defensible_def telemetry_defensible_def policy_defensible_def
      network_listener_count_def)

section \<open>Properties\<close>


text \<open>A host that passes the readiness checks raises no candidate alert and no exposure in
  the threat assessment.\<close>

theorem ready_host_raises_no_alert:
  "readiness_exit_code st = 0 \<Longrightarrow>
     list_all (\<lambda>f. tf_kind f = CoverageGap \<or> tf_kind f = ScopeLimit \<or> tf_kind f = NoAlert)
       (findings (assess_threat_evidence svc st))"
proof -
  assume "readiness_exit_code st = 0"
  then have "\<not> list_ex alarming (findings (assess_threat_evidence svc st))"
    by (simp add: exit_code_zero_iff defensible_iff defensible_calm)
  then have "list_all (\<lambda>f. \<not> alarming f) (findings (assess_threat_evidence svc st))"
    by (simp add: list_ex_iff list_all_iff)
  moreover have "tf_kind f = CoverageGap \<or> tf_kind f = ScopeLimit \<or> tf_kind f = NoAlert"
    if "\<not> alarming f" for f
    using that by (cases "tf_kind f") (simp_all add: alarming_def)
  ultimately show ?thesis by (simp add: list_all_iff)
qed

definition defensible_example :: firewall_state where
  "defensible_example = default_firewall_state
     \<lparr>fw_operating_mode := HostileNetwork, fw_installed := True, fw_active := True,
      fw_enabled := True, service_state := Available, service_enablement := Available,
      panic_state := Available, permanent_config := Available, permanent_config_valid := True,
      default_zone_status := Available, default_zone := ''drop'',
      active_zones_status := Available, active_zone_interfaces := [(''drop'', [''eth0''])],
      runtime_zones_status := Available, permanent_zones_status := Available,
      active_policies_status := Available,
      network_manager := \<lparr>nm_available = True, nm_devices =
        [\<lparr>interface_name = ''eth0'', device_type = ''ethernet'', device_state = ''connected''\<rparr>],
        nm_diagnostic = []\<rparr>,
      vpn := \<lparr>nordvpn_installed = False, interface_scan_available = True,
              active_tunnel_interfaces = [], vpn_diagnostic = []\<rparr>,
      sockets := \<lparr>sockets_available = True, listeners = [], process_metadata_requested = True,
                  sockets_diagnostic = []\<rparr>,
      security_signals := default_signals\<lparr>kernel_journal_available := True,
                            kernel_journal_status := JournalAvailable\<rparr>,
      runtime_zones := [(''drop'', default_zone_state\<lparr>zone_target := ''DROP''\<rparr>)],
      permanent_zones := [(''drop'', default_zone_state\<lparr>zone_target := ''DROP''\<rparr>)]\<rparr>"

lemma ready_host_witness:
  "list_all (\<lambda>f. tf_kind f = CoverageGap \<or> tf_kind f = ScopeLimit \<or> tf_kind f = NoAlert)
     (findings (assess_threat_evidence (\<lambda>port proto. None) defensible_example))"
  by (rule ready_host_raises_no_alert) code_simp

text \<open>The drift alert and the readiness check on alignment never contradict each other: the
  alert is raised exactly when both zone lists were collected and the check finds a
  difference.\<close>

theorem drift_alert_agrees_with_readiness:
  "list_ex (\<lambda>f. tf_title f = ''Firewall runtime/permanent drift'') (drift_findings st) \<longleftrightarrow>
     runtime_zones_status st = Available \<and> permanent_zones_status st = Available \<and>
     \<not> runtime_matches_permanent st"
  by (simp add: drift_findings_def runtime_differs_iff observation_available_def)

end
