(* ===== verification/PostureViews.thy ===== *)
theory PostureViews
  imports Views Services Readiness ThreatAssessment
begin

text \<open>
  \<open>src/ui/posture_renderer.cpp\<close>: the views of a posture snapshot.  The service database that
  names ports, the steady clock at the time of printing and the format of local time
  are arguments.
\<close>

section \<open>Helpers\<close>

definition items_or_none :: "string list \<Rightarrow> string" where
  "items_or_none items = (let r = comma_separated items in if r = [] then ''none'' else r)"

definition annotated_port_list :: "service_database \<Rightarrow> string list \<Rightarrow> string" where
  "annotated_port_list svc specs =
     (if specs = [] then ''none''
      else comma_separated (map (\<lambda>p. p @ '' ('' @ port_intel_label (identify_port_spec svc p) @ '')'') specs))"

record exposure_counts =
  count_services :: nat
  count_ports :: nat
  count_protocols :: nat
  count_source_ports :: nat
  count_rich_rules :: nat
  count_forward_ports :: nat
  any_forwarding :: bool
  any_masquerade :: bool

definition no_counts :: exposure_counts where
  "no_counts = \<lparr>count_services = 0, count_ports = 0, count_protocols = 0, count_source_ports = 0,
     count_rich_rules = 0, count_forward_ports = 0, any_forwarding = False, any_masquerade = False\<rparr>"

definition count_zone :: "firewall_state \<Rightarrow> string \<times> zone_state \<Rightarrow> exposure_counts \<Rightarrow> exposure_counts" where
  "count_zone st = (\<lambda>(name, z) c.
     if \<not> is_zone_applicable st name then c
     else \<lparr>count_services = count_services c + length (zone_services z),
           count_ports = count_ports c + length (zone_ports z),
           count_protocols = count_protocols c + length (zone_protocols z),
           count_source_ports = count_source_ports c + length (zone_source_ports z),
           count_rich_rules = count_rich_rules c + length (zone_rich_rules z),
           count_forward_ports = count_forward_ports c + length (zone_forward_ports z),
           any_forwarding = (any_forwarding c \<or> zone_forward z),
           any_masquerade = (any_masquerade c \<or> zone_masquerade z)\<rparr>)"

definition active_exposure_counts :: "firewall_state \<Rightarrow> exposure_counts" where
  "active_exposure_counts st = fold (count_zone st) (runtime_zones st) no_counts"

fun first_binding :: "member_map \<Rightarrow> (string \<times> string) option" where
  "first_binding [] = None"
| "first_binding ((zone, interfaces) # rest) =
     (case interfaces of [] \<Rightarrow> first_binding rest | i # _ \<Rightarrow> Some (i, zone))"

definition physical_interface_and_zone :: "firewall_state \<Rightarrow> string \<times> string" where
  "physical_interface_and_zone st =
     (case first_binding (active_zone_interfaces st) of
        Some p \<Rightarrow> p
      | None \<Rightarrow> (''unavailable'', if default_zone st = [] then ''unavailable'' else default_zone st))"

definition meaningful_gap :: "dashboard_finding \<Rightarrow> bool" where
  "meaningful_gap g \<longleftrightarrow>
     contains_str ''NetworkManager'' (df_id g) \<or> contains_str ''kernel'' (df_id g) \<or>
     contains_str ''VPN'' (df_id g)"

definition primary_gap :: "dashboard_snapshot \<Rightarrow> string" where
  "primary_gap s =
     (case coverage_gaps s of [] \<Rightarrow> ''none''
      | g # gs \<Rightarrow>
          (case find meaningful_gap (coverage_gaps s) of
             None \<Rightarrow> df_summary g | Some m \<Rightarrow> df_summary m))"

section \<open>Status\<close>

definition show_status :: "terminal_ui \<Rightarrow> firewall_state \<Rightarrow> string" where
  "show_status ui st =
     section_text ui ''Firewall posture'' @
     key_value_text ui ''Firewalld''
       (if \<not> observation_available (service_state st) then warning_badge ui ''UNKNOWN''
        else if fw_active st then success_badge ui ''ACTIVE'' else danger_badge ui ''INACTIVE'') @
     key_value_text ui ''Boot service''
       (if \<not> observation_available (service_enablement st) then warning_badge ui ''UNKNOWN''
        else if fw_enabled st then success_badge ui ''ENABLED'' else warning_badge ui ''NOT ENABLED'') @
     key_value_text ui ''Panic mode''
       (if \<not> observation_available (panic_state st) then warning_badge ui ''UNKNOWN''
        else if fw_panic st then danger_badge ui ''ACTIVE'' else success_badge ui ''OFF'') @
     key_value_text ui ''Assessment mode''
       (if fw_operating_mode st = HostileNetwork then warning_badge ui ''HOSTILE NETWORK''
        else neutral_badge ui ''NORMAL'') @
     key_value_text ui ''Permanent config''
       (if observation_available (permanent_config st)
        then (if permanent_config_valid st then success_badge ui ''VALID'' else danger_badge ui ''INVALID'')
        else warning_badge ui ''UNKNOWN'') @
     key_value_text ui ''Default zone''
       (if \<not> observation_available (default_zone_status st) then warning ui ''unknown''
        else if default_zone st = [] then warning ui ''missing'' else accent ui (default_zone st)) @
     key_value_text ui ''Denied-packet logging''
       (if \<not> observation_available (denied_logging_status st) then warning ui ''unknown''
        else if log_denied st = ''off'' then muted ui ''off''
        else if log_denied st = [] then warning ui ''unknown'' else warning ui (log_denied st)) @
     concat (map (\<lambda>e. key_value_text ui ''Notice'' (warning ui e)) (fw_errors st))"

section \<open>The home view\<close>

definition risk_badge :: "terminal_ui \<Rightarrow> dashboard_risk \<Rightarrow> string" where
  "risk_badge ui r =
     (if r = RiskBlocked then danger_badge ui (risk_to_string r)
      else if r = RiskReview then warning_badge ui (risk_to_string r)
      else success_badge ui (risk_to_string r))"

definition bullet_sep :: string where
  "bullet_sep = spaced bullet_glyph"

definition home_action :: "terminal_ui \<Rightarrow> dashboard_snapshot \<Rightarrow> string" where
  "home_action ui s =
     (case recommendations s of
        [] \<Rightarrow> ui_success ui ''No modeled defensive action''
      | r # _ \<Rightarrow>
          if dr_category r = ExposureFinding then warning ui ''Review firewall exposure; open Firewall''
          else if dr_category r = ListenerFinding then warning ui ''Review host listeners; open Firewall''
          else if dr_category r = EvidenceGap then warning ui ''Review evidence gap; open Evidence''
          else dr_summary r)"

definition home_tunnel :: "terminal_ui \<Rightarrow> firewall_state \<Rightarrow> string" where
  "home_tunnel ui st =
     (if \<not> interface_scan_available (vpn st) then warning ui ''tunnel scan unavailable''
      else if active_tunnel_interfaces (vpn st) = [] then muted ui ''no tunnel detected''
      else ui_success ui (items_or_none (active_tunnel_interfaces (vpn st)) @ '' detected''))"

definition home_firewall :: "terminal_ui \<Rightarrow> firewall_state \<Rightarrow> string" where
  "home_firewall ui st =
     (let exposure = active_exposure_counts st in
      if \<not> observation_available (service_state st) then warning ui ''UNKNOWN''
      else if fw_active st
      then ui_success ui ''ACTIVE'' @ bullet_sep @ show_nat (count_ports exposure) @
           '' inbound rule(s)'' @ bullet_sep @ ''forwarding '' @
           (if any_forwarding exposure then warning ui ''ON'' else ui_success ui ''OFF'')
      else danger ui ''INACTIVE'')"

definition home_title :: "dashboard_snapshot \<Rightarrow> int \<Rightarrow> string" where
  "home_title s now =
     ds_hostname s @ bullet_sep @
     (if fw_operating_mode (ds_firewall s) = HostileNetwork then ''HOSTILE'' else ''NORMAL'') @
     bullet_sep @ ''snapshot '' @ format_dashboard_age s now @ bullet_sep @ ''evidence '' @
     (if overall_evidence s = Available then ''complete''
      else if overall_evidence s = Partial then ''partial'' else ''unavailable'')"

definition show_dashboard_home :: "terminal_ui \<Rightarrow> dashboard_snapshot \<Rightarrow> int \<Rightarrow> string" where
  "show_dashboard_home ui s now =
     (let st = ds_firewall s in
      line_text (home_title s now) @
      line_text (''Risk       '' @ risk_badge ui (risk s)) @
      line_text (''Firewall   '' @ home_firewall ui st) @
      line_text (''Network    '' @ fst (physical_interface_and_zone st) @ bullet_sep @ home_tunnel ui st @
        bullet_sep @ ''route '' @ warning ui ''UNVERIFIED'') @
      line_text (''Alerts     '' @ show_nat (length (review_items s)) @ '' review item(s)'' @ bullet_sep @
        show_nat (length (coverage_gaps s)) @ '' coverage gap(s)'') @
      line_text (''Action     '' @ home_action ui s))"

section \<open>The expanded home view\<close>

definition defcon_badge :: "terminal_ui \<Rightarrow> defcon_readiness \<Rightarrow> string" where
  "defcon_badge ui r =
     (if r = NotReady then danger_badge ui (defcon_to_string r)
      else if r = DefconReady then success_badge ui (defcon_to_string r)
      else warning_badge ui (defcon_to_string r))"

definition operational_status :: "terminal_ui \<Rightarrow> dashboard_snapshot \<Rightarrow> string" where
  "operational_status ui s =
     (let st = ds_firewall s;
          boot = (if \<not> observation_available (service_enablement st) then warning ui ''unknown''
                  else if fw_enabled st then ui_success ui ''enabled'' else warning ui ''not enabled'');
          config = (if \<not> observation_available (permanent_config st) then warning ui ''unknown''
                    else if permanent_config_valid st then ui_success ui ''valid'' else warning ui ''review'')
      in
      section_text ui ''Operational status'' @
      key_value_text ui ''DEF CON readiness''
        (defcon_badge ui (dashboard_snapshot.defcon_readiness s) @ bullet_sep @
         (if fw_operating_mode st = HostileNetwork then warning ui ''HOSTILE criteria''
          else neutral_badge ui ''NORMAL criteria'')) @
      key_value_text ui ''Current posture''
        (risk_badge ui (risk s) @ bullet_sep @ show_nat (length (review_items s)) @ '' direct review item(s)'') @
      key_value_text ui ''Firewalld''
        (if \<not> observation_available (service_state st) then warning_badge ui ''UNKNOWN''
         else if fw_active st
         then success_badge ui ''ACTIVE'' @
              muted ui (bullet_sep @ ''current host policy enforced'' @ bullet_sep @ ''boot: '') @ boot @
              muted ui (bullet_sep @ ''config: '') @ config
         else danger_badge ui ''INACTIVE'') @
      key_value_text ui ''FFC control''
        (neutral_badge ui ''READ-ONLY'' @ muted ui (bullet_sep @ ''no managed defense profile'')) @
      key_value_text ui ''Isolation''
        (muted ui (''NOT AVAILABLE'' @ bullet_sep @ ''emergency actions are not installed'')) @
      key_value_text ui ''Evidence''
        ((if overall_evidence s = Available then ui_success ui ''complete''
          else if overall_evidence s = Partial then warning ui ''partial''
          else danger ui ''unavailable'') @ bullet_sep @
         show_nat (length (coverage_gaps s)) @ '' coverage gap(s)''))"

definition network_path_section :: "terminal_ui \<Rightarrow> firewall_state \<Rightarrow> string" where
  "network_path_section ui st =
     section_text ui ''Network path'' @
     key_value_text ui ''Physical interface'' (fst (physical_interface_and_zone st)) @
     key_value_text ui ''Firewalld zone'' (snd (physical_interface_and_zone st)) @
     key_value_text ui ''NetworkManager profile''
       (if nm_available (network_manager st) then muted ui ''not collected by this snapshot''
        else warning ui (''device inventory unavailable: '' @ nm_diagnostic (network_manager st))) @
     key_value_text ui ''Tunnel interface''
       (if \<not> interface_scan_available (vpn st) then warning ui ''scan unavailable''
        else if active_tunnel_interfaces (vpn st) = [] then muted ui ''none detected''
        else ui_success ui (items_or_none (active_tunnel_interfaces (vpn st)) @ '' detected'')) @
     key_value_text ui ''VPN route'' (warning ui ''UNVERIFIED'') @
     key_value_text ui ''DNS / kill switch'' (warning ui ''UNVERIFIED'')"

definition exposure_section :: "terminal_ui \<Rightarrow> firewall_state \<Rightarrow> string" where
  "exposure_section ui st =
     (let exposure = active_exposure_counts st; signals = security_signals st in
      section_text ui ''Exposure requiring review'' @
      (if \<not> applicable_zone_details_available st
       then key_value_text ui ''Active firewall rules''
              (warning ui ''applicable policy evidence unavailable'')
       else key_value_text ui ''Active firewall rules''
              (show_nat (count_ports exposure) @ '' port rules'' @ bullet_sep @
               show_nat (count_protocols exposure) @ '' protocol rules'' @ bullet_sep @
               show_nat (count_rich_rules exposure) @ '' rich rules'') @
            key_value_text ui ''Routing policy''
              (if any_forwarding exposure then warning_badge ui ''INTRA-ZONE FORWARDING ON''
               else ui_success ui ''intra-zone forwarding off'')) @
      (if \<not> sockets_available (sockets st)
       then key_value_text ui ''Host listeners'' (warning ui ''TCP/UDP listener scan unavailable'')
       else (let l = summarize_listener_exposure (sockets st) in
            key_value_text ui ''Host listeners''
              (show_nat (logical_network_services l) @ '' TCP/UDP listeners'' @ bullet_sep @
               show_nat (network_reachable_bindings l) @ '' reachable bindings'') @
            key_value_text ui ''Multicast listeners'' (show_nat (multicast_only_bindings l)))) @
      key_value_text ui ''Denied-packet evidence''
        (if \<not> kernel_journal_available signals then warning ui ''UNAVAILABLE''
         else if kernel_drop_or_reject_events signals = 0 then ui_success ui ''no denied events''
         else warning ui (show_nat (kernel_drop_or_reject_events signals) @ '' denied events'')) @
      key_value_text ui ''Firewalld service events''
        (if \<not> firewalld_journal_available signals then warning ui ''UNAVAILABLE''
         else show_nat (firewalld_service_events signals) @ '' in the last 24h''))"

definition action_section :: "terminal_ui \<Rightarrow> dashboard_snapshot \<Rightarrow> string" where
  "action_section ui s =
     section_text ui ''Recommended action'' @
     (case recommendations s of
        [] \<Rightarrow> line_text (ui_success ui ''No modeled defensive action is currently recommended.'')
      | r # _ \<Rightarrow> line_text (sanitized (dr_summary r) @ ''  '' @
          muted ui (''[Open: '' @ destination_to_string (dr_destination r) @ '']''))) @
     section_text ui ''Coverage gap'' @ line_text (sanitized (primary_gap s))"

definition show_dashboard_snapshot ::
  "terminal_ui \<Rightarrow> (int \<Rightarrow> string) \<Rightarrow> dashboard_snapshot \<Rightarrow> int \<Rightarrow> string" where
  "show_dashboard_snapshot ui local_time s now =
     key_value_text ui ''Host'' (ds_hostname s @ bullet_sep @ ''snapshot '' @ show_nat (unat (snapshot_id s))) @
     key_value_text ui ''Snapshot''
       (format_dashboard_age s now @ bullet_sep @ local_time (collected_at s) @ bullet_sep @
        format_dashboard_timestamp (collected_at s)) @
     operational_status ui s @ network_path_section ui (ds_firewall s) @
     exposure_section ui (ds_firewall s) @ action_section ui s"

section \<open>The overview\<close>

definition binding_text :: "terminal_ui \<Rightarrow> firewall_state \<Rightarrow> string \<Rightarrow> string \<Rightarrow> string \<Rightarrow> string" where
  "binding_text ui st kind zone member =
     line_text (accent ui member @ ''  '' @ muted ui arrow_glyph @ ''  '' @ accent ui zone @ kind @
       (if zone = default_zone st then muted ui ''  default'' else []))"

definition bindings_text :: "terminal_ui \<Rightarrow> firewall_state \<Rightarrow> string \<Rightarrow> member_map \<Rightarrow> string" where
  "bindings_text ui st kind zones =
     concat (map (\<lambda>(zone, members). concat (map (binding_text ui st kind zone) members)) zones)"

definition assignments_section :: "terminal_ui \<Rightarrow> firewall_state \<Rightarrow> string" where
  "assignments_section ui st =
     (let known = observation_available (active_zones_status st);
          found = list_ex (\<lambda>(z, members). members \<noteq> []) (active_zone_interfaces st @ active_zone_sources st) in
      section_text ui ''Active interface assignments'' @
      (if \<not> known then line_text (warning ui ''Active-zone query is unavailable.'') else []) @
      bindings_text ui st [] (active_zone_interfaces st) @
      bindings_text ui st (muted ui ''  source'') (active_zone_sources st) @
      (if \<not> found
       then line_text (if \<not> known then warning ui ''Active-zone assignments are unavailable.''
                       else muted ui ''No active zone assignments reported.'')
       else []))"

definition device_text :: "terminal_ui \<Rightarrow> network_device \<Rightarrow> string" where
  "device_text ui d =
     line_text (accent ui (interface_name d) @ ''  '' @ muted ui (device_type d) @ ''  '' @
       (if starts_with (device_state d) ''connected'' then ui_success ui (device_state d)
        else muted ui (device_state d)))"

definition devices_section :: "terminal_ui \<Rightarrow> firewall_state \<Rightarrow> string" where
  "devices_section ui st =
     section_text ui ''NetworkManager device state'' @
     (if \<not> nm_available (network_manager st)
      then line_text (warning ui ''NetworkManager status is unavailable.'')
      else if nm_devices (network_manager st) = []
      then line_text (muted ui ''No NetworkManager devices reported.'')
      else concat (map (device_text ui) (nm_devices (network_manager st))))"

definition vpn_section :: "terminal_ui \<Rightarrow> firewall_state \<Rightarrow> string" where
  "vpn_section ui st =
     section_text ui ''VPN awareness'' @
     key_value_text ui ''NordVPN client''
       (if nordvpn_installed (vpn st) then ui_success ui ''installed'' else muted ui ''not detected'') @
     (if \<not> interface_scan_available (vpn st)
      then key_value_text ui ''Tunnel scan'' (warning ui ''unavailable'')
      else key_value_text ui ''Active tunnel interfaces''
        (if active_tunnel_interfaces (vpn st) = [] then muted ui ''none''
         else items_or_none (active_tunnel_interfaces (vpn st))))"

definition listener_section :: "terminal_ui \<Rightarrow> firewall_state \<Rightarrow> string" where
  "listener_section ui st =
     section_text ui ''Local listener summary'' @
     (if \<not> sockets_available (sockets st) then key_value_text ui ''Socket scan'' (warning ui ''unavailable'')
      else (let e = summarize_listener_exposure (sockets st) in
        key_value_text ui ''Network-reachable services''
          (if logical_network_services e = 0 then ui_success ui ''NONE''
           else warning ui (show_nat (logical_network_services e) @ '' logical service(s)'')) @
        key_value_text ui ''Network-reachable bindings'' (show_nat (network_reachable_bindings e)) @
        key_value_text ui ''Multicast-only bindings'' (show_nat (multicast_only_bindings e)) @
        key_value_text ui ''Loopback-only listeners''
          (show_nat (length (filter loopback_only (listeners (sockets st)))))))"

definition at_least_text :: "terminal_ui \<Rightarrow> nat \<Rightarrow> string" where
  "at_least_text ui n = warning ui (''at least '' @ show_nat n @ '' (bounded view)'')"

definition signals_section :: "terminal_ui \<Rightarrow> firewall_state \<Rightarrow> string" where
  "signals_section ui st =
     (let s = security_signals st in
      section_text ui ''Recent security signals (24h)'' @
      (if kernel_journal_status s = JournalPartial
       then key_value_text ui ''Kernel drop/reject log entries'' (at_least_text ui (kernel_drop_or_reject_events s))
       else if \<not> kernel_journal_available s
       then key_value_text ui ''Kernel drop/reject log'' (warning ui ''unavailable'')
       else key_value_text ui ''Kernel drop/reject log entries''
         (if kernel_drop_or_reject_events s = 0 then ui_success ui ''none''
          else warning ui (show_nat (kernel_drop_or_reject_events s)))) @
      (if firewalld_journal_status s = JournalPartial
       then key_value_text ui ''firewalld service journal entries'' (at_least_text ui (firewalld_service_events s))
       else if \<not> firewalld_journal_available s
       then key_value_text ui ''firewalld service journal'' (warning ui ''unavailable'')
       else key_value_text ui ''firewalld service journal entries'' (show_nat (firewalld_service_events s))))"

definition configured_text :: "terminal_ui \<Rightarrow> bool \<Rightarrow> nat \<Rightarrow> string" where
  "configured_text ui known n =
     (if \<not> known then warning ui ''UNKNOWN'' else if n = 0 then ui_success ui ''NONE''
      else warning ui (show_nat n @ '' configured''))"

definition enabled_text :: "terminal_ui \<Rightarrow> bool \<Rightarrow> bool \<Rightarrow> string" where
  "enabled_text ui known b =
     (if \<not> known then warning ui ''UNKNOWN'' else if b then warning ui ''ENABLED''
      else ui_success ui ''DISABLED'')"

definition summary_section :: "terminal_ui \<Rightarrow> firewall_state \<Rightarrow> string" where
  "summary_section ui st =
     (let e = active_exposure_counts st; known = applicable_zone_details_available st in
      section_text ui ''Exposure summary'' @
      key_value_text ui ''Allowed services'' (configured_text ui known (count_services e)) @
      key_value_text ui ''Explicit ports'' (configured_text ui known (count_ports e)) @
      key_value_text ui ''Allowed protocols'' (configured_text ui known (count_protocols e)) @
      key_value_text ui ''Source-port rules'' (configured_text ui known (count_source_ports e)) @
      key_value_text ui ''Rich rules''
        (if \<not> known then warning ui ''UNKNOWN'' else show_nat (count_rich_rules e)) @
      key_value_text ui ''Forward ports'' (configured_text ui known (count_forward_ports e)) @
      key_value_text ui ''Intra-zone forwarding'' (enabled_text ui known (any_forwarding e)) @
      key_value_text ui ''Masquerading'' (enabled_text ui known (any_masquerade e)) @
      key_value_text ui ''Active policies''
        (if \<not> observation_available (active_policies_status st) then warning ui ''UNKNOWN''
         else if active_policies st = [] then muted ui ''none'' else items_or_none (active_policies st)))"

definition show_overview :: "terminal_ui \<Rightarrow> firewall_state \<Rightarrow> string" where
  "show_overview ui st =
     assignments_section ui st @ devices_section ui st @ vpn_section ui st @ listener_section ui st @
     signals_section ui st @ summary_section ui st"

section \<open>Listeners\<close>

definition listener_text :: "terminal_ui \<Rightarrow> service_database \<Rightarrow> listening_socket \<Rightarrow> string" where
  "listener_text ui svc l =
     line_text (warning ui (ls_protocol l) @ ''  '' @ sanitized (ls_endpoint l) @
       muted ui (spaced dash_glyph @ port_intel_label (identify_endpoint svc (ls_endpoint l) (ls_protocol l)) @
         (if process_name l = [] then [] else bullet_sep @ ''owner: '' @ process_name l) @
         (if multicast_only l then bullet_sep @ ''multicast-only'' else [])))"

definition show_listeners :: "terminal_ui \<Rightarrow> service_database \<Rightarrow> firewall_state \<Rightarrow> string" where
  "show_listeners ui svc st =
     section_text ui ''Network-visible listening sockets'' @
     (if \<not> sockets_available (sockets st) then line_text (warning ui ''Socket scan is unavailable.'')
      else (let visible = filter (\<lambda>l. \<not> loopback_only l) (listeners (sockets st)) in
        concat (map (listener_text ui svc) visible) @
        (if visible = [] then line_text (ui_success ui ''No non-loopback listening sockets detected.'')
         else [])))"

section \<open>Threat evidence\<close>

definition kind_badge :: "terminal_ui \<Rightarrow> threat_finding_kind \<Rightarrow> string" where
  "kind_badge ui k =
     (if k = CoverageGap \<or> k = CandidateAlert then warning_badge ui (finding_kind_to_string k)
      else if k = Exposure \<or> k = ScopeLimit then neutral_badge ui (finding_kind_to_string k)
      else success_badge ui (finding_kind_to_string k))"

definition finding_text :: "terminal_ui \<Rightarrow> threat_finding \<Rightarrow> string" where
  "finding_text ui f =
     line_text (kind_badge ui (tf_kind f) @ ''  '' @ sanitized (tf_title f)) @
     ''      '' @ muted ui (tf_detail f) @ [newline_char] @
     ''      '' @ muted ui (''False-positive / false-negative context: '' @ tf_context f) @ [newline_char] @
     ''      '' @ accent ui ''Validate: '' @ sanitized (tf_validation f) @ [newline_char]"

definition show_threat_assessment :: "terminal_ui \<Rightarrow> service_database \<Rightarrow> firewall_state \<Rightarrow> string" where
  "show_threat_assessment ui svc st =
     (let assessment = assess_threat_evidence svc st in
      heading_text ui ''Threat evidence assessment''
        (''Read-only triage'' @ spaced dash_glyph @ ''candidate alerts are not confirmed incidents'') @
      concat (map (finding_text ui) (findings assessment)) @
      section_text ui ''Verdict guardrails'' @
      concat (map (\<lambda>rule_line. line_text (muted ui (bullet_glyph @ '' '') @ sanitized rule_line))
        (verdict_rules assessment)))"

section \<open>Zones\<close>

definition text_when :: "bool \<Rightarrow> string \<Rightarrow> string" where
  "text_when b s = (if b then s else [])"

definition zone_marker :: "firewall_state \<Rightarrow> string \<Rightarrow> string" where
  "zone_marker st name =
     text_when (is_zone_applicable st name) ''  (applicable)'' @ text_when (name = default_zone st) ''  (default)''"

definition zone_drift_text :: "terminal_ui \<Rightarrow> firewall_state \<Rightarrow> string \<Rightarrow> zone_state \<Rightarrow> string" where
  "zone_drift_text ui st name z =
     (let permanent = map_of (permanent_zones st) name;
          known = observation_available (permanent_zones_status st);
          same = (known \<and> (case permanent of None \<Rightarrow> False | Some p \<Rightarrow> zone_policies_equal z p)) in
      key_value_text ui ''policy configuration''
        (if \<not> known then warning ui ''unknown'' else if same then ui_success ui ''matches permanent''
         else warning ui ''differs from permanent'') @
      (case permanent of None \<Rightarrow> []
       | Some p \<Rightarrow> text_when (zone_interfaces z \<noteq> zone_interfaces p)
           (key_value_text ui ''interface binding''
             (muted ui ''runtime assignment differs; commonly managed by NetworkManager''))))"

definition zone_text ::
  "terminal_ui \<Rightarrow> service_database \<Rightarrow> firewall_state \<Rightarrow> zone_view \<Rightarrow> string \<Rightarrow> zone_state \<Rightarrow> string" where
  "zone_text ui svc st view name z =
     line_text (accent ui name @ muted ui (zone_marker st name)) @
     text_when (view = AllView)
       (key_value_text ui ''target''
         (if zone_target z = [] then ''unknown''
          else if zone_target z = ''ACCEPT'' then danger ui (zone_target z) else zone_target z)) @
     text_when (view = AllView \<or> view = InterfacesView)
       (key_value_text ui ''interfaces'' (items_or_none (zone_interfaces z)) @
        key_value_text ui ''sources'' (items_or_none (zone_sources z))) @
     text_when (view = AllView \<or> view = ServicesView)
       (key_value_text ui ''services'' (items_or_none (zone_services z))) @
     text_when (view = AllView \<or> view = PortsView)
       (key_value_text ui ''ports'' (annotated_port_list svc (zone_ports z)) @
        key_value_text ui ''protocols'' (items_or_none (zone_protocols z)) @
        key_value_text ui ''source ports'' (items_or_none (zone_source_ports z))) @
     text_when (view = AllView \<or> view = RichRulesView)
       (key_value_text ui ''rich rules'' (show_nat (length (zone_rich_rules z)))) @
     text_when (view = AllView \<or> view = RoutingView)
       (key_value_text ui ''forward ports'' (items_or_none (zone_forward_ports z)) @
        key_value_text ui ''intra-zone forwarding''
          (if zone_forward z then warning ui ''enabled'' else ui_success ui ''disabled'') @
        key_value_text ui ''masquerade''
          (if zone_masquerade z then warning ui ''enabled'' else ui_success ui ''disabled'')) @
     text_when (view = DriftView) (zone_drift_text ui st name z) @
     [newline_char]"

definition zone_shown :: "firewall_state \<Rightarrow> zone_scope \<Rightarrow> string \<Rightarrow> bool" where
  "zone_shown st scope name \<longleftrightarrow>
     \<not> (scope = ActiveAndDefault \<and> \<not> is_zone_applicable st name \<and> name \<noteq> default_zone st)"

definition show_zones ::
  "terminal_ui \<Rightarrow> service_database \<Rightarrow> firewall_state \<Rightarrow> string \<Rightarrow> zone_view \<Rightarrow> zone_scope \<Rightarrow> string" where
  "show_zones ui svc st title view scope =
     section_text ui title @
     (if \<not> observation_available (runtime_zones_status st)
      then line_text (warning ui ''Runtime zone policy is unavailable.'')
      else (let displayed = filter (\<lambda>(name, z). zone_shown st scope name) (runtime_zones st) in
        concat (map (\<lambda>(name, z). zone_text ui svc st view name z) displayed) @
        (if displayed = []
         then line_text (warning ui ''No active or default zone policy was reported.'') else [])))"

section \<open>Readiness\<close>

definition check_badge :: "terminal_ui \<Rightarrow> check_level \<Rightarrow> string" where
  "check_badge ui l =
     (case l of CheckPass \<Rightarrow> success_badge ui ''PASS'' | CheckWarn \<Rightarrow> warning_badge ui ''WARN''
      | CheckFail \<Rightarrow> danger_badge ui ''FAIL'' | CheckInfo \<Rightarrow> neutral_badge ui ''INFO'')"

definition check_text :: "terminal_ui \<Rightarrow> readiness_check \<Rightarrow> string" where
  "check_text ui c =
     line_text (check_badge ui (check_level c) @ ''  '' @ check_label c @
       (if check_detail c = [] then [] else muted ui (spaced dash_glyph @ check_detail c)))"

definition show_readiness :: "terminal_ui \<Rightarrow> firewall_state \<Rightarrow> string" where
  "show_readiness ui st =
     heading_text ui ''DEF CON Firewall Readiness''
       (''Read-only assessment'' @ spaced dash_glyph @
        ''review warnings before connecting to hostile networks'') @
     concat (map (check_text ui) (assess_readiness st))"

section \<open>The views are safe\<close>

lemma badges_screen [screen_intro]:
  "screen_safe (risk_badge ui r)" "screen_safe (defcon_badge ui d)" "screen_safe (kind_badge ui k)"
  "screen_safe (home_tunnel ui st)"
  unfolding risk_badge_def defcon_badge_def kind_badge_def home_tunnel_def by (intro screen_intro)+

lemma check_badge_screen [screen_intro]: "screen_safe (check_badge ui l)"
  by (cases l) (simp_all add: check_badge_def screen_intro)

lemma text_when_screen [screen_intro]: "screen_safe s \<Longrightarrow> screen_safe (text_when b s)"
  unfolding text_when_def by (intro screen_intro)

lemma bullet_sep_screen [screen_intro]: "screen_safe bullet_sep"
  unfolding bullet_sep_def by (intro screen_intro)

lemma show_status_screen: "screen_safe (show_status ui st)"
  unfolding show_status_def by (intro screen_intro)

lemma bindings_screen [screen_intro]: "screen_safe kind \<Longrightarrow> screen_safe (bindings_text ui st kind zones)"
  unfolding bindings_text_def binding_text_def
  by (intro screen_intro)

lemma overview_parts_screen [screen_intro]:
  "screen_safe (assignments_section ui st)" "screen_safe (devices_section ui st)"
  "screen_safe (vpn_section ui st)" "screen_safe (listener_section ui st)"
  "screen_safe (signals_section ui st)" "screen_safe (summary_section ui st)"
  unfolding assignments_section_def devices_section_def device_text_def vpn_section_def
    listener_section_def signals_section_def summary_section_def Let_def
  by (intro screen_intro)+

lemma show_overview_screen: "screen_safe (show_overview ui st)"
  unfolding show_overview_def by (intro screen_intro)

lemma show_listeners_screen: "screen_safe (show_listeners ui svc st)"
  unfolding show_listeners_def listener_text_def Let_def by (intro screen_intro)

lemma show_threat_screen: "screen_safe (show_threat_assessment ui svc st)"
  unfolding show_threat_assessment_def finding_text_def Let_def by (intro screen_intro)

lemma zone_text_screen [screen_intro]: "screen_safe (zone_text ui svc st view name z)"
  unfolding zone_text_def zone_drift_text_def Let_def by (intro screen_intro)

lemma show_zones_screen: "screen_safe (show_zones ui svc st title view scope)"
  unfolding show_zones_def Let_def by (intro screen_intro)

lemma show_snapshot_screen: "screen_safe (show_dashboard_snapshot ui local_time s now)"
  unfolding show_dashboard_snapshot_def operational_status_def network_path_section_def
    exposure_section_def action_section_def Let_def
  by (intro screen_intro)

text \<open>The labels of the readiness checks are constants of the program.\<close>

definition plain_label :: "readiness_check \<Rightarrow> bool" where
  "plain_label c \<longleftrightarrow> printable (check_label c)"

lemma printable_append [simp]: "printable (s @ t) \<longleftrightarrow> printable s \<and> printable t"
  by (simp add: printable_def)

lemma assess_labels: "list_all plain_label (assess_readiness st)"
proof -
  have plain: "plain_label (check l v d) \<longleftrightarrow> printable l" "plain_label (unavailable_check l d) \<longleftrightarrow> printable l"
    for l v d by (simp_all add: plain_label_def check_def unavailable_check_def)
  note defs = service_checks_def environment_checks_def assignment_checks_def listener_checks_def
    journal_checks_def policy_checks_def policy_check_def inventory_checks_def Let_def
  have "list_all plain_label (service_checks st)" "list_all plain_label (environment_checks st)"
    "list_all plain_label (listener_checks st)" "list_all plain_label (journal_checks st)"
    by (simp_all add: defs plain printable_def)
  moreover have "list_all plain_label (assignment_checks st)"
    by (simp add: defs plain printable_def)
  moreover have "list_all plain_label (policy_checks st)"
    by (simp add: defs plain printable_def)
  moreover have "list_all plain_label (inventory_checks st)"
    by (simp add: defs plain printable_def)
  ultimately show ?thesis by (simp add: assess_readiness_def)
qed

lemma show_readiness_screen: "screen_safe (show_readiness ui st)"
proof -
  have "screen_safe (check_label c)" if "c \<in> set (assess_readiness st)" for c
    using assess_labels that by (auto simp: list_all_iff plain_label_def intro: printable_screen)
  then show ?thesis unfolding show_readiness_def check_text_def by (intro screen_intro)
qed

end
