(* ===== verification/DashboardViews.thy ===== *)
theory DashboardViews
  imports PostureViews
begin

text \<open>
  \<open>src/ui/dashboard.cpp\<close>: the menus, headers and notices of \<open>OperationsDashboard\<close> and the dispatch of
  its views to their renderers.  \<open>render_view\<close> is the text that a request to the display writes.
\<close>

section \<open>Menus\<close>

fun menu_title :: "dashboard_menu \<Rightarrow> string" where
  "menu_title ReadinessMenu = ''Readiness and current risk''"
| "menu_title MonitorMenu = ''Current signals and alerts''"
| "menu_title FirewallMenu = ''Firewall and connections''"
| "menu_title NetworkMenu = ''Network and VPN''"
| "menu_title EvidenceMenu = ''Incidents and evidence''"
| "menu_title SettingsMenu = ''Settings and component status''"
| "menu_title EmergencyMenu = ''Emergency isolation''"
| "menu_title MainMenu = ''Main menu''"

definition breadcrumb :: "dashboard_menu \<Rightarrow> string \<Rightarrow> string" where
  "breadcrumb m detail =
     ''MAIN'' @ (if m \<noteq> MainMenu then '' > '' @ menu_title m else []) @
     (if detail \<noteq> [] then '' > '' @ detail else [])"

definition entry :: "terminal_ui \<Rightarrow> string \<Rightarrow> string \<Rightarrow> string" where
  "entry ui key label = ''  '' @ keycap ui key @ label"

definition entry_line :: "terminal_ui \<Rightarrow> string \<Rightarrow> string \<Rightarrow> string" where
  "entry_line ui key label = entry ui key label @ [newline_char]"

definition planned_line :: "terminal_ui \<Rightarrow> string \<Rightarrow> string \<Rightarrow> string" where
  "planned_line ui key label = entry ui key label @ muted ui ''(planned)'' @ [newline_char]"

fun menu_entries :: "terminal_ui \<Rightarrow> dashboard_menu \<Rightarrow> string" where
  "menu_entries ui ReadinessMenu =
     entry_line ui ''1'' '' Readiness report and blockers'' @
     entry_line ui ''2'' '' Threat evidence assessment''"
| "menu_entries ui MonitorMenu =
     entry_line ui ''1'' '' Current threat evidence'' @
     entry_line ui ''2'' '' Analyze local ffc logs'' @
     [newline_char] @
     ''  '' @ warning ui ''Continuous monitoring is not available in this snapshot build.'' @
     [newline_char] @
     ''      Refresh reconciles the current local state; it does not watch events in the background.'' @
     [newline_char]"
| "menu_entries ui FirewallMenu =
     entry_line ui ''1'' '' Firewall service state'' @
     entry_line ui ''2'' '' Default and active zones'' @
     entry_line ui ''3'' '' Interfaces and zone assignments'' @
     entry_line ui ''4'' '' Allowed services'' @
     entry_line ui ''5'' '' Explicit open ports'' @
     entry_line ui ''6'' '' Rich rules'' @
     entry_line ui ''7'' '' Intra-zone forwarding and NAT'' @
     entry_line ui ''8'' '' Runtime/permanent differences'' @
     entry ui ''A'' '' All configured zone policies '' @ muted ui ''(verbose)'' @ [newline_char]"
| "menu_entries ui NetworkMenu =
     entry_line ui ''1'' '' Network-reachable listeners'' @
     entry ui ''2'' '' Ping and traceroute diagnostics '' @ muted ui ''(external traffic)'' @ [newline_char] @
     entry ui ''3'' '' Query public IP and save metadata '' @ muted ui ''(external request)'' @
     [newline_char] @
     entry_line ui ''4'' '' View saved network metadata''"
| "menu_entries ui EvidenceMenu =
     entry_line ui ''1'' '' Threat evidence assessment'' @
     entry_line ui ''2'' '' DEF CON readiness report'' @
     entry_line ui ''3'' '' Security advisories and CVEs'' @
     entry_line ui ''4'' '' Analyze local ffc logs''"
| "menu_entries ui SettingsMenu =
     entry_line ui ''1'' '' Show assessment and enforcement boundaries'' @
     entry_line ui ''2'' '' Show web dashboard availability'' @
     [newline_char] @
     ''  '' @ muted ui ''The web dashboard and settings changes are not implemented in this release.'' @
     [newline_char]"
| "menu_entries ui EmergencyMenu =
     ''  '' @ danger ui ''Emergency controls are intentionally unavailable in this read-only build.'' @
     [newline_char] @
     ''      No isolation, firewall, NetworkManager, or radio action can run from this screen.'' @
     [newline_char] @ [newline_char] @
     planned_line ui ''1'' '' Block new inbound '' @
     planned_line ui ''2'' '' Quarantine host '' @
     planned_line ui ''3'' '' Drop all network traffic '' @
     planned_line ui ''4'' '' Disconnect managed interfaces '' @
     planned_line ui ''5'' '' Full network isolation '' @
     planned_line ui ''6'' '' Restore verified state '' @
     planned_line ui ''7'' '' Show recovery instructions ''"
| "menu_entries ui MainMenu = []"

definition main_entries :: "terminal_ui \<Rightarrow> bool \<Rightarrow> string" where
  "main_entries ui expanded =
     entry ui ''1'' '' Readiness/risk'' @ entry_line ui ''2'' '' Alerts/signals'' @
     entry ui ''3'' '' Firewall'' @ ''      '' @ entry_line ui ''4'' '' Network/VPN'' @
     entry ui ''5'' '' Evidence'' @ ''      '' @ entry_line ui ''6'' '' Components'' @
     entry ui ''9'' '' Emergency isolation '' @ warning_badge ui ''NOT INSTALLED'' @ [newline_char] @
     entry ui ''R'' '' Refresh'' @ entry ui ''!'' '' Emergency'' @ entry ui ''H'' '' Help'' @
     entry ui ''?'' (if expanded then '' Compact'' else '' More'') @ entry_line ui ''0/Q'' '' Exit''"

definition submenu_hint :: string where
  "submenu_hint = ''Read-only snapshot'' @ bullet_sep @ ''B: main'' @ bullet_sep @ ''R: refresh'' @
     bullet_sep @ ''H: help'' @ bullet_sep @ ''!: emergency''"

definition submenu_text :: "terminal_ui \<Rightarrow> dashboard_menu \<Rightarrow> string" where
  "submenu_text ui m =
     accent ui (breadcrumb m []) @ [newline_char] @ rule_text ui (CHR ''-'') @
     line_text (muted ui submenu_hint) @
     section_text ui (menu_title m) @ menu_entries ui m @
     entry_line ui ''B'' '' Back to main menu'' @
     entry ui ''R'' '' Refresh posture snapshot'' @ entry ui ''H'' '' Help'' @
     entry ui ''!'' '' Emergency'' @ entry_line ui ''0/Q'' '' Exit''"

definition menu_body ::
  "terminal_ui \<Rightarrow> (int \<Rightarrow> string) \<Rightarrow> int \<Rightarrow> dashboard_snapshot \<Rightarrow> dashboard_menu \<Rightarrow> bool \<Rightarrow> string" where
  "menu_body ui local_time now s m expanded =
     (if m = MainMenu
      then heading_text ui ''DEF CON HOST DEFENSE'' ''READ-ONLY'' @
           (if expanded then show_dashboard_snapshot ui local_time s now
            else show_dashboard_home ui s now) @
           section_text ui ''Main menu'' @ main_entries ui expanded
      else submenu_text ui m) @
     rule_text ui (CHR ''-'') @
     accent ui (if m = MainMenu then ''MAIN'' else menu_title m) @ muted ui '' > ''"

definition show_menu ::
  "terminal_ui \<Rightarrow> (int \<Rightarrow> string) \<Rightarrow> int \<Rightarrow> dashboard_snapshot \<Rightarrow> dashboard_menu \<Rightarrow> bool \<Rightarrow> string" where
  "show_menu ui local_time now s m expanded = clear_text ui @ menu_body ui local_time now s m expanded"

section \<open>Headers and notices\<close>

definition show_detail_header :: "terminal_ui \<Rightarrow> dashboard_menu \<Rightarrow> string \<Rightarrow> string \<Rightarrow> string" where
  "show_detail_header ui m title subtitle =
     clear_text ui @ accent ui (breadcrumb m title) @ [newline_char] @ rule_text ui (CHR ''-'') @
     line_text (muted ui ''READ-ONLY SNAPSHOT'' @
       (if subtitle = [] then [] else ''  '' @ bullet_glyph @ ''  '' @ warning ui subtitle))"

definition show_navigation_help :: "terminal_ui \<Rightarrow> dashboard_menu \<Rightarrow> string" where
  "show_navigation_help ui m =
     clear_text ui @ accent ui (breadcrumb m ''Help'') @ [newline_char] @ rule_text ui (CHR ''-'') @
     section_text ui ''Shared navigation'' @
     entry_line ui ''B'' '' Return to the main menu from a submenu or leave a detail view'' @
     entry_line ui ''R'' '' Refresh local posture without changing firewall or network settings'' @
     entry_line ui ''H'' '' Open this help screen'' @
     entry_line ui ''?'' '' Toggle the compact and expanded home views'' @
     entry_line ui ''!'' '' Open the emergency-isolation screen; it cannot act in this release'' @
     entry_line ui ''0/Q'' '' Exit the console'' @
     section_text ui ''Operational cues'' @
     line_text (muted ui
       ''External traffic is marked before it runs; normal viewing is local and read-only.'') @
     line_text (muted ui
       ''Use Incidents and evidence for advisory, triage, and application-log review.'')"

definition show_invalid_selection :: "terminal_ui \<Rightarrow> string" where
  "show_invalid_selection ui =
     danger ui ''Unrecognized command. Use a displayed key or H for help.'' @ [newline_char]"

definition show_unavailable_capability :: "terminal_ui \<Rightarrow> string \<Rightarrow> string" where
  "show_unavailable_capability ui capability =
     warning ui (capability @ '' is not available in this read-only release; no system change was made.'') @
     [newline_char]"

definition show_goodbye :: "terminal_ui \<Rightarrow> string" where
  "show_goodbye ui =
     [newline_char] @ ui_success ui ''Firewall Control closed. No firewall changes were made.'' @
     [newline_char]"

section \<open>The display\<close>

text \<open>What the machine contributes to a view: the database of services, the clock, and the format of
  local time.\<close>

record surroundings =
  sur_services :: service_database
  sur_local_time :: "int \<Rightarrow> string"

fun render_view :: "terminal_ui \<Rightarrow> surroundings \<Rightarrow> int \<Rightarrow> display \<Rightarrow> string" where
  "render_view ui e now (ShowStatus st) = show_status ui st"
| "render_view ui e now (ShowOverview st) = show_overview ui st"
| "render_view ui e now (ShowListeners st) = show_listeners ui (sur_services e) st"
| "render_view ui e now (ShowThreatAssessment st) = show_threat_assessment ui (sur_services e) st"
| "render_view ui e now (ShowNetworkMetadata m location) = show_metadata ui m location"
| "render_view ui e now (ShowNetworkHistory records location) = show_history ui records location"
| "render_view ui e now (ShowNetworkDiagnostics d) = render_network_diagnostics ui d"
| "render_view ui e now (ShowSecurityAdvisories r) = show_advisories ui r"
| "render_view ui e now (ShowLogAnalysis a) = show_analysis ui a"
| "render_view ui e now (ShowZones st title view scope) = show_zones ui (sur_services e) st title view scope"
| "render_view ui e now (ShowReadiness st) = show_readiness ui st"
| "render_view ui e now (ShowMenu s m expanded) = show_menu ui (sur_local_time e) now s m expanded"
| "render_view ui e now (ShowDetailHeader m title subtitle) = show_detail_header ui m title subtitle"
| "render_view ui e now (ShowNavigationHelp m) = show_navigation_help ui m"
| "render_view ui e now ShowInvalidSelection = show_invalid_selection ui"
| "render_view ui e now (ShowUnavailable capability) = show_unavailable_capability ui capability"
| "render_view ui e now ShowGoodbye = show_goodbye ui"
| "render_view ui e now (PrintOut txt) = txt"
| "render_view ui e now (PrintError txt) = txt"

section \<open>What the display passes on\<close>

text \<open>The parts of a request that are printed as they are; everything else is sanitized or constant.\<close>

definition raw_action :: "dashboard_snapshot \<Rightarrow> string list" where
  "raw_action s =
     (case recommendations s of [] \<Rightarrow> []
      | r # _ \<Rightarrow> if dr_category r \<in> {ExposureFinding, ListenerFinding, EvidenceGap} then [] else [dr_summary r])"

fun raw_parts :: "display \<Rightarrow> string list" where
  "raw_parts (ShowMenu s m expanded) =
     (if m = MainMenu \<and> \<not> expanded
      then [ds_hostname s, fst (physical_interface_and_zone (ds_firewall s))] @ raw_action s else [])"
| "raw_parts (PrintOut txt) = [txt]"
| "raw_parts (PrintError txt) = [txt]"
| "raw_parts d = []"

lemma show_nat_screen [screen_intro]: "screen_safe (show_nat n)"
  using show_nat_digits[of n]
  by (intro printable_screen) (auto simp: printable_def list_all_iff is_digit_def)

lemma age_screen [screen_intro]: "screen_safe (format_dashboard_age s now)"
proof -
  have "screen_safe stale_label"
    using screen_append[OF printable_screen[of "''STALE ''"] screen_append[OF bullet_glyph_screen
        printable_screen[of "'' last successful update ''"]]]
    by (simp add: stale_label_def bullet_glyph_def printable_def)
  moreover have "screen_safe ''s ago''" "screen_safe ''s old''"
    by (rule printable_screen; simp add: printable_def)+
  ultimately show ?thesis
    unfolding format_dashboard_age_def Let_def by (intro screen_intro)
qed

lemma home_action_screen:
  "list_all screen_safe (raw_action s) \<Longrightarrow> screen_safe (home_action ui s)"
  unfolding home_action_def raw_action_def by (intro screen_intro) (auto split: if_splits)

lemma home_screen:
  assumes "list_all screen_safe (raw_parts (ShowMenu s MainMenu False))"
  shows "screen_safe (show_dashboard_home ui s now)"
proof -
  have raw: "screen_safe (ds_hostname s)" "screen_safe (fst (physical_interface_and_zone (ds_firewall s)))"
    "screen_safe (home_action ui s)"
    using assms home_action_screen by simp_all
  show ?thesis
    unfolding show_dashboard_home_def home_title_def home_firewall_def Let_def
    by (intro screen_intro raw; rule printable_screen, simp add: printable_def)
qed

lemma main_entries_screen [screen_intro]: "screen_safe (main_entries ui expanded)"
  unfolding main_entries_def entry_def entry_line_def
  by (intro screen_intro; (rule printable_screen, simp add: printable_def)?)

lemma menu_entries_screen [screen_intro]: "screen_safe (menu_entries ui m)"
  by (cases m; simp only: menu_entries.simps entry_def entry_line_def planned_line_def;
      intro screen_intro; (rule printable_screen, simp add: printable_def)?)

lemma submenu_screen [screen_intro]: "screen_safe (submenu_text ui m)"
  unfolding submenu_text_def entry_def entry_line_def
  by (intro screen_intro; (rule printable_screen, simp add: printable_def)?)

lemma menu_body_screen:
  assumes "list_all screen_safe (raw_parts (ShowMenu s m expanded))"
  shows "screen_safe (menu_body ui local_time now s m expanded)"
proof -
  have "screen_safe (show_dashboard_home ui s now)" if "m = MainMenu" "\<not> expanded"
    using home_screen assms that by simp
  then show ?thesis
    unfolding menu_body_def by (intro screen_intro show_snapshot_screen) auto
qed

text \<open>A screen, after the sequence that clears the terminal where the operator asked for it.\<close>

definition screen_ok :: "terminal_ui \<Rightarrow> string \<Rightarrow> bool" where
  "screen_ok ui s \<longleftrightarrow> (\<exists>b. (s = b \<or> s = clear_text ui @ b) \<and> screen_safe b)"

lemma screen_ok_plain: "screen_safe s \<Longrightarrow> screen_ok ui s"
  by (auto simp: screen_ok_def)

lemma screen_ok_clear: "screen_safe s \<Longrightarrow> screen_ok ui (clear_text ui @ s)"
  by (auto simp: screen_ok_def)

lemmas view_screens = show_status_screen show_overview_screen show_listeners_screen show_threat_screen
  metadata_views_screen diagnostics_screen advisories_screen analysis_screen show_zones_screen
  show_readiness_screen

lemma notices_screen:
  "screen_safe (show_invalid_selection ui)" "screen_safe (show_unavailable_capability ui c)"
  "screen_safe (show_goodbye ui)"
  unfolding show_invalid_selection_def show_unavailable_capability_def show_goodbye_def
  by (intro screen_intro)+

lemma detail_header_ok: "screen_ok ui (show_detail_header ui m title subtitle)"
  unfolding show_detail_header_def by (rule screen_ok_clear, intro screen_intro)

lemma help_ok: "screen_ok ui (show_navigation_help ui m)"
  unfolding show_navigation_help_def entry_line_def entry_def
  by (rule screen_ok_clear, intro screen_intro; rule printable_screen, simp add: printable_def)

text \<open>The actions of a collected snapshot are constants of the program.\<close>

definition plain_action :: "dashboard_recommendation \<Rightarrow> bool" where
  "plain_action r \<longleftrightarrow>
     dr_category r \<in> {ExposureFinding, ListenerFinding, EvidenceGap} \<or> printable (dr_summary r)"

lemma collected_actions_plain:
  "list_all plain_action (recommendations (make_dashboard_snapshot h v st sid t m))"
proof -
  have "list_all (plain_action \<circ> recommendation_of) (collect_blockers st)"
    by (simp add: collect_blockers_def blocker_def recommendation_of_def plain_action_def printable_def)
  moreover have "list_all (plain_action \<circ> recommendation_of) (policy_reviews st)"
    "list_all (plain_action \<circ> recommendation_of) (listener_reviews st)"
    by (simp_all add: policy_reviews_def listener_reviews_def review_def recommendation_of_def
        plain_action_def Let_def)
  moreover have "list_all (plain_action \<circ> recommendation_of) (component_gaps cs)"
    "list_all (plain_action \<circ> recommendation_of) (policy_gaps st)" for cs
    by (simp_all add: component_gaps_def component_gap_def policy_gaps_def gap_def recommendation_of_def
        plain_action_def list_all_iff)
  ultimately have "list_all plain_action
      (map recommendation_of (collect_blockers st) @ map recommendation_of (policy_reviews st @ listener_reviews st) @
       map recommendation_of (component_gaps (collect_components st) @ policy_gaps st))"
    by (simp add: list.pred_map)
  then show ?thesis
    unfolding snapshot_recommendations list_all_iff set_mset_mset[symmetric] prioritise_mset
    by (simp add: make_dashboard_snapshot_def all_findings_def Let_def)
qed

lemma collected_raw_action: "list_all screen_safe (raw_action (make_dashboard_snapshot h v st sid t m))"
  using collected_actions_plain[of h v st sid t m]
  by (auto simp: raw_action_def plain_action_def printable_screen split: list.split)

section \<open>Text that is not safe\<close>

text \<open>On a safe screen every escape byte is followed by a bracket.\<close>

fun escapes_closed :: "string \<Rightarrow> bool" where
  "escapes_closed [] = True"
| "escapes_closed [c] \<longleftrightarrow> c \<noteq> esc_char"
| "escapes_closed (c # d # s) \<longleftrightarrow> (c \<noteq> esc_char \<or> d = CHR ''['') \<and> escapes_closed (d # s)"

lemma escapes_closed_Cons: "c \<noteq> esc_char \<Longrightarrow> escapes_closed (c # s) = escapes_closed s"
  by (cases s) simp_all

lemma escapes_closed_append: "esc_char \<notin> set s \<Longrightarrow> escapes_closed (s @ t) = escapes_closed t"
  by (induction s) (auto simp: escapes_closed_Cons)

lemma escapes_closed_join: "escapes_closed s \<Longrightarrow> escapes_closed t \<Longrightarrow> escapes_closed (s @ t)"
  by (induction s rule: escapes_closed.induct) (auto simp: escapes_closed_Cons)

lemma escapes_closed_later: "escapes_closed (s @ t) \<Longrightarrow> escapes_closed t"
proof (induction s)
  case (Cons c s)
  then show ?case by (cases "s @ t") (auto simp: Cons)
qed simp

lemma terminal_safe_escapes: "terminal_safe s \<Longrightarrow> escapes_closed s"
proof (induction rule: terminal_safe.induct)
  case (ascii c s)
  then have "c \<noteq> esc_char" by (auto simp: esc_char_def)
  with ascii show ?case by (simp add: escapes_closed_Cons)
next
  case (utf8 u p s)
  then have "esc_char \<notin> set u" using decoded_high[OF utf8.hyps(1), of esc_char] by (auto simp: esc_char_def)
  with utf8 show ?case by (simp add: escapes_closed_append)
next
  case (rendition ps s)
  have "esc_char \<notin> set (ps @ ''m'')"
    using rendition.hyps by (auto simp: list_all_iff is_sgr_parameter_def is_digit_def esc_char_def)
  then show ?case
    using rendition.IH escapes_closed_append[of "ps @ ''m''" s] by (simp add: escapes_closed_Cons esc_char_def)
qed simp

lemma screen_safe_escapes: "screen_safe s \<Longrightarrow> escapes_closed s"
  by (induction rule: screen_safe.induct)
    (simp_all add: escapes_closed_Cons esc_char_def escapes_closed_join terminal_safe_escapes)

lemma open_escape_unsafe: "\<not> screen_safe (s @ esc_char # CHR '']'' # t)"
  using screen_safe_escapes escapes_closed_later by fastforce

lemma home_shows_interface:
  "\<exists>p q. show_dashboard_home ui s now = p @ fst (physical_interface_and_zone (ds_firewall s)) @ q"
proof -
  let ?st = "ds_firewall s"
  let ?p = "line_text (home_title s now) @ line_text (''Risk       '' @ risk_badge ui (risk s)) @
    line_text (''Firewall   '' @ home_firewall ui ?st) @ ''  '' @ ''Network    ''"
  let ?q = "bullet_sep @ home_tunnel ui ?st @ bullet_sep @ ''route '' @ warning ui ''UNVERIFIED'' @ [newline_char] @
    line_text (''Alerts     '' @ show_nat (length (review_items s)) @ '' review item(s)'' @ bullet_sep @
      show_nat (length (coverage_gaps s)) @ '' coverage gap(s)'') @
    line_text (''Action     '' @ home_action ui s)"
  have "show_dashboard_home ui s now = ?p @ fst (physical_interface_and_zone ?st) @ ?q"
    by (simp add: show_dashboard_home_def Let_def line_text_def)
  then show ?thesis by blast
qed

section \<open>Properties\<close>

text \<open>The display is a boundary: whatever was collected, the bytes that a view writes are lines of
  printable text and colour sequences, after at most the sequence that clears the terminal, provided
  the few parts that are passed on unchecked are such text.\<close>

theorem displayed_text_is_safe:
  "list_all screen_safe (raw_parts d) \<Longrightarrow> screen_ok ui (render_view ui e now d)"
proof (cases d)
  case (ShowMenu s m expanded)
  then show "list_all screen_safe (raw_parts d) \<Longrightarrow> ?thesis"
    using menu_body_screen screen_ok_clear by (simp add: show_menu_def)
qed (simp_all add: screen_ok_plain view_screens notices_screen detail_header_ok help_ok)

lemma displayed_text_witness:
  "screen_ok (terminal_ui_init False (\<lambda>_. None))
     (render_view (terminal_ui_init False (\<lambda>_. None)) \<lparr>sur_services = (\<lambda>p q. None), sur_local_time = (\<lambda>t. [])\<rparr> 0
       (ShowMenu (make_dashboard_snapshot ''host'' ''1'' default_firewall_state 1 0 0) MainMenu False))"
proof (rule displayed_text_is_safe)
  have "screen_safe ''host''" "screen_safe ''unavailable''"
    by (rule printable_screen; simp add: printable_def)+
  then show "list_all screen_safe
      (raw_parts (ShowMenu (make_dashboard_snapshot ''host'' ''1'' default_firewall_state 1 0 0) MainMenu False))"
    using collected_raw_action[of "''host''" "''1''" default_firewall_state 1 0 0]
    by (simp add: make_dashboard_snapshot_def Let_def physical_interface_and_zone_def default_firewall_state_def)
qed

text \<open>C30: The home view is not part of the boundary: an interface name that firewalld reports goes to the
  terminal as it is, so a name with an escape sequence drives the terminal of the operator.\<close>

theorem interface_name_reaches_terminal:
  "\<not> screen_safe (show_dashboard_home ui
     (make_dashboard_snapshot h v (st\<lparr>active_zone_interfaces := parse_active_zones
        (''public'' @ [newline_char] @ ''  interfaces: '' @ [esc_char] @ '']0;x'' @ [newline_char])\<rparr>) sid t m) now)"
proof -
  have "parse_active_zones (''public'' @ [newline_char] @ ''  interfaces: '' @ [esc_char] @ '']0;x'' @ [newline_char]) =
    [(''public'', [esc_char # '']0;x''])]" (is "?zones = _")
    by code_simp
  then have "fst (physical_interface_and_zone (ds_firewall
      (make_dashboard_snapshot h v (st\<lparr>active_zone_interfaces := ?zones\<rparr>) sid t m))) = esc_char # '']0;x''"
    by (simp add: make_dashboard_snapshot_def Let_def physical_interface_and_zone_def)
  moreover obtain p q where "show_dashboard_home ui
      (make_dashboard_snapshot h v (st\<lparr>active_zone_interfaces := ?zones\<rparr>) sid t m) now =
    p @ fst (physical_interface_and_zone (ds_firewall
      (make_dashboard_snapshot h v (st\<lparr>active_zone_interfaces := ?zones\<rparr>) sid t m))) @ q"
    using home_shows_interface by blast
  ultimately show ?thesis using open_escape_unsafe[of p "''0;x'' @ q"] by simp
qed

end
