(* ===== verification/ProcessRunner.thy ===== *)
theory ProcessRunner
  imports PostureInspector
begin

text \<open>
  \<open>src/core/command_runner.cpp\<close>: the runner that starts a child process, feeds its
  standard input and captures both outputs until the deadline, and the interpretation of the
  inspectors' contracts on it.

  The kernel is a parameter.  \<open>tick\<close> is what it answers in one pass of the loop: the
  steady clock at the top of the pass and at a possible kill, the result of \<open>poll\<close>, and for
  each descriptor that is ready the result of its \<open>read\<close> or \<open>write\<close>.  The pass itself, which
  decides what those answers mean, is the code's.  Times are nanoseconds.  The work of the
  child between \<open>fork\<close> and \<open>execvp\<close> belongs to the kernel, apart from the environment it sets.
\<close>

section \<open>Kernel answers\<close>

datatype read_outcome = ReadData string | ReadEof | ReadInterrupted | ReadError string

text \<open>\<open>Wrote n\<close> is a positive count; \<open>WriteRetry\<close> stands for \<open>EINTR\<close>, \<open>EAGAIN\<close> and
  \<open>EWOULDBLOCK\<close>.\<close>

datatype write_outcome = Wrote nat | WriteRetry | WriteBrokenPipe | WriteError string

record poll_events =
  ev_nval :: bool
  ev_err :: bool
  ev_hup :: bool
  ev_in :: bool
  ev_out :: bool

datatype poll_outcome =
    PollInterrupted
  | PollError string
  | PollReady "poll_events \<times> read_outcome" "poll_events \<times> read_outcome" "poll_events \<times> write_outcome"

record tick =
  tick_now :: int
  tick_kill :: int
  tick_poll :: poll_outcome

section \<open>The conversation with the child\<close>

definition maximum_captured_output :: nat where
  "maximum_captured_output = 1024 * 1024"

definition append_error :: "string \<Rightarrow> string \<Rightarrow> string" where
  "append_error target detail = (if target \<noteq> [] then target @ newline_char # detail else detail)"

record communication_result =
  standard_output :: string
  standard_error :: string
  timed_out :: bool
  truncated :: bool
  output_failed :: bool
  input_rejected :: bool
  input_failed :: bool
  input_error :: string

record comm = communication_result +
  out_open :: bool
  err_open :: bool
  in_open :: bool
  open_descriptors :: int
  input_offset :: nat
  terminated :: bool
  drain_deadline :: int

definition milliseconds :: "int \<Rightarrow> int" where
  "milliseconds n = n * 1000000"

definition terminate :: "int \<Rightarrow> int \<Rightarrow> comm \<Rightarrow> comm" where
  "terminate grace now c =
     (if terminated c then c else c\<lparr>terminated := True, drain_deadline := now + milliseconds grace\<rparr>)"

definition fail_output :: "string \<Rightarrow> comm \<Rightarrow> comm" where
  "fail_output detail c =
     c\<lparr>output_failed := True, standard_error := append_error (standard_error c) detail\<rparr>"

definition fail_input :: "string \<Rightarrow> comm \<Rightarrow> comm" where
  "fail_input detail c = c\<lparr>input_failed := True, input_error := detail\<rparr>"

datatype descriptor = OutFd | ErrFd | InFd

fun is_open :: "descriptor \<Rightarrow> comm \<Rightarrow> bool" where
  "is_open OutFd c = out_open c"
| "is_open ErrFd c = err_open c"
| "is_open InFd c = in_open c"

fun mark_closed :: "descriptor \<Rightarrow> comm \<Rightarrow> comm" where
  "mark_closed OutFd c = c\<lparr>out_open := False\<rparr>"
| "mark_closed ErrFd c = c\<lparr>err_open := False\<rparr>"
| "mark_closed InFd c = c\<lparr>in_open := False\<rparr>"

definition close_one :: "descriptor \<Rightarrow> comm \<Rightarrow> comm" where
  "close_one d c = (mark_closed d c)\<lparr>open_descriptors := open_descriptors c - 1\<rparr>"

definition close_all :: "comm \<Rightarrow> comm" where
  "close_all c = c\<lparr>out_open := False, err_open := False, in_open := False\<rparr>"

fun captured :: "descriptor \<Rightarrow> comm \<Rightarrow> string" where
  "captured OutFd c = standard_output c"
| "captured ErrFd c = standard_error c"
| "captured InFd c = []"

fun set_captured :: "descriptor \<Rightarrow> string \<Rightarrow> comm \<Rightarrow> comm" where
  "set_captured OutFd s c = c\<lparr>standard_output := s\<rparr>"
| "set_captured ErrFd s c = c\<lparr>standard_error := s\<rparr>"
| "set_captured InFd s c = c"

definition capture :: "int \<Rightarrow> int \<Rightarrow> descriptor \<Rightarrow> string \<Rightarrow> comm \<Rightarrow> comm" where
  "capture grace now d chunk c =
     (let target = captured d c;
          remaining = (if length target < maximum_captured_output
                       then maximum_captured_output - length target else 0);
          c1 = set_captured d (target @ take remaining chunk) c
      in if remaining < length chunk \<and> \<not> terminated c1
         then terminate grace now (c1\<lparr>truncated := True\<rparr>) else c1)"

definition read_step :: "int \<Rightarrow> int \<Rightarrow> descriptor \<Rightarrow> read_outcome \<Rightarrow> comm \<Rightarrow> comm" where
  "read_step grace now d outcome c =
     (case outcome of
        ReadData chunk \<Rightarrow> if chunk = [] then close_one d c else capture grace now d chunk c
      | ReadInterrupted \<Rightarrow> c
      | ReadError detail \<Rightarrow>
          close_one d (terminate grace now (fail_output (''command output read failed: '' @ detail) c))
      | ReadEof \<Rightarrow> close_one d c)"

definition write_step :: "string \<Rightarrow> write_outcome \<Rightarrow> comm \<Rightarrow> comm" where
  "write_step input outcome c =
     (case outcome of
        Wrote n \<Rightarrow>
          (let c1 = c\<lparr>input_offset := input_offset c + n\<rparr>
           in if input_offset c1 = length input then close_one InFd c1 else c1)
      | WriteRetry \<Rightarrow> c
      | WriteBrokenPipe \<Rightarrow> close_one InFd (c\<lparr>input_rejected := True\<rparr>)
      | WriteError detail \<Rightarrow> close_one InFd (fail_input detail c))"

definition no_events :: "poll_events \<Rightarrow> bool" where
  "no_events e \<longleftrightarrow> \<not> ev_nval e \<and> \<not> ev_err e \<and> \<not> ev_hup e \<and> \<not> ev_in e \<and> \<not> ev_out e"

definition output_pass ::
  "int \<Rightarrow> int \<Rightarrow> descriptor \<Rightarrow> poll_events \<times> read_outcome \<Rightarrow> comm \<Rightarrow> comm" where
  "output_pass grace now d ready c =
     (let (e, outcome) = ready
      in if \<not> is_open d c \<or> no_events e then c
         else if ev_nval e
         then close_one d (terminate grace now
                (fail_output ''command output descriptor became invalid'' c))
         else if \<not> (ev_in e \<or> ev_hup e \<or> ev_err e) then c
         else read_step grace now d outcome c)"

definition input_pass ::
  "int \<Rightarrow> int \<Rightarrow> string \<Rightarrow> poll_events \<times> write_outcome \<Rightarrow> comm \<Rightarrow> comm" where
  "input_pass grace now input ready c =
     (let (e, outcome) = ready
      in if \<not> is_open InFd c \<or> no_events e then c
         else if ev_nval e
         then close_one InFd (terminate grace now
                (fail_input ''command standard-input descriptor became invalid'' c))
         else if ev_err e \<or> ev_hup e
         then close_one InFd (c\<lparr>input_rejected := input_offset c < length input\<rparr>)
         else if \<not> ev_out e then c
         else write_step input outcome c)"

text \<open>One pass of the loop: the state after it and whether the loop breaks.\<close>

definition check_deadline :: "int \<Rightarrow> int \<Rightarrow> tick \<Rightarrow> comm \<Rightarrow> comm" where
  "check_deadline grace deadline t c =
     (if \<not> terminated c \<and> deadline \<le> tick_now t
      then terminate grace (tick_kill t) (c\<lparr>timed_out := True\<rparr>) else c)"

definition poll_pass :: "int \<Rightarrow> string \<Rightarrow> tick \<Rightarrow> comm \<Rightarrow> comm \<times> bool" where
  "poll_pass grace input t c =
     (case tick_poll t of
        PollInterrupted \<Rightarrow> (c, False)
      | PollError detail \<Rightarrow>
          (close_all (terminate grace (tick_kill t)
             (fail_output (''command output polling failed: '' @ detail) c)), True)
      | PollReady ready_out ready_err ready_in \<Rightarrow>
          (input_pass grace (tick_kill t) input ready_in
             (output_pass grace (tick_kill t) ErrFd ready_err
                (output_pass grace (tick_kill t) OutFd ready_out c)), False))"

definition communicate_pass :: "int \<Rightarrow> int \<Rightarrow> string \<Rightarrow> tick \<Rightarrow> comm \<Rightarrow> comm \<times> bool" where
  "communicate_pass grace deadline input t c =
     (let c1 = check_deadline grace deadline t c
      in if terminated c1 \<and> drain_deadline c1 \<le> tick_now t
         then (close_all (fail_output
                 ''command descendants kept output pipes open after termination'' c1), True)
         else poll_pass grace input t c1)"

text \<open>The timeout handed to \<open>poll\<close>, in milliseconds.\<close>

definition wait_milliseconds :: "int \<Rightarrow> int \<Rightarrow> comm \<Rightarrow> int" where
  "wait_milliseconds deadline now c =
     (if terminated c then max 1 ((drain_deadline c - now) div 1000000)
      else max 1 (min ((deadline - now) div 1000000) 1000))"

text \<open>The loop over the answers of the kernel; \<open>None\<close> when it still polls after all of them.\<close>

fun communicate :: "int \<Rightarrow> int \<Rightarrow> string \<Rightarrow> tick list \<Rightarrow> comm \<Rightarrow> comm option" where
  "communicate grace deadline input ts c =
     (if open_descriptors c \<le> 0 then Some (close_all c)
      else case ts of
        [] \<Rightarrow> None
      | t # ts' \<Rightarrow>
         (case communicate_pass grace deadline input t c of
            (c1, True) \<Rightarrow> Some (close_all c1)
          | (c1, False) \<Rightarrow> communicate grace deadline input ts' c1))"

declare communicate.simps [simp del]

text \<open>Its state when the loop starts; \<open>nonblocking\<close> is the error of the two \<open>fcntl\<close> calls on
  the input descriptor and \<open>kill_now\<close> the clock at a kill.\<close>

definition fresh_comm :: "string \<Rightarrow> comm" where
  "fresh_comm input =
     \<lparr>standard_output = [], standard_error = [], timed_out = False, truncated = False,
      output_failed = False, input_rejected = False, input_failed = False, input_error = [],
      out_open = True, err_open = True, in_open = True,
      open_descriptors = (if input = [] then 2 else 3),
      input_offset = 0, terminated = False, drain_deadline = 0\<rparr>"

definition communicate_start :: "int \<Rightarrow> int \<Rightarrow> string \<Rightarrow> string option \<Rightarrow> comm" where
  "communicate_start grace kill_now input nonblocking =
     (let c = fresh_comm input
      in if input = [] then mark_closed InFd c
         else case nonblocking of
           None \<Rightarrow> c
         | Some detail \<Rightarrow> close_one InFd (terminate grace kill_now (fail_input detail c)))"

section \<open>The runner\<close>

text \<open>
  The calls of the kernel around the conversation: \<open>make_pipes\<close>, \<open>fork_exec\<close> and \<open>reap\<close> answer
  with the text of their error.  \<open>fork_exec\<close> receives the environment variables that the child
  overrides and its arguments.  \<open>conversation\<close> is the kernel's answer in each pass.
\<close>

datatype wait_result = WaitFailed string | Exited int | Signaled

record 'w process_kernel =
  make_pipes :: "('w, string option) state"
  fork_exec :: "(string \<times> string) list \<Rightarrow> string list \<Rightarrow> ('w, string option) state"
  steady_now :: "('w, int) state"
  make_nonblocking :: "('w, string option) state"
  conversation :: "string \<Rightarrow> ('w, nat \<Rightarrow> tick) state"
  reap :: "('w, wait_result) state"

text \<open>The two limits of the runner in milliseconds, as its constructor stores them, and the
  number of passes after which the model gives up (no run of a kernel whose clock advances
  needs it, see \<open>communicate_returns\<close>).\<close>

record limits =
  timeout :: int
  pipe_drain_grace :: int
  passes :: nat

definition process_limits :: "int \<Rightarrow> int \<Rightarrow> nat \<Rightarrow> limits" where
  "process_limits t g n =
     \<lparr>timeout = (if 0 < t then t else 1), pipe_drain_grace = (if 0 < g then g else 1), passes = n\<rparr>"

definition default_limits :: "nat \<Rightarrow> limits" where
  "default_limits n = process_limits 60000 2000 n"

definition child_environment :: "(string \<times> string) list" where
  "child_environment =
     [(''PATH'', ''/usr/sbin:/usr/bin:/sbin:/bin''), (''LC_ALL'', ''C''), (''LANG'', ''C'')]"

definition failed_command :: "string \<Rightarrow> command_result" where
  "failed_command error = \<lparr>exit_code = -1, stdout_text = [], stderr_text = error\<rparr>"

definition append_if :: "bool \<Rightarrow> string \<Rightarrow> string \<Rightarrow> string" where
  "append_if b detail target = (if b then append_error target detail else target)"

definition communication_failed :: "comm \<Rightarrow> bool" where
  "communication_failed c \<longleftrightarrow>
     timed_out c \<or> truncated c \<or> input_rejected c \<or> input_failed c \<or> output_failed c"

definition conclude :: "int \<Rightarrow> wait_result \<Rightarrow> comm \<Rightarrow> command_result" where
  "conclude limit waited c0 =
     (let c = (case waited of
                 WaitFailed detail \<Rightarrow> fail_output (''could not wait for command: '' @ detail) c0
               | _ \<Rightarrow> c0);
          diagnostics =
            append_if (input_failed c) (''command standard-input write failed: '' @ input_error c)
              (append_if (input_rejected c) ''command did not accept all standard input''
                (append_if (truncated c) ''command output exceeded 1 MiB safety limit''
                  (append_if (timed_out c)
                     (''command exceeded '' @ show_nat (nat limit) @ ''-millisecond safety limit'')
                     (standard_error c))))
      in \<lparr>exit_code = (if communication_failed c then -1
                      else case waited of Exited status \<Rightarrow> status | _ \<Rightarrow> -1),
          stdout_text = standard_output c, stderr_text = diagnostics\<rparr>)"

definition process_run ::
  "limits \<Rightarrow> 'w process_kernel \<Rightarrow> string list \<Rightarrow> string \<Rightarrow> ('w, command_result option) state" where
  "process_run L K args input =
     (if args = [] then State_Monad.return (Some (failed_command ''empty command''))
      else do {
        pipes \<leftarrow> make_pipes K;
        case pipes of
          Some error \<Rightarrow> State_Monad.return (Some (failed_command error))
        | None \<Rightarrow> do {
            forked \<leftarrow> fork_exec K child_environment args;
            case forked of
              Some error \<Rightarrow> State_Monad.return (Some (failed_command error))
            | None \<Rightarrow> do {
                started \<leftarrow> steady_now K;
                nonblocking \<leftarrow> (if input = [] then State_Monad.return None else make_nonblocking K);
                kill_now \<leftarrow> (if nonblocking = None then State_Monad.return 0 else steady_now K);
                answers \<leftarrow> conversation K input;
                let outcome = communicate (pipe_drain_grace L) (started + milliseconds (timeout L))
                      input (map answers [0..<passes L])
                      (communicate_start (pipe_drain_grace L) kill_now input nonblocking);
                case outcome of
                  None \<Rightarrow> State_Monad.return None
                | Some c \<Rightarrow> do {
                    waited \<leftarrow> reap K;
                    State_Monad.return (Some (conclude (timeout L) waited c))
                  }
              }
          }
      })"

text \<open>The runner handed to the inspectors; a run that outlives the passes is a failed command.\<close>

definition process_runner :: "limits \<Rightarrow> 'w process_kernel \<Rightarrow> 'w runner" where
  "process_runner L K =
     (let finish = (\<lambda>r. case r of None \<Rightarrow> failed_command ''still running'' | Some x \<Rightarrow> x)
      in \<lparr>run = (\<lambda>args. do { r \<leftarrow> process_run L K args []; State_Monad.return (finish r) }),
          run_with_input = (\<lambda>args input. do {
            r \<leftarrow> process_run L K args input; State_Monad.return (finish r) })\<rparr>)"

section \<open>The loop returns\<close>

text \<open>Once a kill was decided it stays decided, with its deadline.\<close>

definition kill_kept :: "comm \<Rightarrow> comm \<Rightarrow> bool" where
  "kill_kept c c' \<longleftrightarrow> (terminated c \<longrightarrow> terminated c' \<and> drain_deadline c' = drain_deadline c)"

named_theorems kill_kept_intro \<open>operations that keep a decided kill\<close>

lemma kill_kept_refl [simp]: "kill_kept c c"
  by (simp add: kill_kept_def)

lemma kill_kept_trans: "kill_kept c c' \<Longrightarrow> kill_kept c' c'' \<Longrightarrow> kill_kept c c''"
  by (simp add: kill_kept_def)

lemma kill_kept_terminate [kill_kept_intro]: "kill_kept c c' \<Longrightarrow> kill_kept c (terminate g n c')"
  by (simp add: kill_kept_def terminate_def)

lemma kill_kept_close [kill_kept_intro]: "kill_kept c c' \<Longrightarrow> kill_kept c (close_one d c')"
  by (cases d) (simp_all add: kill_kept_def close_one_def)

lemma kill_kept_fail [kill_kept_intro]:
  "kill_kept c c' \<Longrightarrow> kill_kept c (fail_output e c')"
  "kill_kept c c' \<Longrightarrow> kill_kept c (fail_input e c')"
  "kill_kept c c' \<Longrightarrow> kill_kept c (close_all c')"
  by (simp_all add: kill_kept_def fail_output_def fail_input_def close_all_def)

lemma kill_kept_update [kill_kept_intro]:
  "kill_kept c (c\<lparr>input_rejected := b\<rparr>)" "kill_kept c (c\<lparr>timed_out := b\<rparr>)"
  "kill_kept c (c\<lparr>input_offset := n\<rparr>)" "kill_kept c (set_captured d s c)"
  "kill_kept c ((set_captured d s c)\<lparr>truncated := b\<rparr>)"
  by (cases d; simp add: kill_kept_def)+

lemma kill_kept_read: "kill_kept c (read_step g n d r c)"
  by (cases r) (auto simp: read_step_def capture_def Let_def intro!: kill_kept_intro)

lemma kill_kept_write: "kill_kept c (write_step i r c)"
  by (cases r) (auto simp: write_step_def Let_def intro!: kill_kept_intro)

lemma kill_kept_output: "kill_kept c (output_pass g n d r c)"
  by (cases r) (auto simp: output_pass_def intro!: kill_kept_intro kill_kept_read)

lemma kill_kept_input: "kill_kept c (input_pass g n i r c)"
  by (cases r) (auto simp: input_pass_def intro!: kill_kept_intro kill_kept_write)

lemma kill_kept_poll: "kill_kept c (fst (poll_pass g i t c))"
  unfolding poll_pass_def
  by (cases "tick_poll t")
    (auto intro!: kill_kept_intro
      intro: kill_kept_trans[OF kill_kept_trans[OF kill_kept_output kill_kept_output] kill_kept_input])

lemma kill_kept_deadline: "kill_kept c (check_deadline g d t c)"
  by (simp add: check_deadline_def kill_kept_intro)

lemma kill_kept_pass: "kill_kept c (fst (communicate_pass g d i t c))"
  unfolding communicate_pass_def
  by (auto simp: Let_def intro!: kill_kept_intro kill_kept_deadline
      intro: kill_kept_trans[OF kill_kept_deadline kill_kept_poll])

lemma deadline_kills:
  assumes "d \<le> tick_now t"
  shows "terminated (fst (communicate_pass g d i t c))"
proof -
  have "terminated (check_deadline g d t c)"
    using assms by (simp add: check_deadline_def terminate_def)
  then show ?thesis
    using kill_kept_poll[of "check_deadline g d t c" g i t]
    by (simp add: communicate_pass_def Let_def kill_kept_def close_all_def fail_output_def)
qed

lemma drain_ends:
  assumes "terminated c" "drain_deadline c \<le> tick_now t"
  shows "snd (communicate_pass g d i t c)"
proof -
  have "check_deadline g d t c = c"
    using assms(1) by (simp add: check_deadline_def)
  then show ?thesis
    using assms by (simp add: communicate_pass_def)
qed

lemma killed_conversation_ends:
  "\<lbrakk> terminated c; t \<in> set ts; drain_deadline c \<le> tick_now t \<rbrakk> \<Longrightarrow>
     communicate g d i ts c \<noteq> None"
proof (induction ts arbitrary: c)
  case (Cons u ts)
  obtain c1 b where p: "communicate_pass g d i u c = (c1, b)" by (cases "communicate_pass g d i u c")
  have "b \<or> (t \<in> set ts \<and> terminated c1 \<and> drain_deadline c1 = drain_deadline c)"
    using Cons.prems drain_ends[of c u g d i] kill_kept_pass[of c g d i u]
    by (auto simp: p kill_kept_def)
  then show ?case
    using Cons.IH[of c1] Cons.prems(3) by (subst communicate.simps) (auto simp: p split: bool.splits)
qed simp

text \<open>A conversation that is still going on has a state from which it continues.\<close>

lemma communicate_continues:
  "communicate g d i ts c = None \<Longrightarrow>
     \<exists>c'. (\<forall>us. communicate g d i (ts @ us) c = communicate g d i us c') \<and>
       (terminated c \<longrightarrow> terminated c') \<and>
       ((\<exists>t\<in>set ts. d \<le> tick_now t) \<longrightarrow> terminated c')"
proof (induction ts arbitrary: c)
  case Nil
  show ?case by (intro exI[of _ c]) simp
next
  case (Cons u ts)
  obtain c1 b where p: "communicate_pass g d i u c = (c1, b)" by (cases "communicate_pass g d i u c")
  have o: "0 < open_descriptors c" and nb: "\<not> b" and n: "communicate g d i ts c1 = None"
    using Cons.prems by (subst (asm) communicate.simps; auto simp: p split: if_splits bool.splits)+
  have step: "communicate g d i ((u # ts) @ us) c = communicate g d i (ts @ us) c1" for us
    using o nb by (subst communicate.simps) (simp add: p)
  have k: "(terminated c \<or> d \<le> tick_now u) \<longrightarrow> terminated c1"
    using kill_kept_pass[of c g d i u] deadline_kills[of d u g i c] by (auto simp: p kill_kept_def)
  show ?case
    using Cons.IH[OF n] k by (simp only: step) fastforce
qed

lemma communicate_more_passes:
  "communicate g d i ts c = Some r \<Longrightarrow> communicate g d i (ts @ us) c = Some r"
proof (induction ts arbitrary: c)
  case Nil
  then show ?case
    by (subst (asm) communicate.simps, subst communicate.simps) (auto split: if_splits)
next
  case (Cons u ts)
  then show ?case
    by (subst (asm) communicate.simps, subst communicate.simps)
      (auto split: if_splits prod.splits bool.splits)
qed

lemma upt_split: "i \<le> j \<Longrightarrow> j \<le> k \<Longrightarrow> [i..<j] @ [j..<k] = [i..<k]"
  using upt_add_eq_append[of i j "k - j"] by simp

lemma communicate_ends:
  assumes clock: "\<And>time. \<exists>n. \<forall>m\<ge>n. time \<le> tick_now (f m)"
  shows "\<exists>n r. \<forall>m\<ge>n. communicate g d i (map f [0..<m]) c = Some r"
proof -
  let ?run = "\<lambda>n. communicate g d i (map f [0..<n]) c"
  have "\<exists>n r. ?run n = Some r"
  proof -
    obtain n where n: "d \<le> tick_now (f n)" using clock[of d] by auto
    show ?thesis
    proof (cases "?run (Suc n)")
      case None
      obtain c' where c': "communicate g d i (map f [0..<Suc n] @ us) c = communicate g d i us c'"
        and k: "terminated c'" for us
        using communicate_continues[OF None] n by fastforce
      obtain m where m: "Suc n \<le> m" "drain_deadline c' \<le> tick_now (f m)"
        using clock[of "drain_deadline c'"] by (meson nat_le_linear)
      have "[0..<Suc n] @ [Suc n..<Suc m] = [0..<Suc m]"
        by (rule upt_split) (use m(1) in simp_all)
      then have "?run (Suc m) = communicate g d i (map f [Suc n..<Suc m]) c'"
        using c'[of "map f [Suc n..<Suc m]"] by (simp only: map_append[symmetric])
      moreover have "f m \<in> set (map f [Suc n..<Suc m])"
        using m(1) by simp
      ultimately have "?run (Suc m) \<noteq> None"
        using killed_conversation_ends[OF k _ m(2)] by metis
      then show ?thesis by blast
    qed blast
  qed
  then obtain n r where r: "?run n = Some r" by blast
  have "?run m = Some r" if "n \<le> m" for m
    using communicate_more_passes[OF r, of "map f [n..<m]"] upt_split[OF _ that, of 0]
    by (simp flip: map_append)
  then show ?thesis by blast
qed

section \<open>A successful conversation is complete\<close>

text \<open>
  The invariant of the loop: the counter of open descriptors is right, a kill has a recorded
  reason, the input descriptor closes only after the whole input was accepted or a
  failure was recorded, and the captured output is bounded.
\<close>

definition comm_wf :: "string \<Rightarrow> comm \<Rightarrow> bool" where
  "comm_wf input c \<longleftrightarrow>
     open_descriptors c = of_bool (out_open c) + of_bool (err_open c) + of_bool (in_open c) \<and>
     (terminated c \<longrightarrow> timed_out c \<or> truncated c \<or> output_failed c \<or> input_failed c) \<and>
     (input_rejected c \<longrightarrow> \<not> in_open c) \<and>
     (\<not> in_open c \<and> \<not> input_rejected c \<and> \<not> input_failed c \<longrightarrow> length input \<le> input_offset c) \<and>
     length (standard_output c) \<le> maximum_captured_output"

named_theorems comm_defs \<open>the operations on a conversation\<close>
lemmas [comm_defs] = terminate_def fail_output_def fail_input_def close_one_def capture_def
  read_step_def write_step_def

lemma wf_terminate:
  "comm_wf i c \<Longrightarrow> timed_out c \<or> truncated c \<or> output_failed c \<or> input_failed c \<Longrightarrow>
     comm_wf i (terminate g n c)"
  by (simp add: comm_wf_def terminate_def)

lemma wf_fail:
  "comm_wf i c \<Longrightarrow> comm_wf i (fail_output e c)" "comm_wf i c \<Longrightarrow> comm_wf i (fail_input e c)"
  by (auto simp: comm_wf_def fail_output_def fail_input_def)

lemma wf_close_output: "comm_wf i c \<Longrightarrow> is_open d c \<Longrightarrow> d \<noteq> InFd \<Longrightarrow> comm_wf i (close_one d c)"
  by (cases d) (simp_all add: comm_wf_def close_one_def)

lemma failed_after [simp]:
  "output_failed (fail_output e c)" "input_failed (fail_input e c)"
  "is_open d (fail_output e c) = is_open d c" "is_open d (fail_input e c) = is_open d c"
  "is_open d (terminate g n c) = is_open d c"
  "input_failed (terminate g n c) = input_failed c"
  by (cases d; simp add: comm_defs)+

lemma wf_capture: "comm_wf i c \<Longrightarrow> d \<noteq> InFd \<Longrightarrow> comm_wf i (capture g n d chunk c)"
  by (cases d) (auto simp: capture_def Let_def comm_wf_def terminate_def min_def)

lemma wf_read_step:
  "comm_wf i c \<Longrightarrow> is_open d c \<Longrightarrow> d \<noteq> InFd \<Longrightarrow> comm_wf i (read_step g n d r c)"
  by (simp add: read_step_def wf_capture wf_close_output wf_terminate wf_fail
      split: read_outcome.split)

lemma wf_output_pass: "comm_wf i c \<Longrightarrow> d \<noteq> InFd \<Longrightarrow> comm_wf i (output_pass g n d r c)"
  by (simp add: output_pass_def wf_read_step wf_close_output wf_terminate wf_fail split: prod.split)

lemma wf_write_step:
  assumes "comm_wf i c" "in_open c"
  shows "comm_wf i (write_step i r c)"
  using assms
  by (cases r) (simp_all add: write_step_def Let_def comm_wf_def close_one_def fail_input_def)

lemma wf_input_pass:
  assumes "comm_wf i c"
  shows "comm_wf i (input_pass g n i r c)"
proof -
  have "comm_wf i (close_one InFd (terminate g n (fail_input e c)))" if "in_open c" for e
    using assms that by (simp add: comm_wf_def close_one_def comm_defs)
  moreover have "comm_wf i (close_one InFd (c\<lparr>input_rejected := input_offset c < length i\<rparr>))"
    if "in_open c"
    using assms that by (simp add: comm_wf_def close_one_def)
  ultimately show ?thesis
    using assms by (simp add: input_pass_def wf_write_step split: prod.split)
qed

lemma wf_deadline: "comm_wf i c \<Longrightarrow> comm_wf i (check_deadline g d t c)"
  by (auto simp: check_deadline_def comm_defs comm_wf_def)

lemma wf_pass:
  assumes "comm_wf i c" "communicate_pass g d i t c = (c1, False)"
  shows "comm_wf i c1"
  using assms wf_deadline[OF assms(1), of g d t]
  by (auto simp: communicate_pass_def poll_pass_def Let_def wf_output_pass wf_input_pass
      split: if_splits poll_outcome.splits)

lemma wf_start: "comm_wf input (communicate_start g k input nb)"
  by (auto simp: communicate_start_def fresh_comm_def comm_wf_def comm_defs Let_def
      split: option.splits)

text \<open>Failures are never taken back.\<close>

definition clean :: "comm \<Rightarrow> bool" where
  "clean c \<longleftrightarrow> \<not> communication_failed c"

lemma clean_output_pass: "clean (output_pass g n d r c) \<Longrightarrow> clean c"
  by (cases r; cases "snd r"; cases d)
    (auto simp: output_pass_def comm_defs clean_def communication_failed_def Let_def
      split: if_splits)

lemma clean_input_pass: "comm_wf i c \<Longrightarrow> clean (input_pass g n i r c) \<Longrightarrow> clean c"
  by (cases r; cases "snd r")
    (auto simp: input_pass_def comm_defs clean_def communication_failed_def comm_wf_def Let_def
      split: if_splits)

text \<open>The standard output that the kernel delivers before it reports the end of the file.\<close>

definition readable :: "poll_events \<Rightarrow> bool" where
  "readable e \<longleftrightarrow> \<not> ev_nval e \<and> (ev_in e \<or> ev_hup e \<or> ev_err e)"

fun delivered :: "tick list \<Rightarrow> string" where
  "delivered [] = []"
| "delivered (t # ts) =
     (case tick_poll t of
        PollReady (e, ReadData chunk) _ _ \<Rightarrow>
          if \<not> readable e then delivered ts else if chunk = [] then [] else chunk @ delivered ts
      | PollReady (e, ReadEof) _ _ \<Rightarrow> if readable e then [] else delivered ts
      | PollReady (e, ReadError _) _ _ \<Rightarrow> if readable e then [] else delivered ts
      | _ \<Rightarrow> delivered ts)"

definition pending :: "comm \<Rightarrow> tick list \<Rightarrow> string" where
  "pending c ts = (if out_open c then delivered ts else [])"

lemma output_kept:
  "standard_output (output_pass g n ErrFd r c) = standard_output c"
  "out_open (output_pass g n ErrFd r c) = out_open c"
  "standard_output (input_pass g n i w c) = standard_output c"
  "out_open (input_pass g n i w c) = out_open c"
  by (cases r; cases "snd r"; cases w; cases "snd w";
      auto simp: output_pass_def input_pass_def comm_defs Let_def)+

lemma output_captured:
  assumes "comm_wf i c" "clean (output_pass g n OutFd r c)" "tick_poll t = PollReady r re ri"
  shows "standard_output (output_pass g n OutFd r c) @ pending (output_pass g n OutFd r c) ts =
    standard_output c @ pending c (t # ts)"
  using assms
  by (cases r; cases "snd r")
    (auto simp: output_pass_def comm_defs pending_def readable_def no_events_def clean_def
      communication_failed_def comm_wf_def Let_def split: if_splits)

lemma pass_captured:
  assumes wf: "comm_wf i c" and p: "communicate_pass g d i t c = (c1, False)" and c: "clean c1"
  shows "clean c \<and> standard_output c1 @ pending c1 ts = standard_output c @ pending c (t # ts)"
proof -
  have nt: "\<not> terminated c1" using wf_pass[OF wf p] c
    by (auto simp: comm_wf_def clean_def communication_failed_def)
  then have early: "check_deadline g d t c = c"
    using deadline_kills[of d t g i c] by (auto simp: p check_deadline_def)
  have poll: "poll_pass g i t c = (c1, False)"
    using p early by (auto simp: communicate_pass_def Let_def split: if_splits)
  show ?thesis
  proof (cases "tick_poll t")
    case PollInterrupted
    then show ?thesis using poll c by (simp add: poll_pass_def pending_def)
  next
    case (PollError detail)
    then show ?thesis using poll by (simp add: poll_pass_def)
  next
    case (PollReady ro re ri)
    define c2 where "c2 = output_pass g (tick_kill t) OutFd ro c"
    define c3 where "c3 = output_pass g (tick_kill t) ErrFd re c2"
    have c1: "c1 = input_pass g (tick_kill t) i ri c3"
      using poll by (simp add: poll_pass_def PollReady c2_def c3_def)
    have "clean c3"
      using clean_input_pass c wf_output_pass[OF wf_output_pass[OF wf]] descriptor.distinct unfolding c1 c3_def c2_def by blast
    then have c2: "clean c2" unfolding c3_def by (rule clean_output_pass)
    then have "clean c" unfolding c2_def by (rule clean_output_pass)
    then show ?thesis
      using output_captured[OF wf c2[unfolded c2_def] PollReady, of ts]
      by (simp add: c1 c3_def c2_def[symmetric] output_kept pending_def)
  qed
qed

lemma break_is_failure:
  "communicate_pass g d i t c = (c1, True) \<Longrightarrow> \<not> clean (close_all c1)"
  by (auto simp: communicate_pass_def poll_pass_def Let_def clean_def communication_failed_def
      close_all_def comm_defs split: if_splits poll_outcome.splits)

lemma clean_close_all: "clean (close_all c) = clean c"
  by (simp add: clean_def communication_failed_def close_all_def)

lemma wf_finished:
  "comm_wf i c \<Longrightarrow> open_descriptors c \<le> 0 \<Longrightarrow> \<not> out_open c \<and> \<not> err_open c \<and> \<not> in_open c"
  by (cases "out_open c"; cases "err_open c"; cases "in_open c") (simp_all add: comm_wf_def)

lemma finished_complete:
  assumes wf: "comm_wf i c" and f: "open_descriptors c \<le> 0" and c: "clean (close_all c)"
  shows "standard_output (close_all c) = standard_output c @ pending c ts \<and>
     length i \<le> input_offset (close_all c)"
proof -
  have "\<not> out_open c" "\<not> in_open c" using wf_finished[OF wf f] by simp_all
  moreover have "\<not> in_open c \<and> \<not> input_rejected c \<and> \<not> input_failed c \<longrightarrow> length i \<le> input_offset c"
    using wf unfolding comm_wf_def by blast
  ultimately show ?thesis
    using c by (simp add: pending_def close_all_def clean_def communication_failed_def)
qed

lemma communicate_complete:
  "\<lbrakk> communicate g d i ts c = Some c'; comm_wf i c; clean c' \<rbrakk> \<Longrightarrow>
     standard_output c' = standard_output c @ pending c ts \<and> length i \<le> input_offset c'"
proof (induction ts arbitrary: c)
  case Nil
  then show ?case
    using finished_complete[of i c "[]"]
    by (subst (asm) communicate.simps) (auto split: if_splits)
next
  case (Cons t ts)
  show ?case
  proof (cases "open_descriptors c \<le> 0")
    case True
    then show ?thesis
      using Cons.prems finished_complete[of i c "t # ts"]
      by (subst (asm) communicate.simps) (auto split: if_splits)
next
    case False
    obtain c1 b where p: "communicate_pass g d i t c = (c1, b)" by (cases "communicate_pass g d i t c")
    have nb: "\<not> b" and r: "communicate g d i ts c1 = Some c'"
      using Cons.prems False break_is_failure[of g d i t c c1]
      by (subst (asm) communicate.simps; auto simp: p split: bool.splits)+
    have p': "communicate_pass g d i t c = (c1, False)" using p nb by simp
    have wf: "comm_wf i c1" by (rule wf_pass[OF Cons.prems(2) p'])
    have "clean c1 \<Longrightarrow> ?thesis"
      using Cons.IH[OF r wf Cons.prems(3)] pass_captured[OF Cons.prems(2) p', of ts] by simp
    moreover have "communicate g d i us e = Some c' \<Longrightarrow> comm_wf i e \<Longrightarrow> clean e" for us e
      using Cons.prems(3)
    proof (induction us arbitrary: e)
      case Nil
      then show ?case by (subst (asm) communicate.simps) (auto simp: clean_close_all split: if_splits)
    next
      case (Cons u us)
      obtain e1 b' where q: "communicate_pass g d i u e = (e1, b')" by (cases "communicate_pass g d i u e")
      show ?case
        using Cons.prems Cons.IH[of e1] break_is_failure[of g d i u e e1] q
          wf_pass[of i e g d u e1] pass_captured[of i e g d u e1]
        by (subst (asm) communicate.simps) (auto simp: clean_close_all split: if_splits bool.splits)
    qed
    ultimately show ?thesis using r wf by blast
  qed
qed

lemma communicate_bounded:
  "communicate g d i ts c = Some c' \<Longrightarrow> comm_wf i c \<Longrightarrow>
     length (standard_output c') \<le> maximum_captured_output"
proof (induction ts arbitrary: c)
  case Nil
  then show ?case
    by (subst (asm) communicate.simps) (auto simp: comm_wf_def close_all_def split: if_splits)
next
  case (Cons t ts)
  obtain c1 b where p: "communicate_pass g d i t c = (c1, b)" by (cases "communicate_pass g d i t c")
  have d: "comm_wf i (check_deadline g d t c)" by (rule wf_deadline[OF Cons.prems(2)])
  have "b \<Longrightarrow> length (standard_output c1) \<le> maximum_captured_output"
    using p d by (auto simp: communicate_pass_def poll_pass_def comm_defs close_all_def comm_wf_def
        Let_def split: if_splits poll_outcome.splits)
  then show ?case
    using Cons.prems Cons.IH[of c1] wf_pass[of i c g d t c1] p
    by (subst (asm) communicate.simps)
      (auto simp: close_all_def comm_wf_def split: if_splits bool.splits)
qed

lemma process_run_bounded:
  "fst (run_state (process_run L K args input) w) = Some r \<Longrightarrow>
     length (stdout_text r) \<le> maximum_captured_output"
  using communicate_bounded[OF _ wf_start]
  by (auto simp: process_run_def failed_command_def conclude_def fail_output_def split_def Let_def
      split: if_splits option.splits wait_result.splits)

section \<open>The commands that are started\<close>

text \<open>
  A kernel that records the commands handed to \<open>fork\<close>, on top of any other; the storage of
  the mode works on the same world and starts nothing.
\<close>

record 'w recorded =
  issued :: "string list list"
  outside :: 'w

definition start_world :: "'w \<Rightarrow> 'w recorded" where
  "start_world w = \<lparr>issued = [], outside = w\<rparr>"

definition lift_state :: "('w, 'a) state \<Rightarrow> ('w recorded, 'a) state" where
  "lift_state m = State (\<lambda>s. map_prod (\<lambda>x. x) (\<lambda>w. s\<lparr>outside := w\<rparr>) (run_state m (outside s)))"

definition record_command :: "string list \<Rightarrow> ('w recorded, unit) state" where
  "record_command args = State (\<lambda>s. ((), s\<lparr>issued := issued s @ [args]\<rparr>))"

definition recording :: "'w process_kernel \<Rightarrow> 'w recorded process_kernel" where
  "recording K =
     \<lparr>make_pipes = lift_state (make_pipes K),
      fork_exec = (\<lambda>env args. do { _ \<leftarrow> record_command args; lift_state (fork_exec K env args) }),
      steady_now = lift_state (steady_now K),
      make_nonblocking = lift_state (make_nonblocking K),
      conversation = (\<lambda>input. lift_state (conversation K input)),
      reap = lift_state (reap K)\<rparr>"

definition recorded_storage :: "'w mode_storage \<Rightarrow> 'w recorded mode_storage" where
  "recorded_storage S =
     \<lparr>secure_path = (\<lambda>create. lift_state (secure_path S create)),
      path_exists = (\<lambda>p. lift_state (path_exists S p)),
      read_private = (\<lambda>p. lift_state (read_private S p)),
      write_private = (\<lambda>p v. lift_state (write_private S p v))\<rparr>"

definition only_issued :: "(string list \<Rightarrow> bool) \<Rightarrow> 'w recorded \<Rightarrow> bool" where
  "only_issued allowed s \<longleftrightarrow> list_all allowed (issued s)"

lemma only_issued_start [simp]: "only_issued allowed (start_world w)"
  by (simp add: only_issued_def start_world_def)

lemma lift_keeps [keeps_intro]: "keeps (only_issued allowed) (lift_state m)"
  by (simp add: keeps_def lift_state_def only_issued_def split_def)

lemma record_keeps: "allowed args \<Longrightarrow> keeps (only_issued allowed) (record_command args)"
  by (simp add: keeps_def record_command_def only_issued_def)

lemma process_run_keeps:
  "allowed args \<Longrightarrow> keeps (only_issued allowed) (process_run L (recording K) args input)"
  unfolding process_run_def recording_def process_kernel.simps
  by (intro keeps_intro keeps_option record_keeps)

lemma process_runner_keeps:
  "allowed args \<Longrightarrow> keeps (only_issued allowed) (run (process_runner L (recording K)) args)"
  "allowed args \<Longrightarrow>
     keeps (only_issued allowed) (run_with_input (process_runner L (recording K)) args input)"
  by (simp_all add: process_runner_def Let_def process_run_keeps keeps_bind keeps_return)

lemma recorded_mode_load: "keeps (only_issued allowed) (mode_load (recorded_storage S))"
  unfolding mode_load_def recorded_storage_def mode_storage.simps
  by (intro keeps_intro) (auto intro!: keeps_intro split: prod.splits sum.splits bool.splits)

interpretation any_runner: command_host "process_runner L (recording K)" "only_issued allowed" allowed
  for L K allowed
  by unfold_locales (rule process_runner_keeps; assumption)+

interpretation landing_runner: posture_host "process_runner L (recording K)"
  "only_issued landing_query" landing_query "recorded_storage S" for L K S
  by unfold_locales (simp_all add: recorded_mode_load)

interpretation local_runner: complete_posture_host "process_runner L (recording K)"
  "only_issued local_query" local_query "recorded_storage S" for L K S
  by unfold_locales (simp_all add: local_query_def recorded_mode_load)

definition host_command :: "string list \<Rightarrow> bool" where
  "host_command args \<longleftrightarrow> local_query args \<or> probe_command args"

interpretation probing_runner: probing_host "process_runner L (recording K)"
  "only_issued host_command" host_command for L K
  by unfold_locales (simp_all add: host_command_def local_query_def)

section \<open>Properties\<close>

text \<open>The program is read-only.  Whatever the kernel answers, the collection for the landing page
  starts no command outside the fixed list of landing queries, and a complete collection
  none outside the landing queries and the four queries of the complete list: no command that
  changes the firewall is started, and the landing page reads no permanent configuration.\<close>

theorem collection_starts_only_queries:
  "list_all landing_query (issued (snd (run_state
      (posture_inspect (process_runner L (recording K)) (recorded_storage S) Landing) (start_world w))))
   \<and> list_all local_query (issued (snd (run_state
      (posture_inspect (process_runner L (recording K)) (recorded_storage S) depth) (start_world w))))"
  by (intro conjI keepsD[OF landing_runner.posture_landing_keeps, unfolded only_issued_def]
      keepsD[OF local_runner.posture_inspect_keeps, unfolded only_issued_def])
    (simp_all add: start_world_def)


definition idle_tick :: "nat \<Rightarrow> tick" where
  "idle_tick n = \<lparr>tick_now = int n, tick_kill = int n, tick_poll = PollInterrupted\<rparr>"


text \<open>C13: A command reported as successful is complete: its child exited with status zero, it was
  neither killed nor cut off, the whole standard input was accepted, and the captured output
  is everything that was delivered before the end of the file.\<close>

theorem successful_command_is_complete:
  "\<lbrakk> communicate grace deadline input ts (communicate_start grace kill_now input nonblocking) = Some c;
     success (conclude limit waited c) \<rbrakk> \<Longrightarrow>
   waited = Exited 0 \<and> \<not> timed_out c \<and> \<not> truncated c \<and> length input \<le> input_offset c \<and>
   stdout_text (conclude limit waited c) = delivered ts"
proof -
  assume r: "communicate grace deadline input ts (communicate_start grace kill_now input nonblocking) = Some c"
    and s: "success (conclude limit waited c)"
  have w: "waited = Exited 0" and c: "clean c"
    using s by (auto simp: success_def conclude_def Let_def clean_def communication_failed_def
        split: wait_result.splits if_splits)
  have "pending (communicate_start grace kill_now input nonblocking) ts = delivered ts"
    "standard_output (communicate_start grace kill_now input nonblocking) = []"
    by (auto simp: pending_def communicate_start_def fresh_comm_def comm_defs Let_def
        split: option.split)
  then show ?thesis
    using communicate_complete[OF r wf_start c] w c
    by (simp add: conclude_def Let_def clean_def communication_failed_def)
qed

definition data_tick :: "string \<Rightarrow> tick" where
  "data_tick s = \<lparr>tick_now = 0, tick_kill = 0, tick_poll =
     (let e = \<lparr>ev_nval = False, ev_err = False, ev_hup = False, ev_in = True, ev_out = True\<rparr>
      in PollReady (e, if s = [] then ReadEof else ReadData s) (e, ReadEof) (e, Wrote 2))\<rparr>"

definition example_conversation :: "comm option" where
  "example_conversation = communicate 1 5 ''in'' [data_tick ''out'', data_tick []]
     (communicate_start 1 0 ''in'' None)"

lemmas evaluate_conversation = example_conversation_def communicate.simps communicate_pass_def
  check_deadline_def poll_pass_def output_pass_def input_pass_def no_events_def data_tick_def
  communicate_start_def fresh_comm_def comm_defs Let_def maximum_captured_output_def

lemma example_conversation_ends:
  "example_conversation = Some (the example_conversation)"
  by (simp add: evaluate_conversation)

lemma example_conversation_succeeds:
  "success (conclude 100 (Exited 0) (the example_conversation))"
  by (simp add: evaluate_conversation success_def conclude_def communication_failed_def close_all_def)

lemma successful_command_witness:
  "stdout_text (conclude 100 (Exited 0) (the example_conversation)) =
     delivered [data_tick ''out'', data_tick []]"
  using successful_command_is_complete
    [OF example_conversation_ends[unfolded example_conversation_def]
      example_conversation_succeeds[unfolded example_conversation_def]]
  by (simp only: example_conversation_def)

text \<open>The captured standard output of a command never exceeds one mebibyte.\<close>

theorem captured_output_bounded:
  "length (stdout_text (fst (run_state (run_with_input (process_runner L K) args input) w)))
     \<le> 1048576"
proof -
  let ?r = "fst (run_state (process_run L K args input) w)"
  have "stdout_text (fst (run_state (run_with_input (process_runner L K) args input) w)) =
      (case ?r of None \<Rightarrow> [] | Some r \<Rightarrow> stdout_text r)"
    by (simp add: process_runner_def Let_def split_def failed_command_def split: option.split)
  then show ?thesis
    using process_run_bounded[of L K args input w]
    by (simp add: maximum_captured_output_def split: option.split)
qed

end
