(* ===== verification/Program.thy ===== *)
theory Program
  imports ApplicationSpec DashboardViews ProcessRunner Credentials
begin

text \<open>
  \<open>src/main.cpp\<close>: the objects of the program and how they are connected.  A machine is the world of the
  processes with the commands that were started, the disk, what was written to the two streams, and the
  settings of the terminal.  A platform is what the program is built on: the kernel, the clocks, the
  environment and the files of the system that it reads.
\<close>

section \<open>The machine\<close>

record 'w machine =
  host :: "'w recorded"
  files :: disk
  screen :: string
  errors_shown :: string
  settings :: termios

record 'w platform =
  pf_kernel :: "'w process_kernel"
  pf_limits :: limits
  pf_wall_clock :: "('w, int) state"
  pf_steady_clock :: "('w, int) state"
  pf_gethostname :: "('w, string option) state"
  pf_version :: string
  pf_environment :: environment
  pf_process :: nat
  pf_key_variable :: "string option"
  pf_ipv6 :: ipv6_parser
  pf_rounding :: "rat \<Rightarrow> rat"
  pf_surroundings :: surroundings
  pf_ui :: terminal_ui
  pf_stdin_terminal :: "('w, bool) state"
  pf_get_settings :: "('w, bool) state"
  pf_set_settings :: "('w, bool) state"
  pf_key_line :: "('w, string option) state"

definition on_host :: "('w recorded, 'a) state \<Rightarrow> ('w machine, 'a) state" where
  "on_host m = State (\<lambda>s. map_prod (\<lambda>x. x) (\<lambda>w. s\<lparr>host := w\<rparr>) (run_state m (host s)))"

definition ask :: "('w, 'a) state \<Rightarrow> ('w machine, 'a) state" where
  "ask m = on_host (lift_state m)"

definition on_files :: "(disk, 'a) state \<Rightarrow> ('w machine, 'a) state" where
  "on_files m = State (\<lambda>s. map_prod (\<lambda>x. x) (\<lambda>d. s\<lparr>files := d\<rparr>) (run_state m (files s)))"

definition print :: "display \<Rightarrow> string \<Rightarrow> ('w machine, unit) state" where
  "print d txt = State (\<lambda>s. ((), case d of
     PrintError _ \<Rightarrow> s\<lparr>errors_shown := errors_shown s @ txt\<rparr> | _ \<Rightarrow> s\<lparr>screen := screen s @ txt\<rparr>))"

section \<open>The objects\<close>

definition program_runner :: "'w platform \<Rightarrow> 'w machine runner" where
  "program_runner P =
     (let R = process_runner (pf_limits P) (recording (pf_kernel P))
      in \<lparr>run = (\<lambda>args. on_host (run R args)),
          run_with_input = (\<lambda>args input. on_host (run_with_input R args input))\<rparr>)"

definition program_storage :: "'w platform \<Rightarrow> 'w machine mode_storage" where
  "program_storage P =
     (let S = disk_mode_storage (pf_environment P)
      in \<lparr>secure_path = (\<lambda>create. on_files (secure_path S create)),
          path_exists = (\<lambda>p. on_files (path_exists S p)),
          read_private = (\<lambda>p. on_files (read_private S p)),
          write_private = (\<lambda>p v. on_files (write_private S p v))\<rparr>)"

definition collect_metadata :: "'w platform \<Rightarrow> bool \<Rightarrow> ('w machine, network_metadata) state" where
  "collect_metadata P enrich =
     metadata_inspect (pf_ipv6 P) (program_runner P) (ask (pf_wall_clock P))
       (on_files (credentials_load (pf_key_variable P) (pf_environment P))) enrich"

definition take_snapshot :: "'w platform \<Rightarrow> firewall_state \<Rightarrow> 64 word \<Rightarrow> ('w machine, dashboard_snapshot) state" where
  "take_snapshot P st sid = do {
     wall \<leftarrow> ask (pf_wall_clock P);
     monotonic \<leftarrow> ask (pf_steady_clock P);
     answer \<leftarrow> ask (pf_gethostname P);
     State_Monad.return (make_dashboard_snapshot (local_hostname answer) (pf_version P) st sid wall monotonic)
   }"

definition write_record :: "'w platform \<Rightarrow> log_event \<Rightarrow> ('w machine, bool) state" where
  "write_record P ev = do {
     now \<leftarrow> ask (pf_wall_clock P);
     later \<leftarrow> ask (pf_wall_clock P);
     error \<leftarrow> on_files (log_record (pf_environment P) (pf_process P) now later ev);
     State_Monad.return (error = None)
   }"

definition show_on_screen :: "'w platform \<Rightarrow> display \<Rightarrow> ('w machine, unit) state" where
  "show_on_screen P d = do {
     now \<leftarrow> ask (pf_steady_clock P);
     print d (render_view (pf_ui P) (pf_surroundings P) now d)
   }"

definition program_services :: "'w platform \<Rightarrow> 'w machine services" where
  "program_services P =
     \<lparr>svc_posture = posture_inspect (program_runner P) (program_storage P),
      svc_snapshot = take_snapshot P,
      svc_capture = (\<lambda>enrich vpn_active. evidence_capture (collect_metadata P enrich)
        (\<lambda>m. on_files (history_append (pf_environment P) (pf_process P) m vpn_active))),
      svc_history = evidence_read_history (on_files (history_read_recent (pf_environment P))),
      svc_diagnostics = diagnostics_inspect (pf_ipv6 P) (pf_rounding P) (program_runner P),
      svc_advisories = advisories_inspect (program_runner P),
      svc_logs = on_files (log_analyzer_inspect (pf_environment P)),
      svc_record = write_record P,
      svc_display = show_on_screen P\<rparr>"

definition set_terminal :: "'w platform \<Rightarrow> termios \<Rightarrow> ('w machine, bool) state" where
  "set_terminal P t = do {
     granted \<leftarrow> ask (pf_set_settings P);
     State (\<lambda>s. (granted, if granted then s\<lparr>settings := t\<rparr> else s))
   }"

definition get_terminal :: "'w platform \<Rightarrow> ('w machine, termios option) state" where
  "get_terminal P = do {
     granted \<leftarrow> ask (pf_get_settings P);
     State (\<lambda>s. (if granted then Some (settings s) else None, s))
   }"

definition program_tools :: "'w platform \<Rightarrow> 'w machine tools" where
  "program_tools P =
     \<lparr>tool_vpn = vpn_inspect (program_runner P),
      tool_sockets = sockets_inspect (program_runner P),
      tool_save_key = (\<lambda>k. on_files (credentials_save (pf_environment P) k)),
      tool_load_mode = mode_load (program_storage P),
      tool_save_mode = mode_save (program_storage P),
      tool_is_terminal = ask (pf_stdin_terminal P),
      tool_get_settings = get_terminal P,
      tool_set_settings = set_terminal P,
      tool_read_line = ask (pf_key_line P),
      tool_clock = ask (pf_steady_clock P)\<rparr>"

definition program_run ::
  "'w platform \<Rightarrow> string list \<Rightarrow> string list \<Rightarrow> 'w machine \<Rightarrow> int \<times> 'w machine observed console" where
  "program_run P args lines s = run_console (program_services P) (program_tools P) args lines s"

section \<open>The commands of a run\<close>

definition commands_in :: "(string list \<Rightarrow> bool) \<Rightarrow> 'w machine \<Rightarrow> bool" where
  "commands_in allowed s \<longleftrightarrow> only_issued allowed (host s)"

lemma on_host_keeps: "keeps (only_issued allowed) m \<Longrightarrow> keeps (commands_in allowed) (on_host m)"
  by (simp add: keeps_def on_host_def commands_in_def split_def)

lemma ask_keeps: "keeps (commands_in allowed) (ask m)"
  unfolding ask_def by (intro on_host_keeps lift_keeps)

lemma on_files_keeps: "keeps (commands_in allowed) (on_files m)"
  by (simp add: keeps_def on_files_def commands_in_def split_def)

lemma print_keeps: "keeps (commands_in allowed) (print d txt)"
  by (simp add: keeps_def print_def commands_in_def split: display.split)

lemma settings_keep:
  "keeps (commands_in allowed) (set_terminal P t)" "keeps (commands_in allowed) (get_terminal P)"
  unfolding set_terminal_def get_terminal_def
  by (intro keeps_intro ask_keeps; simp add: keeps_def commands_in_def)+

lemma program_runner_keeps:
  "allowed args \<Longrightarrow> keeps (commands_in allowed) (run (program_runner P) args)"
  "allowed args \<Longrightarrow> keeps (commands_in allowed) (run_with_input (program_runner P) args input)"
  by (simp_all add: program_runner_def Let_def on_host_keeps process_runner_keeps)

lemma keeps_bool: "keeps I m \<Longrightarrow> keeps I n \<Longrightarrow> keeps I (case b of True \<Rightarrow> m | False \<Rightarrow> n)"
  by (cases b) simp_all

lemma program_mode_keeps:
  "keeps (commands_in allowed) (mode_load (program_storage P))"
  "keeps (commands_in allowed) (mode_save (program_storage P) m)"
  unfolding mode_load_def mode_save_def program_storage_def Let_def mode_storage.simps
  by (intro keeps_intro keeps_pair keeps_sum keeps_bool on_files_keeps)+

interpretation program_host: complete_posture_host "program_runner P" "commands_in local_query" local_query
  "program_storage P" for P
  by unfold_locales (simp_all add: program_runner_keeps program_mode_keeps local_query_def)

interpretation full_host: complete_posture_host "program_runner P" "commands_in host_command" host_command
  "program_storage P" for P
  by unfold_locales (simp_all add: program_runner_keeps program_mode_keeps local_query_def host_command_def)

interpretation probing_program: probing_host "program_runner P" "commands_in host_command" host_command for P
  by unfold_locales (simp_all add: host_command_def local_query_def)

lemma local_services_keep:
  "keeps (commands_in allowed) (take_snapshot P st sid)" "keeps (commands_in allowed) (write_record P ev)"
  "keeps (commands_in allowed) (show_on_screen P d)"
  "keeps (commands_in allowed) (evidence_read_history (on_files m))"
  unfolding take_snapshot_def write_record_def show_on_screen_def evidence_read_history_def
  by (intro keeps_intro ask_keeps on_files_keeps print_keeps)+

lemma capture_service_keeps:
  "keeps (commands_in host_command) (evidence_capture (collect_metadata P e) (\<lambda>m. on_files (f m)))"
  unfolding evidence_capture_def collect_metadata_def
  by (intro keeps_intro keeps_pair on_files_keeps probing_program.metadata_inspect_keeps ask_keeps)

lemmas service_keeps = local_services_keep capture_service_keeps on_files_keeps ask_keeps settings_keep
  program_mode_keeps program_host.posture_inspect_keeps full_host.posture_inspect_keeps
  full_host.vpn_inspect_keeps full_host.sockets_inspect_keeps program_host.vpn_inspect_keeps
  program_host.sockets_inspect_keeps probing_program.diagnostics_inspect_keeps
  probing_program.advisories_inspect_keeps

interpretation program: service_host "program_services P" "commands_in host_command" "program_tools P" for P
  by unfold_locales (simp_all add: program_services_def program_tools_def service_keeps)

text \<open>A run that was observed: as long as nothing external was requested, only local queries were
  started.\<close>

definition guarded :: "'w machine observed \<Rightarrow> bool" where
  "guarded s \<longleftrightarrow> commands_in host_command (observed s) \<and>
     (external_events s = [] \<longrightarrow> commands_in local_query (observed s))"

lemma guarded_local:
  "keeps (commands_in host_command) m \<Longrightarrow> keeps (commands_in local_query) m \<Longrightarrow> keeps guarded (observe es m)"
  by (auto simp: keeps_def guarded_def observe_def external_events_def split_def)

lemma guarded_external:
  "keeps (commands_in host_command) m \<Longrightarrow> filter external es \<noteq> [] \<Longrightarrow> keeps guarded (observe es m)"
  by (auto simp: keeps_def guarded_def observe_def external_events_def split_def)

interpretation observed_program: service_host "observing (program_services P)" guarded
  "observing_tools (program_tools P)" for P
  by unfold_locales
    (simp_all add: observing_def observing_tools_def program_services_def program_tools_def
      guarded_local guarded_external service_keeps)

lemma program_run_guarded:
  "commands_in local_query s \<Longrightarrow> guarded (world (snd (program_run P args lines s)))"
proof -
  assume start: "commands_in local_query s"
  then have "commands_in host_command s"
    by (auto simp: commands_in_def only_issued_def list_all_iff host_command_def)
  with start have "guarded (fresh s)" by (simp add: guarded_def fresh_def)
  then show ?thesis
    unfolding program_run_def run_console_def by (rule observed_program.run_keeps_invariant)
qed

lemma settings_simps:
  "settings (snd (run_state (ask m) s)) = settings s"
  "settings (snd (run_state (on_files k) s)) = settings s"
  "settings (snd (run_state (show_on_screen P d) s)) = settings s"
  "settings (snd (run_state (set_terminal P t) s)) = (if fst (run_state (set_terminal P t) s) then t else settings s)"
  "run_state (get_terminal P) s = (if fst (run_state (ask (pf_get_settings P)) s) then Some (settings s) else None,
     snd (run_state (ask (pf_get_settings P)) s))"
  by (simp_all add: ask_def on_host_def on_files_def show_on_screen_def print_def set_terminal_def
      get_terminal_def split_def split: display.split)

section \<open>Properties\<close>

text \<open>C1: The program is read-only from its arguments to its exit, whatever the kernel, the disk and the
  operator do: every command that a run starts is in the fixed list of queries and probes, and a run in
  which nothing external is requested starts local queries only.\<close>

theorem every_run_is_read_only:
  "(let commands = issued (host (observed (world (snd (program_run P args lines (s\<lparr>host := start_world w\<rparr>))))))
    in if command_requests (parse_command_line args) lines = []
       then list_all local_query commands else list_all host_command commands)"
proof -
  have "commands_in local_query (s\<lparr>host := start_world w\<rparr>)" by (simp add: commands_in_def)
  from program_run_guarded[OF this, of P args lines] show ?thesis
    using external_traffic[of "program_services P" "program_tools P" args lines "s\<lparr>host := start_world w\<rparr>"]
    by (simp add: guarded_def commands_in_def only_issued_def program_run_def Let_def del: command_requests.simps)
qed

text \<open>C36: The echo of the terminal is never left off: after the prompt for the key the settings are what
  they were, unless the kernel refused to restore them, which is reported.\<close>

theorem terminal_settings_restored:
  "settings (snd (run_state (prompt_for_ipify_key (program_services P) (program_tools P)) s)) = settings s \<or>
   fst (run_state (prompt_for_ipify_key (program_services P) (program_tools P)) s) =
     Inl ''could not restore terminal input''"
  by (simp add: prompt_for_ipify_key_def prompt_hidden_def emit_def program_services_def program_tools_def
      settings_simps split_def Let_def)

end
