(* ===== verification/Verdict.thy ===== *)
theory Verdict
  imports Program
begin

text \<open>
  One command from the arguments to the exit code, on the machine of \<open>src/main.cpp\<close>: \<open>ffc --readiness\<close>
  and the two snapshot commands.  The collection and the audit trail leave the screen alone, so the
  report is all that a run prints, and the records that follow the command keep its exit code.
\<close>

section \<open>What prints on the screen\<close>

definition shown_so_far :: "string \<Rightarrow> 'w machine \<Rightarrow> bool" where
  "shown_so_far shown s \<longleftrightarrow> screen s = shown"

lemma shown_kept:
  "keeps (shown_so_far shown) (on_host k)" "keeps (shown_so_far shown) (ask a)"
  "keeps (shown_so_far shown) (on_files f)" "keeps (shown_so_far shown) (print (PrintError e) t)"
  by (simp_all add: keeps_def shown_so_far_def ask_def on_host_def on_files_def print_def split_def)

lemma shown_parts:
  "keeps (shown_so_far shown) (run (program_runner P) args)"
  "keeps (shown_so_far shown) (run_with_input (program_runner P) args input)"
  "keeps (shown_so_far shown) (mode_load (program_storage P))"
  unfolding program_runner_def mode_load_def program_storage_def Let_def mode_storage.simps runner.simps
  by (intro keeps_intro keeps_pair keeps_sum keeps_bool shown_kept)+

interpretation unshown: complete_posture_host "program_runner P" "shown_so_far shown" "\<lambda>_. True"
  "program_storage P" for P shown
  by unfold_locales (simp_all add: shown_parts)

lemma write_record_shown: "keeps (shown_so_far shown) (write_record P ev)"
  unfolding write_record_def by (intro keeps_intro shown_kept)

lemma error_shown: "keeps (shown_so_far shown) (show_on_screen P (PrintError e))"
  unfolding show_on_screen_def by (intro keeps_intro shown_kept)

definition observed_shown :: "string \<Rightarrow> 'w machine observed console \<Rightarrow> bool" where
  "observed_shown shown s \<longleftrightarrow> shown_so_far shown (observed (world s))"

lemma in_world_shown: "keeps (shown_so_far shown) m \<Longrightarrow> keeps (observed_shown shown) (in_world (observe es m))"
  by (simp add: keeps_def observed_shown_def in_world_def observe_def split_def)

lemma reported_shown: "keeps (observed_shown shown) (State (\<lambda>s. (failure_reported s, s\<lparr>failure_reported := True\<rparr>)))"
  by (simp add: keeps_def observed_shown_def)

lemma record_event_shown:
  "keeps (observed_shown shown) (console_record_event (observing (program_services P)) ev)"
  unfolding console_record_event_def console_report_once_def observing_def program_services_def services.simps
  by (intro keeps_intro in_world_shown reported_shown write_record_shown error_shown)

text \<open>The records before and after the command.\<close>

definition opening_records :: "'s services \<Rightarrow> command_action \<Rightarrow> ('s console, unit) state" where
  "opening_records S a =
     do { _ \<leftarrow> console_record_event S (start_event a); console_record_event S (requested_event a) }"

definition closing_records :: "'s services \<Rightarrow> command_action \<Rightarrow> int \<Rightarrow> ('s console, unit) state" where
  "closing_records S a r = do {
     _ \<leftarrow> console_record_event S (exit_event a r);
     if r \<noteq> 0
     then do {
       _ \<leftarrow> console_record_event S (failed_event a (action_channel a) WarningLevel r);
       console_record_event S (failed_event a ErrorChannel ErrorLevel r)
     }
     else State_Monad.return ()
   }"

lemma console_run_parts:
  "console_run S T args lines =
     do {
       _ \<leftarrow> opening_records S (cl_action (parse_command_line args));
       r \<leftarrow> in_world (dispatch S T (parse_command_line args) lines);
       _ \<leftarrow> closing_records S (cl_action (parse_command_line args)) r;
       State_Monad.return r
     }"
  by (simp add: console_run_def opening_records_def closing_records_def Let_def)

lemma records_shown:
  "keeps (observed_shown shown) (opening_records (observing (program_services P)) a)"
  "keeps (observed_shown shown) (closing_records (observing (program_services P)) a r)"
  unfolding opening_records_def closing_records_def
  by (intro keeps_intro record_event_shown)+

abbreviation opened :: "'w platform \<Rightarrow> command_action \<Rightarrow> 'w machine \<Rightarrow> 'w machine observed console" where
  "opened P a s \<equiv> snd (run_state (opening_records (observing (program_services P)) a) (start_console (fresh s)))"

definition when_opened :: "'w platform \<Rightarrow> command_action \<Rightarrow> 'w machine \<Rightarrow> 'w machine" where
  "when_opened P a s = observed (world (opened P a s))"

lemma when_opened_screen: "screen (when_opened P a s) = screen s"
proof -
  have "observed_shown (screen s) (start_console (fresh s))"
    by (simp add: observed_shown_def shown_so_far_def start_console_def fresh_def)
  from keepsD[OF records_shown(1) this] show ?thesis
    by (simp add: when_opened_def observed_shown_def shown_so_far_def)
qed

text \<open>The posture is collected without printing.\<close>

definition opening_posture :: "'w platform \<Rightarrow> command_action \<Rightarrow> 'w machine \<Rightarrow> firewall_state \<times> 'w machine" where
  "opening_posture P a s =
     run_state (posture_inspect (program_runner P) (program_storage P) Complete) (when_opened P a s)"

lemma opening_posture_screen: "screen (snd (opening_posture P a s)) = screen s"
proof -
  have "shown_so_far (screen s) (when_opened P a s)" by (simp add: shown_so_far_def when_opened_screen)
  from keepsD[OF unshown.posture_inspect_keeps this] show ?thesis
    by (simp add: opening_posture_def shown_so_far_def)
qed

text \<open>A run ends with the exit code and the screen of its command: the records that follow change neither.\<close>

abbreviation command_run :: "'w platform \<Rightarrow> string list \<Rightarrow> string list \<Rightarrow> 'w machine \<Rightarrow> int \<times> 'w machine observed" where
  "command_run P args lines s \<equiv>
     run_state (dispatch (observing (program_services P)) (observing_tools (program_tools P))
         (parse_command_line args) lines)
       (world (opened P (cl_action (parse_command_line args)) s))"

lemma program_run_parts:
  "fst (program_run P args lines s) = fst (command_run P args lines s)"
  "screen (observed (world (snd (program_run P args lines s)))) = screen (observed (snd (command_run P args lines s)))"
proof -
  let ?a = "cl_action (parse_command_line args)"
  obtain r w where command: "command_run P args lines s = (r, w)" by fastforce
  have "observed_shown (screen (observed w)) ((opened P ?a s)\<lparr>world := w\<rparr>)"
    by (simp add: observed_shown_def shown_so_far_def)
  from keepsD[OF records_shown(2) this]
  show "fst (program_run P args lines s) = fst (command_run P args lines s)"
    "screen (observed (world (snd (program_run P args lines s)))) = screen (observed (snd (command_run P args lines s)))"
    by (simp_all add: program_run_def run_console_def console_run_parts in_world_def split_def command
          observed_shown_def shown_so_far_def del: parse_command_line.simps)
qed

section \<open>The commands\<close>

lemma posture_commands_parsed:
  "parse_command_line [''--readiness''] = make_command ReadinessAction"
  "parse_command_line [''--snapshot-json''] = make_command SnapshotJson"
  "parse_command_line [''--snapshot-json-v2''] = make_command SnapshotJsonV2"
  by (simp_all add: parse_option_def)

lemma printed:
  "screen (snd (run_state (show_on_screen P (ShowReadiness st)) s)) = screen s @ show_readiness (pf_ui P) st"
  "screen (snd (run_state (show_on_screen P (PrintOut out)) s)) = screen s @ out"
  "screen (snd (run_state (take_snapshot P st i) s)) = screen s"
  "screen (snd (run_state (ask m) s)) = screen s"
  by (simp_all add: show_on_screen_def take_snapshot_def print_def ask_def on_host_def split_def)

lemmas command_simps = program_run_parts dispatch_def execute_def execute_posture_def print_snapshot_def
  emit_def observing_def observing_tools_def observe_def program_services_def program_tools_def make_command_def
  posture_commands_parsed printed

lemma readiness_run:
  "fst (program_run P [''--readiness''] lines s) = readiness_exit_code (fst (opening_posture P ReadinessAction s))"
  "screen (observed (world (snd (program_run P [''--readiness''] lines s)))) =
     screen s @ show_readiness (pf_ui P) (fst (opening_posture P ReadinessAction s))"
  using opening_posture_screen[of P ReadinessAction s]
  by (simp_all add: command_simps split_def opening_posture_def when_opened_def del: parse_command_line.simps)

text \<open>The snapshot of a run, with the time that its age is counted to.\<close>

definition printed_snapshot :: "'w platform \<Rightarrow> command_action \<Rightarrow> 'w machine \<Rightarrow> dashboard_snapshot \<times> int" where
  "printed_snapshot P a s =
     (let (st, m) = opening_posture P a s; (snapshot, m') = run_state (take_snapshot P st 0) m
      in (snapshot, fst (run_state (ask (pf_steady_clock P)) m')))"

lemma snapshot_run:
  "fst (program_run P [''--snapshot-json''] lines s) = 0"
  "fst (program_run P [''--snapshot-json-v2''] lines s) = 0"
  "screen (observed (world (snd (program_run P [''--snapshot-json''] lines s)))) =
     screen s @ case_prod serialize_dashboard_snapshot_json (printed_snapshot P SnapshotJson s)"
  "screen (observed (world (snd (program_run P [''--snapshot-json-v2''] lines s)))) =
     screen s @ case_prod serialize_dashboard_snapshot_json_v2 (printed_snapshot P SnapshotJsonV2 s)"
  using opening_posture_screen[of P SnapshotJson s] opening_posture_screen[of P SnapshotJsonV2 s]
  by (simp_all add: command_simps split_def opening_posture_def when_opened_def printed_snapshot_def
        Let_def del: parse_command_line.simps)

lemma exit_code_verdict:
  "readiness_exit_code st = (if defensible st then 0 else if blocked st then 2 else 1)"
  using exit_code_range[of st] exit_code_zero_iff[of st] exit_code_two_iff[of st]
  by (auto simp: defensible_iff blocked_iff)

section \<open>Properties\<close>



end
