(* ===== verification/StoragePrivacy.thy ===== *)
theory StoragePrivacy
  imports NetworkHistory
begin

text \<open>
  What the local stores may do to the disk: they write below the two directories of ffc only, and
  every file they write is a private one.  The invariant is kept by each operation of
  \<open>src/core/secure_storage.cpp\<close> on a path that \<open>secure_local_path\<close> gave, and so by the stores.
\<close>

section \<open>The invariant\<close>

definition own_directory :: "environment \<Rightarrow> string \<Rightarrow> bool" where
  "own_directory env p \<longleftrightarrow> (\<exists>area. storage_directory env area = Some p)"

definition own_file :: "environment \<Rightarrow> string \<Rightarrow> bool" where
  "own_file env p \<longleftrightarrow>
     (\<exists>dir f. own_directory env dir \<and> f \<noteq> [] \<and> CHR ''/'' \<notin> set f \<and> p = dir @ ''/'' @ f)"

definition own_path :: "environment \<Rightarrow> string \<Rightarrow> bool" where
  "own_path env p \<longleftrightarrow> own_directory env p \<or> own_file env p"

definition above_own :: "environment \<Rightarrow> string \<Rightarrow> bool" where
  "above_own env p \<longleftrightarrow> (\<exists>dir. own_directory env dir \<and> p \<in> set (path_steps dir))"

definition private_node :: "node \<Rightarrow> bool" where
  "private_node x \<longleftrightarrow> node_owned x \<and>
     (node_kind x = DirectoryNode \<or> private_file x \<and> node_mode x = owner_read_write)"

definition confined :: "environment \<Rightarrow> tree \<Rightarrow> tree \<Rightarrow> bool" where
  "confined env n0 n \<longleftrightarrow>
     (\<forall>p. n p = n0 p \<or>
          own_path env p \<and> (\<forall>x. n p = Some x \<longrightarrow> private_node x) \<or>
          above_own env p \<and> n0 p = None \<and> n p = Some new_directory)"

definition discreet :: "environment \<Rightarrow> tree \<Rightarrow> disk \<Rightarrow> bool" where
  "discreet env n0 d \<longleftrightarrow> steady (confined env n0) d"

lemma discreet_fresh: "discreet env n (fresh_disk n as)"
  by (simp add: discreet_def steady_def fresh_disk_def confined_def)

lemma discreet_answers [simp]: "discreet env n0 (d\<lparr>answers := as\<rparr>) = discreet env n0 d"
  by (simp add: discreet_def)

lemma discreet_change: "discreet env n0 d \<Longrightarrow> confined env n0 n \<Longrightarrow> discreet env n0 (change n d)"
  by (simp add: discreet_def steady_def)

lemma discreet_tree: "discreet env n0 d \<Longrightarrow> confined env n0 (nodes d)"
  by (simp add: discreet_def steady_def)

lemma confined_set:
  "\<lbrakk> confined env n0 n; own_path env p; \<And>x. h = Some x \<Longrightarrow> private_node x \<rbrakk> \<Longrightarrow> confined env n0 (n(p := h))"
  by (simp add: confined_def)

lemma private_node_simps [simp]:
  "private_node new_file" "private_node new_directory"
  "private_file x \<Longrightarrow> private_node (x\<lparr>node_mode := owner_read_write\<rparr>)"
  "private_file (x\<lparr>node_mode := m\<rparr>) = private_file x"
  "private_file (x\<lparr>node_contents := c\<rparr>) = private_file x"
  by (auto simp: private_node_def private_file_def new_file_def new_directory_def)

lemma confined_directories:
  assumes "confined env n0 n" "own_directory env dir" "create_directories dir n = Inr n'"
  shows "confined env n0 n'"
  unfolding confined_def
proof (intro allI)
  fix q
  have q: "n' q = n q \<or> (q \<in> set (path_steps dir) \<and> n q = None \<and> n' q = Some new_directory)"
    using created_directories(2)[OF assms(3)] by blast
  have n: "n q = n0 q \<or> own_path env q \<and> (\<forall>x. n q = Some x \<longrightarrow> private_node x) \<or>
      above_own env q \<and> n0 q = None \<and> n q = Some new_directory"
    using assms(1) unfolding confined_def by blast
  show "n' q = n0 q \<or> own_path env q \<and> (\<forall>x. n' q = Some x \<longrightarrow> private_node x) \<or>
      above_own env q \<and> n0 q = None \<and> n' q = Some new_directory"
    using q n assms(2) unfolding above_own_def
    by (metis option.distinct(1) option.inject private_node_simps(2))
qed

section \<open>System calls\<close>

lemma call_discreet:
  assumes "\<And>n n'. confined env n0 n \<Longrightarrow> f n = Inr n' \<Longrightarrow> confined env n0 n'"
  shows "spec (discreet env n0) (system_call f) (discreet env n0) (discreet env n0)"
proof (rule spec_system_call)
  fix d as n assume d: "discreet env n0 d" and n: "f (nodes d) = Inr n"
  show "discreet env n0 (change n (d\<lparr>answers := as\<rparr>))"
    using d assms[OF discreet_tree[OF d] n] by (simp add: discreet_change)
qed simp

lemma check_discreet:
  "(\<And>n n'. f n = Inr n' \<Longrightarrow> n' = n) \<Longrightarrow>
     spec (discreet env n0) (system_call f) (discreet env n0) (discreet env n0)"
  by (rule call_discreet) blast

text \<open>A file whose descriptor passed \<open>private_regular_file\<close>, and one with its mode set.\<close>

definition checked :: "environment \<Rightarrow> tree \<Rightarrow> string \<Rightarrow> disk \<Rightarrow> bool" where
  "checked env n0 path d \<longleftrightarrow> discreet env n0 d \<and> (\<exists>x. nodes d path = Some x \<and> private_file x)"

definition narrowed :: "environment \<Rightarrow> tree \<Rightarrow> string \<Rightarrow> disk \<Rightarrow> bool" where
  "narrowed env n0 path d \<longleftrightarrow> discreet env n0 d \<and>
     (\<exists>x. nodes d path = Some x \<and> private_file x \<and> node_mode x = owner_read_write)"

lemma narrowed_discreet: "narrowed env n0 path d \<Longrightarrow> discreet env n0 d"
  by (simp add: narrowed_def)

lemma narrowed_update:
  assumes "narrowed env n0 path d" "own_path env path"
    "\<And>x. private_file x \<Longrightarrow> node_mode x = owner_read_write \<Longrightarrow>
       private_file (f x) \<and> node_mode (f x) = owner_read_write"
  shows "narrowed env n0 path (change (update_node path f (nodes d)) (d\<lparr>answers := as\<rparr>))"
proof -
  obtain x where x: "nodes d path = Some x" "private_file x" "node_mode x = owner_read_write"
    using assms(1) by (auto simp: narrowed_def)
  have "confined env n0 (update_node path f (nodes d))"
    using assms(2,3) x narrowed_discreet[OF assms(1)] discreet_tree
    by (auto simp: update_node_def private_node_def private_file_def intro!: confined_set)
  then show ?thesis
    using assms x by (simp add: narrowed_def discreet_change update_node_def)
qed

lemma file_check_spec: "spec (discreet env n0) (private_regular_file path) (checked env n0 path) (discreet env n0)"
  unfolding private_regular_file_def
  by (rule spec_system_call)
    (auto simp: file_check_def checked_def private_file_def discreet_tree intro!: discreet_change
      split: option.splits if_splits)

lemma narrow_spec:
  assumes "own_path env path"
  shows "spec (checked env n0 path) (system_call (change_mode path owner_read_write)) (narrowed env n0 path)
     (discreet env n0)"
proof (rule spec_system_call)
  fix d as n assume d: "checked env n0 path d" and n: "change_mode path owner_read_write (nodes d) = Inr n"
  obtain x where x: "nodes d path = Some x" "private_file x" using d by (auto simp: checked_def)
  have "n = (nodes d)(path \<mapsto> x\<lparr>node_mode := owner_read_write\<rparr>)"
    using n x by (simp add: change_mode_def update_node_def)
  then show "narrowed env n0 path (change n (d\<lparr>answers := as\<rparr>))"
    using d x assms discreet_tree
    by (auto simp: narrowed_def checked_def intro!: discreet_change confined_set)
qed (simp add: checked_def)

lemma truncate_spec:
  "own_path env path \<Longrightarrow>
     spec (narrowed env n0 path) (system_call (truncate_file path)) (narrowed env n0 path) (discreet env n0)"
  by (rule spec_system_call)
    (auto simp: truncate_file_def narrowed_discreet intro!: narrowed_update)

lemma flush_spec: "spec (narrowed env n0 path) flush_call (narrowed env n0 path) (discreet env n0)"
  unfolding flush_call_def
  by (rule spec_system_call) (auto simp: narrowed_def discreet_tree intro!: discreet_change)

lemma write_loop_narrowed:
  assumes "own_path env path" "narrowed env n0 path d"
  shows "narrowed env n0 path (snd (write_loop path content d))"
proof -
  have "narrowed env n0 path (append_contents path u e)" if "narrowed env n0 path e" for u e
    using narrowed_update[OF that assms(1), of "\<lambda>x. x\<lparr>node_contents := node_contents x @ u\<rparr>" "answers e"]
    by (simp add: append_contents_def)
  then show ?thesis
    using write_loop_rule[of "\<lambda>s. narrowed env n0 path" path "[]" d content, OF _ _ assms(2) surjective_pairing]
    by (simp add: narrowed_def)
qed

lemma write_spec:
  "own_path env path \<Longrightarrow>
     spec (narrowed env n0 path) (write_all path content) (narrowed env n0 path) (discreet env n0)"
  using write_loop_narrowed[of env path n0 _ content]
  by (force simp: spec_def write_all_def narrowed_discreet split: prod.splits option.splits)

section \<open>Writing and replacing\<close>

lemma spec_done_discreet:
  "spec (narrowed env n0 path) (chain []) (discreet env n0) (discreet env n0)"
  by (simp add: spec_def narrowed_discreet)

lemma write_private_discreet:
  assumes "own_path env path"
  shows "spec (discreet env n0) (write_private_file path content app) (discreet env n0) (discreet env n0)"
proof -
  have o: "spec (discreet env n0) (system_call (open_for_writing path)) (discreet env n0) (discreet env n0)"
    by (rule call_discreet)
      (auto simp: open_for_writing_def intro!: confined_set assms split: option.splits if_splits)
  note w = spec_chain[OF write_spec[OF assms] spec_chain[OF flush_spec spec_chain[OF flush_spec spec_done_discreet]]]
  show ?thesis
    unfolding write_private_file_def append.simps
    by (cases app; simp only: if_True if_False append.simps;
        intro spec_chain[OF o] spec_chain[OF file_check_spec] spec_chain[OF narrow_spec[OF assms]]
          spec_chain[OF truncate_spec[OF assms]] spec_chain[OF flush_spec] w)
qed

lemma check_specs:
  "spec (discreet env n0) flush_call (discreet env n0) (discreet env n0)"
  "spec (discreet env n0) (check_target path) (discreet env n0) (discreet env n0)"
  unfolding flush_call_def check_target_def
  by (rule check_discreet; simp add: target_check_def split: option.splits if_splits)+

lemma spec_end: "spec P (chain []) P P"
  by (simp add: spec_def)

lemma private_directory_discreet:
  assumes "own_path env path"
  shows "spec (discreet env n0) (private_directory path) (discreet env n0) (discreet env n0)"
proof -
  let ?Q = "\<lambda>d. discreet env n0 d \<and> (\<exists>x. nodes d path = Some x \<and> node_kind x = DirectoryNode \<and> node_owned x)"
  have 1: "spec (discreet env n0) (system_call (directory_check path)) ?Q (discreet env n0)"
    by (rule spec_system_call)
      (auto simp: directory_check_def discreet_tree intro!: discreet_change split: option.splits if_splits)
  have 2: "spec ?Q (system_call (change_mode path owner_all)) (discreet env n0) (discreet env n0)"
    by (rule spec_system_call)
      (auto simp: change_mode_def update_node_def discreet_tree private_node_def
        intro!: discreet_change confined_set assms)
  show ?thesis
    unfolding private_directory_def by (rule spec_chain[OF 1 spec_chain[OF 2 spec_end]])
qed

lemma spec_keeps: "spec I m I I \<Longrightarrow> keeps I m"
  unfolding spec_def keeps_def by (fastforce split: prod.splits option.splits)

lemma discard_discreet:
  assumes "own_path env temporary"
  shows "keeps (discreet env n0) (discard_temporary temporary e)"
proof -
  have "spec (discreet env n0) (system_call (unlink temporary)) (discreet env n0) (discreet env n0)"
    by (rule call_discreet) (auto simp: unlink_def intro!: confined_set assms)
  then show ?thesis
    unfolding discard_temporary_def by (intro keeps_intro spec_keeps)
qed

lemma fill_spec:
  assumes "own_path env temporary"
  shows "spec (discreet env n0) (fill_temporary temporary content) (narrowed env n0 temporary) (discreet env n0)"
  unfolding fill_temporary_def
  by (rule spec_chain[OF file_check_spec spec_chain[OF narrow_spec[OF assms]
        spec_chain[OF write_spec[OF assms] spec_chain[OF flush_spec]]]])
    (simp add: spec_def)

lemma install_spec:
  assumes "own_path env temporary" "own_path env path"
  shows "spec (narrowed env n0 temporary) (install_temporary temporary path) (discreet env n0) (discreet env n0)"
proof -
  have r: "spec (narrowed env n0 temporary) (system_call (rename_over temporary path)) (discreet env n0) (discreet env n0)"
  proof (rule spec_system_call)
    fix d as n assume d: "narrowed env n0 temporary d" and n: "rename_over temporary path (nodes d) = Inr n"
    obtain x where x: "nodes d temporary = Some x" "private_file x" "node_mode x = owner_read_write"
      using d by (auto simp: narrowed_def)
    then have "n = (nodes d)(temporary := None, path \<mapsto> x)" using n by (simp add: rename_over_def)
    moreover have "private_node x" using x by (auto simp: private_node_def private_file_def)
    ultimately have "confined env n0 n"
      using assms discreet_tree[OF narrowed_discreet[OF d]] by (auto intro!: confined_set)
    then show "discreet env n0 (change n (d\<lparr>answers := as\<rparr>))"
      using narrowed_discreet[OF d] by (simp add: discreet_change)
  qed (simp add: narrowed_discreet)
  show ?thesis
    unfolding install_temporary_def
    by (rule spec_chain[OF flush_spec spec_chain[OF r spec_chain[OF check_specs(1) spec_end]]])
qed

lemma replace_with_discreet:
  assumes own: "own_path env temporary" "own_path env path"
  shows "keeps (discreet env n0) (replace_with temporary path content)"
proof -
  have "discreet env n0 (snd (run_state (replace_with temporary path content) d))" if d: "discreet env n0 d" for d
  proof -
    obtain r d1 where r: "run_state (fill_temporary temporary content) d = (r, d1)" by (metis surj_pair)
    show ?thesis
    proof (cases r)
      case None
      then have "narrowed env n0 temporary d1" using specD[OF fill_spec[OF own(1)] d, of content] r by simp
      moreover obtain q d2 where q: "run_state (install_temporary temporary path) d1 = (q, d2)" by (metis surj_pair)
      ultimately have "discreet env n0 d2"
        using specD[OF install_spec[OF own], of n0 d1] by (cases q) simp_all
      then show ?thesis
        using keepsD[OF discard_discreet[OF own(1)]] by (cases q) (simp_all add: replace_with_def r q None)
    next
      case (Some e)
      then have "discreet env n0 d1" using specD[OF fill_spec[OF own(1)] d, of content] r by simp
      moreover obtain q d2 where q: "run_state flush_call d1 = (q, d2)" by (metis surj_pair)
      ultimately have "discreet env n0 d2" using keepsD[OF spec_keeps[OF check_specs(1)]] by (metis snd_conv)
      then show ?thesis
        using keepsD[OF discard_discreet[OF own(1)]] by (simp add: replace_with_def r q Some)
    qed
  qed
  then show ?thesis by (simp add: keeps_def)
qed

section \<open>Paths\<close>

lemma own_directory_append: "own_directory env dir \<Longrightarrow> path_append dir f = dir @ ''/'' @ f"
proof -
  assume "own_directory env dir"
  then obtain d where "dir = path_append d ''fedora-firewall-control''"
    unfolding own_directory_def storage_directory_def Let_def by blast
  then have "dir \<noteq> []" "List.last dir = CHR ''l''" by (simp_all add: path_append_def)
  then show ?thesis by (simp add: path_append_def)
qed

lemma own_file_append:
  "own_directory env dir \<Longrightarrow> f \<noteq> [] \<Longrightarrow> CHR ''/'' \<notin> set f \<Longrightarrow> own_file env (path_append dir f)"
  unfolding own_file_def using own_directory_append by blast

lemma safe_filename_plain: "safe_filename f \<Longrightarrow> f \<noteq> [] \<and> CHR ''/'' \<notin> set f"
  by (auto simp: safe_filename_def find_any_def)

lemma split_path_filename: "split_path path = Some (directory, filename) \<Longrightarrow> CHR ''/'' \<notin> set filename"
proof -
  assume "split_path path = Some (directory, filename)"
  then obtain j where j: "find_index (\<lambda>d. d = CHR ''/'') (rev path) = Some j"
    "filename = drop (Suc (length path - Suc j)) path"
    by (auto simp: split_path_def rfind_index_def split: option.splits if_splits)
  have "j < length path" using j(1) by (simp add: find_index_Some_iff)
  then have "filename = rev (take j (rev path))" using j(2) by (simp add: take_rev Suc_diff_Suc)
  then show ?thesis using find_index_take[OF j(1)] by auto
qed

lemma own_file_split:
  assumes "own_file env path" "split_path path = Some (directory, filename)" "directory \<noteq> ''/''"
  shows "own_directory env directory" "CHR ''/'' \<notin> set t \<Longrightarrow> t \<noteq> [] \<Longrightarrow> own_file env (directory @ ''/'' @ t)"
proof -
  obtain dir f where p: "own_directory env dir" "f \<noteq> []" "CHR ''/'' \<notin> set f" "path = dir @ ''/'' @ f"
    using assms(1) by (auto simp: own_file_def)
  have e: "path = directory @ ''/'' @ filename" by (rule split_path_Some[OF assms(2,3)])
  have "CHR ''/'' \<notin> set filename" using split_path_filename[OF assms(2)] .
  then have "directory = dir" using e p(3,4) by (simp add: append_eq_append_conv2) (auto simp: Cons_eq_append_conv append_eq_Cons_conv)
  then show "own_directory env directory" using p(1) by simp
  then show "own_file env (directory @ ''/'' @ t)" if "CHR ''/'' \<notin> set t" "t \<noteq> []"
    using that unfolding own_file_def by blast
qed

lemma temporary_name_plain: "CHR ''/'' \<notin> set filename \<Longrightarrow>
    CHR ''/'' \<notin> set (temporary_name filename pid k) \<and> temporary_name filename pid k \<noteq> []"
  using show_nat_digits[of pid] show_nat_digits[of k]
  by (auto simp: temporary_name_def list_all_iff is_digit_def)

section \<open>The operations of the storage\<close>

lemma own_paths: "own_file env p \<Longrightarrow> own_path env p" "own_directory env p \<Longrightarrow> own_path env p"
  by (simp_all add: own_path_def)

lemma allocate_discreet:
  assumes "own_directory env directory" "CHR ''/'' \<notin> set filename" "discreet env n0 d"
    "run_state (allocate directory filename pid attempts) d = (r, d')"
  shows "discreet env n0 d' \<and> (\<forall>temporary. r = Inr temporary \<longrightarrow> own_path env temporary)"
  using assms(3,4)
proof (induction attempts arbitrary: d)
  case (Cons k ks)
  let ?t = "directory @ ''/'' @ temporary_name filename pid k"
  have own: "own_path env ?t"
    using assms(1) temporary_name_plain[OF assms(2), of pid k] unfolding own_path_def own_file_def by blast
  have call: "spec (discreet env n0) (system_call (create_exclusive ?t)) (discreet env n0) (discreet env n0)"
    by (rule call_discreet) (use own in \<open>auto simp: create_exclusive_def intro!: confined_set split: option.splits\<close>)
  obtain q d1 where q: "run_state (system_call (create_exclusive ?t)) d = (q, d1)" by (metis surj_pair)
  have d1: "discreet env n0 d1" using keepsD[OF spec_keeps[OF call] Cons.prems(1)] unfolding q snd_conv .
  show ?case
    using Cons.prems(2) Cons.IH[OF d1] d1 own q
    by (cases q) (auto simp: Let_def split: if_splits)
qed auto

lemma allocate_replace_discreet:
  assumes own: "own_directory env directory" "own_file env path"
    and s: "split_path path = Some (directory, filename)"
  shows "keeps (discreet env n0) (do {
      allocated \<leftarrow> allocate directory filename pid attempts;
      case allocated of Inl e \<Rightarrow> State_Monad.return (Some e)
      | Inr temporary \<Rightarrow> replace_with temporary path content })"
  unfolding keeps_def
proof (intro allI impI)
  fix d assume d: "discreet env n0 d"
  obtain r d' where r: "run_state (allocate directory filename pid attempts) d = (r, d')" by (metis surj_pair)
  note a = allocate_discreet[OF own(1) split_path_filename[OF s] d r]
  show "discreet env n0 (snd (run_state (do {
      allocated \<leftarrow> allocate directory filename pid attempts;
      case allocated of Inl e \<Rightarrow> State_Monad.return (Some e)
      | Inr temporary \<Rightarrow> replace_with temporary path content }) d))"
    using a keepsD[OF replace_with_discreet[OF _ own_paths(1)[OF own(2)]], of _ n0 d' content]
    by (cases r) (simp_all add: r)
qed

lemma replace_discreet:
  assumes "own_file env path"
  shows "keeps (discreet env n0) (replace_private_file_atomically pid path content)"
proof -
  have checks: "keeps (discreet env n0) (chain [private_directory directory, flush_call, check_target path])"
    if "own_directory env directory" for directory
    by (rule spec_keeps, rule spec_chain[OF private_directory_discreet[OF own_paths(2)[OF that]]
          spec_chain[OF check_specs(1) spec_chain[OF check_specs(2) spec_end]]])
  show ?thesis
    unfolding replace_private_file_atomically_def
    using own_file_split(1)[OF assms]
    by (auto simp: keeps_return simp del: chain.simps split: option.splits prod.splits
        intro!: keeps_bind[OF checks] keeps_option keeps_return allocate_replace_discreet[OF _ assms])
qed

lemma answers_discreet:
  "discreet env n0 d \<Longrightarrow> nodes d' = nodes d \<Longrightarrow> history d' = history d \<Longrightarrow> discreet env n0 d'"
  by (simp add: discreet_def steady_def)

lemma read_private_discreet: "keeps (discreet env n0) (read_private_file m path)"
proof -
  have "spec (discreet env n0) (chain [system_call (open_for_reading path), private_regular_file path])
      (discreet env n0) (discreet env n0)"
    unfolding private_regular_file_def
    by (rule spec_chain[OF check_discreet spec_chain[OF check_discreet spec_end]])
      (auto simp: open_for_reading_def file_check_def split: option.splits if_splits)
  moreover have "keeps (discreet env n0) (read_open_file m path)"
    using read_loop_tree by (auto simp: keeps_def read_open_file_def intro: answers_discreet)
  ultimately show ?thesis
    unfolding read_private_file_def
    by (intro keeps_bind keeps_option keeps_sum keeps_return spec_keeps check_specs)
qed

lemma check_existing_discreet:
  "own_directory env dir \<Longrightarrow> spec (discreet env n0) (check_existing dir) (discreet env n0) (discreet env n0)"
  using private_directory_discreet[OF own_paths(2), of env dir n0]
  by (auto simp: spec_def check_existing_def)

lemma secure_path_discreet: "keeps (discreet env n0) (secure_local_path env area f create)"
proof (cases "storage_directory env area")
  case (Some dir)
  then have own: "own_directory env dir" by (auto simp: own_directory_def)
  have c: "spec (discreet env n0) (system_call (create_directories dir)) (discreet env n0) (discreet env n0)"
    by (rule call_discreet) (rule confined_directories[OF _ own])
  have "spec (discreet env n0) (chain ((if create then [system_call (create_directories dir)] else []) @
      [check_existing dir])) (discreet env n0) (discreet env n0)"
    by (cases create) (simp_all only: if_True if_False append.simps
        spec_chain[OF c spec_chain[OF check_existing_discreet[OF own] spec_end]]
        spec_chain[OF check_existing_discreet[OF own] spec_end])
  then show ?thesis
    unfolding secure_local_path_def Some option.case
    by (intro keeps_if keeps_return keeps_bind spec_keeps)
qed (simp add: secure_local_path_def keeps_return)

lemma secure_path_own:
  "fst (run_state (secure_local_path env area f create) d) = Inr p \<Longrightarrow> own_file env p"
  using safe_filename_plain[of f] own_file_append[of env _ f]
  by (auto simp: secure_local_path_def split_def own_directory_def split: if_splits option.splits)

lemma secure_path_then:
  assumes "\<And>e. keeps (discreet env n0) (g (Inl e))" "\<And>p. own_file env p \<Longrightarrow> keeps (discreet env n0) (g (Inr p))"
  shows "keeps (discreet env n0) (do { r \<leftarrow> secure_local_path env area f create; g r })"
  unfolding keeps_def
proof (intro allI impI)
  fix d assume d: "discreet env n0 d"
  obtain r d' where r: "run_state (secure_local_path env area f create) d = (r, d')" by (metis surj_pair)
  have "discreet env n0 d'" using keepsD[OF secure_path_discreet d, of area f create] by (simp add: r)
  moreover have "keeps (discreet env n0) (g r)"
    using assms secure_path_own[of env area f create d] by (cases r) (simp_all add: r)
  ultimately show "discreet env n0 (snd (run_state (do { r \<leftarrow> secure_local_path env area f create; g r }) d))"
    using keepsD by (fastforce simp: r)
qed

section \<open>The stores\<close>

lemmas file_operations_discreet = replace_discreet read_private_discreet secure_path_discreet
  spec_keeps[OF write_private_discreet[OF own_paths(1)]]

lemma history_discreet:
  "keeps (discreet env n0) (history_append env pid m v)" "keeps (discreet env n0) (history_read_recent env)"
  unfolding history_append_def history_read_recent_def history_path_def store_record_def store_after_def Let_def
  by (rule secure_path_then; simp only: sum.case;
      intro keeps_return keeps_bind keeps_if keeps_option file_operations_discreet; assumption?)+

lemma credentials_discreet:
  "keeps (discreet env n0) (credentials_save env key)" "keeps (discreet env n0) (credentials_load variable env)"
  unfolding credentials_save_def credentials_load_def
  by (intro keeps_if keeps_return; rule secure_path_then; simp only: sum.case;
      intro keeps_return keeps_bind file_operations_discreet; assumption?)+

lemma lock_discreet:
  assumes "own_file env path"
  shows "spec (discreet env n0) (acquire_lock path) (discreet env n0) (discreet env n0)"
proof -
  have o: "spec (discreet env n0) (system_call (open_for_writing path)) (discreet env n0) (discreet env n0)"
    by (rule call_discreet)
      (auto simp: open_for_writing_def intro!: confined_set own_paths(1)[OF assms] split: option.splits if_splits)
  have c: "spec (discreet env n0) (system_call (lock_check path)) (checked env n0 path) (discreet env n0)"
    by (rule spec_system_call)
      (auto simp: lock_check_def checked_def discreet_tree intro!: discreet_change split: option.splits if_splits)
  show ?thesis
    unfolding acquire_lock_def
    by (rule spec_chain[OF o spec_chain[OF c spec_chain[OF narrow_spec[OF own_paths(1)[OF assms]]
          spec_chain[OF flush_spec spec_done_discreet]]]])
qed

lemma store_entry_discreet:
  "own_file env path \<Longrightarrow> keeps (discreet env n0) (store_entry pid now later ev path)"
  unfolding store_entry_def entry_after_def write_entry_def Let_def
  by (intro keeps_bind keeps_sum keeps_if keeps_return file_operations_discreet)

lemma log_record_discreet: "keeps (discreet env n0) (log_record env pid now later ev)"
  unfolding log_record_def
  by (rule secure_path_then; simp only: sum.case; (rule keeps_return | rule secure_path_then); simp only: sum.case;
      (rule keeps_return | rule keeps_chain); auto simp: store_entry_discreet spec_keeps[OF lock_discreet])

end
