(* ===== verification/ProgramFiles.thy ===== *)
theory ProgramFiles
  imports Program StoragePrivacy
begin

text \<open>
  What a whole run of the program may do to the disk.  The locale \<open>disk_host\<close> is the contract of an
  invariant of the disk with the stores; from it follows the service contract on the objects of
  \<open>src/main.cpp\<close>, and that every run keeps the invariant.  It holds for the invariant of
  \<open>StoragePrivacy\<close>.  The disk holds what ffc does itself; the commands that it starts are the concern of
  the list of queries.
\<close>

section \<open>The reading stores\<close>

lemma inspect_channel_discreet: "keeps (discreet env n0) (inspect_channel env c t)"
  unfolding inspect_channel_def
  by (rule secure_path_then; simp only: sum.case; intro keeps_return keeps_bind read_private_discreet)

lemma analyzer_discreet: "keeps (discreet env n0) (log_analyzer_inspect env)"
  unfolding log_analyzer_inspect_def by (intro keeps_bind keeps_return inspect_channel_discreet)

section \<open>The mode store\<close>

lemma on_files_return: "on_files (State_Monad.return x) = State_Monad.return x"
  by (simp add: on_files_def State_Monad.return_def)

lemma on_files_bind: "on_files (State_Monad.bind m f) = State_Monad.bind (on_files m) (\<lambda>x. on_files (f x))"
  by (simp add: on_files_def State_Monad.bind_def split_def)

lemma secure_mode_then:
  assumes "\<And>e. keeps (discreet env n0) (g ([], e))"
    "\<And>p. own_file env p \<Longrightarrow> p \<noteq> [] \<Longrightarrow> keeps (discreet env n0) (g (p, []))"
  shows "keeps (discreet env n0) (do { r \<leftarrow> secure_path (disk_mode_storage env) create; g r })"
proof -
  have "keeps (discreet env n0) (do { r \<leftarrow> secure_local_path env ConfigArea ''mode'' create;
      g (case r of Inl e \<Rightarrow> ([], e) | Inr p \<Rightarrow> (p, [])) })"
    by (rule secure_path_then) (use assms in \<open>auto simp: own_file_def\<close>)
  then show ?thesis by (simp add: disk_mode_storage_def)
qed

lemma exists_discreet: "keeps (discreet env n0) (path_exists (disk_mode_storage env) p)"
  by (simp add: keeps_def disk_mode_storage_def)

lemma mode_files_discreet:
  "keeps (discreet env n0) (read_private (disk_mode_storage env) p)"
  "own_file env p \<Longrightarrow> keeps (discreet env n0) (write_private (disk_mode_storage env) p v)"
  by (auto simp: disk_mode_storage_def intro!: keeps_bind keeps_return file_operations_discreet)

lemma mode_discreet:
  "keeps (discreet env n0) (mode_load (disk_mode_storage env))"
  "keeps (discreet env n0) (mode_save (disk_mode_storage env) m)"
  unfolding mode_load_def mode_save_def
  by (rule secure_mode_then; simp;
      intro keeps_return keeps_bind keeps_sum keeps_bool exists_discreet mode_files_discreet; simp)+

lemma program_mode:
  "mode_load (program_storage P) = on_files (mode_load (disk_mode_storage (pf_environment P)))"
  "mode_save (program_storage P) m = on_files (mode_save (disk_mode_storage (pf_environment P)) m)"
proof -
  let ?S = "disk_mode_storage (pf_environment P)"
  have p: "secure_path (program_storage P) = (\<lambda>c. on_files (secure_path ?S c))"
    "path_exists (program_storage P) = (\<lambda>q. on_files (path_exists ?S q))"
    "read_private (program_storage P) = (\<lambda>q. on_files (read_private ?S q))"
    "write_private (program_storage P) = (\<lambda>q v. on_files (write_private ?S q v))"
    by (simp_all add: program_storage_def Let_def)
  show "mode_load (program_storage P) = on_files (mode_load ?S)"
    unfolding mode_load_def p on_files_bind
    by (intro arg_cong[of _ _ "State_Monad.bind _"] ext)
      (auto simp: on_files_bind on_files_return split: prod.split sum.split bool.split
        intro!: arg_cong[of _ _ "State_Monad.bind _"])
  show "mode_save (program_storage P) m = on_files (mode_save ?S m)"
    unfolding mode_save_def p on_files_bind
    by (intro arg_cong[of _ _ "State_Monad.bind _"] ext)
      (auto simp: on_files_bind on_files_return split: prod.split)
qed

section \<open>The machine\<close>

definition on_disk :: "(disk \<Rightarrow> bool) \<Rightarrow> 'w machine \<Rightarrow> bool" where
  "on_disk D s \<longleftrightarrow> D (files s)"

lemma files_kept:
  "keeps (on_disk D) (on_host k)" "keeps (on_disk D) (ask a)" "keeps (on_disk D) (print d txt)"
  "keeps D m \<Longrightarrow> keeps (on_disk D) (on_files m)"
  by (simp_all add: keeps_def on_disk_def ask_def on_host_def on_files_def print_def split_def
      split: display.split)

lemma settings_files:
  "keeps (on_disk D) (set_terminal P t)" "keeps (on_disk D) (get_terminal P)"
  unfolding set_terminal_def get_terminal_def
  by (intro keeps_intro files_kept; simp add: keeps_def on_disk_def)+

lemma runner_files:
  "keeps (on_disk D) (run (program_runner P) args)"
  "keeps (on_disk D) (run_with_input (program_runner P) args input)"
  by (simp_all add: program_runner_def Let_def files_kept)

interpretation files_probing: probing_host "program_runner P" "on_disk D" "\<lambda>_. True" for P D
  by unfold_locales (simp_all add: runner_files)

definition on_observed :: "('s \<Rightarrow> bool) \<Rightarrow> 's observed \<Rightarrow> bool" where
  "on_observed I s \<longleftrightarrow> I (observed s)"

lemma observe_keeps: "keeps I m \<Longrightarrow> keeps (on_observed I) (observe es m)"
  by (simp add: keeps_def on_observed_def observe_def split_def)

text \<open>Only a command that sets the mode stores one, and only that one.\<close>

lemma commands_save:
  "prompt_hidden S (T\<lparr>tool_save_mode := g\<rparr>) = prompt_hidden S T"
  "configure_key S (T\<lparr>tool_save_mode := g\<rparr>) = configure_key S T"
  "show_mode S (T\<lparr>tool_save_mode := g\<rparr>) = show_mode S T"
  "execute_listeners S (T\<lparr>tool_save_mode := g\<rparr>) = execute_listeners S T"
  "execute_metadata S (T\<lparr>tool_save_mode := g\<rparr>) = execute_metadata S T"
  "execute_posture S (T\<lparr>tool_save_mode := g\<rparr>) = execute_posture S T"
proof -
  show "prompt_hidden S (T\<lparr>tool_save_mode := g\<rparr>) = prompt_hidden S T"
    by (rule ext) (simp add: prompt_hidden_def cong: if_cong sum.case_cong)
  then show "configure_key S (T\<lparr>tool_save_mode := g\<rparr>) = configure_key S T"
    by (simp add: configure_key_def prompt_for_ipify_key_def cong: if_cong sum.case_cong)
qed (rule ext | simp add: show_mode_def execute_listeners_def execute_metadata_def execute_posture_def
    print_snapshot_def cong: if_cong sum.case_cong)+

lemma dispatch_save:
  "(\<And>m. mode_to_set c = Some m \<Longrightarrow> g m = tool_save_mode T m) \<Longrightarrow>
     dispatch S (T\<lparr>tool_save_mode := g\<rparr>) c lines = dispatch S T c lines"
  by (simp add: dispatch_def execute_def commands_save set_mode_def cong: if_cong sum.case_cong split: option.split)

lemma run_save:
  assumes "\<And>m. mode_to_set (parse_command_line args) = Some m \<Longrightarrow> g m = tool_save_mode T m"
  shows "run_console S (T\<lparr>tool_save_mode := g\<rparr>) args lines s = run_console S T args lines s"
proof -
  have o: "observing_tools (T\<lparr>tool_save_mode := g\<rparr>) =
      (observing_tools T)\<lparr>tool_save_mode := \<lambda>m. observe [ToolEvent (ModeSave m)] (g m)\<rparr>"
    by (simp add: observing_tools_def)
  show ?thesis
    unfolding run_console_def console_run_def Let_def o
    by (subst dispatch_save) (simp_all add: assms observing_tools_def)
qed

section \<open>Invariants of the disk\<close>

text \<open>An invariant that every store keeps, and every run that may not store a mode, or whose stored mode
  keeps it.\<close>

locale disk_host =
  fixes D :: "disk \<Rightarrow> bool" and env :: environment
  assumes record_keeps: "keeps D (log_record env pid now later ev)"
    and append_keeps: "keeps D (history_append env pid m v)"
    and recent_keeps: "keeps D (history_read_recent env)"
    and analysis_keeps: "keeps D (log_analyzer_inspect env)"
    and key_load_keeps: "keeps D (credentials_load variable env)"
    and key_save_keeps: "keeps D (credentials_save env key)"
    and mode_keeps: "keeps D (mode_load (disk_mode_storage env))"
begin

lemmas disk_keeps = record_keeps append_keeps recent_keeps analysis_keeps key_load_keeps key_save_keeps
  mode_keeps

lemma posture_host:
  "pf_environment P = env \<Longrightarrow>
     complete_posture_host (program_runner P) (on_disk D) (\<lambda>_. True) (program_storage P)"
  by unfold_locales (simp_all add: runner_files program_mode files_kept disk_keeps)

lemma history_files: "keeps (on_disk D) (evidence_read_history (on_files (history_read_recent env)))"
  unfolding evidence_read_history_def by (intro keeps_intro files_kept disk_keeps)

lemma services_files:
  assumes "pf_environment P = env"
  shows "keeps (on_disk D) (take_snapshot P st sid)"
    "keeps (on_disk D) (write_record P ev)"
    "keeps (on_disk D) (show_on_screen P d)"
    "keeps (on_disk D) (evidence_capture (collect_metadata P e)
       (\<lambda>m. on_files (history_append env (pf_process P) m v)))"
  unfolding take_snapshot_def write_record_def show_on_screen_def
    evidence_capture_def collect_metadata_def assms
  by (intro keeps_intro keeps_pair keeps_sum files_kept disk_keeps files_probing.metadata_inspect_keeps)+

lemmas run_services = services_files history_files files_kept settings_files program_mode disk_keeps
  files_probing.diagnostics_inspect_keeps files_probing.advisories_inspect_keeps
  complete_posture_host.posture_inspect_keeps[OF posture_host]
  files_probing.vpn_inspect_keeps files_probing.sockets_inspect_keeps

lemma run_host:
  assumes "pf_environment P = env" "\<And>m. keeps (on_disk D) (save m)"
  shows "service_host (observing (program_services P)) (on_observed (on_disk D))
     (observing_tools ((program_tools P)\<lparr>tool_save_mode := save\<rparr>))"
  by unfold_locales
    (simp_all add: observing_def observing_tools_def program_services_def program_tools_def
      observe_keeps run_services assms)

lemma run_keeps_disk:
  assumes env: "pf_environment P = env" and start: "D (files s)"
    and save: "\<And>m. mode_to_set (parse_command_line args) = Some m \<Longrightarrow> keeps D (mode_save (disk_mode_storage env) m)"
  shows "D (files (observed (world (snd (program_run P args lines s)))))"
proof -
  let ?set = "mode_to_set (parse_command_line args)"
  let ?save = "\<lambda>m. if ?set = Some m then on_files (mode_save (disk_mode_storage env) m)
    else State_Monad.return (False, [])"
  have "keeps (on_disk D) (?save m)" for m
    by (intro keeps_if keeps_return files_kept save)
  note host = run_host[OF env this]
  have "program_run P args lines s =
      run_console (program_services P) ((program_tools P)\<lparr>tool_save_mode := ?save\<rparr>) args lines s"
    unfolding program_run_def by (rule run_save[symmetric]) (simp add: program_tools_def program_mode env)
  then show ?thesis
    using service_host.run_keeps_invariant[OF host, where w = "fresh s" and args = args and lines = lines] start
    by (simp add: run_console_def on_observed_def on_disk_def fresh_def)
qed

end

interpretation private_disk: disk_host "discreet env n0" env for env n0
  by unfold_locales
    (simp_all add: log_record_discreet history_discreet credentials_discreet analyzer_discreet mode_discreet)

section \<open>Properties\<close>

text \<open>C7: The program keeps to its own files: in every state of the disk during a run, whatever it is asked to
  do and whatever the kernel refuses, cuts short or interrupts, every path is as it was at the start,
  or it is one of the two storage directories or a file directly in one of them and then private
  (owned, without links, readable by its owner only), or it is a directory above them that was
  missing.\<close>

theorem every_run_keeps_to_its_files:
  "steady (confined (pf_environment P) n)
     (files (observed (world (snd (program_run P args lines (s\<lparr>files := fresh_disk n as\<rparr>))))))"
proof -
  have "discreet (pf_environment P) n (files (observed (world (snd (program_run P args lines
      (s\<lparr>files := fresh_disk n as\<rparr>))))))"
    by (rule private_disk.run_keeps_disk) (simp_all add: discreet_fresh mode_discreet)
  then show ?thesis by (simp add: discreet_def)
qed

end
