(* ===== verification/ModeRuns.thy ===== *)
theory ModeRuns
  imports Verdict ProgramFiles
begin

text \<open>
  The operating mode from one run to the next: what \<open>ffc --mode\<close> stored is what every later run works
  with.  No run without a mode to set touches the directory or the file of the mode, whatever the kernel
  refuses, so a later run loads the stored mode or, when it cannot, falls back to the stricter one.
\<close>

section \<open>The stores\<close>

text \<open>The files of the stores, apart from the mode.\<close>

definition store_names :: "string list" where
  "store_names = ''network-history.tsv'' # key_file #
     concat (map (\<lambda>c. [log_file_name c, log_file_name c @ ''.lock'']) [Operations, Audit, Security, ErrorChannel])"

lemma store_names_simps:
  "''network-history.tsv'' \<in> set store_names" "key_file \<in> set store_names"
  "log_file_name c \<in> set store_names" "log_file_name c @ ''.lock'' \<in> set store_names"
  by (cases c; simp add: store_names_def)+

locale store_host = storage_host +
  assumes store_free: "f \<in> set store_names \<Longrightarrow> free (path_append dir f)"
begin

lemma history_keeps:
  "keeps I (history_append env pid m v)" "keeps I (history_read_recent env)"
  unfolding history_append_def history_read_recent_def history_path_def
  by (rule with_secure_path; simp only: sum.case;
      intro keeps_return keeps_bind keeps_option store_record_keeps read_keeps store_free store_names_simps)+

lemma credentials_keep:
  "keeps I (credentials_save env key)" "keeps I (credentials_load variable env)"
  unfolding credentials_save_def credentials_load_def
  by (intro keeps_if keeps_return; rule with_secure_path; simp only: sum.case;
      intro keeps_return keeps_bind write_keeps read_keeps store_free store_names_simps)+

lemma lock_call_keeps: "keeps I (system_call (lock_check path))"
  by (rule call_keeps[of "{}"])
    (auto simp: changes_only_def lock_check_def same_mode split: option.splits if_splits)

lemma log_record_keeps: "keeps I (log_record env pid now later ev)"
proof -
  have entry: "keeps I (store_entry pid now later ev (path_append dir (log_file_name (le_channel ev))))" for dir
    unfolding store_entry_def entry_after_def write_entry_def Let_def
    by (intro keeps_bind keeps_sum keeps_if keeps_return read_keeps replace_keeps write_keeps store_free
        store_names_simps)
  have lock: "keeps I (acquire_lock path)" for path
    unfolding acquire_lock_def by (rule keeps_chain) (auto intro!: calls_keep lock_call_keeps)
  show ?thesis
    unfolding log_record_def
    by (rule with_secure_path; simp only: sum.case; (rule keeps_return | rule with_secure_path); simp only: sum.case;
        (rule keeps_return | rule keeps_chain); auto intro: entry lock)
qed

lemma logs_keep: "keeps I (log_analyzer_inspect env)"
proof -
  have "keeps I (inspect_channel env c t)" for c t
    unfolding inspect_channel_def
    by (rule with_secure_path; simp only: sum.case; intro keeps_return keeps_bind read_keeps)
  then show ?thesis
    unfolding log_analyzer_inspect_def by (intro keeps_bind keeps_return)
qed

text \<open>The mode is loaded without writing.\<close>

lemma load_keeps: "keeps I (mode_load (disk_mode_storage env))"
  unfolding mode_load_def disk_mode_storage_def mode_storage.simps
  by (intro keeps_intro keeps_pair keeps_sum keeps_bool secure_path_keeps read_keeps) (simp add: keeps_def answer_used)

sublocale disk_host I env for env
  by unfold_locales (rule log_record_keeps history_keeps logs_keep credentials_keep load_keeps)+

end

section \<open>The mode on the disk\<close>

definition mode_directory :: "string \<Rightarrow> string" where
  "mode_directory base = path_append base ''fedora-firewall-control''"

definition mode_path :: "string \<Rightarrow> string" where
  "mode_path base = path_append (mode_directory base) ''mode''"

definition mode_kept :: "string \<Rightarrow> operating_mode \<Rightarrow> disk \<Rightarrow> bool" where
  "mode_kept base m d \<longleftrightarrow>
     owned_directory (mode_directory base) d \<and> holds_file (mode_path base) (mode_file_value m) d"

lemma storage_hosts_conj:
  assumes "storage_host I f" "storage_host J g"
  shows "storage_host (\<lambda>d. I d \<and> J d) (\<lambda>q. f q \<and> g q)"
proof -
  have conj: "keeps I m \<Longrightarrow> keeps J m \<Longrightarrow> keeps (\<lambda>d. I d \<and> J d) m" for m :: "(disk, 'a) state"
    by (simp add: keeps_def)
  note I = storage_host.call_keeps[OF assms(1)] storage_host.write_all_keeps[OF assms(1)]
      storage_host.read_open_keeps[OF assms(1)]
  note J = storage_host.call_keeps[OF assms(2)] storage_host.write_all_keeps[OF assms(2)]
      storage_host.read_open_keeps[OF assms(2)]
  show ?thesis
    by unfold_locales
      (auto intro!: conj I J dest: storage_host.new_free[OF assms(1)] storage_host.new_free[OF assms(2)])
qed

lemma last_of_path: "f \<noteq> [] \<Longrightarrow> List.last (path_append d f) = List.last f"
  by (simp add: path_append_def)

lemma store_last: "f \<in> set store_names \<Longrightarrow> f \<noteq> [] \<and> List.last f \<in> {CHR ''v'', CHR ''y'', CHR ''g'', CHR ''k''}"
  by (auto simp: store_names_def key_file_def log_file_name_def)

interpretation kept_mode: store_host "mode_kept base m" "\<lambda>q. q \<noteq> mode_directory base \<and> q \<noteq> mode_path base" for base m
proof -
  have "mode_kept base m = (\<lambda>d. stays (mode_directory base) owned_directory_node d \<and>
      stays (mode_path base) (file_node (mode_file_value m)) d)"
    by (rule ext) (simp add: mode_kept_def owned_directory_stays holds_file_stays)
  then have "storage_host (mode_kept base m) (\<lambda>q. q \<noteq> mode_directory base \<and> q \<noteq> mode_path base)"
    using storage_hosts_conj[OF kept_directory.storage_host_axioms kept_contents.storage_host_axioms] by simp
  moreover have "path_append dir f \<noteq> mode_directory base \<and> path_append dir f \<noteq> mode_path base"
    if "f \<in> set store_names" for f dir
    using last_of_path[of f dir] store_last[OF that] last_of_path[of "''fedora-firewall-control''" base]
      last_of_path[of "''mode''" "mode_directory base"]
    by (auto simp: mode_directory_def mode_path_def)
  ultimately show "store_host (mode_kept base m) (\<lambda>q. q \<noteq> mode_directory base \<and> q \<noteq> mode_path base)"
    by (simp add: store_host_def store_host_axioms_def)
qed

interpretation kept_answers: store_host "answered_from A" "\<lambda>_. True" for A
  by unfold_locales simp

lemma storage_directory_base:
  "storage_directory env area = Some dir \<Longrightarrow> \<exists>base. dir = mode_directory base"
  by (auto simp: storage_directory_def mode_directory_def Let_def split: if_splits)

text \<open>What is loaded from a kept mode.\<close>

lemma mode_value_length: "length (mode_file_value m) \<le> 7"
  by (simp add: mode_file_value_def)

lemma kept_mode_loaded:
  assumes "storage_directory env ConfigArea = Some (mode_directory base)" "mode_kept base m d"
  shows "fst (run_state (mode_load (disk_mode_storage env)) d) =
        \<lparr>loaded_mode = m, load_status = LoadAvailable, load_diagnostic = []\<rparr> \<or>
      (\<exists>e. fst (run_state (mode_load (disk_mode_storage env)) d) = invalid_load e) \<and> answers d \<noteq> []"
proof (cases "answers d = []")
  case True
  then show ?thesis
    using mode_load_stored[OF assms(1), of d "mode_file_value m"] assms(2) interpret_mode_file_value(1)[of m]
      mode_value_length[of m]
    by (simp add: mode_kept_def mode_path_def)
next
  case False
  obtain r d1 where r: "run_state (chain [check_existing (mode_directory base)]) d = (r, d1)" by (metis surj_pair)
  have "mode_kept base m d1"
    using kept_mode.check_existing_keeps[of base m "mode_directory base"] assms(2) r
    by (metis keeps_chain keepsD empty_set list.simps(15) singletonD snd_conv)
  then have f: "holds_file (mode_path base) (mode_file_value m) (d1\<lparr>answers := as\<rparr>)" for as
    by (simp add: mode_kept_def holds_file_def)
  obtain q d2 where q: "run_state (read_private_file default_read_limit (mode_path base))
      (d1\<lparr>answers := tl (answers d1)\<rparr>) = (q, d2)" by (metis surj_pair)
  have "q = Inr t \<Longrightarrow> t = mode_file_value m" for t
    using read_private_exact[of default_read_limit "mode_path base" "d1\<lparr>answers := tl (answers d1)\<rparr>" t] f
    by (auto simp: q holds_file_def)
  then show ?thesis
    using False r f[of "[]"] q safe_mode_name assms(1) interpret_mode_file_value(1)[of m]
    by (cases r; cases q)
      (auto simp: mode_load_def disk_mode_storage_def secure_local_path_def mode_path_def split_def
        holds_file_def storage_path_facts simp del: chain.simps split: list.split answer.split)
qed

section \<open>Runs\<close>

context disk_host
begin

lemma plain_run_host:
  "pf_environment P = env \<Longrightarrow> service_host (observing (program_services P)) (on_observed (on_disk D))
     (observing_tools ((program_tools P)\<lparr>tool_save_mode := \<lambda>m. State_Monad.return (False, [])\<rparr>))"
  by (intro run_host keeps_return)

definition on_run :: "'w machine observed console \<Rightarrow> bool" where
  "on_run s \<longleftrightarrow> D (files (observed (world s)))"

lemma records_keep:
  assumes "pf_environment P = env"
  shows "keeps on_run (opening_records (observing (program_services P)) a)"
    "keeps on_run (closing_records (observing (program_services P)) a r)"
proof -
  have "keeps on_run (console_record_event (observing (program_services P)) ev)" for ev
    using service_host.event_console[OF plain_run_host[OF assms], of ev]
    by (simp add: keeps_def service_host.on_console_def[OF plain_run_host[OF assms]] on_run_def on_observed_def
        on_disk_def)
  then show "keeps on_run (opening_records (observing (program_services P)) a)"
    "keeps on_run (closing_records (observing (program_services P)) a r)"
    unfolding opening_records_def closing_records_def by (intro keeps_intro; assumption?)+
qed

lemma opened_keeps: "pf_environment P = env \<Longrightarrow> D (files s) \<Longrightarrow> D (files (when_opened P a s))"
  using keepsD[OF records_keep(1), of P "start_console (fresh s)" a]
  by (simp add: on_run_def when_opened_def start_console_def fresh_def)

end

text \<open>The posture takes the mode from the storage, whose files the queries of the firewall leave alone.\<close>

lemma posture_mode:
  "fw_operating_mode (fst (run_state (posture_inspect (program_runner P) (program_storage P) depth) s)) =
     loaded_mode (fst (run_state (mode_load (disk_mode_storage (pf_environment P))) (files s)))"
  "operating_mode_status (fst (run_state (posture_inspect (program_runner P) (program_storage P) depth) s)) =
     load_status (fst (run_state (mode_load (disk_mode_storage (pf_environment P))) (files s)))"
proof -
  let ?w = "snd (run_state (backend_inspect (program_runner P) depth) s)"
  have "on_disk (\<lambda>d. d = files s) ?w"
    by (rule keepsD[OF files_probing.backend_inspect_keeps]) (simp add: on_disk_def)
  then have "fst (run_state (mode_load (program_storage P)) ?w) =
      fst (run_state (mode_load (disk_mode_storage (pf_environment P))) (files s))"
    by (simp add: program_mode on_files_def on_disk_def)
  then show
    "fw_operating_mode (fst (run_state (posture_inspect (program_runner P) (program_storage P) depth) s)) =
       loaded_mode (fst (run_state (mode_load (disk_mode_storage (pf_environment P))) (files s)))"
    "operating_mode_status (fst (run_state (posture_inspect (program_runner P) (program_storage P) depth) s)) =
       load_status (fst (run_state (mode_load (disk_mode_storage (pf_environment P))) (files s)))"
    by (cases depth; simp add: posture_inspect_def split_def Let_def availability_notices_def apply_mode_def
        apply_evidence_def push_error_def)+
qed

text \<open>A run that set the mode with success has stored it.\<close>

lemma mode_arguments:
  "parse_two ''--mode'' (mode_file_value m) = (make_command Mode)\<lparr>mode_to_set := Some m\<rparr>"
  "parse_command_line [''--mode'', mode_file_value m] = (make_command Mode)\<lparr>mode_to_set := Some m\<rparr>"
  using parse_modifier(4)[of m] by (simp_all add: option_of_def)

lemma set_run_stores:
  assumes "fst (program_run P [''--mode'', mode_file_value m] lines s) = 0"
  shows "\<exists>base. storage_directory (pf_environment P) ConfigArea = Some (mode_directory base) \<and>
    mode_kept base m (files (observed (world (snd (program_run P [''--mode'', mode_file_value m] lines s)))))"
proof -
  let ?s = "when_opened P Mode s"
  let ?save = "run_state (mode_save (disk_mode_storage (pf_environment P)) m) (files ?s)"
  obtain r w where command: "command_run P [''--mode'', mode_file_value m] lines s = (r, w)" by fastforce
  have "r = 0" using assms program_run_parts(1)[of P "[''--mode'', mode_file_value m]" lines s] command by simp
  then have ok: "fst (fst ?save)" and w: "files (observed w) = snd ?save"
    using command
    by (auto simp: mode_arguments dispatch_def execute_def make_command_def set_mode_def fail_with_def emit_def
        observing_def observing_tools_def observe_def program_services_def program_tools_def program_mode
        on_files_def when_opened_def show_on_screen_def ask_def on_host_def print_def split_def
        split: if_splits)
  obtain base where base: "storage_directory (pf_environment P) ConfigArea = Some (mode_directory base)"
    "mode_kept base m (snd ?save)"
    using mode_save_stores[OF ok] storage_directory_base unfolding mode_kept_def mode_path_def by metis
  have "kept_mode.on_run base m ((opened P Mode s)\<lparr>world := w\<rparr>)"
    using base(2) w by (simp add: kept_mode.on_run_def)
  from keepsD[OF kept_mode.records_keep(2)[OF refl] this]
  show ?thesis
    using base(1) command
    by (auto simp: program_run_def run_console_def console_run_parts in_world_def split_def mode_arguments
        make_command_def kept_mode.on_run_def simp del: parse_command_line.simps)
qed

text \<open>The machine later: the process ended and others ran, with other screens, terminals and answers of the
  kernel, and ffc ran with any arguments but a mode to set.\<close>

inductive later_machine :: "environment \<Rightarrow> 'w machine \<Rightarrow> 'w machine \<Rightarrow> bool" for env s where
  later_now: "later_machine env s s"
| later_start: "later_machine env s t \<Longrightarrow> nodes (files u) = nodes (files t) \<Longrightarrow> later_machine env s u"
| later_run: "later_machine env s t \<Longrightarrow> pf_environment P = env \<Longrightarrow> mode_to_set (parse_command_line args) = None \<Longrightarrow>
    later_machine env s (observed (world (snd (program_run P args lines t))))"

lemma later_keeps_mode: "later_machine env s t \<Longrightarrow> mode_kept base m (files s) \<Longrightarrow> mode_kept base m (files t)"
proof (induction rule: later_machine.induct)
  case (later_start t u)
  then show ?case by (simp add: mode_kept_def owned_directory_def holds_file_def)
next
  case (later_run t P args lines)
  then show ?case by (intro kept_mode.run_keeps_disk) simp_all
qed simp

section \<open>Properties\<close>


text \<open>A mode is set and a status is printed on an empty disk, with no directory for the logs.\<close>

definition config_only :: environment where
  "config_only = \<lparr>xdg_config_home = Some ''/c'', xdg_state_home = None, home_variable = None\<rparr>"

lemma no_log_directory:
  "run_state (log_record config_only pid now later ev) d = (Some ''HOME and XDG storage variables are unavailable'', d)"
  by (cases "le_channel ev")
    (simp_all add: log_record_def secure_local_path_def storage_directory_def config_only_def safe_filename_def
      find_any_def log_file_name_def)

lemma config_only_opened:
  "pf_environment P = config_only \<Longrightarrow> files (when_opened P a s) = files s"
  by (simp add: when_opened_def opening_records_def console_record_event_def console_report_once_def
      observing_def program_services_def write_record_def ask_def on_host_def on_files_def no_log_directory
      in_world_def observe_def show_on_screen_def print_def split_def start_console_def fresh_def)

lemma config_only_saved:
  "fst (fst (run_state (mode_save (disk_mode_storage config_only) m) (fresh_disk (\<lambda>p. None) [])))"
  by (cases m)
    (simp_all add: mode_save_def disk_mode_storage_def secure_local_path_def safe_mode_name
      storage_directory_def config_only_def path_append_def check_existing_def
      private_directory_def system_call_def create_directories_def path_steps_def upt_rec make_directory_def
      directory_check_def change_mode_def fresh_disk_def new_directory_def update_node_def
      write_private_file_def open_for_writing_def private_regular_file_def file_check_def truncate_file_def
      flush_call_def write_all_def write_loop.simps append_contents_def mode_file_value_def new_file_def Let_def)

lemma config_only_set:
  assumes "pf_environment P = config_only"
  shows "fst (program_run P [''--mode'', mode_file_value m] lines (s\<lparr>files := fresh_disk (\<lambda>p. None) []\<rparr>)) = 0"
proof -
  let ?s = "s\<lparr>files := fresh_disk (\<lambda>p. None) []\<rparr>"
  have "files (observed (world (opened P Mode ?s))) = fresh_disk (\<lambda>p. None) []"
    using config_only_opened[OF assms, of Mode ?s] by (simp add: when_opened_def)
  then show ?thesis
    using config_only_saved[of m]
    by (simp add: program_run_parts mode_arguments dispatch_def execute_def make_command_def set_mode_def
        observing_def observing_tools_def observe_def program_services_def program_tools_def program_mode assms
        on_files_def split_def)
qed


end
