(* ===== verification/RunOutput.thy ===== *)
theory RunOutput
  imports Verdict
begin

text \<open>
  What a run writes to its two streams: the text of every view that it asks the display for, in the order
  of the requests, and nothing else.  The collectors, the stores, the log and the terminal leave both
  streams alone, so the safety of the views is the safety of the whole output.
\<close>

section \<open>Operations that write nothing\<close>

definition streams :: "string \<Rightarrow> string \<Rightarrow> 'w machine \<Rightarrow> bool" where
  "streams out err s \<longleftrightarrow> screen s = out \<and> errors_shown s = err"

lemma streams_kept:
  "keeps (streams out err) (on_host k)" "keeps (streams out err) (ask a)" "keeps (streams out err) (on_files f)"
  by (simp_all add: keeps_def streams_def ask_def on_host_def on_files_def split_def)

lemma runner_streams:
  "keeps (streams out err) (run (program_runner P) args)"
  "keeps (streams out err) (run_with_input (program_runner P) args input)"
  by (simp_all add: program_runner_def Let_def streams_kept)

lemma mode_streams:
  "keeps (streams out err) (mode_load (program_storage P))"
  "keeps (streams out err) (mode_save (program_storage P) m)"
  unfolding mode_load_def mode_save_def program_storage_def Let_def mode_storage.simps
  by (intro keeps_intro keeps_pair keeps_sum keeps_bool streams_kept)+

lemma terminal_streams:
  "keeps (streams out err) (set_terminal P t)" "keeps (streams out err) (get_terminal P)"
  unfolding set_terminal_def get_terminal_def
  by (intro keeps_intro streams_kept; simp add: keeps_def streams_def)+

interpretation silent_host: complete_posture_host "program_runner P" "streams out err" "\<lambda>_. True"
  "program_storage P" for P out err
  by unfold_locales (simp_all add: runner_streams mode_streams)

interpretation silent_probing: probing_host "program_runner P" "streams out err" "\<lambda>_. True" for P out err
  by unfold_locales simp

lemma services_streams:
  "keeps (streams out err) (take_snapshot P st sid)" "keeps (streams out err) (write_record P ev)"
  "keeps (streams out err) (evidence_read_history (on_files h))"
  "keeps (streams out err) (evidence_capture (collect_metadata P e) (\<lambda>m. on_files (f m)))"
  unfolding take_snapshot_def write_record_def evidence_read_history_def evidence_capture_def collect_metadata_def
  by (intro keeps_intro keeps_pair keeps_sum streams_kept silent_probing.metadata_inspect_keeps)+

lemmas streams_keep = services_streams streams_kept mode_streams terminal_streams
  silent_host.posture_inspect_keeps silent_host.vpn_inspect_keeps silent_host.sockets_inspect_keeps
  silent_probing.diagnostics_inspect_keeps silent_probing.advisories_inspect_keeps

section \<open>The requests and their texts\<close>

text \<open>The requests to the display in a trace, and the stream that each is written to.\<close>

definition requests :: "event list \<Rightarrow> display list" where
  "requests es = List.map_filter (\<lambda>e. case e of DisplayEvent d \<Rightarrow> Some d | _ \<Rightarrow> None) es"

fun to_error_stream :: "display \<Rightarrow> bool" where
  "to_error_stream (PrintError e) = True"
| "to_error_stream _ = False"

lemma requests_simps [simp]:
  "requests [] = []" "requests (es @ fs) = requests es @ requests fs"
  by (simp_all add: requests_def List.map_filter_def)

text \<open>The texts of a list of requests, each rendered at a time of the steady clock.\<close>

definition text_of_request :: "'w platform \<Rightarrow> display \<times> int \<Rightarrow> string" where
  "text_of_request P = (\<lambda>(d, now). render_view (pf_ui P) (pf_surroundings P) now d)"

definition written_to :: "'w platform \<Rightarrow> bool \<Rightarrow> (display \<times> int) list \<Rightarrow> string" where
  "written_to P error_stream rs =
     concat (map (text_of_request P) (filter (\<lambda>r. to_error_stream (fst r) = error_stream) rs))"

lemma written_to_append: "written_to P b (rs @ [(d, now)]) =
    written_to P b rs @ (if to_error_stream d = b then render_view (pf_ui P) (pf_surroundings P) now d else [])"
  by (simp add: written_to_def text_of_request_def)

definition output_of :: "'w platform \<Rightarrow> string \<Rightarrow> string \<Rightarrow> 'w machine observed \<Rightarrow> bool" where
  "output_of P out err s \<longleftrightarrow> (\<exists>rs. map fst rs = requests (trace s) \<and>
     streams (out @ written_to P False rs) (err @ written_to P True rs) (observed s))"

lemma silent_output:
  assumes "\<And>a b. keeps (streams a b) m" "requests es = []"
  shows "keeps (output_of P out err) (observe es m)"
  unfolding keeps_def
proof (intro allI impI)
  fix s assume "output_of P out err s"
  then obtain rs where rs: "map fst rs = requests (trace s)"
    "streams (out @ written_to P False rs) (err @ written_to P True rs) (observed s)"
    unfolding output_of_def by blast
  from rs(1) keepsD[OF assms(1) rs(2)] show "output_of P out err (snd (run_state (observe es m) s))"
    unfolding output_of_def by (intro exI[of _ rs]) (simp add: observe_def split_def assms(2))
qed

lemma display_output: "keeps (output_of P out err) (observe [DisplayEvent d] (show_on_screen P d))"
  unfolding keeps_def
proof (intro allI impI)
  fix s assume "output_of P out err s"
  then obtain rs where rs: "map fst rs = requests (trace s)"
    "streams (out @ written_to P False rs) (err @ written_to P True rs) (observed s)"
    unfolding output_of_def by blast
  let ?now = "fst (run_state (ask (pf_steady_clock P)) (observed s))"
  have "streams (out @ written_to P False (rs @ [(d, ?now)])) (err @ written_to P True (rs @ [(d, ?now)]))
      (snd (run_state (show_on_screen P d) (observed s)))"
    using rs(2) by (cases d)
      (simp_all add: written_to_append show_on_screen_def print_def ask_def on_host_def streams_def split_def)
  then show "output_of P out err (snd (run_state (observe [DisplayEvent d] (show_on_screen P d)) s))"
    unfolding output_of_def
    by (intro exI[of _ "rs @ [(d, ?now)]"])
      (simp add: observe_def split_def rs(1) requests_def List.map_filter_def)
qed

lemma quiet_events [simp]:
  "requests [PostureEvent d] = []" "requests [CaptureEvent e] = []" "requests [HistoryEvent] = []"
  "requests [DiagnosticsEvent e a] = []" "requests [AdvisoriesEvent] = []" "requests [LogsEvent] = []"
  "requests [RecordEvent ev] = []" "requests [ToolEvent t] = []"
  by (simp_all add: requests_def List.map_filter_def)

interpretation written_program: service_host "observing (program_services P)" "output_of P out err"
  "observing_tools (program_tools P)" for P out err
  by unfold_locales
    (simp_all add: observing_def observing_tools_def program_services_def program_tools_def
      silent_output display_output streams_keep)

lemma program_run_output: "output_of P (screen s) (errors_shown s) (world (snd (program_run P args lines s)))"
  unfolding program_run_def run_console_def
proof (rule written_program.run_keeps_invariant)
  show "output_of P (screen s) (errors_shown s) (fresh s)"
    unfolding output_of_def by (intro exI[of _ "[]"]) (simp add: fresh_def streams_def written_to_def)
qed

section \<open>The reports\<close>

text \<open>The commands whose views hold no text that is passed on.\<close>

definition reports :: "command_action \<Rightarrow> bool" where
  "reports a \<longleftrightarrow> a \<in> {Status, ReadinessAction, Listeners, ThreatAssessmentAction, NetworkDiagnosticsAction,
     SecurityAdvisoriesAction, NetworkMetadataAction, NetworkHistoryAction, LogAnalysisAction, Help, Invalid}"

definition plain_request :: "'w platform \<Rightarrow> display \<Rightarrow> bool" where
  "plain_request P d \<longleftrightarrow> (\<forall>now. screen_safe (text_of_request P (d, now)))"

definition plain_so_far :: "'w platform \<Rightarrow> 's observed \<Rightarrow> bool" where
  "plain_so_far P s \<longleftrightarrow> list_all (plain_request P) (requests (trace s))"

lemma printable_unlines: "list_all printable xs \<Longrightarrow> printable (unlines xs)"
  by (induction xs) (simp_all add: unlines_def printable_append, simp_all add: printable_def)

lemma constants_printable: "printable usage_text" "printable logging_warning"
  unfolding usage_text_def logging_warning_def
  by (rule printable_unlines) (simp_all add: usage_options_def printable_def)

lemma views_plain:
  "plain_request P (ShowStatus st)" "plain_request P (ShowOverview st)" "plain_request P (ShowReadiness st)"
  "plain_request P (ShowListeners st)" "plain_request P (ShowThreatAssessment st)"
  "plain_request P (ShowNetworkDiagnostics d)" "plain_request P (ShowSecurityAdvisories r)"
  "plain_request P (ShowNetworkMetadata m l)" "plain_request P (ShowNetworkHistory records l)"
  "plain_request P (ShowLogAnalysis a)" "plain_request P (PrintOut usage_text)"
  "plain_request P (PrintError logging_warning)"
  by (simp_all add: plain_request_def text_of_request_def view_screens constants_printable printable_screen)

lemma plain_silent: "requests es = [] \<Longrightarrow> keeps (plain_so_far P) (observe es m)"
  by (simp add: keeps_def plain_so_far_def observe_def split_def)

lemma plain_display: "plain_request P d \<Longrightarrow> keeps (plain_so_far P) (svc_display (observing S) d)"
  by (simp add: keeps_def plain_so_far_def observing_def observe_def split_def requests_def List.map_filter_def)

lemma plain_services:
  "keeps (plain_so_far P) (svc_posture (observing S) d)" "keeps (plain_so_far P) (svc_capture (observing S) e v)"
  "keeps (plain_so_far P) (svc_history (observing S))" "keeps (plain_so_far P) (svc_diagnostics (observing S) e a)"
  "keeps (plain_so_far P) (svc_advisories (observing S))" "keeps (plain_so_far P) (svc_logs (observing S))"
  "keeps (plain_so_far P) (svc_record (observing S) ev)"
  "keeps (plain_so_far P) (tool_vpn (observing_tools T))" "keeps (plain_so_far P) (tool_sockets (observing_tools T))"
  by (simp_all add: observing_def observing_tools_def plain_silent)

lemma report_plain:
  assumes "reports (cl_action c)"
  shows "keeps (plain_so_far P) (dispatch (observing S) (observing_tools T) c lines)"
proof -
  have "keeps (plain_so_far P) (execute_posture (observing S) (observing_tools T) (cl_action c))"
    using assms unfolding execute_posture_def reports_def
    by (auto intro!: keeps_bind keeps_return plain_services plain_display views_plain)
  moreover have "keeps (plain_so_far P) (execute_listeners (observing S) (observing_tools T))"
    "keeps (plain_so_far P) (execute_diagnostics (observing S) c)"
    "keeps (plain_so_far P) (execute_history (observing S))"
    "keeps (plain_so_far P) (execute_metadata (observing S) (observing_tools T) b)"
    "keeps (plain_so_far P) (print_usage (observing S))" for b
    unfolding execute_listeners_def execute_diagnostics_def execute_history_def execute_metadata_def
      print_usage_def emit_def
    by (intro keeps_intro plain_services plain_display views_plain)+
  ultimately show ?thesis
    using assms unfolding dispatch_def execute_def reports_def
    by (auto intro!: keeps_bind keeps_return plain_services plain_display views_plain)
qed

text \<open>The records before and after the command print at most the warning that the log is unavailable.\<close>

definition plain_console :: "'w platform \<Rightarrow> 's observed console \<Rightarrow> bool" where
  "plain_console P s \<longleftrightarrow> plain_so_far P (world s)"

lemma plain_in_world: "keeps (plain_so_far P) m \<Longrightarrow> keeps (plain_console P) (in_world m)"
  by (simp add: keeps_def plain_console_def in_world_def split_def)

lemma plain_records: "keeps (plain_console P) (console_record_event (observing S) ev)"
  unfolding console_record_event_def console_report_once_def
  by (intro keeps_intro plain_in_world plain_services plain_display views_plain)
    (simp add: keeps_def plain_console_def)

lemma report_run_plain:
  assumes "reports (cl_action (parse_command_line args))"
  shows "plain_so_far P (world (snd (program_run P args lines s)))"
proof -
  have "keeps (plain_console P) (console_run (observing (program_services P))
      (observing_tools (program_tools P)) args lines)"
    unfolding console_run_parts opening_records_def closing_records_def
    by (intro keeps_intro plain_records plain_in_world report_plain assms)
  moreover have "plain_console P (start_console (fresh s))"
    by (simp add: plain_console_def plain_so_far_def)
  ultimately show ?thesis
    unfolding program_run_def run_console_def plain_console_def by (rule keepsD[unfolded plain_console_def])
qed

lemma written_plain:
  "list_all (plain_request P) (map fst rs) \<Longrightarrow> screen_safe (written_to P b rs)"
  unfolding written_to_def
  by (rule screen_concat) (auto simp: plain_request_def list_all_iff)

section \<open>Properties\<close>

text \<open>A request that has the display pass on a text that is not safe.\<close>

definition passes_on_unsafe :: "display \<Rightarrow> bool" where
  "passes_on_unsafe d \<longleftrightarrow> list_ex (\<lambda>s. \<not> screen_safe s) (raw_parts d)"

lemma request_safe: "screen_ok (pf_ui P) (text_of_request P r) \<or> passes_on_unsafe (fst r)"
  using displayed_text_is_safe[of "fst r" "pf_ui P" "pf_surroundings P" "snd r"]
  by (auto simp: text_of_request_def split_def passes_on_unsafe_def list_all_iff list_ex_iff)

text \<open>C5: The output of every run, from its arguments to its exit: what the run appends to the standard
  output is the text of the views that it requested, in the order of the requests, and what it appends
  to the standard error is the text of its diagnostics; each of these texts is lines of printable text
  and colours, after at most the sequence that clears the terminal, or belongs to one of the few requests
  that hand over a text that is not, to be passed on as it is.\<close>

theorem every_run_prints_its_views:
  "(let r = world (snd (program_run P args lines s))
    in \<exists>rs. map fst rs = requests (trace r) \<and>
         screen (observed r) = screen s @ written_to P False rs \<and>
         errors_shown (observed r) = errors_shown s @ written_to P True rs \<and>
         list_all (\<lambda>request. screen_ok (pf_ui P) (text_of_request P request) \<or> passes_on_unsafe (fst request)) rs)"
  using program_run_output[of P s args lines]
  by (auto simp: Let_def output_of_def streams_def list_all_iff request_safe)

text \<open>C4: The reports of the command line are safe as a whole: for every command but the session, the
  snapshots, the mode and the key, everything that a run appends to the standard output and to the standard
  error is lines of printable text and colours, whatever the host, the network and the files contain.\<close>

theorem report_runs_print_safely:
  "reports (cl_action (parse_command_line args)) \<Longrightarrow>
   \<exists>out err. screen (observed (world (snd (program_run P args lines s)))) = screen s @ out \<and>
     errors_shown (observed (world (snd (program_run P args lines s)))) = errors_shown s @ err \<and>
     screen_safe out \<and> screen_safe err"
proof -
  assume "reports (cl_action (parse_command_line args))"
  from report_run_plain[OF this, of P lines s]
  have plain: "list_all (plain_request P) (requests (trace (world (snd (program_run P args lines s)))))"
    by (simp only: plain_so_far_def)
  show ?thesis
    using program_run_output[of P s args lines] plain written_plain
    unfolding output_of_def streams_def by metis
qed

lemma report_runs_witness:
  "\<forall>(P :: unit platform) lines s. \<exists>out err.
     screen (observed (world (snd (program_run P [''--network-metadata''] lines s)))) = screen s @ out \<and>
     errors_shown (observed (world (snd (program_run P [''--network-metadata''] lines s)))) = errors_shown s @ err \<and>
     screen_safe out \<and> screen_safe err"
  by (intro allI report_runs_print_safely) (simp add: reports_def parse_option_def make_command_def)

end
