(* ===== verification/Interleaving.thy ===== *)
theory Interleaving
  imports CommandRunner
begin

text \<open>
  Several runs of the program on the same files.  A section of a run is a sequence of performed parts, each
  of them one part of the code on the common state; the processes take turns in any order, and a
  section that is guarded by \<open>flock(LOCK_EX)\<close>, as the records of \<open>src/logging/engine/logging_engine.cpp\<close>
  are, starts when no other process holds the lock and ends with its release.
\<close>

section \<open>Sections\<close>

datatype 's program = Finish "string option" | Perform "('s, 's program) state"

definition perform :: "('s, 'a) state \<Rightarrow> ('a \<Rightarrow> 's program) \<Rightarrow> 's program" where
  "perform m f = Perform (State_Monad.bind m (\<lambda>x. State_Monad.return (f x)))"

primrec run_program :: "'s program \<Rightarrow> ('s, string option) state" where
  "run_program (Finish e) = State_Monad.return e"
| "run_program (Perform m) = State_Monad.bind (map_state run_program m) (\<lambda>k. k)"

fun chain_program :: "('s, string option) state list \<Rightarrow> 's program" where
  "chain_program [] = Finish None"
| "chain_program (m # ms) =
     perform m (\<lambda>e. case e of Some err \<Rightarrow> Finish (Some err) | None \<Rightarrow> chain_program ms)"

lemma run_state_map [simp]: "run_state (map_state f m) s = map_prod f (\<lambda>t. t) (run_state m s)"
  by (cases m) (simp add: id_def)

lemma run_perform: "run_program (perform m f) = State_Monad.bind m (\<lambda>x. run_program (f x))"
  by (intro state_ext) (simp add: perform_def split_def)

section \<open>Turns\<close>

datatype 's phase = Waiting | Inside "'s program" | Done "string option"

text \<open>\<open>entered\<close> is the order in which the lock was granted.\<close>

record 's processes =
  holder :: "nat option"
  phase_of :: "nat \<Rightarrow> 's phase"
  common :: 's
  entered :: "nat list"

definition waiting :: "'s \<Rightarrow> 's processes" where
  "waiting s = \<lparr>holder = None, phase_of = (\<lambda>i. Waiting), common = s, entered = []\<rparr>"

definition move_to :: "nat \<Rightarrow> 's phase \<Rightarrow> 's processes \<Rightarrow> 's processes" where
  "move_to i p r = r\<lparr>phase_of := (phase_of r)(i := p)\<rparr>"

definition enter :: "(nat \<Rightarrow> 's program) \<Rightarrow> nat \<Rightarrow> 's processes \<Rightarrow> 's processes" where
  "enter jobs i r =
     (if holder r = None
      then (move_to i (Inside (jobs i)) r)\<lparr>holder := Some i, entered := entered r @ [i]\<rparr> else r)"

definition leave :: "nat \<Rightarrow> string option \<Rightarrow> 's processes \<Rightarrow> 's processes" where
  "leave i e r = (move_to i (Done e) r)\<lparr>holder := None\<rparr>"

definition advance :: "nat \<Rightarrow> ('s, 's program) state \<Rightarrow> 's processes \<Rightarrow> 's processes" where
  "advance i m r =
     (case run_state m (common r) of (p, s) \<Rightarrow> (move_to i (Inside p) r)\<lparr>common := s\<rparr>)"

definition turn :: "(nat \<Rightarrow> 's program) \<Rightarrow> nat \<Rightarrow> 's processes \<Rightarrow> 's processes" where
  "turn jobs i r =
     (case phase_of r i of
        Waiting \<Rightarrow> enter jobs i r
      | Inside (Perform m) \<Rightarrow> advance i m r
      | Inside (Finish e) \<Rightarrow> leave i e r
      | Done e \<Rightarrow> r)"

definition turns :: "(nat \<Rightarrow> 's program) \<Rightarrow> nat list \<Rightarrow> 's processes \<Rightarrow> 's processes" where
  "turns jobs schedule r = foldl (\<lambda>r i. turn jobs i r) r schedule"

lemma turns_simps [simp]:
  "turns jobs [] r = r" "turns jobs (i # schedule) r = turns jobs schedule (turn jobs i r)"
  by (simp_all add: turns_def)

lemma turns_append: "turns jobs (schedule @ js) r = turns jobs js (turns jobs schedule r)"
  by (simp add: turns_def)

text \<open>The processes one after the other.\<close>

definition in_sequence :: "(nat \<Rightarrow> 's program) \<Rightarrow> nat list \<Rightarrow> 's \<Rightarrow> 's" where
  "in_sequence jobs order s = foldl (\<lambda>s i. snd (run_state (run_program (jobs i)) s)) s order"

definition result_after :: "(nat \<Rightarrow> 's program) \<Rightarrow> nat list \<Rightarrow> nat \<Rightarrow> 's \<Rightarrow> string option" where
  "result_after jobs before i s = fst (run_state (run_program (jobs i)) (in_sequence jobs before s))"

lemma in_sequence_simps [simp]:
  "in_sequence jobs [] s = s"
  "in_sequence jobs (order @ [i]) s = snd (run_state (run_program (jobs i)) (in_sequence jobs order s))"
  by (simp_all add: in_sequence_def)

section \<open>The lock serialises\<close>

text \<open>Everyone but the holder waits or is done, with the result of the sequential order.\<close>

definition settled :: "(nat \<Rightarrow> 's program) \<Rightarrow> 's \<Rightarrow> nat list \<Rightarrow> nat \<Rightarrow> 's phase \<Rightarrow> bool" where
  "settled jobs s order i ph \<longleftrightarrow>
     (case ph of
        Waiting \<Rightarrow> i \<notin> set order
      | Done e \<Rightarrow> (\<exists>before after. order = before @ i # after \<and> e = result_after jobs before i s)
      | Inside p \<Rightarrow> False)"

definition serial :: "(nat \<Rightarrow> 's program) \<Rightarrow> 's \<Rightarrow> 's processes \<Rightarrow> bool" where
  "serial jobs s r \<longleftrightarrow> distinct (entered r) \<and>
     (case holder r of
        None \<Rightarrow> common r = in_sequence jobs (entered r) s \<and>
          (\<forall>i. settled jobs s (entered r) i (phase_of r i))
      | Some h \<Rightarrow> (\<exists>before p. entered r = before @ [h] \<and> phase_of r h = Inside p \<and>
          run_state (run_program p) (common r) = run_state (run_program (jobs h)) (in_sequence jobs before s) \<and>
          (\<forall>i. i \<noteq> h \<longrightarrow> settled jobs s before i (phase_of r i))))"

lemma settled_simps [simp]:
  "settled jobs s order i Waiting \<longleftrightarrow> i \<notin> set order"
  "\<not> settled jobs s order i (Inside p)"
  "settled jobs s (before @ [i]) i (Done (result_after jobs before i s))"
  by (auto simp: settled_def)

lemma settled_snoc: "i \<noteq> j \<Longrightarrow> settled jobs s order i ph \<Longrightarrow> settled jobs s (order @ [j]) i ph"
  by (cases ph) (auto simp: settled_def, metis append.assoc append_Cons)

lemma move_to_simps [simp]:
  "phase_of (move_to i p r) = (phase_of r)(i := p)" "common (move_to i p r) = common r"
  "holder (move_to i p r) = holder r" "entered (move_to i p r) = entered r"
  by (simp_all add: move_to_def)

lemma serial_enter:
  "serial jobs s r \<Longrightarrow> phase_of r i = Waiting \<Longrightarrow> serial jobs s (enter jobs i r)"
  by (cases "holder r") (auto simp: serial_def enter_def dest: spec[of _ i])

lemma inside_holds: "serial jobs s r \<Longrightarrow> phase_of r i = Inside p \<Longrightarrow> holder r = Some i"
  by (cases "holder r") (auto simp: serial_def dest: spec[of _ i])

lemma serial_advance:
  assumes "serial jobs s r" and i: "phase_of r i = Inside (Perform m)"
  shows "serial jobs s (advance i m r)"
  using assms inside_holds[OF assms]
  by (cases "run_state m (common r)") (auto simp: serial_def advance_def)

lemma serial_leave:
  assumes ser: "serial jobs s r" and i: "phase_of r i = Inside (Finish e)"
  shows "serial jobs s (leave i e r)"
proof -
  from ser i inside_holds[OF ser i] obtain before where b: "entered r = before @ [i]" "distinct (entered r)"
    "run_state (run_program (jobs i)) (in_sequence jobs before s) = (e, common r)"
    "\<And>j. j \<noteq> i \<Longrightarrow> settled jobs s before j (phase_of r j)"
    by (auto simp: serial_def)
  have "settled jobs s (entered r) j (((phase_of r)(i := Done e)) j)" for j
    using b(1,3) b(4)[of j] settled_simps(3)[of jobs s before i]
    by (cases "j = i") (simp_all add: result_after_def settled_snoc)
  then show ?thesis using b(1-3) by (simp add: serial_def leave_def)
qed

lemma serial_turn: "serial jobs s r \<Longrightarrow> serial jobs s (turn jobs i r)"
  by (auto simp: turn_def serial_enter serial_advance serial_leave split: phase.split program.split)

lemma turns_serial: "serial jobs s (turns jobs schedule (waiting s))"
proof -
  have "serial jobs s (waiting s)" by (simp add: serial_def waiting_def)
  then show ?thesis
    by (induction schedule rule: rev_induct) (simp_all add: turns_append serial_turn)
qed

text \<open>Whoever holds the lock gives it back, after finitely many turns of its own.\<close>

lemma section_turns:
  "phase_of r i = Inside p \<Longrightarrow> \<exists>n. turns jobs (replicate n i) r =
     leave i (fst (run_state (run_program p) (common r))) (r\<lparr>common := snd (run_state (run_program p) (common r))\<rparr>)"
proof (induction p arbitrary: r)
  case (Finish e)
  then have "turns jobs (replicate 1 i) r = leave i e r" by (simp add: turn_def)
  then show ?case by (intro exI[of _ 1]) simp
next
  case (Perform m)
  obtain p s where m: "run_state m (common r) = (p, s)" by (metis surj_pair)
  then have "p \<in> set_state m" by (auto simp: set_state_iff)
  moreover have "phase_of (advance i m r) i = Inside p" by (simp add: advance_def m)
  ultimately obtain n where n: "turns jobs (replicate n i) (advance i m r) =
      leave i (fst (run_state (run_program p) (common (advance i m r))))
        ((advance i m r)\<lparr>common := snd (run_state (run_program p) (common (advance i m r)))\<rparr>)"
    using Perform.IH by blast
  have "turns jobs (replicate (Suc n) i) r = turns jobs (replicate n i) (advance i m r)"
    using Perform.prems by (simp add: turn_def)
  then show ?case
    unfolding n by (intro exI[of _ "Suc n"]) (simp add: advance_def m leave_def move_to_def)
qed

lemma lock_is_released: "\<exists>more. holder (turns jobs (schedule @ more) (waiting s)) = None"
proof (cases "holder (turns jobs schedule (waiting s))")
  case None
  then show ?thesis by (intro exI[of _ "[]"]) simp
next
  case (Some h)
  then obtain p where "phase_of (turns jobs schedule (waiting s)) h = Inside p"
    using turns_serial[of jobs s schedule] by (auto simp: serial_def)
  from section_turns[OF this, of jobs] obtain n e r where
    "turns jobs (replicate n h) (turns jobs schedule (waiting s)) = leave h e r" by blast
  then show ?thesis by (intro exI[of _ "replicate n h"]) (simp add: turns_append leave_def)
qed

section \<open>A file that is written under the lock\<close>

definition written :: "(nat \<Rightarrow> 'v \<Rightarrow> 'v) \<Rightarrow> 'v \<Rightarrow> nat list \<Rightarrow> 'v" where
  "written writing v order = foldl (\<lambda>v i. writing i v) v order"

text \<open>
  The contract of a section with a file: on a file with contents \<open>v\<close> and room for the writing, it leaves
  the file with \<open>writing i v\<close> or reports an error.
\<close>

locale guarded_file =
  fixes jobs :: "nat \<Rightarrow> 's program"
    and holds :: "'v \<Rightarrow> 's \<Rightarrow> bool"
    and room :: "nat \<Rightarrow> 'v \<Rightarrow> bool"
    and writing :: "nat \<Rightarrow> 'v \<Rightarrow> 'v"
  assumes job_writes: "holds v s \<Longrightarrow> room i v \<Longrightarrow> fst (run_state (run_program (jobs i)) s) = None \<Longrightarrow>
    holds (writing i v) (snd (run_state (run_program (jobs i)) s))"
begin

lemma sequence_written:
  "holds v s \<Longrightarrow> (\<And>before i after. order = before @ i # after \<Longrightarrow>
      room i (written writing v before) \<and> result_after jobs before i s = None) \<Longrightarrow>
     holds (written writing v order) (in_sequence jobs order s)"
proof (induction order rule: rev_induct)
  case (snoc i order)
  have "holds (written writing v order) (in_sequence jobs order s)"
  proof (rule snoc.IH[OF snoc.prems(1)])
    fix before j after
    assume "order = before @ j # after"
    then show "room j (written writing v before) \<and> result_after jobs before j s = None"
      using snoc.prems(2)[of before j "after @ [i]"] by simp
  qed
  moreover have "room i (written writing v order)" "result_after jobs order i s = None"
    using snoc.prems(2)[of order i "[]"] by simp_all
  ultimately show ?case
    using job_writes by (simp add: written_def result_after_def)
qed (simp add: written_def)

lemma turns_written:
  assumes v: "holds v s" and free: "holder (turns jobs schedule (waiting s)) = None"
    and ok: "\<And>i. i \<in> set (entered (turns jobs schedule (waiting s))) \<Longrightarrow>
      phase_of (turns jobs schedule (waiting s)) i = Done None"
    and fits: "\<And>before i after. entered (turns jobs schedule (waiting s)) = before @ i # after \<Longrightarrow>
      room i (written writing v before)"
  shows "holds (written writing v (entered (turns jobs schedule (waiting s)))) (common (turns jobs schedule (waiting s)))"
proof -
  let ?r = "turns jobs schedule (waiting s)"
  have r: "distinct (entered ?r)" "common ?r = in_sequence jobs (entered ?r) s"
    "\<And>i. settled jobs s (entered ?r) i (phase_of ?r i)"
    using turns_serial[of jobs s schedule] free by (simp_all add: serial_def)
  have "result_after jobs before i s = None" if e: "entered ?r = before @ i # after" for before i after
  proof -
    from r(3)[of i] ok[of i] e obtain b a where
      b: "entered ?r = b @ i # a" "result_after jobs b i s = None" by (auto simp: settled_def)
    have "distinct (b @ i # a)" using r(1) b(1) by simp
    then have "i \<notin> set b" "i \<notin> set a" by auto
    then have "b = before" using append_Cons_eq_iff[of i b a before after] e b(1) by simp
    then show ?thesis using b(2) by simp
  qed
  then show ?thesis unfolding r(2) using sequence_written[OF v] fits by blast
qed

end

end
