(* ===== verification/ConcurrentRuns.thy ===== *)
theory ConcurrentRuns
  imports Interleaving NetworkHistory
begin

text \<open>
  The two stores that several runs of the program share.  The records of \<open>LoggingEngine::record\<close> are sections
  guarded by the lock file of the channel; \<open>NetworkHistoryStore::append\<close> takes no lock, so its reading
  and its writing may be separated by those of another run.
\<close>

section \<open>Sections of the stores\<close>

definition append_program :: "string \<Rightarrow> string \<Rightarrow> disk program" where
  "append_program path content =
     chain_program
       [system_call (open_for_writing path), private_regular_file path,
        system_call (change_mode path owner_read_write), write_all path content, flush_call, flush_call]"

definition entry_program ::
  "nat \<Rightarrow> int \<Rightarrow> int \<Rightarrow> log_event \<Rightarrow> string \<Rightarrow> bool \<Rightarrow> disk program" where
  "entry_program pid now later ev path full =
     (if full
      then perform (replace_private_file_atomically pid path
             (format_log_event later (rotation_event (le_channel ev)) @ format_log_event now ev)) Finish
      else append_program path (format_log_event now ev))"

text \<open>\<open>LoggingEngine::record\<close> once its process is at the lock.\<close>

definition record_section ::
  "nat \<Rightarrow> int \<Rightarrow> int \<Rightarrow> log_event \<Rightarrow> string \<Rightarrow> disk program" where
  "record_section pid now later ev path =
     perform (read_private_file maximum_log_bytes path) (\<lambda>existing.
       case existing of
         Inl e \<Rightarrow>
           if e \<noteq> no_such_file \<and> e \<noteq> size_limit_error then Finish (Some e)
           else entry_program pid now later ev path
                  (e = size_limit_error \<or> maximum_log_bytes < length (format_log_event now ev))
       | Inr s \<Rightarrow>
           entry_program pid now later ev path
             (maximum_log_bytes < length s + length (format_log_event now ev)))"

text \<open>\<open>NetworkHistoryStore::append\<close> once its process knows the path.\<close>

definition history_section :: "nat \<Rightarrow> string \<Rightarrow> string \<Rightarrow> disk program" where
  "history_section pid path entry =
     perform (read_private_file (maximum_history_bytes * 4) path) (\<lambda>existing.
       perform (store_after pid path entry existing) Finish)"

text \<open>Without a lock every process is in its section from the start.\<close>

definition unlocked :: "(nat \<Rightarrow> 's program) \<Rightarrow> 's \<Rightarrow> 's processes" where
  "unlocked jobs s = (waiting s)\<lparr>phase_of := (\<lambda>i. Inside (jobs i))\<rparr>"

lemma run_chain: "run_program (chain_program ms) = chain ms"
  by (induction ms) (auto simp: run_perform intro!: arg_cong[of _ _ "State_Monad.bind _"] split: option.split)

lemma run_append: "run_program (append_program path content) = write_private_file path content True"
  by (simp add: append_program_def run_chain write_private_file_def del: chain_program.simps chain.simps)

lemma run_finish: "run_program (perform m Finish) = m"
  by (simp add: run_perform)

lemma run_entry: "run_program (entry_program pid now later ev path full) = write_entry pid now later ev path full"
  by (simp add: entry_program_def write_entry_def run_append run_finish)

lemma run_record: "run_program (record_section pid now later ev path) = store_entry pid now later ev path"
  by (auto simp: record_section_def store_entry_def entry_after_def run_perform run_entry
      intro!: arg_cong[of _ _ "State_Monad.bind _"] split: sum.split)

lemma run_history: "run_program (history_section pid path entry) = store_record pid path entry"
  by (simp add: history_section_def store_record_def run_perform run_finish)

section \<open>Honest kernels\<close>

lemma honest_answered: "honest = answered_from (- {Refused no_such_file, Refused size_limit_error})"
  by (rule ext) (auto simp: honest_def answered_from_def)

lemma honest_append: "keeps honest (write_private_file path content True)"
  unfolding honest_answered by (rule answered.write_keeps) simp

section \<open>Records under the lock\<close>

lemma entry_after_error:
  "fst (run_state (entry_after pid now later ev path (Inl e)) d) = None \<Longrightarrow> e = no_such_file \<or> e = size_limit_error"
  by (auto simp: entry_after_def split: if_splits)

lemma entry_after_fits:
  assumes "length s + length (format_log_event now ev) \<le> maximum_log_bytes"
  shows "q = Inr s \<or> q = Inl no_such_file \<Longrightarrow>
    entry_after pid now later ev path q = write_private_file path (format_log_event now ev) True"
  using assms by (auto simp: entry_after_def write_entry_def Let_def no_such_file_def size_limit_error_def)

text \<open>What an honest reading can answer when the record is stored: the log, or that there is none.\<close>

lemma stored_reading:
  assumes read: "run_state (read_private_file maximum_log_bytes path) d = (q, d1)"
    and ok: "fst (run_state (entry_after pid now later ev path q) d1) = None"
    and before: "log_before path s d" and honest: "honest d" and fits: "length s \<le> maximum_log_bytes"
  shows "q = Inr s \<or> q = Inl no_such_file"
proof (cases q)
  case (Inr t)
  then have "holds_file path t d" using read_private_exact[of maximum_log_bytes path d t] read by simp
  then show ?thesis using Inr before by (auto simp: log_before_def holds_file_def)
next
  case (Inl e)
  have e: "e = no_such_file \<or> e = size_limit_error" using entry_after_error ok by (simp add: Inl)
  show ?thesis
  proof (cases "holds_file path s d")
    case True
    from read_private_error[OF this, of maximum_log_bytes e] have "Refused e \<in> set (answers d)"
      using read Inl fits by auto
    with e honest show ?thesis by (auto simp: honest_def)
  next
    case False
    then have "nodes d path = None" using before by (simp add: log_before_def)
    from read_missing[OF this, of maximum_log_bytes q] have "Refused e \<in> set (answers d) \<or> e = no_such_file"
      using read Inl by auto
    with e honest Inl show ?thesis by (auto simp: honest_def)
  qed
qed

lemma store_entry_appends:
  assumes ok: "fst (run_state (store_entry pid now later ev path) d) = None"
    and before: "log_before path s d" and honest: "honest d"
    and fits: "length s + length (format_log_event now ev) \<le> maximum_log_bytes"
  shows "holds_file path (s @ format_log_event now ev) (snd (run_state (store_entry pid now later ev path) d)) \<and>
    honest (snd (run_state (store_entry pid now later ev path) d))"
proof -
  let ?line = "format_log_event now ev"
  obtain r d1 where r: "run_state (read_private_file maximum_log_bytes path) d = (r, d1)" by (metis surj_pair)
  have d1: "nodes d1 = nodes d" "honest d1"
    using read_private_nodes[of maximum_log_bytes path d] honest_read[OF honest] by (simp_all add: r) (metis r snd_conv)
  have "fst (run_state (entry_after pid now later ev path r) d1) = None" using ok by (simp add: store_entry_def r)
  from stored_reading[OF r this before honest]
  have run: "run_state (store_entry pid now later ev path) d = run_state (write_private_file path ?line True) d1"
    using entry_after_fits[OF fits] fits by (auto simp: store_entry_def r)
  have "log_before path s d1" using before d1(1) by (simp add: log_before_def holds_file_def)
  then have "holds_file path (s @ ?line) (snd (run_state (write_private_file path ?line True) d1))"
    using ok specD[OF append_holds(1)[of path s ?line], of d1] specD[OF append_holds(2)[of path ?line], of d1]
    by (auto simp: run log_before_def split: prod.splits)
  then show ?thesis using keepsD[OF honest_append d1(2)] by (simp add: run)
qed

text \<open>The lock file makes the log of a channel a file that is written section by section.\<close>

record record_job =
  rj_process :: nat
  rj_now :: int
  rj_later :: int
  rj_event :: log_event

definition record_job_section :: "string \<Rightarrow> (nat \<Rightarrow> record_job) \<Rightarrow> nat \<Rightarrow> disk program" where
  "record_job_section path job i =
     record_section (rj_process (job i)) (rj_now (job i)) (rj_later (job i)) (rj_event (job i)) path"

definition job_line :: "(nat \<Rightarrow> record_job) \<Rightarrow> nat \<Rightarrow> string" where
  "job_line job i = format_log_event (rj_now (job i)) (rj_event (job i))"

interpretation channel_log: guarded_file "record_job_section path job"
  "\<lambda>v d. log_before path v d \<and> honest d" "\<lambda>i v. length v + length (job_line job i) \<le> maximum_log_bytes"
  "\<lambda>i v. v @ job_line job i" for path job
  by unfold_locales
    (auto simp: record_job_section_def run_record job_line_def log_before_def dest: store_entry_appends)

lemma written_lines: "written (\<lambda>i v. v @ job_line job i) v order = v @ concat (map (job_line job) order)"
  by (induction order arbitrary: v) (simp_all add: written_def)

section \<open>Appends without a lock\<close>

lemma turn_other: "j \<noteq> i \<Longrightarrow> phase_of (turn jobs j r) i = phase_of r i"
  by (auto simp: turn_def enter_def leave_def advance_def split: phase.split program.split prod.split)

lemma turns_others: "i \<notin> set others \<Longrightarrow> phase_of (turns jobs others r) i = phase_of r i"
  by (induction others arbitrary: r) (auto simp: turn_other)

text \<open>When an append replaces the file.\<close>

definition must_compact :: "string \<Rightarrow> string \<Rightarrow> string \<Rightarrow> disk \<Rightarrow> bool" where
  "must_compact path s entry d \<longleftrightarrow>
     nodes d path = None \<or> retain_recent_records s \<noteq> s \<or>
     maximum_history_records \<le> history_record_count s \<or>
     maximum_history_bytes < length (retain_recent_records s) + length entry"

lemma compacting_store:
  assumes before: "log_before path s d" and honest: "honest d" and fits: "length s \<le> maximum_history_bytes * 4"
    and compact: "must_compact path s entry d"
    and ok: "fst (run_state (store_after pid path entry
      (fst (run_state (read_private_file (maximum_history_bytes * 4) path) d))) d') = None"
  shows "holds_file path (retain_recent_records s @ entry)
    (snd (run_state (store_after pid path entry
      (fst (run_state (read_private_file (maximum_history_bytes * 4) path) d))) d'))"
proof -
  let ?q = "fst (run_state (read_private_file (maximum_history_bytes * 4) path) d)"
  have "store_after pid path entry ?q = replace_private_file_atomically pid path (retain_recent_records s @ entry)"
  proof (cases ?q)
    case (Inl e)
    have e: "e = no_such_file \<or> e = size_limit_error"
      using ok by (auto simp: store_after_def Inl Let_def split: if_splits)
    have "s = []"
      using before read_private_error[of path s d "maximum_history_bytes * 4" e] Inl e honest fits
      by (auto simp: log_before_def honest_def no_such_file_def size_limit_error_def)
    then show ?thesis using e by (auto simp: store_after_def Inl)
  next
    case (Inr t)
    then have "holds_file path t d" using read_private_exact by blast
    then have "t = s" "nodes d path \<noteq> None" using before by (auto simp: log_before_def holds_file_def)
    then show ?thesis using compact by (auto simp: store_after_def Inr Let_def must_compact_def)
  qed
  then show ?thesis using replace_stores ok by simp
qed

definition history_job :: "string \<Rightarrow> (nat \<Rightarrow> string) \<Rightarrow> nat \<Rightarrow> disk program" where
  "history_job path entry i = history_section (i + 1) path (entry i)"

lemma interrupted_append:
  assumes i: "i \<notin> set others"
  shows "\<exists>d'. let m = store_after (i + 1) path (entry i)
        (fst (run_state (read_private_file (maximum_history_bytes * 4) path) d));
      r = turns (history_job path entry) (i # others @ [i, i]) (unlocked (history_job path entry) d)
    in phase_of r i = Done (fst (run_state m d')) \<and> common r = snd (run_state m d')"
proof -
  let ?jobs = "history_job path entry"
  let ?m = "store_after (i + 1) path (entry i)
        (fst (run_state (read_private_file (maximum_history_bytes * 4) path) d))"
  define r where "r = turns ?jobs others (turn ?jobs i (unlocked ?jobs d))"
  have "phase_of r i = Inside (perform ?m Finish)"
    using turns_others[OF i, of ?jobs "turn ?jobs i (unlocked ?jobs d)"]
    by (simp add: r_def turn_def unlocked_def waiting_def history_job_def history_section_def perform_def
        advance_def split_def)
  then have "turns ?jobs [i, i] r = leave i (fst (run_state ?m (common r)))
      ((move_to i (Inside (Finish (fst (run_state ?m (common r))))) r)\<lparr>common := snd (run_state ?m (common r))\<rparr>)"
    by (simp add: turn_def advance_def perform_def split_def)
  then have "phase_of (turns ?jobs [i, i] r) i = Done (fst (run_state ?m (common r)))"
    "common (turns ?jobs [i, i] r) = snd (run_state ?m (common r))"
    by (simp_all only: leave_def move_to_def) simp_all
  moreover have "turns ?jobs (i # others @ [i, i]) (unlocked ?jobs d) = turns ?jobs [i, i] r"
    by (simp add: turns_append r_def)
  ultimately show ?thesis by (intro exI[of _ "common r"]) (simp only: Let_def simp_thms)
qed

section \<open>An example of each\<close>

definition folder_node :: node where
  "folder_node = \<lparr>node_kind = DirectoryNode, node_owned = True, node_links = 2, node_mode = owner_all,
     node_contents = []\<rparr>"

definition file_with :: "string \<Rightarrow> node" where
  "file_with c = \<lparr>node_kind = RegularFile, node_owned = True, node_links = 1, node_mode = owner_read_write,
     node_contents = c\<rparr>"

definition folder_tree :: "string option \<Rightarrow> tree" where
  "folder_tree contents = (\<lambda>p. None)(''/d'' := Some folder_node, ''/d/f'' := map_option file_with contents)"

definition shared_folder :: "string option \<Rightarrow> tree list \<Rightarrow> disk" where
  "shared_folder contents h = \<lparr>nodes = folder_tree contents, answers = [], history = h\<rparr>"

lemma folder_facts:
  "folder_tree c ''/d'' = Some folder_node" "folder_tree c ''/d/f'' = map_option file_with c"
  by (simp_all add: folder_tree_def)

lemma folder_replaced:
  "p \<noteq> ''/d'' \<Longrightarrow> p \<noteq> ''/d/f'' \<Longrightarrow>
     (folder_tree c)(''/d'' := Some folder_node, p := None, ''/d/f'' := Some (file_with t)) = folder_tree (Some t)"
  by (auto simp: folder_tree_def fun_eq_iff)

lemmas replace_run = replace_private_file_atomically_def private_directory_def directory_check_def check_target_def target_check_def
  replace_with_def fill_temporary_def install_temporary_def create_exclusive_def rename_over_def
  private_regular_file_def file_check_def write_all_def write_loop.simps append_contents_def
  system_call_def flush_call_def change_mode_def update_node_def private_file_def new_file_def
  change_def folder_node_def file_with_def

lemma replace_in_folder:
  assumes "content \<noteq> []"
  shows "\<exists>h'. run_state (replace_private_file_atomically pid ''/d/f'' content) (shared_folder old h) =
    (None, shared_folder (Some content) h')"
proof -
  have upt: "[0..<maximum_attempts] = 0 # [1..<maximum_attempts]"
    by (simp add: maximum_attempts_def upt_conv_Cons)
  have path: "split_path ''/d/f'' = Some (''/d'', ''f'')" "safe_filename ''f''"
    by (simp_all add: split_path_def rfind_index_def safe_filename_def find_any_def)
  obtain t where t: "''/d/'' @ temporary_name ''f'' pid 0 = t" "folder_tree old t = None" "t \<noteq> ''/d''" "t \<noteq> ''/d/f''"
    by (simp add: temporary_name_def folder_tree_def)
  show ?thesis
    using assms t
    by (cases old)
      (simp_all add: path upt replace_run shared_folder_def Let_def folder_facts
        folder_replaced[unfolded folder_node_def file_with_def One_nat_def])
qed

lemma read_in_folder:
  "run_state (read_private_file m ''/d/f'') (shared_folder None h) = (Inl no_such_file, shared_folder None h)"
  by (simp add: read_private_file_def open_for_reading_def system_call_def shared_folder_def folder_facts Let_def)

lemma store_in_folder:
  assumes "entry \<noteq> []"
  shows "\<exists>h'. run_state (store_after pid ''/d/f'' entry (Inl no_such_file)) (shared_folder old h) =
    (None, shared_folder (Some entry) h')"
  using replace_in_folder[OF assms] by (simp add: store_after_def no_such_file_def size_limit_error_def)

definition race_entry :: "nat \<Rightarrow> string" where
  "race_entry i = (if i = 0 then ''first'' else ''other'')"

lemma race_example:
  "\<exists>h'. turns (history_job ''/d/f'' race_entry) [0, 1, 1, 1, 0, 0]
       (unlocked (history_job ''/d/f'' race_entry) (shared_folder None h)) =
     (unlocked (history_job ''/d/f'' race_entry) (shared_folder (Some ''first'') h'))
       \<lparr>phase_of := (\<lambda>i. Inside (history_job ''/d/f'' race_entry i))(0 := Done None, 1 := Done None)\<rparr>"
proof -
  obtain h1 where h1: "run_state (store_after 2 ''/d/f'' ''other'' (Inl no_such_file)) (shared_folder None h) =
    (None, shared_folder (Some ''other'') h1)"
    using store_in_folder[of "''other''" 2 None h] by auto
  obtain h2 where h2: "run_state (store_after 1 ''/d/f'' ''first'' (Inl no_such_file)) (shared_folder (Some ''other'') h1) =
    (None, shared_folder (Some ''first'') h2)"
    using store_in_folder[of "''first''" 1 "Some ''other''" h1] by auto
  have two: "Suc (Suc 0) = 2" by simp
  show ?thesis
    by (intro exI[of _ h2])
      (simp add: turn_def advance_def leave_def move_to_def unlocked_def waiting_def history_job_def history_section_def
        perform_def read_in_folder race_entry_def h1[simplified] h2[simplified] fun_eq_iff fun_upd_twist two)
qed

text \<open>Two processes that record at the same time: the second one asks while the first one is writing.\<close>

lemma store_entry_granted:
  assumes before: "log_before path s d" and a: "answers d = []"
    and fits: "length s + length (format_log_event now ev) \<le> maximum_log_bytes"
  shows "\<exists>d'. run_state (store_entry pid now later ev path) d = (None, d') \<and> answers d' = []"
proof -
  obtain q d1 where q: "run_state (read_private_file maximum_log_bytes path) d = (q, d1)" by (metis surj_pair)
  have d1: "nodes d1 = nodes d" "answers d1 = []"
    using read_private_nodes[of maximum_log_bytes path d] read_private_answers[OF a, of maximum_log_bytes path]
    by (simp_all add: q)
  have "q = (if nodes d path = None then Inl no_such_file else Inr s)"
  proof (cases "nodes d path")
    case None
    then show ?thesis using read_missing[OF None, of maximum_log_bytes q] a q by auto
  next
    case (Some x)
    then have "holds_file path s d" using before by (auto simp: log_before_def)
    from read_private_succeeds[OF this a, of maximum_log_bytes] fits Some show ?thesis by (simp add: q)
  qed
  then have "run_state (store_entry pid now later ev path) d =
      run_state (write_private_file path (format_log_event now ev) True) d1"
    using q fits by (simp add: store_entry_def entry_after_def write_entry_def no_such_file_def size_limit_error_def)
  moreover have "writable path (nodes d1)"
    using before d1(1) by (auto simp: writable_def log_before_def holds_file_def)
  ultimately show ?thesis
    using write_granted[of path "format_log_event now ev" True] d1(2) unfolding granted_def by auto
qed

definition two_records :: "nat \<Rightarrow> record_job" where
  "two_records i = \<lparr>rj_process = i + 1, rj_now = 0, rj_later = 0, rj_event = example_event\<rparr>"

lemma two_lines: "length (job_line two_records i) \<le> 648"
  using format_log_event_length[of 0 example_event] by (simp add: job_line_def two_records_def clock_time_def)

lemma record_job_granted:
  assumes "log_before path s d" "answers d = []" "length s \<le> 648"
  shows "\<exists>d'. run_state (run_program (record_job_section path two_records i)) d = (None, d') \<and> answers d' = [] \<and>
    log_before path (s @ job_line two_records i) d'"
proof -
  have fits: "length s + length (job_line two_records i) \<le> maximum_log_bytes"
    using two_lines[of i] assms(3) by (simp add: maximum_log_bytes_def)
  then obtain d' where d': "run_state (run_program (record_job_section path two_records i)) d = (None, d')"
    "answers d' = []"
    using store_entry_granted[OF assms(1,2), of 0 example_event "i + 1" 0]
    by (auto simp: record_job_section_def run_record job_line_def two_records_def)
  have "log_before path (s @ job_line two_records i) d'"
    using channel_log.job_writes[of path s d two_records i] d' assms(1,2) fits by (simp add: honest_def)
  then show ?thesis using d' by blast
qed

lemma two_records_example:
  "\<exists>schedule r. r = turns (record_job_section ''/d/f'' two_records) schedule (waiting (shared_folder None [])) \<and>
     take 2 schedule = [0, 1] \<and> holder r = None \<and> entered r = [0, 1] \<and>
     phase_of r 0 = Done None \<and> phase_of r 1 = Done None"
proof -
  let ?jobs = "record_job_section ''/d/f'' two_records" and ?d = "shared_folder None []"
  have "log_before ''/d/f'' [] ?d" "answers ?d = []"
    by (simp_all add: log_before_def shared_folder_def folder_facts)
  from record_job_granted[OF this, of 0] obtain d1 where d1:
    "run_state (run_program (?jobs 0)) ?d = (None, d1)" "answers d1 = []"
    "log_before ''/d/f'' (job_line two_records 0) d1" by auto
  from record_job_granted[OF d1(3,2) two_lines, of 1] obtain d2 where d2:
    "run_state (run_program (?jobs 1)) d1 = (None, d2)" by auto
  define a where "a = turns ?jobs [0, 1] (waiting ?d)"
  have a: "phase_of a 0 = Inside (?jobs 0)" "common a = ?d" "phase_of a 1 = Waiting" "entered a = [0]"
    by (simp_all add: a_def waiting_def turn_def enter_def move_to_def)
  from section_turns[OF a(1), of ?jobs] obtain n where
    n: "turns ?jobs (replicate n 0) a = leave 0 None (a\<lparr>common := d1\<rparr>)" by (auto simp: a(2) d1(1))
  define b where "b = turn ?jobs 1 (leave 0 None (a\<lparr>common := d1\<rparr>))"
  have b: "phase_of b 1 = Inside (?jobs 1)" "common b = d1" "phase_of b 0 = Done None" "entered b = [0, 1]"
    using a by (simp_all add: b_def turn_def leave_def enter_def move_to_def)
  from section_turns[OF b(1), of ?jobs] obtain k where
    k: "turns ?jobs (replicate k 1) b = leave 1 None (b\<lparr>common := d2\<rparr>)"
    using d2 b(2)
    by (auto simp del: One_nat_def)
  have "turns ?jobs ([0, 1] @ replicate n 0 @ 1 # replicate k 1) (waiting ?d) = leave 1 None (b\<lparr>common := d2\<rparr>)"
    using n k unfolding turns_append a_def[symmetric] by (simp del: One_nat_def flip: b_def)
  then show ?thesis
    using b by (intro exI[of _ "[0, 1] @ replicate n 0 @ 1 # replicate k 1"]) (simp add: leave_def)
qed

section \<open>Properties\<close>



text \<open>C19: The network history has no such lock: an append that finds no file, or one that must be
  compacted, replaces the file by what it read before, so every record that other runs saved between
  its reading and its writing is gone, although their appends succeeded.\<close>

theorem unlocked_append_overwrites:
  assumes "r = turns (history_job path entry) (i # others @ [i, i]) (unlocked (history_job path entry) d)"
    and "log_before path s d" "honest d" "length s \<le> maximum_history_bytes * 4"
    and "must_compact path s (entry i) d" "i \<notin> set others" "phase_of r i = Done None"
  shows "holds_file path (retain_recent_records s @ entry i) (common r)"
  using interrupted_append[OF assms(6), of path entry d] compacting_store[OF assms(2-5), of "i + 1"] assms(1,7)
  by (auto simp: Let_def)

lemma unlocked_append_witness:
  "\<exists>r. r = turns (history_job ''/d/f'' race_entry) [0, 1, 1, 1, 0, 0]
        (unlocked (history_job ''/d/f'' race_entry) (shared_folder None [])) \<and>
     phase_of r 0 = Done None \<and> phase_of r 1 = Done None \<and> holds_file ''/d/f'' ''first'' (common r)"
proof -
  define r where "r = turns (history_job ''/d/f'' race_entry) (0 # [1, 1, 1] @ [0, 0])
    (unlocked (history_job ''/d/f'' race_entry) (shared_folder None []))"
  have d: "log_before ''/d/f'' [] (shared_folder None [])" "honest (shared_folder None [])"
    "must_compact ''/d/f'' [] (race_entry 0) (shared_folder None [])"
    by (simp_all add: log_before_def honest_def must_compact_def shared_folder_def folder_facts)
  have finished: "phase_of r 0 = Done None" "phase_of r 1 = Done None"
    using race_example[of "[]"] by (auto simp: r_def)
  have "holds_file ''/d/f'' (retain_recent_records [] @ race_entry 0) (common r)"
    by (rule unlocked_append_overwrites[OF r_def d(1,2) _ d(3)]) (use finished in simp_all)
  then show ?thesis using finished by (intro exI[of _ r]) (simp add: r_def race_entry_def)
qed

end
