(* ===== verification/Descriptors.thy ===== *)
theory Descriptors
  imports Prelude "HOL-Library.State_Monad"
begin

text \<open>
  \<open>src/core/unique_file_descriptor.cpp\<close>: the move-only owner of a descriptor, over the table of
  open descriptors of the process.

  The table is what the kernel keeps: a list of slots whose index is the descriptor.  A new
  descriptor gets the lowest free slot, as POSIX promises for \<open>open\<close>, \<open>openat\<close> and \<open>pipe\<close>, and a
  close of a descriptor that is not open is counted in \<open>stray_closes\<close>: it fails with \<open>EBADF\<close> at
  best and closes a foreign file at worst.  \<open>'r\<close> is what a slot refers to.

  The locale \<open>descriptor_table\<close> is the contract between the table and its users; the lemmas on
  fresh descriptors are proved in it once and the list of slots is its interpretation.
\<close>

section \<open>The table of a process\<close>

record 'r process =
  table :: "'r option list"
  stray_closes :: nat

definition slot :: "'r option list \<Rightarrow> nat \<Rightarrow> 'r option" where
  "slot t n = (if n < length t then t ! n else None)"

definition install :: "nat \<Rightarrow> 'r \<Rightarrow> 'r option list \<Rightarrow> 'r option list" where
  "install n r t = (t @ replicate (Suc n - length t) None)[n := Some r]"

definition release :: "nat \<Rightarrow> 'r option list \<Rightarrow> 'r option list" where
  "release n t = t[n := None]"

fun lowest_free :: "'r option list \<Rightarrow> nat" where
  "lowest_free [] = 0"
| "lowest_free (None # t) = 0"
| "lowest_free (Some r # t) = Suc (lowest_free t)"

locale descriptor_table =
  fixes look :: "'t \<Rightarrow> nat \<Rightarrow> 'r option"
    and put :: "nat \<Rightarrow> 'r \<Rightarrow> 't \<Rightarrow> 't"
    and drop_slot :: "nat \<Rightarrow> 't \<Rightarrow> 't"
    and fresh_slot :: "'t \<Rightarrow> nat"
  assumes look_put: "look (put n r t) = (look t)(n := Some r)"
    and look_drop: "look (drop_slot n t) = (look t)(n := None)"
    and fresh_closed: "look t (fresh_slot t) = None"
    and fresh_least: "n < fresh_slot t \<Longrightarrow> look t n \<noteq> None"
begin

lemma fresh_le: "look t n = None \<Longrightarrow> fresh_slot t \<le> n"
  using fresh_least not_le by blast

lemma put_drop: "look t n = None \<Longrightarrow> look (drop_slot n (put n r t)) = look t"
  by (simp add: look_put look_drop fun_upd_idem)

lemma fresh_differs: "look t n \<noteq> None \<Longrightarrow> fresh_slot t \<noteq> n"
  using fresh_closed by metis

lemma second_fresh: "fresh_slot t < fresh_slot (put (fresh_slot t) r t)"
  using fresh_closed[of "put (fresh_slot t) r t"] fresh_le[of t "fresh_slot (put (fresh_slot t) r t)"]
  by (cases "fresh_slot (put (fresh_slot t) r t) = fresh_slot t") (auto simp: look_put)

end

lemma slot_simps [simp]: "slot [] n = None" "slot (x # t) 0 = x" "slot (x # t) (Suc n) = slot t n"
  by (simp_all add: slot_def)

lemma lowest_free_slot: "slot t (lowest_free t) = None"
  by (induction t rule: lowest_free.induct) simp_all

lemma below_lowest_free: "n < lowest_free t \<Longrightarrow> slot t n \<noteq> None"
  by (induction t arbitrary: n rule: lowest_free.induct) (simp_all add: less_Suc_eq_0_disj, auto)

lemma slot_install: "slot (install n r t) = (slot t)(n := Some r)"
  by (auto simp: fun_eq_iff slot_def install_def nth_append nth_list_update)

lemma slot_release: "slot (release n t) = (slot t)(n := None)"
  by (auto simp: fun_eq_iff slot_def release_def nth_list_update)

interpretation slots: descriptor_table slot install release lowest_free
  by unfold_locales (auto simp: slot_install slot_release lowest_free_slot below_lowest_free)

section \<open>System calls on the table\<close>

definition open_slot :: "'r \<Rightarrow> (('r, 'z) process_scheme, int) state" where
  "open_slot r = State (\<lambda>s. (int (lowest_free (table s)),
     s\<lparr>table := install (lowest_free (table s)) r (table s)\<rparr>))"

definition sys_open :: "bool \<Rightarrow> 'r \<Rightarrow> (('r, 'z) process_scheme, int) state" where
  "sys_open granted r = (if granted then open_slot r else State_Monad.return (-1))"

definition sys_close :: "int \<Rightarrow> (('r, 'z) process_scheme, unit) state" where
  "sys_close d = State (\<lambda>s. ((),
     if 0 \<le> d \<and> slot (table s) (nat d) \<noteq> None then s\<lparr>table := release (nat d) (table s)\<rparr>
     else s\<lparr>stray_closes := Suc (stray_closes s)\<rparr>))"

section \<open>The owner\<close>

text \<open>
  \<open>objects\<close> holds the \<open>descriptor_\<close> of every living \<open>UniqueFileDescriptor\<close>, by a name for the
  object.  The destructor is called when the object leaves its scope, on every return path.
\<close>

record 'r owner_state = "'r process" +
  objects :: "string \<Rightarrow> int option"

definition valid :: "int \<Rightarrow> bool" where
  "valid d \<longleftrightarrow> 0 \<le> d"

definition get :: "string \<Rightarrow> ('r owner_state, int) state" where
  "get v = State (\<lambda>s. (case objects s v of Some d \<Rightarrow> d | None \<Rightarrow> -1, s))"

definition construct :: "string \<Rightarrow> int \<Rightarrow> ('r owner_state, unit) state" where
  "construct v d = State (\<lambda>s. ((), s\<lparr>objects := (objects s)(v \<mapsto> d)\<rparr>))"

definition forget :: "string \<Rightarrow> ('r owner_state, unit) state" where
  "forget v = State (\<lambda>s. ((), s\<lparr>objects := (objects s)(v := None)\<rparr>))"

definition exchange :: "string \<Rightarrow> int \<Rightarrow> ('r owner_state, int) state" where
  "exchange v d = do { old \<leftarrow> get v; _ \<leftarrow> construct v d; State_Monad.return old }"

definition destroy :: "string \<Rightarrow> ('r owner_state, unit) state" where
  "destroy v = do {
     d \<leftarrow> get v;
     _ \<leftarrow> (if valid d then sys_close d else State_Monad.return ());
     forget v
   }"

definition move_construct :: "string \<Rightarrow> string \<Rightarrow> ('r owner_state, unit) state" where
  "move_construct v other = do { d \<leftarrow> exchange other (-1); construct v d }"

definition move_assign :: "string \<Rightarrow> string \<Rightarrow> ('r owner_state, unit) state" where
  "move_assign v other =
     (if v = other then State_Monad.return ()
      else do {
        d \<leftarrow> get v;
        _ \<leftarrow> (if valid d then sys_close d else State_Monad.return ());
        e \<leftarrow> exchange other (-1);
        construct v e
      })"

text \<open>\<open>close\<close> reports the error of the call; the descriptor is gone either way.\<close>

definition close_owner :: "string option \<Rightarrow> string \<Rightarrow> ('r owner_state, string option) state" where
  "close_owner answer v = do {
     d \<leftarrow> get v;
     if \<not> valid d then State_Monad.return None
     else do {
       descriptor \<leftarrow> exchange v (-1);
       _ \<leftarrow> sys_close descriptor;
       State_Monad.return answer
     }
   }"

text \<open>\<open>UniqueFileDescriptor descriptor{open(...)}\<close>.\<close>

definition open_owner :: "bool \<Rightarrow> 'r \<Rightarrow> string \<Rightarrow> ('r owner_state, unit) state" where
  "open_owner granted r v = do { d \<leftarrow> sys_open granted r; construct v d }"

section \<open>Every use of owners\<close>

text \<open>A program creates objects from fresh descriptors only, and it names no dead object.\<close>

inductive owner_step :: "'r owner_state \<Rightarrow> 'r owner_state \<Rightarrow> bool" where
  opened: "objects s v = None \<Longrightarrow> owner_step s (snd (run_state (open_owner granted r v) s))"
| destroyed: "objects s v = Some d \<Longrightarrow> owner_step s (snd (run_state (destroy v) s))"
| constructed: "objects s v = None \<Longrightarrow> objects s w = Some d \<Longrightarrow>
    owner_step s (snd (run_state (move_construct v w) s))"
| assigned: "objects s v = Some d \<Longrightarrow> objects s w = Some e \<Longrightarrow>
    owner_step s (snd (run_state (move_assign v w) s))"
| closed: "objects s v = Some d \<Longrightarrow> owner_step s (snd (run_state (close_owner answer v) s))"

inductive uses_owners :: "'r owner_state \<Rightarrow> 'r owner_state \<Rightarrow> bool" for start where
  begun: "uses_owners start start"
| step: "uses_owners start s \<Longrightarrow> owner_step s s' \<Longrightarrow> uses_owners start s'"

definition owners_start :: "'r option list \<Rightarrow> 'r owner_state" where
  "owners_start t = \<lparr>table = t, stray_closes = 0, objects = \<lambda>v. None\<rparr>"

text \<open>The invariant: a slot that was free at the start is open exactly when one object owns it, and
  the slots of the start are untouched.\<close>

definition owned :: "(string \<Rightarrow> int option) \<Rightarrow> nat \<Rightarrow> bool" where
  "owned objs n \<longleftrightarrow> (\<exists>v. objs v = Some (int n))"

definition single_owner :: "(string \<Rightarrow> int option) \<Rightarrow> bool" where
  "single_owner objs \<longleftrightarrow> (\<forall>v w d. objs v = Some d \<and> objs w = Some d \<and> valid d \<longrightarrow> v = w)"

definition well_owned :: "'r option list \<Rightarrow> 'r owner_state \<Rightarrow> bool" where
  "well_owned t s \<longleftrightarrow> single_owner (objects s) \<and> stray_closes s = 0 \<and>
     (\<forall>n. if slot t n = None then (slot (table s) n \<noteq> None) = owned (objects s) n
          else slot (table s) n = slot t n \<and> \<not> owned (objects s) n)"

section \<open>The invariant is kept\<close>

definition empty_handle :: "int option \<Rightarrow> bool" where
  "empty_handle h \<longleftrightarrow> (case h of None \<Rightarrow> True | Some d \<Rightarrow> \<not> valid d)"

lemma empty_handle_simps [simp]:
  "empty_handle None" "empty_handle (Some d) = (\<not> valid d)" "\<not> valid (- 1)" "valid (int n)"
  by (simp_all add: empty_handle_def valid_def)

lemma owned_empty: "empty_handle h \<Longrightarrow> h \<noteq> Some (int n)"
  by (auto simp: valid_def empty_handle_def)

lemma well_owned_slot:
  "well_owned t s \<Longrightarrow> objects s v = Some d \<Longrightarrow> valid d \<Longrightarrow>
     slot (table s) (nat d) \<noteq> None \<and> slot t (nat d) = None"
  unfolding well_owned_def owned_def valid_def
  by (metis nat_0_le)

lemma well_owned_free: "well_owned t s \<Longrightarrow> slot (table s) n = None \<Longrightarrow> slot t n = None \<and> \<not> owned (objects s) n"
  unfolding well_owned_def by metis

lemma owned_update: "owned (objs(v := h)) n = (h = Some (int n) \<or> (\<exists>w. w \<noteq> v \<and> objs w = Some (int n)))"
  unfolding owned_def by auto

lemma owned_except: "objs v \<noteq> Some (int n) \<Longrightarrow> owned objs n = (\<exists>w. w \<noteq> v \<and> objs w = Some (int n))"
  unfolding owned_def by auto

lemma owned_released:
  assumes "single_owner objs" "objs v = Some (int k)" "empty_handle h"
  shows "owned (objs(v := h)) n = (owned objs n \<and> n \<noteq> k)"
proof (cases "n = k")
  case True
  then have "objs w \<noteq> Some (int n)" if "w \<noteq> v" for w
    using assms(1,2) that True unfolding single_owner_def by (metis empty_handle_simps(4))
  then show ?thesis using True owned_empty[OF assms(3)] by (auto simp: owned_update)
next
  case False
  then show ?thesis using assms(2) owned_empty[OF assms(3)] owned_except[of objs v n] by (simp add: owned_update)
qed

lemma owned_emptied: "empty_handle (objs v) \<Longrightarrow> empty_handle h \<Longrightarrow> owned (objs(v := h)) n = owned objs n"
  using owned_empty[of "objs v" n] owned_empty[of h n] owned_except[of objs v n] by (simp add: owned_update)

lemma owned_given: "empty_handle (objs v) \<Longrightarrow> owned (objs(v \<mapsto> int k)) n = (owned objs n \<or> n = k)"
  using owned_empty[of "objs v" n] owned_except[of objs v n] by (auto simp: owned_update)

lemma owned_moved:
  assumes "objs w = Some d" "empty_handle (objs v)" "v \<noteq> w"
  shows "owned (objs(w \<mapsto> - 1, v \<mapsto> d)) n = owned objs n"
proof -
  have "objs u \<noteq> Some (int n)" if "u = v" for u using owned_empty[OF assms(2)] that by simp
  then have "owned objs n = (d = int n \<or> (\<exists>u. u \<noteq> v \<and> u \<noteq> w \<and> objs u = Some (int n)))"
    unfolding owned_def using assms(1) by (metis option.inject)
  then show ?thesis by (auto simp: owned_update)
qed

lemma single_empty: "single_owner objs \<Longrightarrow> empty_handle h \<Longrightarrow> single_owner (objs(v := h))"
  unfolding single_owner_def by (auto split: if_splits)

lemma single_moved:
  "\<lbrakk> single_owner objs; objs w = Some d; v \<noteq> w \<rbrakk> \<Longrightarrow> single_owner (objs(w \<mapsto> - 1, v \<mapsto> d))"
  unfolding single_owner_def by (auto split: if_splits)

lemma single_given: "single_owner objs \<Longrightarrow> \<not> owned objs k \<Longrightarrow> single_owner (objs(v \<mapsto> int k))"
  unfolding single_owner_def owned_def by (auto split: if_splits)

lemma well_owned_release:
  assumes "well_owned t s" "objects s v = Some d" "valid d" "empty_handle h"
  shows "well_owned t (s\<lparr>table := release (nat d) (table s), objects := (objects s)(v := h)\<rparr>)"
proof -
  obtain k where k: "d = int k" using assms(3) unfolding valid_def by (metis nat_0_le)
  show ?thesis
    using assms well_owned_slot[OF assms(1,2,3)]
    unfolding well_owned_def k
    by (auto simp: owned_released slot_release single_empty simp del: not_None_eq)
qed

lemma well_owned_move:
  "\<lbrakk> well_owned t s; objects s w = Some d; empty_handle (objects s v); v \<noteq> w \<rbrakk> \<Longrightarrow>
     well_owned t (s\<lparr>objects := (objects s)(w \<mapsto> - 1, v \<mapsto> d)\<rparr>)"
  unfolding well_owned_def by (simp add: owned_moved single_moved del: not_None_eq)

lemma well_owned_give:
  assumes "well_owned t s" "empty_handle (objects s v)"
  shows "well_owned t (s\<lparr>table := install (lowest_free (table s)) r (table s),
           objects := (objects s)(v \<mapsto> int (lowest_free (table s)))\<rparr>)"
  using assms well_owned_free[OF assms(1) lowest_free_slot]
  unfolding well_owned_def by (auto simp: owned_given slot_install single_given simp del: not_None_eq)

lemma well_owned_empty:
  "\<lbrakk> well_owned t s; empty_handle (objects s v); empty_handle h \<rbrakk> \<Longrightarrow>
     well_owned t (s\<lparr>objects := (objects s)(v := h)\<rparr>)"
  unfolding well_owned_def by (simp add: owned_emptied single_empty del: not_None_eq)

lemmas owner_defs = open_owner_def sys_open_def open_slot_def destroy_def move_construct_def
  move_assign_def close_owner_def exchange_def construct_def forget_def get_def

lemma objects_then_table: "s\<lparr>objects := ob, table := tb\<rparr> = s\<lparr>table := tb, objects := ob\<rparr>" for s :: "'r owner_state"
  by simp

text \<open>One transition per operation, on the state.\<close>

lemma close_owned:
  "well_owned t s \<Longrightarrow> objects s v = Some d \<Longrightarrow> valid d \<Longrightarrow>
     run_state (sys_close d) s = ((), s\<lparr>table := release (nat d) (table s)\<rparr>)"
  using well_owned_slot[of t s v d] by (simp add: sys_close_def valid_def)

lemma well_owned_opened:
  "well_owned t s \<Longrightarrow> objects s v = None \<Longrightarrow> well_owned t (snd (run_state (open_owner granted r v) s))"
  using well_owned_give[of t s v r] well_owned_empty[of t s v "Some (- 1)"]
  by (simp add: owner_defs)

lemma well_owned_destroyed:
  "well_owned t s \<Longrightarrow> objects s v = Some d \<Longrightarrow> well_owned t (snd (run_state (destroy v) s))"
  using well_owned_release[of t s v d None] well_owned_empty[of t s v None] close_owned[of t s v d]
  by (auto simp: owner_defs)

lemma well_owned_closed:
  "well_owned t s \<Longrightarrow> objects s v = Some d \<Longrightarrow> well_owned t (snd (run_state (close_owner answer v) s))"
  using well_owned_release[of t s v d "Some (- 1)"] well_owned_slot[of t s v d]
  by (auto simp: owner_defs sys_close_def objects_then_table valid_def)

lemma well_owned_constructed:
  "\<lbrakk> well_owned t s; objects s v = None; objects s w = Some d \<rbrakk> \<Longrightarrow>
     well_owned t (snd (run_state (move_construct v w) s))"
  using well_owned_move[of t s w d v] by (cases "v = w") (simp_all add: owner_defs)

lemma well_owned_assigned:
  assumes "well_owned t s" "objects s v = Some d" "objects s w = Some e"
  shows "well_owned t (snd (run_state (move_assign v w) s))"
proof (cases "v = w")
  case False
  define m where "m = (if valid d then s\<lparr>table := release (nat d) (table s), objects := (objects s)(v \<mapsto> - 1)\<rparr> else s)"
  have "well_owned t m" "objects m w = Some e" "empty_handle (objects m v)"
    using assms False well_owned_release[of t s v d "Some (- 1)"] by (auto simp: m_def)
  then have "well_owned t (m\<lparr>objects := (objects m)(w \<mapsto> - 1, v \<mapsto> e)\<rparr>)"
    using False by (intro well_owned_move)
  then show ?thesis
    using assms False close_owned[OF assms(1,2)] by (simp add: owner_defs m_def fun_upd_twist split: if_splits)
qed (simp add: move_assign_def assms(1))

lemma well_owned_step: "owner_step s s' \<Longrightarrow> well_owned t s \<Longrightarrow> well_owned t s'"
  by (induction rule: owner_step.induct)
    (simp_all add: well_owned_opened well_owned_destroyed well_owned_closed well_owned_constructed
      well_owned_assigned)

lemma well_owned_start: "well_owned t (owners_start t)"
  by (simp add: well_owned_def owners_start_def single_owner_def owned_def)

lemma uses_well_owned: "uses_owners (owners_start t) s \<Longrightarrow> well_owned t s"
  by (induction rule: uses_owners.induct) (simp_all add: well_owned_start well_owned_step)

lemma no_objects_no_slots: "well_owned t s \<Longrightarrow> objects s = Map.empty \<Longrightarrow> slot (table s) = slot t"
  by (rule ext) (metis option.distinct(1) well_owned_def owned_def)

section \<open>Properties\<close>

text \<open>C17: Descriptors are never leaked and never closed twice: however a program opens, moves, closes and
  destroys its owners, every descriptor opened since the start is held by exactly one owner, no
  close meets a descriptor that is not open, and without owners the table is the one of the start.\<close>

theorem owners_never_leak:
  "uses_owners (owners_start t) s \<Longrightarrow>
     stray_closes s = 0 \<and>
     (if slot t n = None then (slot (table s) n \<noteq> None) = (\<exists>!v. objects s v = Some (int n))
      else slot (table s) n = slot t n) \<and>
     (if objects s = Map.empty then slot (table s) = slot t else True)"
proof -
  assume "uses_owners (owners_start t) s"
  then have w: "well_owned t s" by (rule uses_well_owned)
  then have "(\<exists>!v. objects s v = Some (int n)) = owned (objects s) n"
    unfolding well_owned_def single_owner_def owned_def by (metis empty_handle_simps(4))
  moreover from w have "if slot t n = None then (slot (table s) n \<noteq> None) = owned (objects s) n
      else slot (table s) n = slot t n \<and> \<not> owned (objects s) n" "stray_closes s = 0"
    unfolding well_owned_def by blast+
  ultimately show ?thesis
    using no_objects_no_slots[OF w] by (simp split: if_splits)
qed

text \<open>A temporary is opened, moved into another object and closed there.\<close>

definition example_owners :: "string owner_state" where
  "example_owners = snd (run_state (do {
     _ \<leftarrow> open_owner True ''temporary file'' ''temporary'';
     _ \<leftarrow> move_construct ''descriptor'' ''temporary'';
     destroy ''temporary'' }) (owners_start [Some ''stdin'']))"

lemma owners_never_leak_witness:
  "stray_closes example_owners = 0 \<and>
   (slot (table example_owners) 1 \<noteq> None) = (\<exists>!v. objects example_owners v = Some (int 1))"
proof -
  let ?s0 = "owners_start [Some ''stdin'']"
  let ?s1 = "snd (run_state (open_owner True ''temporary file'' ''temporary'') ?s0)"
  let ?s2 = "snd (run_state (move_construct ''descriptor'' ''temporary'') ?s1)"
  have "uses_owners ?s0 ?s1"
    by (rule uses_owners.step[OF uses_owners.begun owner_step.opened]) (simp add: owners_start_def)
  then have "uses_owners ?s0 ?s2"
    by (rule uses_owners.step[OF _ owner_step.constructed[of _ _ _ 1]])
      (simp_all add: owner_defs owners_start_def)
  then have "uses_owners ?s0 (snd (run_state (destroy ''temporary'') ?s2))"
    by (rule uses_owners.step[OF _ owner_step.destroyed[of _ _ "- 1"]])
      (simp_all add: owner_defs owners_start_def)
  then have "uses_owners ?s0 example_owners" by (simp add: example_owners_def split_def)
  from owners_never_leak[OF this, of 1] show ?thesis by simp
qed

end
