(* ===== verification/ChildProcess.thy ===== *)
theory ChildProcess
  imports ProcessRunner Descriptors
begin

text \<open>
  \<open>src/core/command_runner.cpp\<close>, the process around the conversation of \<open>ProcessRunner\<close>: the three
  pipes, the fork, the descriptors of the child up to \<open>execvp\<close>, the ends that the parent closes,
  and the disposition of \<open>SIGPIPE\<close>.

  The state is the process of ffc; the child starts on a copy of its table, as \<open>fork\<close> gives it.
  \<open>grants\<close> says which system calls the kernel grants and with what text it refuses.  The closes
  inside the conversation are those of the ends that it leaves closed, made here at its end.
\<close>

section \<open>The process\<close>

datatype channel = OutPipe | ErrPipe | InputPipe

datatype open_file = Inherited nat | ReadEnd channel | WriteEnd channel

datatype handler = DefaultAction | Ignored | Handler nat

record command_process = "open_file process" +
  sigpipe :: handler

record grants =
  pipe_granted :: "channel \<Rightarrow> bool"
  fork_granted :: bool
  dup_granted :: "nat \<Rightarrow> bool"
  group_error :: "string option"
  exec_error :: "string option"
  sigpipe_set :: bool
  sigpipe_reset :: bool

section \<open>Pipes\<close>

record pipes =
  out_pipe :: "int \<times> int"
  err_pipe :: "int \<times> int"
  input_pipe :: "int \<times> int"

definition no_pipe :: "int \<times> int" where
  "no_pipe = (-1, -1)"

definition make_pipe :: "bool \<Rightarrow> channel \<Rightarrow> (command_process, bool \<times> int \<times> int) state" where
  "make_pipe granted c =
     (if granted then do {
        r \<leftarrow> open_slot (ReadEnd c);
        w \<leftarrow> open_slot (WriteEnd c);
        State_Monad.return (True, r, w)
      }
      else State_Monad.return (False, no_pipe))"

definition open_pipes :: "grants \<Rightarrow> (command_process, bool \<times> pipes) state" where
  "open_pipes G = do {
     (a, out) \<leftarrow> make_pipe (pipe_granted G OutPipe) OutPipe;
     (b, err) \<leftarrow> make_pipe (a \<and> pipe_granted G ErrPipe) ErrPipe;
     (c, inp) \<leftarrow> make_pipe (b \<and> pipe_granted G InputPipe) InputPipe;
     State_Monad.return (c, \<lparr>out_pipe = out, err_pipe = err, input_pipe = inp\<rparr>)
   }"

definition close_valid :: "int \<Rightarrow> (command_process, unit) state" where
  "close_valid d = (if 0 \<le> d then sys_close d else State_Monad.return ())"

definition close_pipe :: "int \<times> int \<Rightarrow> (command_process, unit) state" where
  "close_pipe p = do { _ \<leftarrow> close_valid (fst p); close_valid (snd p) }"

definition close_pipes :: "pipes \<Rightarrow> (command_process, unit) state" where
  "close_pipes p = do {
     _ \<leftarrow> close_pipe (out_pipe p);
     _ \<leftarrow> close_pipe (err_pipe p);
     close_pipe (input_pipe p)
   }"

section \<open>The child\<close>

definition sys_dup2 :: "bool \<Rightarrow> int \<Rightarrow> nat \<Rightarrow> (command_process, bool) state" where
  "sys_dup2 granted old new = State (\<lambda>s.
     case slot (table s) (nat old) of
       None \<Rightarrow> (False, s)
     | Some r \<Rightarrow> if granted \<and> 0 \<le> old then (True, s\<lparr>table := install new r (table s)\<rparr>) else (False, s))"

definition child_setup :: "grants \<Rightarrow> pipes \<Rightarrow> (command_process, bool) state" where
  "child_setup G p = do {
     a \<leftarrow> sys_dup2 (dup_granted G 0) (fst (input_pipe p)) 0;
     b \<leftarrow> (if a then sys_dup2 (dup_granted G 1) (snd (out_pipe p)) 1 else State_Monad.return False);
     c \<leftarrow> (if b then sys_dup2 (dup_granted G 2) (snd (err_pipe p)) 2 else State_Monad.return False);
     if \<not> c then State_Monad.return False
     else do {
       _ \<leftarrow> sys_close (fst (input_pipe p));
       _ \<leftarrow> sys_close (snd (input_pipe p));
       _ \<leftarrow> sys_close (fst (out_pipe p));
       _ \<leftarrow> sys_close (snd (out_pipe p));
       _ \<leftarrow> sys_close (fst (err_pipe p));
       _ \<leftarrow> sys_close (snd (err_pipe p));
       State_Monad.return True
     }
   }"

text \<open>The diagnostic of the child: the answers of \<open>write\<close> and what arrives of each part.\<close>

datatype child_write = Delivered nat | WriteInterrupted | WriteRefused

fun write_child_diagnostic :: "child_write list \<Rightarrow> string \<Rightarrow> string \<times> child_write list" where
  "write_child_diagnostic ws [] = ([], ws)"
| "write_child_diagnostic [] (c # cs) = ([], [])"
| "write_child_diagnostic (Delivered n # ws) (c # cs) =
     (if 0 < n then (case write_child_diagnostic ws (drop n (c # cs)) of
        (out, rest) \<Rightarrow> (take n (c # cs) @ out, rest))
      else ([], ws))"
| "write_child_diagnostic (WriteInterrupted # ws) (c # cs) = write_child_diagnostic ws (c # cs)"
| "write_child_diagnostic (WriteRefused # ws) (c # cs) = ([], ws)"

definition quote_mark :: char where
  "quote_mark = CHR 0x27"

definition write_child_error :: "child_write list \<Rightarrow> string \<Rightarrow> string \<Rightarrow> string \<Rightarrow> string" where
  "write_child_error ws command context detail =
     fst (fold (\<lambda>part (out, rest). case write_child_diagnostic rest part of (s, rest') \<Rightarrow> (out @ s, rest'))
       [context, [blank_char, quote_mark], command, quote_mark # '': '', detail, [newline_char]] ([], ws))"

text \<open>How the child leaves the code of ffc: by \<open>execvp\<close>, or by \<open>_exit(127)\<close> with a diagnostic.\<close>

datatype child_end = Executed | ChildExit string

definition child_run ::
  "grants \<Rightarrow> child_write list \<Rightarrow> string list \<Rightarrow> pipes \<Rightarrow> (command_process, child_end) state" where
  "child_run G ws args p = do {
     wired \<leftarrow> child_setup G p;
     State_Monad.return
       (if \<not> wired then ChildExit []
        else case group_error G of
          Some detail \<Rightarrow>
            ChildExit (write_child_error ws (hd args) ''could not isolate command process'' detail)
        | None \<Rightarrow> (case exec_error G of
            Some detail \<Rightarrow> ChildExit (write_child_error ws (hd args) ''could not execute command'' detail)
          | None \<Rightarrow> Executed))
   }"

section \<open>The parent\<close>

definition ignore_sigpipe :: "bool \<Rightarrow> (command_process, handler \<times> bool) state" where
  "ignore_sigpipe granted = State (\<lambda>s.
     if granted then ((sigpipe s, True), s\<lparr>sigpipe := Ignored\<rparr>) else ((DefaultAction, False), s))"

definition restore_sigpipe :: "bool \<Rightarrow> handler \<times> bool \<Rightarrow> (command_process, unit) state" where
  "restore_sigpipe granted scope = State (\<lambda>s. ((),
     if snd scope \<and> granted then s\<lparr>sigpipe := fst scope\<rparr> else s))"

definition close_ended :: "pipes \<Rightarrow> comm \<Rightarrow> (command_process, unit) state" where
  "close_ended p c = do {
     _ \<leftarrow> (if \<not> is_open OutFd c then sys_close (fst (out_pipe p)) else State_Monad.return ());
     _ \<leftarrow> (if \<not> is_open ErrFd c then sys_close (fst (err_pipe p)) else State_Monad.return ());
     (if \<not> is_open InFd c then sys_close (snd (input_pipe p)) else State_Monad.return ())
   }"

datatype run_end = EmptyCommand | NoPipes | NotForked | Conversed child_end "open_file option list"

text \<open>One command, from its pipes to the end of its conversation \<open>c\<close>; \<open>Conversed\<close> carries the end
  of the child and its table there.\<close>

definition run_descriptors ::
  "grants \<Rightarrow> child_write list \<Rightarrow> string list \<Rightarrow> comm \<Rightarrow> (command_process, run_end) state" where
  "run_descriptors G ws args c =
     (if args = [] then State_Monad.return EmptyCommand
      else do {
        (made, p) \<leftarrow> open_pipes G;
        if \<not> made then do { _ \<leftarrow> close_pipes p; State_Monad.return NoPipes }
        else if \<not> fork_granted G then do { _ \<leftarrow> close_pipes p; State_Monad.return NotForked }
        else do {
          child \<leftarrow> State (\<lambda>s. (run_state (child_run G ws args p) s, s));
          _ \<leftarrow> sys_close (fst (input_pipe p));
          _ \<leftarrow> sys_close (snd (out_pipe p));
          _ \<leftarrow> sys_close (snd (err_pipe p));
          scope \<leftarrow> ignore_sigpipe (sigpipe_set G);
          _ \<leftarrow> close_ended p c;
          _ \<leftarrow> restore_sigpipe (sigpipe_reset G) scope;
          State_Monad.return (Conversed (fst child) (table (snd child)))
        }
      })"

section \<open>The calls on the table\<close>

lemma open_slot_run:
  "run_state (open_slot r) s = (int (lowest_free (table s)), s\<lparr>table := install (lowest_free (table s)) r (table s)\<rparr>)"
  by (simp add: open_slot_def)

lemma close_open:
  "slot (table s) n \<noteq> None \<Longrightarrow> run_state (sys_close (int n)) s = ((), s\<lparr>table := release n (table s)\<rparr>)"
  by (auto simp: sys_close_def)

lemma dup2_open:
  "slot (table s) n = Some r \<Longrightarrow>
     run_state (sys_dup2 True (int n) m) s = (True, s\<lparr>table := install m r (table s)\<rparr>)"
  by (simp add: sys_dup2_def)

lemma fresh_pair:
  assumes "n = lowest_free t" "m = lowest_free (install n r t)"
  shows "n < m" "slot t n = None" "slot t m = None"
proof -
  show "n < m" using slots.second_fresh[of t r] assms by simp
  then show "slot t m = None" using lowest_free_slot[of "install n r t"] assms(2) by (simp add: slot_install)
  show "slot t n = None" using lowest_free_slot assms(1) by simp
qed

text \<open>The six ends of the pipes are fresh, distinct and in ascending order.\<close>

definition ends_opened :: "command_process \<Rightarrow> nat list \<Rightarrow> pipes \<Rightarrow> command_process \<Rightarrow> bool" where
  "ends_opened s ns p s' \<longleftrightarrow>
     (case ns of
        [a, b, c, d, e, f] \<Rightarrow>
          a = lowest_free (table s) \<and> a < b \<and> b < c \<and> c < d \<and> d < e \<and> e < f \<and>
          slot (table s) a = None \<and> slot (table s) b = None \<and> slot (table s) c = None \<and>
          slot (table s) d = None \<and> slot (table s) e = None \<and> slot (table s) f = None \<and>
          p = \<lparr>out_pipe = (int a, int b), err_pipe = (int c, int d), input_pipe = (int e, int f)\<rparr> \<and>
          slot (table s') = (slot (table s))
            (a \<mapsto> ReadEnd OutPipe, b \<mapsto> WriteEnd OutPipe, c \<mapsto> ReadEnd ErrPipe, d \<mapsto> WriteEnd ErrPipe,
             e \<mapsto> ReadEnd InputPipe, f \<mapsto> WriteEnd InputPipe) \<and>
          stray_closes s' = stray_closes s \<and> sigpipe s' = sigpipe s
      | _ \<Rightarrow> False)"

lemma make_pipe_run:
  "run_state (make_pipe True c) s =
     (let a = lowest_free (table s); t = install a (ReadEnd c) (table s); b = lowest_free t
      in ((True, int a, int b), s\<lparr>table := install b (WriteEnd c) t\<rparr>))"
  "run_state (make_pipe False c) s = ((False, no_pipe), s)"
  by (simp_all add: make_pipe_def open_slot_run Let_def)

lemma make_pipe_facts:
  assumes "run_state (make_pipe True ch) s = ((True, x, y), s')"
  obtains a b where "x = int a" "y = int b" "a = lowest_free (table s)" "a < b" "b < lowest_free (table s')"
    "slot (table s) a = None" "slot (table s) b = None"
    "slot (table s') = (slot (table s))(a \<mapsto> ReadEnd ch, b \<mapsto> WriteEnd ch)"
    "stray_closes s' = stray_closes s" "sigpipe s' = sigpipe s"
proof -
  define a where "a = lowest_free (table s)"
  define t where "t = install a (ReadEnd ch) (table s)"
  define b where "b = lowest_free t"
  have e: "x = int a" "y = int b" "s' = s\<lparr>table := install b (WriteEnd ch) t\<rparr>"
    using assms unfolding make_pipe_run Let_def a_def[symmetric] t_def[symmetric] b_def[symmetric] by auto
  have n: "a < b" "slot (table s) a = None" "slot (table s) b = None"
    using fresh_pair[of a "table s" b "ReadEnd ch"] by (simp_all add: a_def t_def b_def)
  have "b < lowest_free (install b (WriteEnd ch) t)"
    using slots.second_fresh[of t "WriteEnd ch"] by (simp add: b_def)
  moreover have "slot (table s') = (slot (table s))(a \<mapsto> ReadEnd ch, b \<mapsto> WriteEnd ch)"
    by (simp add: e(3) slot_install t_def)
  ultimately show thesis
    using e n by (intro that[OF e(1,2) a_def n(1) _ n(2,3)]) simp_all
qed

lemma open_pipes_granted:
  assumes "\<And>c. pipe_granted G c"
  obtains ns p s' where "run_state (open_pipes G) s = ((True, p), s')" "ends_opened s ns p s'"
proof -
  obtain x1 y1 s1 where 1: "run_state (make_pipe True OutPipe) s = ((True, x1, y1), s1)"
    by (simp add: make_pipe_run Let_def)
  obtain x2 y2 s2 where 2: "run_state (make_pipe True ErrPipe) s1 = ((True, x2, y2), s2)"
    by (simp add: make_pipe_run Let_def)
  obtain x3 y3 s3 where 3: "run_state (make_pipe True InputPipe) s2 = ((True, x3, y3), s3)"
    by (simp add: make_pipe_run Let_def)
  from make_pipe_facts[OF 1] obtain a b where ab: "x1 = int a" "y1 = int b" "a = lowest_free (table s)"
    "a < b" "b < lowest_free (table s1)" "slot (table s) a = None" "slot (table s) b = None"
    "slot (table s1) = (slot (table s))(a \<mapsto> ReadEnd OutPipe, b \<mapsto> WriteEnd OutPipe)"
    "stray_closes s1 = stray_closes s" "sigpipe s1 = sigpipe s" by blast
  from make_pipe_facts[OF 2] obtain c d where cd: "x2 = int c" "y2 = int d" "c = lowest_free (table s1)"
    "c < d" "d < lowest_free (table s2)" "slot (table s1) c = None" "slot (table s1) d = None"
    "slot (table s2) = (slot (table s1))(c \<mapsto> ReadEnd ErrPipe, d \<mapsto> WriteEnd ErrPipe)"
    "stray_closes s2 = stray_closes s1" "sigpipe s2 = sigpipe s1" by blast
  from make_pipe_facts[OF 3] obtain e f where ef: "x3 = int e" "y3 = int f" "e = lowest_free (table s2)"
    "e < f" "f < lowest_free (table s3)" "slot (table s2) e = None" "slot (table s2) f = None"
    "slot (table s3) = (slot (table s2))(e \<mapsto> ReadEnd InputPipe, f \<mapsto> WriteEnd InputPipe)"
    "stray_closes s3 = stray_closes s2" "sigpipe s3 = sigpipe s2" by blast
  have o: "a < b" "b < c" "c < d" "d < e" "e < f" using ab(4,5) cd(3,4,5) ef(3,4) by simp_all
  have f1: "slot (table s) c = None" "slot (table s) d = None" using cd(6,7) o by (simp_all add: ab(8))
  have f2: "slot (table s) e = None" "slot (table s) f = None" using ef(6,7) o by (simp_all add: ab(8) cd(8))
  have "ends_opened s [a, b, c, d, e, f]
      \<lparr>out_pipe = (x1, y1), err_pipe = (x2, y2), input_pipe = (x3, y3)\<rparr> s3"
    unfolding ends_opened_def using o f1 f2 ab(1-3,6,7,9,10) cd(1,2,9,10) ef(1,2,9,10)
    by (simp add: ab(8) cd(8) ef(8))
  moreover have "run_state (open_pipes G) s =
      ((True, \<lparr>out_pipe = (x1, y1), err_pipe = (x2, y2), input_pipe = (x3, y3)\<rparr>), s3)"
    using 1 2 3 assms by (simp add: open_pipes_def)
  ultimately show thesis using that by blast
qed

section \<open>The descriptors of the child\<close>

lemma dup2_open_ex:
  assumes "slot (table s) n \<noteq> None"
  obtains s' where "run_state (sys_dup2 True (int n) m) s = (True, s')"
    "slot (table s') = (slot (table s))(m := slot (table s) n)" "stray_closes s' = stray_closes s"
proof -
  from assms obtain r where r: "slot (table s) n = Some r" by auto
  show thesis using r by (intro that[OF dup2_open[OF r]]) (simp_all add: slot_install)
qed

text \<open>Closing distinct open descriptors, one after the other.\<close>

definition close_each :: "int list \<Rightarrow> (command_process, unit) state" where
  "close_each ds = foldr (\<lambda>d m. do { _ \<leftarrow> sys_close d; m }) ds (State_Monad.return ())"

lemma close_each_simps [simp]:
  "close_each [] = State_Monad.return ()"
  "close_each (d # ds) = do { _ \<leftarrow> sys_close d; close_each ds }"
  by (simp_all add: close_each_def)

lemma close_each_run:
  "\<lbrakk> distinct ns; list_all (\<lambda>n. slot (table s) n \<noteq> None) ns \<rbrakk> \<Longrightarrow>
     \<exists>s'. run_state (close_each (map int ns)) s = ((), s') \<and> stray_closes s' = stray_closes s \<and>
       sigpipe s' = sigpipe s \<and> slot (table s') = (\<lambda>n. if n \<in> set ns then None else slot (table s) n)"
proof (induction ns arbitrary: s)
  case (Cons n ns)
  let ?s = "s\<lparr>table := release n (table s)\<rparr>"
  have "list_all (\<lambda>k. slot (table ?s) k \<noteq> None) ns"
    using Cons.prems by (auto simp: list_all_iff slot_release)
  from Cons.IH[OF _ this] Cons.prems show ?case
    by (auto simp: close_open slot_release fun_eq_iff)
qed simp

lemma close_each_return: "do { _ \<leftarrow> close_each ds; State_Monad.return x } =
   foldr (\<lambda>d m. do { _ \<leftarrow> sys_close d; m }) ds (State_Monad.return x)"
  by (induction ds) (simp_all add: close_each_def)

text \<open>The table of a child that got its three streams, before it drops the ends of the pipes.\<close>

definition streams :: "(nat \<Rightarrow> open_file option) \<Rightarrow> nat \<Rightarrow> nat \<Rightarrow> nat \<Rightarrow> nat \<Rightarrow> open_file option" where
  "streams f0 input output error =
     (let f1 = f0(0 := f0 input); f2 = f1(1 := f1 output) in f2(2 := f2 error))"

lemma child_setup_run:
  assumes "ends_opened s [a, b, c, d, e, f] p s1" "dup_granted G 0" "dup_granted G 1" "dup_granted G 2"
  shows "\<exists>s2. run_state (child_setup G p) s1 = (True, s2) \<and>
    slot (table s2) = (\<lambda>n. if n \<in> {a, b, c, d, e, f} then None else streams (slot (table s1)) e b d n)"
proof -
  have o: "a < b" "b < c" "c < d" "d < e" "e < f"
    and p: "p = \<lparr>out_pipe = (int a, int b), err_pipe = (int c, int d), input_pipe = (int e, int f)\<rparr>"
    using assms(1) unfolding ends_opened_def by auto
  have op: "slot (table s1) n \<noteq> None" if "n \<in> {a, b, c, d, e, f}" for n
    using assms(1) that unfolding ends_opened_def by auto
  obtain t1 where t1: "run_state (sys_dup2 True (int e) 0) s1 = (True, t1)"
    "slot (table t1) = (slot (table s1))(0 := slot (table s1) e)" "stray_closes t1 = stray_closes s1"
    using dup2_open_ex[of s1 e 0] op[of e] by blast
  have op1: "slot (table t1) n \<noteq> None" if "n \<in> {a, b, c, d, e, f}" for n
    using op[OF that] op[of e] by (simp add: t1(2))
  obtain t2 where t2: "run_state (sys_dup2 True (int b) 1) t1 = (True, t2)"
    "slot (table t2) = (slot (table t1))(1 := slot (table t1) b)" "stray_closes t2 = stray_closes t1"
    using dup2_open_ex[of t1 b 1] op1[of b] by blast
  have op2: "slot (table t2) n \<noteq> None" if "n \<in> {a, b, c, d, e, f}" for n
    using op1[OF that] op1[of b] by (simp add: t2(2))
  obtain t3 where t3: "run_state (sys_dup2 True (int d) 2) t2 = (True, t3)"
    "slot (table t3) = (slot (table t2))(2 := slot (table t2) d)" "stray_closes t3 = stray_closes t2"
    using dup2_open_ex[of t2 d 2] op2[of d] by blast
  have op3: "list_all (\<lambda>n. slot (table t3) n \<noteq> None) [e, f, a, b, c, d]"
    using op2 op2[of d] by (simp add: t3(2))
  have dis: "distinct [e, f, a, b, c, d]" using o by simp
  from close_each_run[OF dis op3] obtain s2 where
    s2: "run_state (close_each (map int [e, f, a, b, c, d])) t3 = ((), s2)"
      "slot (table s2) = (\<lambda>n. if n \<in> set [e, f, a, b, c, d] then None else slot (table t3) n)"
    by blast
  have "run_state (child_setup G p) s1 =
      run_state (do { _ \<leftarrow> close_each (map int [e, f, a, b, c, d]); State_Monad.return True }) t3"
    using assms(2-4) unfolding close_each_return by (simp add: child_setup_def p t1(1) t2(1) t3(1) split_def del: One_nat_def)
  also have "\<dots> = (True, s2)"
    using s2(1) by (simp del: close_each_simps)
  finally have "run_state (child_setup G p) s1 = (True, s2)" .
  moreover have "slot (table t3) = streams (slot (table s1)) e b d"
    by (simp add: streams_def Let_def t1(2) t2(2) t3(2))
  ultimately show ?thesis
    unfolding s2(2)[symmetric] by (intro exI[of _ s2]) (auto simp: s2(2))
qed

section \<open>The descriptors of the parent\<close>

lemma close_pipe_none [simp]: "close_pipe no_pipe = State_Monad.return ()"
  by (simp add: close_pipe_def close_valid_def no_pipe_def)

lemma close_pipe_each: "close_pipe (int a, int b) = close_each [int a, int b]"
  by (simp add: close_pipe_def close_valid_def)
text \<open>After the call the process is as before it, but for the disposition of \<open>SIGPIPE\<close>.\<close>

definition tidy :: "command_process \<Rightarrow> command_process \<Rightarrow> bool" where
  "tidy s s' \<longleftrightarrow> slot (table s') = slot (table s) \<and> stray_closes s' = stray_closes s"

lemma close_each_tidy:
  assumes "distinct ns" "list_all (\<lambda>n. slot (table s1) n \<noteq> None) ns"
    "\<And>n. slot (table s) n = (if n \<in> set ns then None else slot (table s1) n)"
    "stray_closes s1 = stray_closes s"
  obtains s' where "run_state (close_each (map int ns)) s1 = ((), s')" "tidy s s'" "sigpipe s' = sigpipe s1"
  using close_each_run[OF assms(1,2)] assms(3,4) unfolding tidy_def by (auto simp: fun_eq_iff)

lemma close_each_append: "close_each (xs @ ys) = do { _ \<leftarrow> close_each xs; close_each ys }"
  by (induction xs) simp_all

lemma close_pipes_opened:
  assumes "ends_opened s ns p s1"
  shows "tidy s (snd (run_state (close_pipes p) s1)) \<and> sigpipe (snd (run_state (close_pipes p) s1)) = sigpipe s"
proof -
  obtain a b c d e f where ns: "ns = [a, b, c, d, e, f]"
    using assms unfolding ends_opened_def by (auto split: list.splits)
  have e: "close_pipes p = close_each (map int [a, b, c, d, e, f])"
    using assms by (simp add: ends_opened_def ns close_pipes_def close_pipe_each)
  have "distinct [a, b, c, d, e, f]" "list_all (\<lambda>n. slot (table s1) n \<noteq> None) [a, b, c, d, e, f]"
    "slot (table s) n = (if n \<in> set [a, b, c, d, e, f] then None else slot (table s1) n)"
    "stray_closes s1 = stray_closes s" "sigpipe s1 = sigpipe s" for n
    using assms unfolding ends_opened_def ns by auto
  from close_each_tidy[OF this(1-4)] this(5) show ?thesis unfolding e by (metis snd_conv)
qed

lemma failed_pipes:
  assumes "\<not> (pipe_granted G OutPipe \<and> pipe_granted G ErrPipe \<and> pipe_granted G InputPipe)"
  shows "\<exists>p s1. run_state (open_pipes G) s = ((False, p), s1) \<and>
    tidy s (snd (run_state (close_pipes p) s1)) \<and> sigpipe (snd (run_state (close_pipes p) s1)) = sigpipe s"
proof (cases "pipe_granted G OutPipe")
  case False
  then show ?thesis by (simp add: open_pipes_def make_pipe_run close_pipes_def tidy_def)
next
  case out: True
  obtain x1 y1 s1 where 1: "run_state (make_pipe True OutPipe) s = ((True, x1, y1), s1)"
    by (simp add: make_pipe_run Let_def)
  from make_pipe_facts[OF 1] obtain a b where ab: "x1 = int a" "y1 = int b" "a < b" "b < lowest_free (table s1)"
    "slot (table s) a = None" "slot (table s) b = None"
    "slot (table s1) = (slot (table s))(a \<mapsto> ReadEnd OutPipe, b \<mapsto> WriteEnd OutPipe)"
    "stray_closes s1 = stray_closes s" "sigpipe s1 = sigpipe s" by blast
  show ?thesis
  proof (cases "pipe_granted G ErrPipe")
    case False
    have "distinct [a, b]" "list_all (\<lambda>n. slot (table s1) n \<noteq> None) [a, b]"
      "\<And>n. slot (table s) n = (if n \<in> set [a, b] then None else slot (table s1) n)"
      using ab(3,5,6) by (simp_all add: ab(7))
    from close_each_tidy[OF this ab(8)] obtain s' where
      "run_state (close_each (map int [a, b])) s1 = ((), s')" "tidy s s'" "sigpipe s' = sigpipe s1" .
    with False out 1 ab(9) show ?thesis
      by (simp add: open_pipes_def make_pipe_run close_pipes_def close_pipe_each ab(1,2) del: close_each_simps)
  next
    case True
    obtain x2 y2 s2 where 2: "run_state (make_pipe True ErrPipe) s1 = ((True, x2, y2), s2)"
      by (simp add: make_pipe_run Let_def)
    from make_pipe_facts[OF 2] obtain c d where cd: "x2 = int c" "y2 = int d" "c = lowest_free (table s1)"
      "c < d" "slot (table s1) c = None" "slot (table s1) d = None"
      "slot (table s2) = (slot (table s1))(c \<mapsto> ReadEnd ErrPipe, d \<mapsto> WriteEnd ErrPipe)"
      "stray_closes s2 = stray_closes s1" "sigpipe s2 = sigpipe s1" by blast
    have o: "a < b" "b < c" "c < d" using ab(3,4) cd(3,4) by simp_all
    have "distinct [a, b, c, d]" "list_all (\<lambda>n. slot (table s2) n \<noteq> None) [a, b, c, d]"
      "\<And>n. slot (table s) n = (if n \<in> set [a, b, c, d] then None else slot (table s2) n)"
      "stray_closes s2 = stray_closes s"
      using o ab(5,6,8) cd(5,6,8) by (simp_all add: ab(7) cd(7))
    from close_each_tidy[OF this] obtain s' where
      "run_state (close_each (map int [a, b, c, d])) s2 = ((), s')" "tidy s s'" "sigpipe s' = sigpipe s2" .
    with True out assms 1 2 ab(9) cd(9) show ?thesis
      by (simp add: open_pipes_def make_pipe_run(2) close_pipes_def close_pipe_each ab(1,2) cd(1,2) split_def)
  qed
qed

lemma close_all_closed: "\<not> out_open (close_all c) \<and> \<not> err_open (close_all c) \<and> \<not> in_open (close_all c)"
  by (simp add: close_all_def)

lemma communicate_closes:
  "communicate g d input ts c = Some c' \<Longrightarrow> \<not> out_open c' \<and> \<not> err_open c' \<and> \<not> in_open c'"
proof (induction ts arbitrary: c)
  case Nil
  then show ?case
    by (subst (asm) communicate.simps) (auto simp: close_all_closed split: if_splits)
next
  case (Cons t ts)
  obtain c1 b where p: "communicate_pass g d input t c = (c1, b)" by (cases "communicate_pass g d input t c")
  from Cons.prems show ?case
    by (subst (asm) communicate.simps)
      (cases b; auto simp: p close_all_closed split: if_splits dest: Cons.IH)
qed
lemma child_setup_refused:
  "\<not> (dup_granted G 0 \<and> dup_granted G 1 \<and> dup_granted G 2) \<Longrightarrow> \<not> fst (run_state (child_setup G p) s)"
  by (auto simp: child_setup_def sys_dup2_def split: option.splits)

section \<open>The whole run\<close>

definition ended :: "comm \<Rightarrow> bool" where
  "ended c \<longleftrightarrow> \<not> out_open c \<and> \<not> err_open c \<and> \<not> in_open c"

lemma close_ended_run:
  "ended c \<Longrightarrow> close_ended p c =
     close_each [fst (out_pipe p), fst (err_pipe p), snd (input_pipe p)]"
  by (simp add: ended_def close_ended_def)

lemma sigpipe_update_simps [simp]:
  "tidy s (s'\<lparr>sigpipe := h\<rparr>) = tidy s s'"
  by (simp add: tidy_def)

text \<open>The ends that the child uses are closed before \<open>SIGPIPE\<close> is ignored, the others afterwards.\<close>

lemma closings_around_signal:
  assumes "distinct (ns @ ms)" "list_all (\<lambda>n. slot (table s1) n \<noteq> None) (ns @ ms)"
    "\<And>n. slot (table s) n = (if n \<in> set (ns @ ms) then None else slot (table s1) n)"
    "stray_closes s1 = stray_closes s" "sigpipe s1 = sigpipe s"
  shows "(let s' = snd (run_state (do {
             _ \<leftarrow> close_each (map int ns);
             scope \<leftarrow> ignore_sigpipe granted;
             _ \<leftarrow> close_each (map int ms);
             restore_sigpipe reset scope }) s1)
          in tidy s s' \<and> (if reset then sigpipe s' = sigpipe s else True))"
proof -
  have "distinct ns" "list_all (\<lambda>n. slot (table s1) n \<noteq> None) ns" using assms(1,2) by simp_all
  from close_each_run[OF this] obtain s2 where
    s2: "run_state (close_each (map int ns)) s1 = ((), s2)" "stray_closes s2 = stray_closes s1"
      "sigpipe s2 = sigpipe s1" "slot (table s2) = (\<lambda>n. if n \<in> set ns then None else slot (table s1) n)"
    by blast
  define s3 where "s3 = (if granted then s2\<lparr>sigpipe := Ignored\<rparr> else s2)"
  have "distinct ms" "list_all (\<lambda>n. slot (table s3) n \<noteq> None) ms"
    "\<And>n. slot (table s) n = (if n \<in> set ms then None else slot (table s3) n)" "stray_closes s3 = stray_closes s"
    using assms(1-4) s2(2,4) by (auto simp: s3_def list_all_iff)
  from close_each_tidy[OF this] obtain s4 where
    s4: "run_state (close_each (map int ms)) s3 = ((), s4)" "tidy s s4" "sigpipe s4 = sigpipe s3" .
  have i: "run_state (ignore_sigpipe granted) s2 = ((if granted then (sigpipe s, True) else (DefaultAction, False)), s3)"
    using s2(3) assms(5) by (simp add: ignore_sigpipe_def s3_def)
  have "sigpipe s4 = (if granted then Ignored else sigpipe s)"
    using s4(3) s2(3) assms(5) by (simp add: s3_def)
  then show ?thesis
    using s4(2) by (simp add: s2(1) i s4(1) Let_def restore_sigpipe_def)
qed

lemma parent_tidy:
  assumes "ends_opened s ns p s1" "ended c"
  shows "(let s' = snd (run_state (do {
             _ \<leftarrow> sys_close (fst (input_pipe p));
             _ \<leftarrow> sys_close (snd (out_pipe p));
             _ \<leftarrow> sys_close (snd (err_pipe p));
             scope \<leftarrow> ignore_sigpipe granted;
             _ \<leftarrow> close_ended p c;
             restore_sigpipe reset scope }) s1)
          in tidy s s' \<and> (if reset then sigpipe s' = sigpipe s else True))"
proof -
  obtain a b c d e f where ns: "ns = [a, b, c, d, e, f]"
    using assms(1) unfolding ends_opened_def by (auto split: list.splits)
  have "distinct ([e, b, d] @ [a, c, f])" "list_all (\<lambda>n. slot (table s1) n \<noteq> None) ([e, b, d] @ [a, c, f])"
    "slot (table s) n = (if n \<in> set ([e, b, d] @ [a, c, f]) then None else slot (table s1) n)"
    "stray_closes s1 = stray_closes s" "sigpipe s1 = sigpipe s" for n
    using assms(1) unfolding ends_opened_def ns by auto
  from closings_around_signal[OF this, of granted reset] show ?thesis
    using assms(1) unfolding close_ended_run[OF assms(2)] by (simp add: ends_opened_def ns)
qed
lemma run_opened:
  assumes "args \<noteq> []" "run_state (open_pipes G) s = ((True, p), s1)" "fork_granted G"
  shows "run_state (run_descriptors G ws args c) s =
    (Conversed (fst (run_state (child_run G ws args p) s1)) (table (snd (run_state (child_run G ws args p) s1))),
     snd (run_state (do {
             _ \<leftarrow> sys_close (fst (input_pipe p));
             _ \<leftarrow> sys_close (snd (out_pipe p));
             _ \<leftarrow> sys_close (snd (err_pipe p));
             scope \<leftarrow> ignore_sigpipe (sigpipe_set G);
             _ \<leftarrow> close_ended p c;
             restore_sigpipe (sigpipe_reset G) scope }) s1))"
  using assms by (simp add: run_descriptors_def split_def)

lemma run_refused:
  assumes "args = [] \<or> \<not> (pipe_granted G OutPipe \<and> pipe_granted G ErrPipe \<and> pipe_granted G InputPipe) \<or>
    \<not> fork_granted G"
  shows "fst (run_state (run_descriptors G ws args c) s) \<in> {EmptyCommand, NoPipes, NotForked} \<and>
    tidy s (snd (run_state (run_descriptors G ws args c) s)) \<and>
    sigpipe (snd (run_state (run_descriptors G ws args c) s)) = sigpipe s"
proof -
  consider "args = []" | "args \<noteq> []" "\<not> (pipe_granted G OutPipe \<and> pipe_granted G ErrPipe \<and> pipe_granted G InputPipe)"
    | "args \<noteq> []" "\<And>ch. pipe_granted G ch" "\<not> fork_granted G"
    using assms by (metis channel.exhaust)
  then show ?thesis
  proof cases
    case 1
    then show ?thesis by (simp add: run_descriptors_def tidy_def)
  next
    case 2
    from failed_pipes[OF 2(2), of s] 2(1) show ?thesis
      by (auto simp: run_descriptors_def split_def)
  next
    case 3
    from open_pipes_granted[OF 3(2), of s] obtain ns p s1 where
      o: "run_state (open_pipes G) s = ((True, p), s1)" "ends_opened s ns p s1" by blast
    from close_pipes_opened[OF o(2)] 3(1,3) o(1) show ?thesis
      by (simp add: run_descriptors_def split_def)
  qed
qed

lemma run_tidy:
  assumes "ended c"
  shows "(let s' = snd (run_state (run_descriptors G ws args c) s)
    in tidy s s' \<and> (if sigpipe_reset G then sigpipe s' = sigpipe s else True))"
proof (cases "args = [] \<or> \<not> (pipe_granted G OutPipe \<and> pipe_granted G ErrPipe \<and> pipe_granted G InputPipe) \<or>
    \<not> fork_granted G")
  case True
  from run_refused[OF this, of ws c s] show ?thesis by (simp add: Let_def)
next
  case False
  then have g: "\<And>ch. pipe_granted G ch" by (metis channel.exhaust)
  from open_pipes_granted[OF g, of s] obtain ns p s1 where
    o: "run_state (open_pipes G) s = ((True, p), s1)" "ends_opened s ns p s1" by blast
  from run_opened[OF _ o(1), of args ws c] False parent_tidy[OF o(2) assms]
  show ?thesis by simp
qed

text \<open>The table with which a program starts.\<close>

definition wired :: "(nat \<Rightarrow> open_file option) \<Rightarrow> bool" where
  "wired t \<longleftrightarrow> t 0 = Some (ReadEnd InputPipe) \<and> t 1 = Some (WriteEnd OutPipe) \<and> t 2 = Some (WriteEnd ErrPipe)"

definition standard_streams_open :: "open_file option list \<Rightarrow> bool" where
  "standard_streams_open t \<longleftrightarrow> list_all (\<lambda>n. slot t n \<noteq> None) [0, 1, 2]"

definition child_table_ok :: "open_file option list \<Rightarrow> open_file option list \<Rightarrow> bool" where
  "child_table_ok t t' \<longleftrightarrow>
     (if standard_streams_open t
      then slot t' = (slot t)
             (0 \<mapsto> ReadEnd InputPipe, 1 \<mapsto> WriteEnd OutPipe, 2 \<mapsto> WriteEnd ErrPipe)
      else \<not> wired (slot t'))"

lemma streams_closed:
  assumes "ends_opened s [a, b, c, d, e, f] p s1"
    "t = (\<lambda>n. if n \<in> {a, b, c, d, e, f} then None else streams (slot (table s1)) e b d n)"
  shows "if standard_streams_open (table s)
    then t = (slot (table s))(0 \<mapsto> ReadEnd InputPipe, 1 \<mapsto> WriteEnd OutPipe, 2 \<mapsto> WriteEnd ErrPipe)
    else \<not> wired t"
proof (cases "standard_streams_open (table s)")
  case True
  have o: "a < b" "b < c" "c < d" "d < e" "e < f"
    and f0: "slot (table s) a = None" "slot (table s) b = None" "slot (table s) c = None"
      "slot (table s) d = None" "slot (table s) e = None" "slot (table s) f = None"
    and sl: "slot (table s1) = (slot (table s))
            (a \<mapsto> ReadEnd OutPipe, b \<mapsto> WriteEnd OutPipe, c \<mapsto> ReadEnd ErrPipe, d \<mapsto> WriteEnd ErrPipe,
             e \<mapsto> ReadEnd InputPipe, f \<mapsto> WriteEnd InputPipe)"
    using assms(1) by (simp_all add: ends_opened_def lowest_free_slot)
  have "slot (table s) 0 \<noteq> None" "slot (table s) 1 \<noteq> None" "slot (table s) 2 \<noteq> None"
    using True unfolding standard_streams_open_def by auto
  then have "a \<noteq> 0" "a \<noteq> 1" "a \<noteq> 2" using f0(1) by metis+
  then have "3 \<le> a" by simp
  with True show ?thesis
    using o f0 unfolding assms(2) streams_def Let_def sl by (simp add: fun_eq_iff)
next
  case False
  then obtain k where "slot (table s) k = None" "k \<le> 2"
    unfolding standard_streams_open_def by auto
  then have "a \<in> {0, 1, 2}"
    using assms(1) slots.fresh_le[of "table s" k] by (auto simp: ends_opened_def)
  moreover have "t a = None" by (simp add: assms(2))
  ultimately have "\<not> wired t" unfolding wired_def by auto
  with False show ?thesis by simp
qed

lemma executed_table:
  assumes "fst (run_state (run_descriptors G ws args c) s) = Conversed Executed t'"
  shows "child_table_ok (table s) t'"
proof -
  have ok: "args \<noteq> []" "pipe_granted G OutPipe" "pipe_granted G ErrPipe" "pipe_granted G InputPipe" "fork_granted G"
    using run_refused[of args G ws c s] assms by auto
  then have g: "\<And>ch. pipe_granted G ch" by (metis channel.exhaust)
  from open_pipes_granted[OF g, of s] obtain ns p s1 where
    o: "run_state (open_pipes G) s = ((True, p), s1)" "ends_opened s ns p s1" by blast
  obtain a b cc d e f where ns: "ns = [a, b, cc, d, e, f]"
    using o(2) unfolding ends_opened_def by (auto split: list.splits)
  have r: "fst (run_state (child_run G ws args p) s1) = Executed"
    "table (snd (run_state (child_run G ws args p) s1)) = t'"
    using assms unfolding run_opened[OF ok(1) o(1) ok(5)] by simp_all
  then have dups: "fst (run_state (child_setup G p) s1)"
    by (auto simp: child_run_def split_def split: if_splits)
  then have "dup_granted G 0 \<and> dup_granted G 1 \<and> dup_granted G 2"
    using child_setup_refused by blast
  then obtain s2 where s2: "run_state (child_setup G p) s1 = (True, s2)"
    "slot (table s2) = (\<lambda>n. if n \<in> {a, b, cc, d, e, f} then None else streams (slot (table s1)) e b d n)"
    using child_setup_run[OF o(2)[unfolded ns]] by blast
  have "slot t' = slot (table s2)" using r(2) s2(1) by (simp add: child_run_def split_def)
  then have "slot t' = (\<lambda>n. if n \<in> {a, b, cc, d, e, f} then None else streams (slot (table s1)) e b d n)"
    using s2(2) by (rule trans)
  then show ?thesis
    unfolding child_table_ok_def by (rule streams_closed[OF o(2)[unfolded ns]])
qed

text \<open>The parts of the diagnostic arrive in order; one that \<open>write\<close> takes whole arrives whole.\<close>

lemma diagnostic_prefix: "\<exists>r. b = fst (write_child_diagnostic ws b) @ r"
proof (induction ws b rule: write_child_diagnostic.induct)
  case (3 n ws c cs)
  show ?case
  proof (cases "0 < n")
    case True
    from 3[OF this] obtain r where "drop n (c # cs) = fst (write_child_diagnostic ws (drop n (c # cs))) @ r" ..
    then have "c # cs = take n (c # cs) @ fst (write_child_diagnostic ws (drop n (c # cs))) @ r"
      by (metis append_take_drop_id)
    with True show ?thesis by (auto simp: split_def)
  qed simp
qed simp_all

lemma diagnostic_whole:
  "b \<noteq> [] \<Longrightarrow> length b \<le> n \<Longrightarrow> write_child_diagnostic (Delivered n # ws) b = (b, ws)"
  by (cases b) simp_all

definition all_granted :: grants where
  "all_granted = \<lparr>pipe_granted = \<lambda>c. True, fork_granted = True, dup_granted = \<lambda>n. True,
     group_error = None, exec_error = None, sigpipe_set = True, sigpipe_reset = True\<rparr>"

lemma granted_executes:
  assumes "args \<noteq> []"
  shows "\<exists>t'. fst (run_state (run_descriptors all_granted ws args c) s) = Conversed Executed t'"
proof -
  have g: "pipe_granted all_granted ch" "dup_granted all_granted n" "fork_granted all_granted"
    "group_error all_granted = None" "exec_error all_granted = None" for ch n
    by (simp_all add: all_granted_def)
  from open_pipes_granted[OF g(1), of s] obtain ns p s1 where
    o: "run_state (open_pipes all_granted) s = ((True, p), s1)" "ends_opened s ns p s1" by blast
  obtain a b cc d e f where ns: "ns = [a, b, cc, d, e, f]"
    using o(2) unfolding ends_opened_def by (auto split: list.splits)
  obtain s2 where "run_state (child_setup all_granted p) s1 = (True, s2)"
    using child_setup_run[OF o(2)[unfolded ns] g(2) g(2) g(2)] by blast
  then show ?thesis
    unfolding run_opened[OF assms o(1) g(3)] by (simp add: child_run_def g(4,5))
qed

section \<open>Properties\<close>


definition example_process :: command_process where
  "example_process = \<lparr>table = map (Some \<circ> Inherited) [0..<3], stray_closes = 0, sigpipe = DefaultAction\<rparr>"



end
