(* ===== verification/Spec2Isabelle.thy ===== *)
theory Spec2Isabelle
  imports ModeRuns RunOutput ConcurrentRuns DashboardJsonV2 StorageProgress PortIntelligence ChildProcess
begin

text \<open>
  \<^bold>\<open>Fedora Firewall Control\<close> (\<open>ffc\<close>), a read-only C++ console that collects the firewall posture of a
  Fedora host, judges its readiness for a hostile network and shows it in a terminal, as an exit code
  or as JSON.  This library models the whole C++ program, from \<open>main\<close> to the bytes it prints, and
  proves what its documents promise: that it only reads, that it sends nothing unasked, that missing
  evidence is never read as good news, that its verdicts mean what they say, and that its local
  files survive failures.

  \<^bold>\<open>The program and its theories.\<close>  Paths are below \<open>src/\<close> of the repository unless they start with
  \<open>include/\<close>.  A class is the group of definitions named after its methods, its data members are a
  record or parameters, and the public structs are records with the fields of the header.

  \<^item> \<open>Prelude\<close>, \<open>CppMap\<close>, \<open>TextUtils\<close>, \<open>Calendar\<close>: the parts of the standard library the sources use
    (strings as byte lists, streams, \<open>to_string\<close>, ordered maps and sets as sorted lists, the UTC
    calendar of \<open>gmtime_r\<close>) and \<open>core/text_utils.cpp\<close>.

  \<^item> \<open>CommandRunner\<close>, \<open>ProcessRunner\<close>, \<open>ChildProcess\<close>, \<open>Descriptors\<close>: \<open>core/command_runner.cpp\<close> and
    \<open>core/unique_file_descriptor.cpp\<close>.  A command is a request to a runner, a record of two
    computations over an opaque world; \<open>CommandRunner\<close> has the interface and the list of commands that
    count as queries.  \<open>ProcessRunner\<close> is the polling loop that feeds and drains a child, with its
    deadlines and its one-mebibyte limits, over the kernel's answers.  \<open>ChildProcess\<close> is what surrounds
    the loop: the pipes, the fork, the descriptors of the child, the signal disposition.
    \<open>Descriptors\<close> is the move-only owner class over the table of open descriptors.

  \<^item> \<open>SecureStorage\<close>, \<open>OperatingMode\<close>, \<open>Credentials\<close>, \<open>Logging\<close>, \<open>NetworkHistory\<close>:
    \<open>core/secure_storage.cpp\<close> and the four stores built on it (\<open>security/operating_mode.cpp\<close>,
    \<open>security/credentials.cpp\<close>, \<open>logging/\<close>, \<open>network/network_history.cpp\<close>).  A \<open>disk\<close> holds a tree of
    nodes, the kernel's future answers (granted, refused, interrupted, short) and every state it went
    through, so that an interrupted replacement can be examined at each step.  The library of the
    stores: \<open>StorageReplacement\<close> (the states of a replacement), \<open>StorageContents\<close> (what is written is
    what is read, foreign files), \<open>StorageReads\<close> (what a reading can answer), \<open>StoredMode\<close> (the mode on
    the disk), \<open>StorageProgress\<close> (when the kernel grants its calls, the operations succeed),
    \<open>StorageInvariants\<close> (the contract of an invariant of the disk with the operations of the storage)
    and \<open>StoragePrivacy\<close> (every operation of the stores stays inside the private directories).
    \<open>LogAnalysis\<close> reads the logs back (\<open>logging/analysis/log_analysis.cpp\<close>).

  \<^item> \<open>Interleaving\<close>, \<open>ConcurrentRuns\<close>: several runs on the same files.  A section of a run is a sequence
    of parts of the code, a schedule is a list of the processes that take the next turn, and
    \<open>enter\<close> and \<open>leave\<close> are the lock of \<open>ScopedLogLock\<close>; the sections of the log and of the history
    are shown equal to \<open>store_entry\<close> and \<open>store_record\<close> when they run alone.

  \<^item> \<open>NetworkManager\<close>, \<open>SocketInspector\<close>, \<open>SecuritySignals\<close>, \<open>FirewallState\<close>, \<open>FirewalldBackend\<close>,
    \<open>PostureInspector\<close>: the inspectors and the parsers of their commands' output, composed into one
    \<open>firewall_state\<close>; each observation carries its status.

  \<^item> \<open>Readiness\<close>, \<open>ThreatAssessment\<close>, \<open>DashboardState\<close>, \<open>PortCatalog\<close>, \<open>PortIntelligence\<close>: the pure
    judgements on a snapshot, \<open>firewall/readiness.cpp\<close>, \<open>security/threat_assessment.cpp\<close>,
    \<open>ui/dashboard_state.cpp\<close> and the port knowledge in \<open>firewall/port_*.cpp\<close>.

  \<^item> \<open>Json\<close>, \<open>DashboardJson\<close>, \<open>DashboardJsonV2\<close>: both report formats, byte for byte, against a reader
    of JSON texts.

  \<^item> \<open>NetworkPath\<close>, \<open>NetworkDiagnostics\<close>, \<open>NetworkMetadata\<close>, \<open>SecurityAdvisories\<close>: the operations that
    leave the host, and the parsers of what they bring back (\<open>network/\<close>,
    \<open>security/security_advisories.cpp\<close>).

  \<^item> \<open>TerminalUi\<close>, \<open>Views\<close>, \<open>PostureViews\<close>, \<open>DashboardViews\<close>: \<open>ui/terminal_ui.cpp\<close> and all renderers,
    as the text they write.

  \<^item> \<open>CommandLine\<close>, \<open>Services\<close>, \<open>CommandExecutor\<close>, \<open>InteractiveSession\<close>, \<open>Application\<close>, \<open>Program\<close>:
    the layers of control.  \<open>services\<close> and \<open>tools\<close> are the objects that \<open>main\<close> hands by reference, as
    records of computations over a state \<open>'s\<close>; a session adds its navigation and its snapshot, a
    console its logger.  \<open>Program\<close> builds both records from the models above over one \<open>machine\<close>.
    \<open>SessionSpec\<close> and \<open>ApplicationSpec\<close> hold the abstract machine of the screens, the trace of events
    that the services see, and the theorems on whole sessions and runs.  \<open>ProgramFiles\<close> and \<open>Verdict\<close>
    follow one run through the whole machine, for its files, for \<open>--readiness\<close> and for the snapshots;
    \<open>RunOutput\<close> shows that a run writes the views that it requests and nothing else, and which runs
    write safe text only; \<open>ModeRuns\<close> follows the stored mode through any number of runs.
\<close>

text \<open>
  \<^bold>\<open>Interfaces.\<close>  Each contract between two parts is a locale, interpreted on the model of the part
  that provides it: ordered maps for the parsers that fill them; a host that keeps an invariant for the
  commands a client is admitted to, extended step by step from the landing queries to the probes and
  interpreted on the runner of the machine; collectors on such a host, up to the whole posture; the
  services behind a session and the tools behind a console; the table of descriptors behind its
  users; an invariant of the disk for the storage, for the stores on it and for whole runs; a file that is
  written under a lock.

  \<^bold>\<open>What the lemmas show.\<close>

  \<^item> \<^emph>\<open>Reading only.\<close>  Every command of a run, whatever the machine answers, is in the fixed list
    of queries and probes of \<open>CommandRunner\<close>; external ones occur exactly when the arguments or the
    typed lines name them, in their order, each right after its audit record and its warning.

  \<^item> \<^emph>\<open>Honest evidence.\<close>  A posture without issues rests on every query of its depth; a command that is
    called successful was complete; readiness is 0 exactly for a defensible host and 2 exactly for a
    blocked one; hostile criteria are never laxer; the evidence review reports a gap exactly when
    something was not observed.  \<open>defensible\<close> and \<open>blocked\<close> are stated on the snapshot, not on the
    checks.

  \<^item> \<^emph>\<open>One run.\<close>  \<open>ffc --readiness\<close> prints the report on the snapshot it collected and nothing else, and
    exits with the verdict of that report; the snapshot commands exit with 0 and write one JSON text;
    a run keeps to its private files.  What any run writes is the views that it requests, and all of it
    is safe for the terminal when the command is a report.

  \<^item> \<^emph>\<open>Many runs.\<close>  A mode that was set stays in force: whatever runs come in between and whatever fails in
    them, a later run works with that mode, or with the hostile one when the kernel fails its storage.

  \<^item> \<^emph>\<open>Meaning of the pure parts.\<close>  Applicable zones, policy comparison, listener counts, risk levels,
    address scopes and hop parsers against specifications of their own; both JSON writers against the
    reader; the command line, the port specifications and the stores by round trips.

  \<^item> \<^emph>\<open>Files.\<close>  A replacement leaves the old or the new contents at every moment; foreign files are
    refused and untouched; a log record is appended or rotates, stays within its bound, and is safe to
    read; when the kernel grants its calls the operations do succeed.  Concurrent runs that log lose
    nothing, in any order of their turns.

  \<^item> \<^emph>\<open>Processes.\<close>  The loop returns on every kernel whose clock advances; a command leaves no descriptor
    behind, closes none twice, and starts with its three streams; owners hold what they open.

  \<^item> \<^emph>\<open>The screen.\<close>  The session implements the navigation machine; every view writes lines of printable
    text and colours only, but for the parts that the code passes on unchecked, which are listed in
    \<open>raw_parts\<close>; sanitised text is safe; the echo of the terminal comes back.

  Some properties are negative: they exhibit inputs on which the code does not do what its documents
  or its own other half say (an unsanitised interface name, drift reported for a reordering, a history
  that outgrows its reader, a history that loses the record of a concurrent run, a child without
  its streams when ffc has none).

  \<^bold>\<open>Conventions.\<close>  \<open>size_t\<close> counts of things in memory are \<open>nat\<close>; ports are 16-bit words, hop numbers
  and code points 32-bit, snapshot numbers 64-bit words that wrap; a \<open>time_point\<close> is an \<open>int\<close> of
  nanoseconds.  \<open>double\<close> is a rational with the rounding of the compiler as a parameter.  Every
  error branch is a value: an \<open>option\<close>, a sum, or the record of the code.

  \<^bold>\<open>Bounds and fuel.\<close>  The only fuel is \<open>passes\<close>, the number of rounds of the polling loop after which
  the model gives up; on a kernel whose clock reaches every time there is a number of passes from
  which on the result no longer changes.  All other loops are recursions that HOL accepts as total.

  \<^bold>\<open>Parameters.\<close>  What is not under \<open>src/\<close> is an argument: the kernel's answers, the clocks, the answers
  of the external commands, \<open>getservbyport\<close>, \<open>inet_pton\<close> for IPv6 (IPv4 is modelled), the rounding of
  decimal fractions, local time for display, the answer of gethostname, the environment and the version string.

  \<^bold>\<open>Not modelled.\<close>  The web service under \<open>web/\<close> and the scripts (not C++); memory exhaustion and the
  exceptions of the allocator; output errors of \<open>std::cout\<close>; the scheduling between \<open>fork\<close> and the
  child's \<open>setpgid\<close>, and the delivery of \<open>SIGKILL\<close>, of which only the decision is modelled.  The program
  has one thread; of the runs that overlap, the turns are modelled from the moment a process is at the
  lock or at the file, not the checks of the directories before it.
\<close>

end
